(* ===== verification/Prelude.thy ===== *)
theory Prelude
  imports Main
begin

text \<open>
  The vocabulary every component shares.

  A Go function that touches the database, the clock or the index engine and returns
  \<open>(value, error)\<close> is a function from the state to a sum and the next state: \<open>Inl\<close> is a
  non-nil error, \<open>Inr\<close> the value. The state of a failed call is kept, as Go keeps every
  effect made before an early return; only a database transaction undoes effects, and that
  is written out where transactions are defined.

  The collections \<open>run_simps\<close> (what a run that returned a value went through) and
  \<open>exec_simps\<close> (symbolic execution of a program on a state) carry the proofs of the
  components. The locale \<open>frame\<close> is the shared contract of all "every run keeps" facts.
\<close>

named_theorems run_simps \<open>inversion of runs that returned a value\<close>
named_theorems exec_simps \<open>one-step execution of programs\<close>
named_theorems eval_simps \<open>evaluation of closed terms\<close>

section \<open>Programs with state and errors\<close>

type_synonym ('s, 'e, 'a) io = "'s \<Rightarrow> ('e + 'a) \<times> 's"

definition ret :: "'a \<Rightarrow> ('s, 'e, 'a) io" where
  "ret a s = (Inr a, s)"

definition raise :: "'e \<Rightarrow> ('s, 'e, 'a) io" where
  "raise e s = (Inl e, s)"

definition andThen :: "('s, 'e, 'a) io \<Rightarrow> ('a \<Rightarrow> ('s, 'e, 'b) io) \<Rightarrow> ('s, 'e, 'b) io" where
  "andThen m k s = (case m s of (Inl e, s') \<Rightarrow> (Inl e, s') | (Inr a, s') \<Rightarrow> k a s')"

text \<open>\<open>fmt.Errorf("context: %w", err)\<close>: the error is replaced, value and state are kept.\<close>

definition onErr :: "('e \<Rightarrow> 'e) \<Rightarrow> ('s, 'e, 'a) io \<Rightarrow> ('s, 'e, 'a) io" where
  "onErr f m s = (case m s of (Inl e, s') \<Rightarrow> (Inl (f e), s') | (Inr a, s') \<Rightarrow> (Inr a, s'))"

text \<open>The error handed to the caller's code as a value: \<open>x, err := m()\<close>.\<close>

definition attempt :: "('s, 'e, 'a) io \<Rightarrow> ('s, 'e, 'e + 'a) io" where
  "attempt m s = (case m s of (r, s') \<Rightarrow> (Inr r, s'))"

text \<open>A \<open>for range\<close> loop with an accumulator that stops at the first error.\<close>

primrec foldM :: "('b \<Rightarrow> 'a \<Rightarrow> ('s, 'e, 'b) io) \<Rightarrow> 'b \<Rightarrow> 'a list \<Rightarrow> ('s, 'e, 'b) io" where
  "foldM f b [] = ret b"
| "foldM f b (x # xs) = andThen (f b x) (\<lambda>b'. foldM f b' xs)"

subsection \<open>Execution\<close>

lemma ret_exec [exec_simps]: "ret a s = (Inr a, s)"
  by (simp add: ret_def)

lemma raise_exec [exec_simps]: "raise e s = (Inl e, s)"
  by (simp add: raise_def)

lemma andThen_exec [exec_simps]:
  "andThen m k s = (case m s of (Inl e, s') \<Rightarrow> (Inl e, s') | (Inr a, s') \<Rightarrow> k a s')"
  by (simp add: andThen_def)

lemma onErr_exec [exec_simps]:
  "onErr f m s = (case m s of (Inl e, s') \<Rightarrow> (Inl (f e), s') | (Inr a, s') \<Rightarrow> (Inr a, s'))"
  by (simp add: onErr_def)

lemma attempt_exec [exec_simps]: "attempt m s = (case m s of (r, s') \<Rightarrow> (Inr r, s'))"
  by (simp add: attempt_def)

lemma if_exec [exec_simps]: "(if c then m else n) s = (if c then m s else n s)"
  by simp

subsection \<open>Inversion of successful runs\<close>

lemma ret_run [run_simps]: "ret a s = (Inr b, s') \<longleftrightarrow> b = a \<and> s' = s"
  by (auto simp: ret_def)

lemma raise_run [run_simps]: "raise e s = (Inr b, s') \<longleftrightarrow> False"
  by (auto simp: raise_def)

lemma andThen_run [run_simps]:
  "andThen m k s = (Inr b, s'') \<longleftrightarrow> (\<exists>a s'. m s = (Inr a, s') \<and> k a s' = (Inr b, s''))"
  by (auto simp: andThen_def split: prod.splits sum.splits)

lemma onErr_run [run_simps]: "onErr f m s = (Inr b, s') \<longleftrightarrow> m s = (Inr b, s')"
  by (auto simp: onErr_def split: prod.splits sum.splits)

lemma attempt_run [run_simps]: "attempt m s = (Inr r, s') \<longleftrightarrow> m s = (r, s')"
  by (auto simp: attempt_def split: prod.splits)

lemma if_run [run_simps]:
  "(if c then m else n) s = (Inr b, s') \<longleftrightarrow>
     (c \<longrightarrow> m s = (Inr b, s')) \<and> (\<not> c \<longrightarrow> n s = (Inr b, s'))"
  by simp

lemma case_option_run [run_simps]:
  "(case x of None \<Rightarrow> m | Some a \<Rightarrow> k a) s = (Inr b, s') \<longleftrightarrow>
     (x = None \<and> m s = (Inr b, s') \<or> (\<exists>a. x = Some a \<and> k a s = (Inr b, s')))"
  by (auto split: option.splits)

lemma case_sum_run [run_simps]:
  "(case x of Inl e \<Rightarrow> m e | Inr a \<Rightarrow> k a) s = (Inr b, s') \<longleftrightarrow>
     ((\<exists>e. x = Inl e \<and> m e s = (Inr b, s')) \<or> (\<exists>a. x = Inr a \<and> k a s = (Inr b, s')))"
  by (auto split: sum.splits)

subsection \<open>Laws of sequencing\<close>

lemma andThen_ret: "andThen (ret a) k = k a"
  by (rule ext) (simp add: andThen_def ret_def)

lemma andThen_assoc: "andThen (andThen m k) h = andThen m (\<lambda>a. andThen (k a) h)"
  by (rule ext) (auto simp: andThen_def split: prod.splits sum.splits)

lemma foldM_append: "foldM f b (xs @ ys) = andThen (foldM f b xs) (\<lambda>b'. foldM f b' ys)"
  by (induction xs arbitrary: b) (simp_all add: andThen_ret andThen_assoc)

section \<open>The frame contract\<close>

text \<open>
  A preorder \<open>R\<close> on states that a whole program stays in, whatever it returns. A component
  proves it for its primitive calls; sequencing, branching, error handling and loops keep it
  by the lemmas here. Interpreted in the components with the relation they promise.
\<close>

locale frame =
  fixes R :: "'s \<Rightarrow> 's \<Rightarrow> bool"
  assumes R_refl: "R s s"
    and R_trans: "R s t \<Longrightarrow> R t u \<Longrightarrow> R s u"
begin

definition within :: "('s \<Rightarrow> 'r \<times> 's) \<Rightarrow> bool" where
  "within m \<longleftrightarrow> (\<forall>s. R s (snd (m s)))"

lemma withinI: "(\<And>s r s'. m s = (r, s') \<Longrightarrow> R s s') \<Longrightarrow> within m"
  by (simp add: within_def) (metis prod.collapse)

lemma withinD: "within m \<Longrightarrow> m s = (r, s') \<Longrightarrow> R s s'"
  by (metis within_def snd_conv)

lemma within_ret: "within (ret a)"
  by (simp add: within_def ret_def R_refl)

lemma within_raise: "within (raise e)"
  by (simp add: within_def raise_def R_refl)

lemma within_andThen: "within m \<Longrightarrow> (\<And>a. within (k a)) \<Longrightarrow> within (andThen m k)"
  unfolding within_def andThen_def
  by (auto split: prod.splits sum.splits) (metis snd_conv R_trans)+

lemma within_andThen_value:
  "within m \<Longrightarrow> (\<And>a s s'. m s = (Inr a, s') \<Longrightarrow> within (k a)) \<Longrightarrow> within (andThen m k)"
  unfolding within_def andThen_def
  by (auto split: prod.splits sum.splits) (metis snd_conv R_trans)+

lemma within_onErr: "within m \<Longrightarrow> within (onErr f m)"
  unfolding within_def onErr_def by (auto split: prod.splits sum.splits) (metis snd_conv)+

lemma within_attempt: "within m \<Longrightarrow> within (attempt m)"
  unfolding within_def attempt_def by (auto split: prod.splits) (metis snd_conv)

lemma within_if: "(c \<Longrightarrow> within m) \<Longrightarrow> (\<not> c \<Longrightarrow> within n) \<Longrightarrow> within (if c then m else n)"
  by simp

lemma within_option:
  "(x = None \<Longrightarrow> within m) \<Longrightarrow> (\<And>a. x = Some a \<Longrightarrow> within (k a)) \<Longrightarrow>
   within (case x of None \<Rightarrow> m | Some a \<Rightarrow> k a)"
  by (cases x) auto

lemma within_sum:
  "(\<And>e. x = Inl e \<Longrightarrow> within (m e)) \<Longrightarrow> (\<And>a. x = Inr a \<Longrightarrow> within (k a)) \<Longrightarrow>
   within (case x of Inl e \<Rightarrow> m e | Inr a \<Rightarrow> k a)"
  by (cases x) auto

lemma within_prod: "(\<And>a b. x = (a, b) \<Longrightarrow> within (k a b)) \<Longrightarrow> within (case x of (a, b) \<Rightarrow> k a b)"
  by (cases x) auto

lemma within_foldM: "(\<And>b x. x \<in> set xs \<Longrightarrow> within (f b x)) \<Longrightarrow> within (foldM f b xs)"
  by (induction xs arbitrary: b) (auto intro: within_ret within_andThen)

lemmas within_intros =
  within_ret within_raise within_andThen within_onErr within_attempt within_if
  within_option within_sum within_prod within_foldM

end

section \<open>Lists\<close>

lemma find_SomeD: "List.find P xs = Some x \<Longrightarrow> x \<in> set xs \<and> P x"
  by (auto simp: List.find_Some_iff)

lemma find_cong_set: "(\<And>x. x \<in> set xs \<Longrightarrow> P x = Q x) \<Longrightarrow> List.find P xs = List.find Q xs"
  by (induction xs) auto

lemma find_map_same:
  "(\<And>x. x \<in> set xs \<Longrightarrow> P (f x) = P x) \<Longrightarrow> List.find P (map f xs) = map_option f (List.find P xs)"
  by (induction xs) auto

lemma find_append: "List.find P (xs @ ys) = (case List.find P xs of None \<Rightarrow> List.find P ys | Some x \<Rightarrow> Some x)"
  by (induction xs) auto

lemma distinct_map_unique:
  "distinct (map f xs) \<Longrightarrow> x \<in> set xs \<Longrightarrow> y \<in> set xs \<Longrightarrow> f x = f y \<Longrightarrow> x = y"
  by (simp add: distinct_map inj_on_def)

text \<open>A separator that does not occur in the parts splits a string at one place only.\<close>

lemma sep_first:
  "c \<notin> set a \<Longrightarrow> c \<notin> set b \<Longrightarrow> a @ c # x = b @ c # y \<longleftrightarrow> a = b \<and> x = y"
proof (induction a arbitrary: b)
  case Nil
  then show ?case by (cases b) auto
next
  case (Cons z a)
  then show ?case by (cases b) auto
qed

lemma sep_last:
  assumes "c \<notin> set x" "c \<notin> set y" "a @ c # x = b @ c # y"
  shows "a = b \<and> x = y"
proof -
  have "rev x @ c # rev a = rev y @ c # rev b"
    using arg_cong [OF assms(3), of rev] by simp
  with sep_first [of c "rev x" "rev y"] assms(1,2) show ?thesis by simp
qed

end
