(* ===== verification/Tables.thy ===== *)
theory Tables
  imports Prelude
begin

text \<open>
  Database tables as the knowledge code uses them: rows in insertion order, an
  auto-increment primary key, unique indexes checked on insert, and the four statements the
  code issues (\<open>Get\<close>, \<open>Find\<close>, conditional \<open>Update\<close> of named columns with the number of
  matched rows, \<open>Delete\<close>). A table is generic in its row type; the key column is given by
  a selector and a setter, whose law is the locale \<open>keyed_table\<close>. Every entity of
  \<open>models/knowledge\<close> interprets it.
\<close>

record 'r table =
  rows :: "'r list"
  next_id :: int

definition emptyTable :: "'r table" where
  "emptyTable = \<lparr>rows = [], next_id = 1\<rparr>"

definition tblGet :: "('r \<Rightarrow> int) \<Rightarrow> int \<Rightarrow> 'r table \<Rightarrow> 'r option" where
  "tblGet idf i t = List.find (\<lambda>r. idf r = i) (rows t)"

definition tblFirst :: "('r \<Rightarrow> bool) \<Rightarrow> 'r table \<Rightarrow> 'r option" where
  "tblFirst P t = List.find P (rows t)"

definition tblFind :: "('r \<Rightarrow> bool) \<Rightarrow> 'r table \<Rightarrow> 'r list" where
  "tblFind P t = filter P (rows t)"

definition tblCount :: "('r \<Rightarrow> bool) \<Rightarrow> 'r table \<Rightarrow> int" where
  "tblCount P t = int (length (filter P (rows t)))"

definition tblUpdate :: "('r \<Rightarrow> bool) \<Rightarrow> ('r \<Rightarrow> 'r) \<Rightarrow> 'r table \<Rightarrow> 'r table" where
  "tblUpdate P f t = t\<lparr>rows := map (\<lambda>r. if P r then f r else r) (rows t)\<rparr>"

definition tblDelete :: "('r \<Rightarrow> bool) \<Rightarrow> 'r table \<Rightarrow> 'r table" where
  "tblDelete P t = t\<lparr>rows := filter (\<lambda>r. \<not> P r) (rows t)\<rparr>"

text \<open>
  \<open>clash r old\<close>: the new row and an existing one agree on the columns of a unique index.
  The row is stored with the next key, which \<open>Insert\<close> also writes back into the bean.
\<close>

definition tblInsert ::
  "(int \<Rightarrow> 'r \<Rightarrow> 'r) \<Rightarrow> ('r \<Rightarrow> 'r \<Rightarrow> bool) \<Rightarrow> 'r \<Rightarrow> 'r table \<Rightarrow> ('r \<times> 'r table) option" where
  "tblInsert setId clash r t =
     (if list_ex (clash r) (rows t) then None
      else let r' = setId (next_id t) r
           in Some (r', t\<lparr>rows := rows t @ [r'], next_id := next_id t + 1\<rparr>))"

text \<open>Keys are positive, below the counter, and no key occurs twice.\<close>

definition tblWf :: "('r \<Rightarrow> int) \<Rightarrow> 'r table \<Rightarrow> bool" where
  "tblWf idf t \<longleftrightarrow> distinct (map idf (rows t)) \<and> 0 < next_id t \<and>
     list_all (\<lambda>i. 0 < i \<and> i < next_id t) (map idf (rows t))"

lemma tblWf_empty [simp]: "tblWf idf emptyTable"
  by (simp add: tblWf_def emptyTable_def)

lemma tblGet_empty [simp]: "tblGet idf i emptyTable = None"
  by (simp add: tblGet_def emptyTable_def)

lemma tblGetD: "tblGet idf i t = Some r \<Longrightarrow> r \<in> set (rows t) \<and> idf r = i"
  by (auto simp: tblGet_def dest: find_SomeD)

lemma tblGet_id: "tblGet idf i t = Some r \<Longrightarrow> idf r = i"
  by (auto dest: tblGetD)

lemma tblFirstD: "tblFirst P t = Some r \<Longrightarrow> r \<in> set (rows t) \<and> P r"
  by (auto simp: tblFirst_def dest: find_SomeD)

lemma tblFind_set: "r \<in> set (tblFind P t) \<longleftrightarrow> r \<in> set (rows t) \<and> P r"
  by (auto simp: tblFind_def)

lemma tblFirst_None: "tblFirst P t = None \<longleftrightarrow> (\<forall>r \<in> set (rows t). \<not> P r)"
  by (auto simp: tblFirst_def List.find_None_iff)

lemma find_key:
  "distinct (map idf xs) \<Longrightarrow> r \<in> set xs \<Longrightarrow> List.find (\<lambda>x. idf x = idf r) xs = Some r"
  by (induction xs) (auto simp: rev_image_eqI)

lemma find_key_None: "i \<notin> idf ` set xs \<Longrightarrow> List.find (\<lambda>x. idf x = i) xs = None"
  by (auto simp: List.find_None_iff image_iff)

lemma tblWf_get: "tblWf idf t \<Longrightarrow> r \<in> set (rows t) \<Longrightarrow> tblGet idf (idf r) t = Some r"
  by (simp add: tblWf_def tblGet_def find_key)

lemma tblWf_mem: "tblWf idf t \<Longrightarrow> r \<in> set (rows t) \<longleftrightarrow> tblGet idf (idf r) t = Some r"
  by (metis tblWf_get tblGetD)

lemma tblFirst_get: "tblWf idf t \<Longrightarrow> tblFirst P t = Some r \<Longrightarrow> tblGet idf (idf r) t = Some r \<and> P r"
  by (auto dest: tblFirstD tblWf_get)

lemma tblGet_pos: "tblWf idf t \<Longrightarrow> tblGet idf i t = Some r \<Longrightarrow> 0 < i \<and> i < next_id t"
  by (auto simp: tblWf_def list_all_iff dest!: tblGetD)

lemma tblGet_nonpos: "tblWf idf t \<Longrightarrow> i \<le> 0 \<Longrightarrow> tblGet idf i t = None"
  by (cases "tblGet idf i t") (auto dest: tblGet_pos)

lemma rows_tblUpdate: "rows (tblUpdate P f t) = map (\<lambda>r. if P r then f r else r) (rows t)"
  by (simp add: tblUpdate_def)

lemma next_id_tblUpdate [simp]: "next_id (tblUpdate P f t) = next_id t"
  by (simp add: tblUpdate_def)

lemma tblUpdate_none: "(\<And>r. r \<in> set (rows t) \<Longrightarrow> \<not> P r) \<Longrightarrow> tblUpdate P f t = t"
  by (simp add: tblUpdate_def map_idI)

lemma tblGet_update:
  assumes "\<And>r. idf (f r) = idf r"
  shows "tblGet idf i (tblUpdate P f t) = map_option (\<lambda>r. if P r then f r else r) (tblGet idf i t)"
  unfolding tblGet_def rows_tblUpdate by (rule find_map_same) (simp add: assms)

lemma tblWf_update:
  assumes "\<And>r. idf (f r) = idf r"
  shows "tblWf idf (tblUpdate P f t) \<longleftrightarrow> tblWf idf t"
proof -
  have "map idf (rows (tblUpdate P f t)) = map idf (rows t)"
    by (simp add: rows_tblUpdate assms)
  then show ?thesis
    unfolding tblWf_def by (simp only: next_id_tblUpdate)
qed

lemma tblUpdate_count:
  assumes "tblWf idf t"
  shows "tblCount (\<lambda>r. idf r = i \<and> C r) t = (case tblGet idf i t of Some r \<Rightarrow> if C r then 1 else 0 | None \<Rightarrow> 0)"
proof -
  have none: "filter (\<lambda>r. idf r = i \<and> C r) xs = []" if "i \<notin> idf ` set xs" for xs
    using that by (auto simp: filter_empty_conv)
  have "distinct (map idf xs) \<Longrightarrow>
    int (length (filter (\<lambda>r. idf r = i \<and> C r) xs)) =
      (case List.find (\<lambda>r. idf r = i) xs of Some r \<Rightarrow> if C r then 1 else 0 | None \<Rightarrow> 0)" for xs
    by (induction xs) (auto simp: none find_key_None)
  with assms show ?thesis
    by (simp add: tblWf_def tblCount_def tblGet_def)
qed

lemma tblWf_delete: "tblWf idf t \<Longrightarrow> tblWf idf (tblDelete P t)"
  by (auto simp: tblWf_def tblDelete_def list_all_iff distinct_map_filter)

lemma tblGet_delete:
  assumes "tblWf idf t"
  shows "tblGet idf j (tblDelete (\<lambda>r. idf r = i) t) = (if j = i then None else tblGet idf j t)"
proof -
  have "List.find (\<lambda>r. idf r = j) (filter (\<lambda>r. idf r \<noteq> i) xs) =
        (if j = i then None else List.find (\<lambda>r. idf r = j) xs)" for xs
    by (induction xs) auto
  then show ?thesis by (simp add: tblGet_def tblDelete_def)
qed

section \<open>The contract of a key column\<close>

locale keyed_table =
  fixes idf :: "'r \<Rightarrow> int" and setId :: "int \<Rightarrow> 'r \<Rightarrow> 'r"
  assumes idf_setId: "idf (setId i r) = i"
begin

lemma insert_row:
  assumes "tblInsert setId clash r t = Some (r', t')"
  shows "r' = setId (next_id t) r" "rows t' = rows t @ [r']" "next_id t' = next_id t + 1"
    "idf r' = next_id t"
  using assms by (auto simp: tblInsert_def Let_def idf_setId split: if_splits)

lemma insert_fresh:
  assumes "tblInsert setId clash r t = Some (r', t')" "old \<in> set (rows t)"
  shows "\<not> clash r old"
  using assms by (auto simp: tblInsert_def Let_def list_ex_iff split: if_splits)

lemma insert_wf:
  assumes "tblInsert setId clash r t = Some (r', t')" "tblWf idf t"
  shows "tblWf idf t'"
  using assms(2) insert_row [OF assms(1)]
  by (fastforce simp: tblWf_def list_all_iff)

lemma insert_get:
  assumes "tblInsert setId clash r t = Some (r', t')" "tblWf idf t"
  shows "tblGet idf j t' = (if j = next_id t then Some r' else tblGet idf j t)"
proof -
  have "tblGet idf (next_id t) t = None"
    using assms(2) by (cases "tblGet idf (next_id t) t") (auto dest: tblGet_pos)
  with insert_row [OF assms(1)] show ?thesis
    by (auto simp: tblGet_def find_append split: option.splits)
qed

lemma insert_get_old:
  assumes "tblInsert setId clash r t = Some (r', t')" "tblWf idf t" "tblGet idf j t = Some x"
  shows "tblGet idf j t' = Some x"
  using insert_get [OF assms(1,2)] assms(3) tblGet_pos [OF assms(2,3)] by simp

lemma insert_pos:
  assumes "tblInsert setId clash r t = Some (r', t')" "tblWf idf t"
  shows "0 < idf r'"
  using assms(2) insert_row [OF assms(1)] by (simp add: tblWf_def)

end

end
