(* ===== verification/Models.thy ===== *)
theory Models
  imports Tables "HOL-Library.Word" "HOL-Library.List_Lexorder" "HOL-Library.Char_ord" "HOL-Library.Product_Lexorder"
begin

text \<open>
  The entities of \<^verbatim>\<open>models/knowledge/models.go\<close>: each string enumeration as a datatype with
  the source's constants, each struct as a record whose fields carry the source's names after
  a short prefix, and the tables of the database.

  An enumeration whose value can come from a form (\<open>DataSourceType(ctx.FormString(..))\<close>) has
  a further constructor \<open>...Other\<close> for a string that is none of the constants; the
  \<open>...Of\<close> functions are that conversion. Keys, counters and timestamps are int64 in the
  source and \<open>int\<close> here; where a computation can leave the range of int64 it is modelled on
  machine words instead.

  Per entity, \<open>.._clash\<close> is the disjunction of its unique indexes, \<open>.._stamp\<close> and
  \<open>.._touch\<close> the \<open>created\<close> and \<open>updated\<close> columns that the database layer fills on
  insert and on update, and \<open>.._tbl\<close> the interpretation of \<open>keyed_table\<close>.
\<close>

type_synonym TimeStamp = int

section \<open>Enumerations\<close>

datatype SpaceStatus =
    SpaceStatusActive
  | SpaceStatusArchived

datatype DataSourceType =
    DataSourceTypePolicy
  | DataSourceTypeProcedure
  | DataSourceTypeProduct
  | DataSourceTypeTraining
  | DataSourceTypeFAQ
  | DataSourceTypeCase
  | DataSourceTypeTicket
  | DataSourceTypePublicMaterial
  | DataSourceTypeDatabase
  | DataSourceTypeAPI
  | DataSourceTypeFileRepository
  | DataSourceTypeOther string

datatype DataSourceStatus =
    DataSourceStatusDraft
  | DataSourceStatusPendingReview
  | DataSourceStatusApproved
  | DataSourceStatusEnabled
  | DataSourceStatusSuspended
  | DataSourceStatusExpired
  | DataSourceStatusArchived

datatype SecurityLevel =
    SecurityLevelPublic
  | SecurityLevelInternal
  | SecurityLevelRestricted
  | SecurityLevelProhibited
  | SecurityLevelOther string

datatype ReviewFrequency =
    ReviewFrequencyWeekly
  | ReviewFrequencyMonthly
  | ReviewFrequencyQuarterly
  | ReviewFrequencyEventTriggered
  | ReviewFrequencyOther string

datatype SearchabilityStatus =
    SearchabilityStatusSearchable
  | SearchabilityStatusOCRRequired
  | SearchabilityStatusNotSearchable
  | SearchabilityStatusOther string

datatype GovernanceStatus =
    GovernanceStatusDraft
  | GovernanceStatusPending
  | GovernanceStatusRejected
  | GovernanceStatusApproved
  | GovernanceStatusWithdrawn

datatype ValidityStatus =
    ValidityStatusScheduled
  | ValidityStatusCurrent
  | ValidityStatusExpired
  | ValidityStatusUnpublished
  | ValidityStatusArchived

datatype IndexStatus =
    IndexStatusUnindexed
  | IndexStatusQueued
  | IndexStatusIndexing
  | IndexStatusEvaluation
  | IndexStatusSearchable
  | IndexStatusFailed
  | IndexStatusSuperseded
  | IndexStatusDeleting
  | IndexStatusDeleted

datatype ApprovalStatus =
    ApprovalStatusPending
  | ApprovalStatusApproved
  | ApprovalStatusRejected

datatype IndexJobType =
    IndexJobTypeUpsert
  | IndexJobTypePoll
  | IndexJobTypeDelete
  | IndexJobTypeRebuild

datatype IndexJobStatus =
    IndexJobStatusQueued
  | IndexJobStatusRunning
  | IndexJobStatusRetry
  | IndexJobStatusSucceeded
  | IndexJobStatusFailed
  | IndexJobStatusCancelled

datatype OutboxStatus =
    OutboxStatusPending
  | OutboxStatusDispatched
  | OutboxStatusFailed

primrec spaceStatusStr :: "SpaceStatus \<Rightarrow> string" where
  "spaceStatusStr SpaceStatusActive = ''active''"
| "spaceStatusStr SpaceStatusArchived = ''archived''"

primrec dataSourceTypeStr :: "DataSourceType \<Rightarrow> string" where
  "dataSourceTypeStr DataSourceTypePolicy = ''policy''"
| "dataSourceTypeStr DataSourceTypeProcedure = ''procedure''"
| "dataSourceTypeStr DataSourceTypeProduct = ''product''"
| "dataSourceTypeStr DataSourceTypeTraining = ''training''"
| "dataSourceTypeStr DataSourceTypeFAQ = ''faq''"
| "dataSourceTypeStr DataSourceTypeCase = ''case''"
| "dataSourceTypeStr DataSourceTypeTicket = ''ticket''"
| "dataSourceTypeStr DataSourceTypePublicMaterial = ''public_material''"
| "dataSourceTypeStr DataSourceTypeDatabase = ''database''"
| "dataSourceTypeStr DataSourceTypeAPI = ''api''"
| "dataSourceTypeStr DataSourceTypeFileRepository = ''file_repository''"
| "dataSourceTypeStr (DataSourceTypeOther s) = s"

primrec dataSourceStatusStr :: "DataSourceStatus \<Rightarrow> string" where
  "dataSourceStatusStr DataSourceStatusDraft = ''draft''"
| "dataSourceStatusStr DataSourceStatusPendingReview = ''pending_review''"
| "dataSourceStatusStr DataSourceStatusApproved = ''approved''"
| "dataSourceStatusStr DataSourceStatusEnabled = ''enabled''"
| "dataSourceStatusStr DataSourceStatusSuspended = ''suspended''"
| "dataSourceStatusStr DataSourceStatusExpired = ''expired''"
| "dataSourceStatusStr DataSourceStatusArchived = ''archived''"

primrec securityLevelStr :: "SecurityLevel \<Rightarrow> string" where
  "securityLevelStr SecurityLevelPublic = ''public''"
| "securityLevelStr SecurityLevelInternal = ''internal''"
| "securityLevelStr SecurityLevelRestricted = ''restricted''"
| "securityLevelStr SecurityLevelProhibited = ''prohibited''"
| "securityLevelStr (SecurityLevelOther s) = s"

primrec reviewFrequencyStr :: "ReviewFrequency \<Rightarrow> string" where
  "reviewFrequencyStr ReviewFrequencyWeekly = ''weekly''"
| "reviewFrequencyStr ReviewFrequencyMonthly = ''monthly''"
| "reviewFrequencyStr ReviewFrequencyQuarterly = ''quarterly''"
| "reviewFrequencyStr ReviewFrequencyEventTriggered = ''event_triggered''"
| "reviewFrequencyStr (ReviewFrequencyOther s) = s"

primrec searchabilityStatusStr :: "SearchabilityStatus \<Rightarrow> string" where
  "searchabilityStatusStr SearchabilityStatusSearchable = ''searchable''"
| "searchabilityStatusStr SearchabilityStatusOCRRequired = ''ocr_required''"
| "searchabilityStatusStr SearchabilityStatusNotSearchable = ''not_searchable''"
| "searchabilityStatusStr (SearchabilityStatusOther s) = s"

primrec governanceStatusStr :: "GovernanceStatus \<Rightarrow> string" where
  "governanceStatusStr GovernanceStatusDraft = ''draft''"
| "governanceStatusStr GovernanceStatusPending = ''pending''"
| "governanceStatusStr GovernanceStatusRejected = ''rejected''"
| "governanceStatusStr GovernanceStatusApproved = ''approved''"
| "governanceStatusStr GovernanceStatusWithdrawn = ''withdrawn''"

primrec validityStatusStr :: "ValidityStatus \<Rightarrow> string" where
  "validityStatusStr ValidityStatusScheduled = ''scheduled''"
| "validityStatusStr ValidityStatusCurrent = ''current''"
| "validityStatusStr ValidityStatusExpired = ''expired''"
| "validityStatusStr ValidityStatusUnpublished = ''unpublished''"
| "validityStatusStr ValidityStatusArchived = ''archived''"

primrec indexStatusStr :: "IndexStatus \<Rightarrow> string" where
  "indexStatusStr IndexStatusUnindexed = ''unindexed''"
| "indexStatusStr IndexStatusQueued = ''queued''"
| "indexStatusStr IndexStatusIndexing = ''indexing''"
| "indexStatusStr IndexStatusEvaluation = ''evaluation''"
| "indexStatusStr IndexStatusSearchable = ''searchable''"
| "indexStatusStr IndexStatusFailed = ''failed''"
| "indexStatusStr IndexStatusSuperseded = ''superseded''"
| "indexStatusStr IndexStatusDeleting = ''deleting''"
| "indexStatusStr IndexStatusDeleted = ''deleted''"

primrec approvalStatusStr :: "ApprovalStatus \<Rightarrow> string" where
  "approvalStatusStr ApprovalStatusPending = ''pending''"
| "approvalStatusStr ApprovalStatusApproved = ''approved''"
| "approvalStatusStr ApprovalStatusRejected = ''rejected''"

primrec indexJobTypeStr :: "IndexJobType \<Rightarrow> string" where
  "indexJobTypeStr IndexJobTypeUpsert = ''upsert''"
| "indexJobTypeStr IndexJobTypePoll = ''poll''"
| "indexJobTypeStr IndexJobTypeDelete = ''delete''"
| "indexJobTypeStr IndexJobTypeRebuild = ''rebuild''"

primrec indexJobStatusStr :: "IndexJobStatus \<Rightarrow> string" where
  "indexJobStatusStr IndexJobStatusQueued = ''queued''"
| "indexJobStatusStr IndexJobStatusRunning = ''running''"
| "indexJobStatusStr IndexJobStatusRetry = ''retry''"
| "indexJobStatusStr IndexJobStatusSucceeded = ''succeeded''"
| "indexJobStatusStr IndexJobStatusFailed = ''failed''"
| "indexJobStatusStr IndexJobStatusCancelled = ''cancelled''"

primrec outboxStatusStr :: "OutboxStatus \<Rightarrow> string" where
  "outboxStatusStr OutboxStatusPending = ''pending''"
| "outboxStatusStr OutboxStatusDispatched = ''dispatched''"
| "outboxStatusStr OutboxStatusFailed = ''failed''"

definition dataSourceTypeOf :: "string \<Rightarrow> DataSourceType" where
  "dataSourceTypeOf s =
     (if s = ''policy'' then DataSourceTypePolicy
      else if s = ''procedure'' then DataSourceTypeProcedure
      else if s = ''product'' then DataSourceTypeProduct
      else if s = ''training'' then DataSourceTypeTraining
      else if s = ''faq'' then DataSourceTypeFAQ
      else if s = ''case'' then DataSourceTypeCase
      else if s = ''ticket'' then DataSourceTypeTicket
      else if s = ''public_material'' then DataSourceTypePublicMaterial
      else if s = ''database'' then DataSourceTypeDatabase
      else if s = ''api'' then DataSourceTypeAPI
      else if s = ''file_repository'' then DataSourceTypeFileRepository
      else DataSourceTypeOther s)"

lemma dataSourceTypeStr_of [simp]: "dataSourceTypeStr (dataSourceTypeOf s) = s"
  by (simp add: dataSourceTypeOf_def)

definition securityLevelOf :: "string \<Rightarrow> SecurityLevel" where
  "securityLevelOf s =
     (if s = ''public'' then SecurityLevelPublic
      else if s = ''internal'' then SecurityLevelInternal
      else if s = ''restricted'' then SecurityLevelRestricted
      else if s = ''prohibited'' then SecurityLevelProhibited
      else SecurityLevelOther s)"

lemma securityLevelStr_of [simp]: "securityLevelStr (securityLevelOf s) = s"
  by (simp add: securityLevelOf_def)

definition reviewFrequencyOf :: "string \<Rightarrow> ReviewFrequency" where
  "reviewFrequencyOf s =
     (if s = ''weekly'' then ReviewFrequencyWeekly
      else if s = ''monthly'' then ReviewFrequencyMonthly
      else if s = ''quarterly'' then ReviewFrequencyQuarterly
      else if s = ''event_triggered'' then ReviewFrequencyEventTriggered
      else ReviewFrequencyOther s)"

lemma reviewFrequencyStr_of [simp]: "reviewFrequencyStr (reviewFrequencyOf s) = s"
  by (simp add: reviewFrequencyOf_def)

definition searchabilityStatusOf :: "string \<Rightarrow> SearchabilityStatus" where
  "searchabilityStatusOf s =
     (if s = ''searchable'' then SearchabilityStatusSearchable
      else if s = ''ocr_required'' then SearchabilityStatusOCRRequired
      else if s = ''not_searchable'' then SearchabilityStatusNotSearchable
      else SearchabilityStatusOther s)"

lemma searchabilityStatusStr_of [simp]: "searchabilityStatusStr (searchabilityStatusOf s) = s"
  by (simp add: searchabilityStatusOf_def)


text \<open>
  Security levels in the order of the ranks the code assigns; strings that are no level rank
  lowest, ordered among themselves lexically.
\<close>

primrec levelOrder :: "SecurityLevel \<Rightarrow> nat" where
  "levelOrder SecurityLevelPublic = 1"
| "levelOrder SecurityLevelInternal = 2"
| "levelOrder SecurityLevelRestricted = 3"
| "levelOrder SecurityLevelProhibited = 4"
| "levelOrder (SecurityLevelOther s) = 0"

definition securityKey :: "SecurityLevel \<Rightarrow> nat \<times> string" where
  "securityKey l = (levelOrder l, case l of SecurityLevelOther s \<Rightarrow> s | _ \<Rightarrow> [])"

lemma securityKey_inject: "securityKey a = securityKey b \<longleftrightarrow> a = b"
  by (cases a; cases b) (auto simp: securityKey_def)

instantiation SecurityLevel :: linorder
begin

definition less_eq_SecurityLevel :: "SecurityLevel \<Rightarrow> SecurityLevel \<Rightarrow> bool" where
  "less_eq_SecurityLevel a b \<longleftrightarrow> securityKey a \<le> securityKey b"

definition less_SecurityLevel :: "SecurityLevel \<Rightarrow> SecurityLevel \<Rightarrow> bool" where
  "less_SecurityLevel a b \<longleftrightarrow> securityKey a < securityKey b"

instance
proof
  fix a b c :: SecurityLevel
  show "a < b \<longleftrightarrow> a \<le> b \<and> \<not> b \<le> a"
    by (auto simp: less_eq_SecurityLevel_def less_SecurityLevel_def)
  show "a \<le> a" by (simp add: less_eq_SecurityLevel_def)
  show "a \<le> b \<Longrightarrow> b \<le> c \<Longrightarrow> a \<le> c"
    unfolding less_eq_SecurityLevel_def by (rule order_trans)
  show "a \<le> b \<Longrightarrow> b \<le> a \<Longrightarrow> a = b"
    unfolding less_eq_SecurityLevel_def by (metis order_antisym securityKey_inject)
  show "a \<le> b \<or> b \<le> a" unfolding less_eq_SecurityLevel_def by (rule linear)
qed

end

section \<open>Entities\<close>

record Space =
  sp_ID :: int
  sp_OwnerID :: int
  sp_RepoID :: int
  sp_Name :: string
  sp_Slug :: string
  sp_Description :: string
  sp_Status :: SpaceStatus
  sp_PublicationGeneration :: int
  sp_RevocationGeneration :: int
  sp_CreatedBy :: int
  sp_CreatedUnix :: TimeStamp
  sp_UpdatedUnix :: TimeStamp

record DataSource =
  ds_ID :: int
  ds_SpaceID :: int
  ds_SourceCode :: string
  ds_Name :: string
  ds_SourceType :: DataSourceType
  ds_BusinessDomainCode :: string
  ds_ContentTypeCode :: string
  ds_SourceDepartment :: string
  ds_ContentOwnerID :: int
  ds_MaintenanceOwnerID :: int
  ds_EffectiveUnix :: TimeStamp
  ds_ExpiresUnix :: TimeStamp
  ds_ReviewFrequency :: ReviewFrequency
  ds_SecurityLevel :: SecurityLevel
  ds_ApprovalBasisRef :: string
  ds_ApplicableScopeJSON :: string
  ds_SourceAuthorizationRef :: string
  ds_SourceFormat :: string
  ds_SearchabilityStatus :: SearchabilityStatus
  ds_Status :: DataSourceStatus
  ds_ConnectorType :: string
  ds_SecretRef :: string
  ds_ReadScope :: string
  ds_QueryTemplateRef :: string
  ds_SchemaVersion :: string
  ds_FieldMappingJSON :: string
  ds_IncrementalCursorField :: string
  ds_DataRetentionRule :: string
  ds_MaskPolicyVersion :: string
  ds_LastSyncUnix :: TimeStamp
  ds_LastSuccessCursor :: string
  ds_CreatedBy :: int
  ds_CreatedUnix :: TimeStamp
  ds_UpdatedUnix :: TimeStamp

record ReviewCheck =
  rc_ID :: int
  rc_RevisionID :: int
  rc_ReviewType :: string
  rc_Status :: string
  rc_Comment :: string
  rc_CheckedBy :: int
  rc_CheckedUnix :: TimeStamp
  rc_CreatedUnix :: TimeStamp
  rc_UpdatedUnix :: TimeStamp

record SyncRun =
  sr_ID :: int
  sr_DataSourceID :: int
  sr_Status :: string
  sr_Mode :: string
  sr_StartedBy :: int
  sr_StartedUnix :: TimeStamp
  sr_FinishedUnix :: TimeStamp
  sr_RecordsRead :: int
  sr_DocumentsQueued :: int
  sr_LastCursor :: string
  sr_ErrorCode :: string
  sr_CreatedUnix :: TimeStamp
  sr_UpdatedUnix :: TimeStamp

record DifyBinding =
  dify_ID :: int
  dify_Name :: string
  dify_DifyKnowledgeID :: string
  dify_SpaceID :: int
  dify_MaxSecurityLevel :: SecurityLevel
  dify_TokenSHA256 :: string
  dify_TokenHint :: string
  dify_Enabled :: bool
  dify_CreatedBy :: int
  dify_CreatedUnix :: TimeStamp
  dify_UpdatedUnix :: TimeStamp

record RetrievalEvent =
  re_ID :: int
  re_ActorID :: int
  re_BindingID :: int
  re_SpaceID :: int
  re_QuerySHA256 :: string
  re_ResultCount :: int
  re_Outcome :: string
  re_ReasonCode :: string
  re_CreatedUnix :: TimeStamp

record Feedback =
  fb_ID :: int
  fb_ActorID :: int
  fb_SpaceID :: int
  fb_PublicationID :: int
  fb_Category :: string
  fb_Rating :: int
  fb_Comment :: string
  fb_CreatedUnix :: TimeStamp

record Document =
  doc_ID :: int
  doc_SpaceID :: int
  doc_DataSourceID :: int
  doc_Title :: string
  doc_RepoPath :: string
  doc_MIMEType :: string
  doc_GovernanceStatus :: GovernanceStatus
  doc_CurrentRevisionID :: int
  doc_CurrentPublicationID :: int
  doc_CreatedBy :: int
  doc_CreatedUnix :: TimeStamp
  doc_UpdatedUnix :: TimeStamp

record Revision =
  rev_ID :: int
  rev_DocumentID :: int
  rev_RevisionNo :: int
  rev_FileName :: string
  rev_RepoPath :: string
  rev_ContentSHA256 :: string
  rev_Size :: int
  rev_GitCommitSHA :: string
  rev_MaskPolicyVersion :: string
  rev_MaskManifestJSON :: string
  rev_SourceAuthorization :: string
  rev_BusinessDomainCode :: string
  rev_ContentTypeCode :: string
  rev_SecurityLevel :: SecurityLevel
  rev_ApplicableScopeJSON :: string
  rev_VersionNo :: string
  rev_RevisionRelation :: string
  rev_SourceDepartment :: string
  rev_ContentOwnerID :: int
  rev_MaintenanceOwnerID :: int
  rev_ApprovalBasisRef :: string
  rev_EffectiveUnix :: TimeStamp
  rev_ExpiresUnix :: TimeStamp
  rev_SearchabilityStatus :: SearchabilityStatus
  rev_CreatedBy :: int
  rev_CreatedUnix :: TimeStamp

record ACL =
  acl_ID :: int
  acl_SpaceID :: int
  acl_SubjectType :: string
  acl_SubjectID :: int
  acl_Permission :: string
  acl_Effect :: string
  acl_PolicyVersion :: int

record Approval =
  appr_ID :: int
  appr_RevisionID :: int
  appr_Status :: ApprovalStatus
  appr_RequestedBy :: int
  appr_RequestedUnix :: TimeStamp
  appr_DecidedBy :: int
  appr_DecidedUnix :: TimeStamp
  appr_Comment :: string

record Publication =
  pub_ID :: int
  pub_SpaceID :: int
  pub_DocumentID :: int
  pub_RevisionID :: int
  pub_ApprovalID :: int
  pub_Generation :: int
  pub_GovernanceStatus :: GovernanceStatus
  pub_ValidityStatus :: ValidityStatus
  pub_IndexStatus :: IndexStatus
  pub_ACLPolicyVersion :: int
  pub_RevocationGeneration :: int
  pub_IsCurrent :: bool
  pub_EffectiveUnix :: TimeStamp
  pub_ExpiresUnix :: TimeStamp
  pub_CreatedUnix :: TimeStamp
  pub_UpdatedUnix :: TimeStamp

record RevocationTombstone =
  tomb_ID :: int
  tomb_PublicationID :: int
  tomb_SpaceID :: int
  tomb_PublicationGeneration :: int
  tomb_RevocationGeneration :: int
  tomb_EngineProfileVersion :: string
  tomb_ActorID :: int
  tomb_Reason :: string
  tomb_TraceID :: string
  tomb_CreatedUnix :: TimeStamp

record IndexBinding =
  ib_ID :: int
  ib_SpaceID :: int
  ib_DocumentID :: int
  ib_RevisionID :: int
  ib_PublicationID :: int
  ib_Engine :: string
  ib_EngineProfileVersion :: string
  ib_DatasetID :: string
  ib_EngineDocumentID :: string
  ib_ContentSHA256 :: string
  ib_Status :: IndexStatus
  ib_LastSuccessUnix :: TimeStamp

record IndexJob =
  job_ID :: int
  job_PublicationID :: int
  job_JobType :: IndexJobType
  job_IdempotencyKey :: string
  job_Status :: IndexJobStatus
  job_RevisionSHA256 :: string
  job_EngineProfileVersion :: string
  job_Attempt :: int
  job_MaxAttempts :: int
  job_NextAttemptUnix :: TimeStamp
  job_LastError :: string
  job_CreatedUnix :: TimeStamp
  job_UpdatedUnix :: TimeStamp

record Outbox =
  ob_ID :: int
  ob_AggregateType :: string
  ob_AggregateID :: int
  ob_EventType :: string
  ob_IdempotencyKey :: string
  ob_PayloadJSON :: string
  ob_Status :: OutboxStatus
  ob_Attempt :: int
  ob_NextAttemptUnix :: TimeStamp
  ob_CreatedUnix :: TimeStamp
  ob_UpdatedUnix :: TimeStamp

record AuditEvent =
  ae_ID :: int
  ae_ActorID :: int
  ae_Action :: string
  ae_EntityType :: string
  ae_EntityID :: int
  ae_SpaceID :: int
  ae_Result :: string
  ae_ReasonCode :: string
  ae_TraceID :: string
  ae_MetadataJSON :: string
  ae_CreatedUnix :: TimeStamp

text \<open>
  The two Gitea entities the knowledge code reads, with the columns it uses
  (\<^verbatim>\<open>models/user/user.go\<close>, \<^verbatim>\<open>models/repo/repo.go\<close>).
\<close>

record User =
  user_ID :: int
  user_Name :: string
  user_LowerName :: string
  user_IsAdmin :: bool

record Repository =
  repo_ID :: int
  repo_OwnerID :: int
  repo_Name :: string
  repo_DefaultBranch :: string

section \<open>Keys, unique indexes and managed timestamps\<close>

definition sp_clash :: "Space \<Rightarrow> Space \<Rightarrow> bool" where
  "sp_clash r old \<longleftrightarrow> (sp_OwnerID r = sp_OwnerID old \<and> sp_Slug r = sp_Slug old) \<or> (sp_RepoID r = sp_RepoID old)"

definition sp_stamp :: "TimeStamp \<Rightarrow> Space \<Rightarrow> Space" where
  "sp_stamp now r = r\<lparr>sp_CreatedUnix := now, sp_UpdatedUnix := now\<rparr>"

definition sp_touch :: "TimeStamp \<Rightarrow> Space \<Rightarrow> Space" where
  "sp_touch now r = r\<lparr>sp_UpdatedUnix := now\<rparr>"

definition ds_clash :: "DataSource \<Rightarrow> DataSource \<Rightarrow> bool" where
  "ds_clash r old \<longleftrightarrow> (ds_SpaceID r = ds_SpaceID old \<and> ds_SourceCode r = ds_SourceCode old)"

definition ds_stamp :: "TimeStamp \<Rightarrow> DataSource \<Rightarrow> DataSource" where
  "ds_stamp now r = r\<lparr>ds_CreatedUnix := now, ds_UpdatedUnix := now\<rparr>"

definition ds_touch :: "TimeStamp \<Rightarrow> DataSource \<Rightarrow> DataSource" where
  "ds_touch now r = r\<lparr>ds_UpdatedUnix := now\<rparr>"

definition rc_clash :: "ReviewCheck \<Rightarrow> ReviewCheck \<Rightarrow> bool" where
  "rc_clash r old \<longleftrightarrow> (rc_RevisionID r = rc_RevisionID old \<and> rc_ReviewType r = rc_ReviewType old)"

definition rc_stamp :: "TimeStamp \<Rightarrow> ReviewCheck \<Rightarrow> ReviewCheck" where
  "rc_stamp now r = r\<lparr>rc_CreatedUnix := now, rc_UpdatedUnix := now\<rparr>"

definition rc_touch :: "TimeStamp \<Rightarrow> ReviewCheck \<Rightarrow> ReviewCheck" where
  "rc_touch now r = r\<lparr>rc_UpdatedUnix := now\<rparr>"

definition sr_clash :: "SyncRun \<Rightarrow> SyncRun \<Rightarrow> bool" where
  "sr_clash r old \<longleftrightarrow> False"

definition sr_stamp :: "TimeStamp \<Rightarrow> SyncRun \<Rightarrow> SyncRun" where
  "sr_stamp now r = r\<lparr>sr_CreatedUnix := now, sr_UpdatedUnix := now\<rparr>"

definition sr_touch :: "TimeStamp \<Rightarrow> SyncRun \<Rightarrow> SyncRun" where
  "sr_touch now r = r\<lparr>sr_UpdatedUnix := now\<rparr>"

definition dify_clash :: "DifyBinding \<Rightarrow> DifyBinding \<Rightarrow> bool" where
  "dify_clash r old \<longleftrightarrow> (dify_DifyKnowledgeID r = dify_DifyKnowledgeID old) \<or> (dify_TokenSHA256 r = dify_TokenSHA256 old)"

definition dify_stamp :: "TimeStamp \<Rightarrow> DifyBinding \<Rightarrow> DifyBinding" where
  "dify_stamp now r = r\<lparr>dify_CreatedUnix := now, dify_UpdatedUnix := now\<rparr>"

definition dify_touch :: "TimeStamp \<Rightarrow> DifyBinding \<Rightarrow> DifyBinding" where
  "dify_touch now r = r\<lparr>dify_UpdatedUnix := now\<rparr>"

definition re_clash :: "RetrievalEvent \<Rightarrow> RetrievalEvent \<Rightarrow> bool" where
  "re_clash r old \<longleftrightarrow> False"

definition re_stamp :: "TimeStamp \<Rightarrow> RetrievalEvent \<Rightarrow> RetrievalEvent" where
  "re_stamp now r = r\<lparr>re_CreatedUnix := now\<rparr>"

definition fb_clash :: "Feedback \<Rightarrow> Feedback \<Rightarrow> bool" where
  "fb_clash r old \<longleftrightarrow> False"

definition fb_stamp :: "TimeStamp \<Rightarrow> Feedback \<Rightarrow> Feedback" where
  "fb_stamp now r = r\<lparr>fb_CreatedUnix := now\<rparr>"

definition doc_clash :: "Document \<Rightarrow> Document \<Rightarrow> bool" where
  "doc_clash r old \<longleftrightarrow> (doc_SpaceID r = doc_SpaceID old \<and> doc_RepoPath r = doc_RepoPath old)"

definition doc_stamp :: "TimeStamp \<Rightarrow> Document \<Rightarrow> Document" where
  "doc_stamp now r = r\<lparr>doc_CreatedUnix := now, doc_UpdatedUnix := now\<rparr>"

definition doc_touch :: "TimeStamp \<Rightarrow> Document \<Rightarrow> Document" where
  "doc_touch now r = r\<lparr>doc_UpdatedUnix := now\<rparr>"

definition rev_clash :: "Revision \<Rightarrow> Revision \<Rightarrow> bool" where
  "rev_clash r old \<longleftrightarrow> (rev_DocumentID r = rev_DocumentID old \<and> rev_RevisionNo r = rev_RevisionNo old) \<or> (rev_DocumentID r = rev_DocumentID old \<and> rev_ContentSHA256 r = rev_ContentSHA256 old)"

definition rev_stamp :: "TimeStamp \<Rightarrow> Revision \<Rightarrow> Revision" where
  "rev_stamp now r = r\<lparr>rev_CreatedUnix := now\<rparr>"

definition acl_clash :: "ACL \<Rightarrow> ACL \<Rightarrow> bool" where
  "acl_clash r old \<longleftrightarrow> False"

definition acl_stamp :: "TimeStamp \<Rightarrow> ACL \<Rightarrow> ACL" where
  "acl_stamp now r = r"

definition appr_clash :: "Approval \<Rightarrow> Approval \<Rightarrow> bool" where
  "appr_clash r old \<longleftrightarrow> (appr_RevisionID r = appr_RevisionID old)"

definition appr_stamp :: "TimeStamp \<Rightarrow> Approval \<Rightarrow> Approval" where
  "appr_stamp now r = r\<lparr>appr_RequestedUnix := now\<rparr>"

definition pub_clash :: "Publication \<Rightarrow> Publication \<Rightarrow> bool" where
  "pub_clash r old \<longleftrightarrow> (pub_SpaceID r = pub_SpaceID old \<and> pub_Generation r = pub_Generation old) \<or> (pub_ApprovalID r = pub_ApprovalID old)"

definition pub_stamp :: "TimeStamp \<Rightarrow> Publication \<Rightarrow> Publication" where
  "pub_stamp now r = r\<lparr>pub_CreatedUnix := now, pub_UpdatedUnix := now\<rparr>"

definition pub_touch :: "TimeStamp \<Rightarrow> Publication \<Rightarrow> Publication" where
  "pub_touch now r = r\<lparr>pub_UpdatedUnix := now\<rparr>"

definition tomb_clash :: "RevocationTombstone \<Rightarrow> RevocationTombstone \<Rightarrow> bool" where
  "tomb_clash r old \<longleftrightarrow> (tomb_PublicationID r = tomb_PublicationID old)"

definition tomb_stamp :: "TimeStamp \<Rightarrow> RevocationTombstone \<Rightarrow> RevocationTombstone" where
  "tomb_stamp now r = r\<lparr>tomb_CreatedUnix := now\<rparr>"

definition ib_clash :: "IndexBinding \<Rightarrow> IndexBinding \<Rightarrow> bool" where
  "ib_clash r old \<longleftrightarrow> (ib_PublicationID r = ib_PublicationID old \<and> ib_EngineProfileVersion r = ib_EngineProfileVersion old)"

definition ib_stamp :: "TimeStamp \<Rightarrow> IndexBinding \<Rightarrow> IndexBinding" where
  "ib_stamp now r = r"

definition job_clash :: "IndexJob \<Rightarrow> IndexJob \<Rightarrow> bool" where
  "job_clash r old \<longleftrightarrow> (job_IdempotencyKey r = job_IdempotencyKey old)"

definition job_stamp :: "TimeStamp \<Rightarrow> IndexJob \<Rightarrow> IndexJob" where
  "job_stamp now r = r\<lparr>job_CreatedUnix := now, job_UpdatedUnix := now\<rparr>"

definition job_touch :: "TimeStamp \<Rightarrow> IndexJob \<Rightarrow> IndexJob" where
  "job_touch now r = r\<lparr>job_UpdatedUnix := now\<rparr>"

definition ob_clash :: "Outbox \<Rightarrow> Outbox \<Rightarrow> bool" where
  "ob_clash r old \<longleftrightarrow> (ob_IdempotencyKey r = ob_IdempotencyKey old)"

definition ob_stamp :: "TimeStamp \<Rightarrow> Outbox \<Rightarrow> Outbox" where
  "ob_stamp now r = r\<lparr>ob_CreatedUnix := now, ob_UpdatedUnix := now\<rparr>"

definition ob_touch :: "TimeStamp \<Rightarrow> Outbox \<Rightarrow> Outbox" where
  "ob_touch now r = r\<lparr>ob_UpdatedUnix := now\<rparr>"

definition ae_clash :: "AuditEvent \<Rightarrow> AuditEvent \<Rightarrow> bool" where
  "ae_clash r old \<longleftrightarrow> False"

definition ae_stamp :: "TimeStamp \<Rightarrow> AuditEvent \<Rightarrow> AuditEvent" where
  "ae_stamp now r = r\<lparr>ae_CreatedUnix := now\<rparr>"

text \<open>Every entity has a lawful key column.\<close>

interpretation sp_tbl: keyed_table sp_ID "\<lambda>i r. r\<lparr>sp_ID := i\<rparr>"
  by unfold_locales simp

interpretation ds_tbl: keyed_table ds_ID "\<lambda>i r. r\<lparr>ds_ID := i\<rparr>"
  by unfold_locales simp

interpretation rc_tbl: keyed_table rc_ID "\<lambda>i r. r\<lparr>rc_ID := i\<rparr>"
  by unfold_locales simp

interpretation sr_tbl: keyed_table sr_ID "\<lambda>i r. r\<lparr>sr_ID := i\<rparr>"
  by unfold_locales simp

interpretation dify_tbl: keyed_table dify_ID "\<lambda>i r. r\<lparr>dify_ID := i\<rparr>"
  by unfold_locales simp

interpretation re_tbl: keyed_table re_ID "\<lambda>i r. r\<lparr>re_ID := i\<rparr>"
  by unfold_locales simp

interpretation fb_tbl: keyed_table fb_ID "\<lambda>i r. r\<lparr>fb_ID := i\<rparr>"
  by unfold_locales simp

interpretation doc_tbl: keyed_table doc_ID "\<lambda>i r. r\<lparr>doc_ID := i\<rparr>"
  by unfold_locales simp

interpretation rev_tbl: keyed_table rev_ID "\<lambda>i r. r\<lparr>rev_ID := i\<rparr>"
  by unfold_locales simp

interpretation acl_tbl: keyed_table acl_ID "\<lambda>i r. r\<lparr>acl_ID := i\<rparr>"
  by unfold_locales simp

interpretation appr_tbl: keyed_table appr_ID "\<lambda>i r. r\<lparr>appr_ID := i\<rparr>"
  by unfold_locales simp

interpretation pub_tbl: keyed_table pub_ID "\<lambda>i r. r\<lparr>pub_ID := i\<rparr>"
  by unfold_locales simp

interpretation tomb_tbl: keyed_table tomb_ID "\<lambda>i r. r\<lparr>tomb_ID := i\<rparr>"
  by unfold_locales simp

interpretation ib_tbl: keyed_table ib_ID "\<lambda>i r. r\<lparr>ib_ID := i\<rparr>"
  by unfold_locales simp

interpretation job_tbl: keyed_table job_ID "\<lambda>i r. r\<lparr>job_ID := i\<rparr>"
  by unfold_locales simp

interpretation ob_tbl: keyed_table ob_ID "\<lambda>i r. r\<lparr>ob_ID := i\<rparr>"
  by unfold_locales simp

interpretation ae_tbl: keyed_table ae_ID "\<lambda>i r. r\<lparr>ae_ID := i\<rparr>"
  by unfold_locales simp

interpretation user_tbl: keyed_table user_ID "\<lambda>i r. r\<lparr>user_ID := i\<rparr>"
  by unfold_locales simp

interpretation repo_tbl: keyed_table repo_ID "\<lambda>i r. r\<lparr>repo_ID := i\<rparr>"
  by unfold_locales simp

section \<open>The database\<close>

record database =
  spaces :: "Space table"
  dataSources :: "DataSource table"
  reviewChecks :: "ReviewCheck table"
  syncRuns :: "SyncRun table"
  difyBindings :: "DifyBinding table"
  retrievalEvents :: "RetrievalEvent table"
  feedbacks :: "Feedback table"
  documents :: "Document table"
  revisions :: "Revision table"
  acls :: "ACL table"
  approvals :: "Approval table"
  publications :: "Publication table"
  tombstones :: "RevocationTombstone table"
  indexBindings :: "IndexBinding table"
  indexJobs :: "IndexJob table"
  outboxes :: "Outbox table"
  auditEvents :: "AuditEvent table"
  users :: "User table"
  repositories :: "Repository table"

definition emptyDatabase :: database where
  "emptyDatabase = \<lparr>
     spaces = emptyTable,
     dataSources = emptyTable,
     reviewChecks = emptyTable,
     syncRuns = emptyTable,
     difyBindings = emptyTable,
     retrievalEvents = emptyTable,
     feedbacks = emptyTable,
     documents = emptyTable,
     revisions = emptyTable,
     acls = emptyTable,
     approvals = emptyTable,
     publications = emptyTable,
     tombstones = emptyTable,
     indexBindings = emptyTable,
     indexJobs = emptyTable,
     outboxes = emptyTable,
     auditEvents = emptyTable,
     users = emptyTable,
     repositories = emptyTable\<rparr>"

text \<open>Every table of the knowledge entities is well-formed.\<close>

definition dbWf :: "database \<Rightarrow> bool" where
  "dbWf d \<longleftrightarrow>
     tblWf sp_ID (spaces d) \<and>
     tblWf ds_ID (dataSources d) \<and>
     tblWf rc_ID (reviewChecks d) \<and>
     tblWf sr_ID (syncRuns d) \<and>
     tblWf dify_ID (difyBindings d) \<and>
     tblWf re_ID (retrievalEvents d) \<and>
     tblWf fb_ID (feedbacks d) \<and>
     tblWf doc_ID (documents d) \<and>
     tblWf rev_ID (revisions d) \<and>
     tblWf acl_ID (acls d) \<and>
     tblWf appr_ID (approvals d) \<and>
     tblWf pub_ID (publications d) \<and>
     tblWf tomb_ID (tombstones d) \<and>
     tblWf ib_ID (indexBindings d) \<and>
     tblWf job_ID (indexJobs d) \<and>
     tblWf ob_ID (outboxes d) \<and>
     tblWf ae_ID (auditEvents d)"

lemma dbWf_empty: "dbWf emptyDatabase"
  by (simp add: dbWf_def emptyDatabase_def)

end
