(* ===== verification/Go_Strings.thy ===== *)
theory Go_Strings
  imports Prelude "HOL-Library.Sublist"
begin

text \<open>
  The string operations of Go's standard library that the knowledge components use. A Go
  string is a sequence of bytes, so it is a \<open>string\<close> (a list of 8-bit characters) and
  \<open>length\<close> is Go's \<open>len\<close>. \<open>strings.TrimSpace\<close>, \<open>strings.ToLower\<close> and
  \<open>unicode.IsControl\<close> work on the runes of the UTF-8 decoding, which \<open>runes\<close> computes as
  Go's decoder does: a byte that starts no valid sequence is one rune U+FFFD of width 1.

  \<open>toLower\<close> and \<open>equalFold\<close> map ASCII letters and the non-ASCII runes whose image is ASCII
  (U+0130 and U+212A, and U+017F for folding); another non-ASCII rune is kept. The
  components compare the results with ASCII text only, where the two agree.

  The lemmas give the round trips of the encoders (decimal, hexadecimal) and the facts about
  identifier-like tokens that the generated trace identifiers rest on.
\<close>

section \<open>UTF-8\<close>

definition cont :: "nat \<Rightarrow> bool" where
  "cont b \<longleftrightarrow> 128 \<le> b \<and> b \<le> 191"

definition second3 :: "nat \<Rightarrow> nat \<Rightarrow> bool" where
  "second3 b0 b1 \<longleftrightarrow>
     (if b0 = 224 then 160 \<le> b1 \<and> b1 \<le> 191 else if b0 = 237 then 128 \<le> b1 \<and> b1 \<le> 159 else cont b1)"

definition second4 :: "nat \<Rightarrow> nat \<Rightarrow> bool" where
  "second4 b0 b1 \<longleftrightarrow>
     (if b0 = 240 then 144 \<le> b1 \<and> b1 \<le> 191 else if b0 = 244 then 128 \<le> b1 \<and> b1 \<le> 143 else cont b1)"

text \<open>\<open>utf8.DecodeRuneInString\<close> of a non-empty string: the rune and its width in bytes.\<close>

fun decodeRune :: "char \<Rightarrow> string \<Rightarrow> nat \<times> nat" where
  "decodeRune c0 cs =
     (let b0 = of_char c0 in
      if b0 < 128 then (b0, 1)
      else if 194 \<le> b0 \<and> b0 \<le> 223 then
        (case cs of
           c1 # _ \<Rightarrow> if cont (of_char c1) then ((b0 - 192) * 64 + (of_char c1 - 128), 2) else (65533, 1)
         | [] \<Rightarrow> (65533, 1))
      else if 224 \<le> b0 \<and> b0 \<le> 239 then
        (case cs of
           c1 # c2 # _ \<Rightarrow>
             if second3 b0 (of_char c1) \<and> cont (of_char c2)
             then ((b0 - 224) * 4096 + (of_char c1 - 128) * 64 + (of_char c2 - 128), 3) else (65533, 1)
         | _ \<Rightarrow> (65533, 1))
      else if 240 \<le> b0 \<and> b0 \<le> 244 then
        (case cs of
           c1 # c2 # c3 # _ \<Rightarrow>
             if second4 b0 (of_char c1) \<and> cont (of_char c2) \<and> cont (of_char c3)
             then ((b0 - 240) * 262144 + (of_char c1 - 128) * 4096 + (of_char c2 - 128) * 64
                     + (of_char c3 - 128), 4) else (65533, 1)
         | _ \<Rightarrow> (65533, 1))
      else (65533, 1))"

declare decodeRune.simps [simp del]

text \<open>The runes of a string, each with the bytes it stands for.\<close>

function runes :: "string \<Rightarrow> (nat \<times> string) list" where
  "runes [] = []"
| "runes (c # cs) =
     (let (r, n) = decodeRune c cs in (r, c # take (n - 1) cs) # runes (drop (n - 1) cs))"
  by pat_completeness auto
termination
  by (relation "measure length") auto

definition utf8Encode :: "nat \<Rightarrow> string" where
  "utf8Encode r =
     (if r < 128 then [char_of r]
      else if r < 2048 then [char_of (192 + r div 64), char_of (128 + r mod 64)]
      else if r < 65536 then
        [char_of (224 + r div 4096), char_of (128 + r div 64 mod 64), char_of (128 + r mod 64)]
      else [char_of (240 + r div 262144), char_of (128 + r div 4096 mod 64),
            char_of (128 + r div 64 mod 64), char_of (128 + r mod 64)])"

definition utf8 :: "nat list \<Rightarrow> string" where
  "utf8 rs = concat (map utf8Encode rs)"

definition ascii :: "string \<Rightarrow> bool" where
  "ascii s \<longleftrightarrow> list_all (\<lambda>c. of_char c < (128::nat)) s"

lemma decodeRune_ascii: "of_char c < (128::nat) \<Longrightarrow> decodeRune c cs = (of_char c, 1)"
  by (simp add: decodeRune.simps)

lemma runes_ascii: "ascii s \<Longrightarrow> runes s = map (\<lambda>c. (of_char c, [c])) s"
  by (induction s) (auto simp: ascii_def decodeRune_ascii)

text \<open>Decoding loses no byte: the bytes of the runes are the string.\<close>

lemma runes_bytes: "concat (map snd (runes s)) = s"
  by (induction s rule: runes.induct) (auto simp: Let_def split: prod.splits)

section \<open>Spaces, control characters, case\<close>

definition isSpace :: "nat \<Rightarrow> bool" where
  "isSpace r \<longleftrightarrow> (9 \<le> r \<and> r \<le> 13) \<or> r = 32 \<or> r = 133 \<or> r = 160 \<or> r = 5760
     \<or> (8192 \<le> r \<and> r \<le> 8202) \<or> r = 8232 \<or> r = 8233 \<or> r = 8239 \<or> r = 8287 \<or> r = 12288"

definition isControl :: "nat \<Rightarrow> bool" where
  "isControl r \<longleftrightarrow> r < 32 \<or> (127 \<le> r \<and> r \<le> 159)"

definition trimRight :: "('a \<Rightarrow> bool) \<Rightarrow> 'a list \<Rightarrow> 'a list" where
  "trimRight P xs = rev (dropWhile P (rev xs))"

definition trimSpace :: "string \<Rightarrow> string" where
  "trimSpace s = concat (map snd (trimRight (isSpace \<circ> fst) (dropWhile (isSpace \<circ> fst) (runes s))))"

text \<open>\<open>strings.IndexFunc(s, unicode.IsControl) >= 0\<close>\<close>

definition hasControl :: "string \<Rightarrow> bool" where
  "hasControl s \<longleftrightarrow> list_ex (isControl \<circ> fst) (runes s)"

fun lowerRune :: "nat \<times> string \<Rightarrow> string" where
  "lowerRune (r, bs) =
     (if 65 \<le> r \<and> r \<le> 90 then [char_of (r + 32)]
      else if r = 304 then ''i'' else if r = 8490 then ''k''
      else if r = 65533 then utf8Encode 65533 else bs)"

definition toLower :: "string \<Rightarrow> string" where
  "toLower s = concat (map lowerRune (runes s))"

fun upperRune :: "nat \<times> string \<Rightarrow> string" where
  "upperRune (r, bs) =
     (if 97 \<le> r \<and> r \<le> 122 then [char_of (r - 32)]
      else if r = 305 then ''I'' else if r = 383 then ''S''
      else if r = 65533 then utf8Encode 65533 else bs)"

definition toUpper :: "string \<Rightarrow> string" where
  "toUpper s = concat (map upperRune (runes s))"

definition foldRune :: "nat \<Rightarrow> nat" where
  "foldRune r = (if 65 \<le> r \<and> r \<le> 90 then r + 32 else if r = 8490 then 107 else if r = 383 then 115 else r)"

definition equalFold :: "string \<Rightarrow> string \<Rightarrow> bool" where
  "equalFold s t \<longleftrightarrow> map (foldRune \<circ> fst) (runes s) = map (foldRune \<circ> fst) (runes t)"

section \<open>Searching\<close>

definition hasPrefix :: "string \<Rightarrow> string \<Rightarrow> bool" where
  "hasPrefix s p \<longleftrightarrow> take (length p) s = p"

definition hasSuffix :: "string \<Rightarrow> string \<Rightarrow> bool" where
  "hasSuffix s p \<longleftrightarrow> length p \<le> length s \<and> drop (length s - length p) s = p"

fun containsStr :: "string \<Rightarrow> string \<Rightarrow> bool" where
  "containsStr [] p \<longleftrightarrow> p = []"
| "containsStr (c # cs) p \<longleftrightarrow> hasPrefix (c # cs) p \<or> containsStr cs p"

definition containsAny :: "string \<Rightarrow> string \<Rightarrow> bool" where
  "containsAny s cs \<longleftrightarrow> list_ex (\<lambda>c. c \<in> set cs) s"

definition trimPrefix :: "string \<Rightarrow> string \<Rightarrow> string" where
  "trimPrefix s p = (if hasPrefix s p then drop (length p) s else s)"

definition trimSuffix :: "string \<Rightarrow> string \<Rightarrow> string" where
  "trimSuffix s p = (if hasSuffix s p then take (length s - length p) s else s)"

definition trimChars :: "string \<Rightarrow> string \<Rightarrow> string" where
  "trimChars s cs = trimRight (\<lambda>c. c \<in> set cs) (dropWhile (\<lambda>c. c \<in> set cs) s)"

lemma hasPrefix_iff: "hasPrefix s p \<longleftrightarrow> prefix p s"
  unfolding hasPrefix_def prefix_def by (metis append_eq_conv_conj append_take_drop_id)

lemma hasSuffix_iff: "hasSuffix s p \<longleftrightarrow> suffix p s"
  unfolding hasSuffix_def suffix_def
  by (metis append_eq_conv_conj append_take_drop_id diff_diff_cancel length_append length_drop le_add2
      add_diff_cancel_right')

lemma containsStr_iff: "containsStr s p \<longleftrightarrow> sublist p s"
  by (induction s) (auto simp: hasPrefix_iff sublist_Cons_right)

section \<open>File names\<close>

text \<open>\<open>filepath.Ext\<close>: from the last dot after the last slash; \<open>filepath.Base\<close>.\<close>

definition fileExt :: "string \<Rightarrow> string" where
  "fileExt s = (let t = takeWhile (\<lambda>c. c \<noteq> CHR ''/'') (rev s) in
     if CHR ''.'' \<in> set t then CHR ''.'' # rev (takeWhile (\<lambda>c. c \<noteq> CHR ''.'') t) else [])"

definition fileBase :: "string \<Rightarrow> string" where
  "fileBase s = (if s = [] then ''.'' else
     (let t = trimRight (\<lambda>c. c = CHR ''/'') s in
      if t = [] then ''/'' else rev (takeWhile (\<lambda>c. c \<noteq> CHR ''/'') (rev t))))"

section \<open>Tokens\<close>

definition isDigit :: "char \<Rightarrow> bool" where
  "isDigit c \<longleftrightarrow> 48 \<le> (of_char c :: nat) \<and> of_char c \<le> (57::nat)"

definition isAlnum :: "char \<Rightarrow> bool" where
  "isAlnum c \<longleftrightarrow> isDigit c \<or> (65 \<le> (of_char c :: nat) \<and> of_char c \<le> (90::nat))
     \<or> (97 \<le> (of_char c :: nat) \<and> of_char c \<le> (122::nat))"

definition isTokenChar :: "char \<Rightarrow> bool" where
  "isTokenChar c \<longleftrightarrow> isAlnum c \<or> c \<in> set ''._-''"

text \<open>The pattern \<open>^[A-Za-z0-9][A-Za-z0-9._-]*$\<close>.\<close>

fun isToken :: "string \<Rightarrow> bool" where
  "isToken [] \<longleftrightarrow> False"
| "isToken (c # cs) \<longleftrightarrow> isAlnum c \<and> list_all isTokenChar cs"

lemma isAlnum_code: "isAlnum c \<Longrightarrow> 48 \<le> (of_char c :: nat) \<and> of_char c \<le> (122::nat)"
  by (auto simp: isAlnum_def isDigit_def)

lemma isAlnum_token [simp]: "isAlnum c \<Longrightarrow> isTokenChar c"
  by (simp add: isTokenChar_def)

lemma isDigit_alnum [simp]: "isDigit c \<Longrightarrow> isAlnum c"
  by (simp add: isAlnum_def)

lemma isTokenChar_code: "isTokenChar c \<Longrightarrow> 45 \<le> (of_char c :: nat) \<and> of_char c \<le> (122::nat)"
  by (auto simp: isTokenChar_def dest: isAlnum_code)

lemma token_ascii: "list_all isTokenChar s \<Longrightarrow> ascii s"
  unfolding ascii_def by (induction s) (auto dest: isTokenChar_code)

lemma isToken_all: "isToken s \<Longrightarrow> list_all isTokenChar s"
  by (cases s) auto

text \<open>A token has no space to trim and no control character.\<close>

lemma dropWhile_token:
  "list_all isTokenChar s \<Longrightarrow>
   dropWhile (isSpace \<circ> fst) (map (\<lambda>c. (of_char c, [c])) s) = map (\<lambda>c. (of_char c :: nat, [c])) s"
  by (cases s) (auto simp: isSpace_def dest!: isTokenChar_code)

lemma trimSpace_token:
  assumes "list_all isTokenChar s"
  shows "trimSpace s = s"
proof -
  let ?rs = "\<lambda>t. map (\<lambda>c. (of_char c :: nat, [c])) (t :: string)"
  have "dropWhile (isSpace \<circ> fst) (rev (?rs s)) = rev (?rs s)"
    using assms dropWhile_token [of "rev s"] by (simp add: rev_map list_all_iff)
  moreover have "concat (map snd (?rs s)) = s"
    by (induction s) simp_all
  ultimately show ?thesis
    using assms by (simp only: trimSpace_def trimRight_def runes_ascii token_ascii dropWhile_token rev_rev_ident)
qed

lemma hasControl_token: "list_all isTokenChar s \<Longrightarrow> \<not> hasControl s"
  by (auto simp: hasControl_def runes_ascii token_ascii list_ex_iff list_all_iff isControl_def
      dest!: isTokenChar_code)

section \<open>Decimal numbers\<close>

text \<open>\<open>strconv.FormatInt(i, 10)\<close>, that is \<open>%d\<close>.\<close>

fun natDigits :: "nat \<Rightarrow> string" where
  "natDigits n = (if n < 10 then [char_of (48 + n)] else natDigits (n div 10) @ [char_of (48 + n mod 10)])"

declare natDigits.simps [simp del]

definition itoa :: "int \<Rightarrow> string" where
  "itoa i = (if i < 0 then CHR ''-'' # natDigits (nat (- i)) else natDigits (nat i))"

definition digitsVal :: "string \<Rightarrow> nat" where
  "digitsVal s = foldl (\<lambda>n c. n * 10 + (of_char c - 48)) 0 s"

text \<open>\<open>strconv.ParseInt(s, 10, 64)\<close>: an optional sign, digits, and the range of int64.\<close>

definition parseInt64 :: "string \<Rightarrow> int option" where
  "parseInt64 s =
     (let neg = hasPrefix s ''-'';
          ds = (if neg \<or> hasPrefix s ''+'' then tl s else s);
          v = int (digitsVal ds)
      in if ds = [] \<or> \<not> list_all isDigit ds then None
         else if neg then (if v \<le> 2 ^ 63 then Some (- v) else None)
         else if v < 2 ^ 63 then Some v else None)"

lemma isDigit_char_of: "n < 10 \<Longrightarrow> isDigit (char_of (48 + n :: nat))"
  by (simp add: isDigit_def)

lemma natDigits_digits: "list_all isDigit (natDigits n)"
proof (induction n rule: natDigits.induct)
  case (1 n)
  then show ?case by (subst natDigits.simps) (simp add: isDigit_char_of)
qed

lemma natDigits_nonempty [simp]: "natDigits n \<noteq> []"
  by (subst natDigits.simps) simp

lemma natDigits_val: "digitsVal (natDigits n) = n"
proof (induction n rule: natDigits.induct)
  case (1 n)
  then show ?case by (subst natDigits.simps) (auto simp: digitsVal_def)
qed

lemma natDigits_inject [simp]: "natDigits m = natDigits n \<longleftrightarrow> m = n"
  by (metis natDigits_val)

lemma natDigits_hd: "isDigit (hd (natDigits n))"
  by (metis list.pred_set hd_in_set natDigits_digits natDigits_nonempty)

lemma natDigits_no_sign: "natDigits n \<noteq> CHR ''-'' # s" "natDigits n \<noteq> CHR ''+'' # s"
  using natDigits_hd [of n] by (auto simp: isDigit_def)

lemma itoa_inject [simp]: "itoa i = itoa j \<longleftrightarrow> i = j"
  by (auto simp: itoa_def natDigits_no_sign natDigits_no_sign [symmetric])

lemma itoa_tokenChars: "list_all isTokenChar (itoa i)"
  using natDigits_digits by (auto simp: itoa_def isTokenChar_def list_all_iff)

lemma itoa_nonempty [simp]: "itoa i \<noteq> []"
  by (simp add: itoa_def)

lemma natDigits_length: "n < 10 ^ k \<Longrightarrow> 0 < k \<Longrightarrow> length (natDigits n) \<le> k"
proof (induction n arbitrary: k rule: natDigits.induct)
  case (1 n)
  show ?case
  proof (cases "n < 10")
    case True
    then show ?thesis using "1.prems" by (subst natDigits.simps) simp
  next
    case False
    from "1.prems" obtain k' where k: "k = Suc k'" by (cases k) auto
    have "0 < k'" using False "1.prems" k by (cases k') auto
    from "1.prems" k have "n div 10 < 10 ^ k'" by (simp add: less_mult_imp_div_less mult.commute)
    with "1.IH" False \<open>0 < k'\<close> have "length (natDigits (n div 10)) \<le> k'" by simp
    with False k show ?thesis by (subst natDigits.simps) simp
  qed
qed

text \<open>An int64 prints in at most 20 characters.\<close>

lemma itoa_length: "- (2 ^ 63) \<le> i \<Longrightarrow> i < 2 ^ 63 \<Longrightarrow> length (itoa i) \<le> 20"
  using natDigits_length [of "nat (- i)" 19] natDigits_length [of "nat i" 19]
  by (auto simp: itoa_def nat_less_iff)

lemma parseInt64_itoa: "- (2 ^ 63) \<le> i \<Longrightarrow> i < 2 ^ 63 \<Longrightarrow> parseInt64 (itoa i) = Some i"
  using natDigits_no_sign
  by (auto simp: parseInt64_def itoa_def hasPrefix_iff natDigits_digits natDigits_val prefix_def Let_def)

section \<open>Hexadecimal\<close>

definition hexDigit :: "nat \<Rightarrow> char" where
  "hexDigit n = (if n < 10 then char_of (48 + n) else char_of (87 + n))"

definition hexVal :: "char \<Rightarrow> nat option" where
  "hexVal c = (let n = of_char c in
     if 48 \<le> n \<and> n \<le> 57 then Some (n - 48)
     else if 97 \<le> n \<and> n \<le> 102 then Some (n - 87)
     else if 65 \<le> n \<and> n \<le> 70 then Some (n - 55) else None)"

text \<open>\<open>hex.EncodeToString\<close> and \<open>hex.DecodeString\<close>.\<close>

fun hexEncode :: "string \<Rightarrow> string" where
  "hexEncode [] = []"
| "hexEncode (c # cs) = hexDigit (of_char c div 16) # hexDigit (of_char c mod 16) # hexEncode cs"

fun hexDecode :: "string \<Rightarrow> string option" where
  "hexDecode [] = Some []"
| "hexDecode [c] = None"
| "hexDecode (a # b # cs) =
     (case (hexVal a, hexVal b, hexDecode cs) of
        (Some x, Some y, Some zs) \<Rightarrow> Some (char_of (x * 16 + y) # zs)
      | _ \<Rightarrow> None)"

lemma hexVal_hexDigit: "n < 16 \<Longrightarrow> hexVal (hexDigit n) = Some n"
  by (simp add: hexVal_def hexDigit_def Let_def)

lemma hexDecode_hexEncode: "hexDecode (hexEncode s) = Some s"
proof (induction s)
  case (Cons c s)
  have "of_char c div 16 < (16::nat)" by (simp add: less_mult_imp_div_less)
  with Cons show ?case by (simp add: hexVal_hexDigit)
qed simp

lemma hexEncode_length [simp]: "length (hexEncode s) = 2 * length s"
  by (induction s) simp_all

lemma hexEncode_inject [simp]: "hexEncode s = hexEncode t \<longleftrightarrow> s = t"
  by (metis hexDecode_hexEncode option.inject)

lemma hexDigit_alnum: "n < 16 \<Longrightarrow> isAlnum (hexDigit n)"
  by (simp add: hexDigit_def isAlnum_def isDigit_def)

lemma hexEncode_alnum: "list_all isAlnum (hexEncode s)"
proof (induction s)
  case (Cons c s)
  have "of_char c div 16 < (16::nat)" by (simp add: less_mult_imp_div_less)
  with Cons show ?case by (simp add: hexDigit_alnum)
qed simp

text \<open>The encoder's output is lower case.\<close>

lemma toLower_ascii: "ascii s \<Longrightarrow> toLower s = concat (map (\<lambda>c. lowerRune (of_char c, [c])) s)"
  by (simp add: toLower_def runes_ascii comp_def)

lemma toLower_same:
  "list_all (\<lambda>c. (of_char c :: nat) < 128 \<and> \<not> (65 \<le> (of_char c :: nat) \<and> (of_char c :: nat) \<le> 90)) s \<Longrightarrow> toLower s = s"
proof -
  assume *: "list_all (\<lambda>c. (of_char c :: nat) < 128 \<and> \<not> (65 \<le> (of_char c :: nat) \<and> (of_char c :: nat) \<le> 90)) s"
  then have "ascii s" by (auto simp: ascii_def list_all_iff)
  moreover have "concat (map (\<lambda>c. lowerRune (of_char c, [c])) s) = s"
    using * by (induction s) auto
  ultimately show ?thesis by (simp add: toLower_ascii)
qed

lemma hexDigit_lower:
  "n < 16 \<Longrightarrow> (of_char (hexDigit n) :: nat) < 128 \<and> \<not> (65 \<le> (of_char (hexDigit n) :: nat) \<and> (of_char (hexDigit n) :: nat) \<le> 90)"
  by (simp add: hexDigit_def)

lemma toLower_hexEncode: "toLower (hexEncode s) = hexEncode s"
proof (rule toLower_same, induction s)
  case (Cons c s)
  have "of_char c div 16 < (16::nat)" by (simp add: less_mult_imp_div_less)
  with Cons hexDigit_lower [of "of_char c div 16"] hexDigit_lower [of "of_char c mod 16"]
  show ?case by simp
qed simp

section \<open>Evaluation\<close>

text \<open>Closed strings evaluate by the simplifier with these equations.\<close>

lemmas string_eval [eval_simps] =
  natDigits.simps decodeRune.simps char_of_def bit_0 trimSpace_def trimRight_def isSpace_def hasControl_def
  isControl_def toLower_def toUpper_def equalFold_def foldRune_def utf8Encode_def hasPrefix_def hasSuffix_def
  containsAny_def trimPrefix_def trimSuffix_def trimChars_def fileExt_def fileBase_def isDigit_def
  isAlnum_def isTokenChar_def itoa_def parseInt64_def digitsVal_def hexDigit_def hexVal_def cont_def
  second3_def second4_def

end
