(* ===== verification/Settings.thy ===== *)
theory Settings
  imports Go_Strings
begin

text \<open>
  \<^verbatim>\<open>modules/setting/knowledge.go\<close>: the configuration record of the knowledge integration,
  how the two mounted credential files are read, and the fail-closed validation that every
  retrieval and index operation runs first.

  The result of \<open>url.Parse\<close> and the loopback test of \<open>net.ParseIP\<close> are arguments: the
  validation is stated for whatever the standard library parses. \<open>IsProd\<close> and
  \<open>IsInTesting\<close> are the process flags of the setting package.
\<close>

text \<open>Durations are int64 nanoseconds.\<close>

record KnowledgeSetting =
  ks_Enabled :: bool
  ks_RAGFlowBaseURL :: string
  ks_RAGFlowAPIKey :: string
  ks_RAGFlowDatasetID :: string
  ks_EngineProfileVersion :: string
  ks_AllowLoopbackHTTP :: bool
  ks_AllowInternalHTTP :: bool
  ks_InternalHTTPHost :: string
  ks_AllowedExtensions :: string
  ks_MaxFileSize :: int
  ks_HTTPTimeout :: int
  ks_PollInterval :: int
  ks_MaxAttempts :: int
  ks_RetrieveMaxTopK :: int
  ks_RetrieveQueryMaxByte :: int
  ks_engineProfileConfigured :: bool
  ks_invalidConfiguration :: bool

definition second :: int where
  "second = 1000000000"

definition defaultKnowledgeSetting :: KnowledgeSetting where
  "defaultKnowledgeSetting =
     \<lparr>ks_Enabled = False, ks_RAGFlowBaseURL = '''', ks_RAGFlowAPIKey = '''', ks_RAGFlowDatasetID = '''',
      ks_EngineProfileVersion = ''ragflow-v0.26.4-profile-1'',
      ks_AllowLoopbackHTTP = False, ks_AllowInternalHTTP = False, ks_InternalHTTPHost = '''',
      ks_AllowedExtensions = ''.pdf,.docx,.pptx,.xlsx,.md,.txt'',
      ks_MaxFileSize = 33554432, ks_HTTPTimeout = 10 * second, ks_PollInterval = 5 * second,
      ks_MaxAttempts = 5, ks_RetrieveMaxTopK = 10, ks_RetrieveQueryMaxByte = 2048,
      ks_engineProfileConfigured = False, ks_invalidConfiguration = False\<rparr>"

section \<open>Credential files\<close>

text \<open>
  What \<open>os.Stat\<close> and \<open>os.ReadFile\<close> report for one path: \<open>None\<close> is an error.
  The size is the one \<open>Stat\<close> reported, the content what was read afterwards.
\<close>

record BindingFile =
  bf_IsRegular :: bool
  bf_Size :: int
  bf_Content :: "string option"

definition knowledgeBindingMaxBytes :: int where
  "knowledgeBindingMaxBytes = 4096"

definition readKnowledgeBindingFile :: "BindingFile option \<Rightarrow> string option" where
  "readKnowledgeBindingFile info =
     (case info of
        None \<Rightarrow> None
      | Some f \<Rightarrow>
          if \<not> bf_IsRegular f \<or> bf_Size f \<le> 0 \<or> bf_Size f > knowledgeBindingMaxBytes then None
          else (case bf_Content f of
                  None \<Rightarrow> None
                | Some content \<Rightarrow>
                    (let value = trimSpace content in if value = '''' then None else Some value)))"

text \<open>\<open>files path\<close> is the file system; \<open>filepath.Join\<close> of a cleaned directory is a slash.\<close>

definition loadKnowledgeBinding ::
  "(string \<Rightarrow> BindingFile option) \<Rightarrow> string \<Rightarrow> KnowledgeSetting \<Rightarrow> KnowledgeSetting" where
  "loadKnowledgeBinding files bindingDir k =
     (let dir = trimSpace bindingDir in
      if dir = '''' then k
      else (let apiKey = readKnowledgeBindingFile (files (dir @ ''/api-key''));
                datasetID = readKnowledgeBindingFile (files (dir @ ''/dataset-id''))
            in case (apiKey, datasetID) of
                 (Some a, Some d) \<Rightarrow> k\<lparr>ks_RAGFlowAPIKey := a, ks_RAGFlowDatasetID := d\<rparr>
               | _ \<Rightarrow> k\<lparr>ks_invalidConfiguration := True\<rparr>))"

section \<open>Validation\<close>

record ParsedURL =
  url_Scheme :: string
  url_Host :: string
  url_Hostname :: string
  url_HasUser :: bool
  url_RawQuery :: string
  url_Fragment :: string
  url_Path :: string
  url_String :: string

datatype settingError =
    InvalidNumericConfiguration
  | IncompleteBinding
  | NumericOutsidePolicy
  | RetrievalLimitsOutsidePolicy
  | EmptyFileTypePolicy
  | InvalidURL
  | TransportPolicyRejected

definition isKnowledgeInternalDockerHost :: "string \<Rightarrow> string \<Rightarrow> bool" where
  "isKnowledgeInternalDockerHost host configured =
     (let configuredHost = trimSpace configured in
      configuredHost \<noteq> '''' \<and> equalFold host configuredHost \<and>
      \<not> containsAny configuredHost (CHR 0x5C # ''.:/'') \<and> \<not> equalFold configuredHost ''localhost'')"

definition isKnowledgeLoopbackHost :: "(string \<Rightarrow> bool) \<Rightarrow> string \<Rightarrow> bool" where
  "isKnowledgeLoopbackHost isLoopbackIP host \<longleftrightarrow> equalFold host ''localhost'' \<or> isLoopbackIP host"

text \<open>\<open>None\<close> is the nil error.\<close>

definition validateKnowledgeSettings ::
  "(string \<Rightarrow> ParsedURL option) \<Rightarrow> (string \<Rightarrow> bool) \<Rightarrow> bool \<Rightarrow> bool \<Rightarrow> KnowledgeSetting \<Rightarrow> settingError option" where
  "validateKnowledgeSettings urlParse isLoopbackIP isProd isInTesting k =
     (if \<not> ks_Enabled k then None
      else if ks_invalidConfiguration k then Some InvalidNumericConfiguration
      else if trimSpace (ks_RAGFlowBaseURL k) = '''' \<or> trimSpace (ks_RAGFlowAPIKey k) = '''' \<or>
              trimSpace (ks_RAGFlowDatasetID k) = '''' \<or> \<not> ks_engineProfileConfigured k \<or>
              trimSpace (ks_EngineProfileVersion k) = '''' then Some IncompleteBinding
      else if ks_MaxFileSize k \<le> 0 \<or> ks_HTTPTimeout k \<le> 0 \<or> ks_HTTPTimeout k > 10 * second \<or>
              ks_PollInterval k \<le> 0 \<or> ks_MaxAttempts k \<le> 0 \<or> ks_MaxAttempts k > 1000 then Some NumericOutsidePolicy
      else if ks_RetrieveMaxTopK k \<le> 0 \<or> ks_RetrieveMaxTopK k > 50 \<or>
              ks_RetrieveQueryMaxByte k < 32 \<or> ks_RetrieveQueryMaxByte k > 16 * 1024 then Some RetrievalLimitsOutsidePolicy
      else if trimSpace (ks_AllowedExtensions k) = '''' then Some EmptyFileTypePolicy
      else (case urlParse (trimSpace (ks_RAGFlowBaseURL k)) of
              None \<Rightarrow> Some InvalidURL
            | Some u \<Rightarrow>
                if url_Scheme u = '''' \<or> url_Host u = '''' \<or> url_HasUser u \<or> url_RawQuery u \<noteq> '''' \<or>
                   url_Fragment u \<noteq> '''' \<or> (url_Path u \<noteq> '''' \<and> url_Path u \<noteq> ''/'') then Some InvalidURL
                else if url_Scheme u = ''https'' then None
                else if url_Scheme u = ''http'' then
                  (if ks_AllowLoopbackHTTP k \<and> isKnowledgeLoopbackHost isLoopbackIP (url_Hostname u) \<and>
                      (\<not> isProd \<or> isInTesting) then None
                   else if ks_AllowInternalHTTP k \<and>
                      isKnowledgeInternalDockerHost (url_Hostname u) (ks_InternalHTTPHost k) then None
                   else Some TransportPolicyRejected)
                else Some TransportPolicyRejected))"

section \<open>Loading\<close>

text \<open>int64 arithmetic wraps around.\<close>

definition wrap64 :: "int \<Rightarrow> int" where
  "wrap64 x = (x + 2 ^ 63) mod 2 ^ 64 - 2 ^ 63"

lemma wrap64_id: "- (2 ^ 63) \<le> x \<Longrightarrow> x < 2 ^ 63 \<Longrightarrow> wrap64 x = x"
  by (simp add: wrap64_def)

lemma wrap64_range: "- (2 ^ 63) \<le> wrap64 x \<and> wrap64 x < 2 ^ 63"
  unfolding wrap64_def using pos_mod_bound [of "2 ^ 64" "x + 2 ^ 63"] pos_mod_sign [of "2 ^ 64" "x + 2 ^ 63"]
  by simp

text \<open>
  The \<open>[knowledge]\<close> section as a partial map from keys to raw values. \<open>parseBool\<close> and
  \<open>parseInt\<close> are the conversions of the ini library, \<open>parseDuration\<close> is
  \<open>time.ParseDuration\<close>; \<open>None\<close> is their error.
\<close>

definition iniString :: "(string \<Rightarrow> string option) \<Rightarrow> string \<Rightarrow> string" where
  "iniString sec key = (case sec key of None \<Rightarrow> '''' | Some v \<Rightarrow> v)"

definition mustString :: "(string \<Rightarrow> string option) \<Rightarrow> string \<Rightarrow> string \<Rightarrow> string" where
  "mustString sec key dflt = (if iniString sec key = '''' then dflt else iniString sec key)"

definition mustParse :: "(string \<Rightarrow> 'a option) \<Rightarrow> (string \<Rightarrow> string option) \<Rightarrow> string \<Rightarrow> 'a \<Rightarrow> 'a" where
  "mustParse parse sec key dflt = (case parse (iniString sec key) of None \<Rightarrow> dflt | Some v \<Rightarrow> v)"

definition loadFileSize :: "string option \<Rightarrow> KnowledgeSetting \<Rightarrow> KnowledgeSetting" where
  "loadFileSize val k =
     (case val of None \<Rightarrow> k
      | Some s \<Rightarrow>
          (case parseInt64 (trimSpace s) of
             None \<Rightarrow> k\<lparr>ks_invalidConfiguration := True\<rparr>
           | Some mib \<Rightarrow>
               if mib \<le> 0 \<or> mib > (2 ^ 63 - 1) div 2 ^ 20 then k\<lparr>ks_invalidConfiguration := True\<rparr>
               else k\<lparr>ks_MaxFileSize := wrap64 (mib * 2 ^ 20)\<rparr>))"

definition loadDuration ::
  "(string \<Rightarrow> int option) \<Rightarrow> string option \<Rightarrow> (int \<Rightarrow> KnowledgeSetting \<Rightarrow> KnowledgeSetting) \<Rightarrow>
   KnowledgeSetting \<Rightarrow> KnowledgeSetting" where
  "loadDuration parseDuration val setField k =
     (case val of None \<Rightarrow> k
      | Some s \<Rightarrow> (case parseDuration (trimSpace s) of
                    None \<Rightarrow> k\<lparr>ks_invalidConfiguration := True\<rparr> | Some d \<Rightarrow> setField d k))"

definition loadMaxAttempts :: "string option \<Rightarrow> KnowledgeSetting \<Rightarrow> KnowledgeSetting" where
  "loadMaxAttempts val k =
     (case val of None \<Rightarrow> k
      | Some s \<Rightarrow> (case parseInt64 (trimSpace s) of
                    None \<Rightarrow> k\<lparr>ks_invalidConfiguration := True\<rparr>
                  | Some n \<Rightarrow> if n < - (2 ^ 31) \<or> n \<ge> 2 ^ 31 then k\<lparr>ks_invalidConfiguration := True\<rparr>
                              else k\<lparr>ks_MaxAttempts := n\<rparr>))"

definition loadKnowledgeFrom ::
  "(string \<Rightarrow> BindingFile option) \<Rightarrow> (string \<Rightarrow> bool option) \<Rightarrow> (string \<Rightarrow> int option) \<Rightarrow>
   (string \<Rightarrow> int option) \<Rightarrow> (string \<Rightarrow> string option) option \<Rightarrow> KnowledgeSetting" where
  "loadKnowledgeFrom files parseBool parseInt parseDuration rootCfg =
     (case rootCfg of None \<Rightarrow> defaultKnowledgeSetting
      | Some sec \<Rightarrow>
          (let k0 = defaultKnowledgeSetting;
               k1 = k0\<lparr>ks_Enabled := mustParse parseBool sec ''ENABLED'' (ks_Enabled k0),
                       ks_RAGFlowBaseURL := iniString sec ''RAGFLOW_BASE_URL''\<rparr>;
               k2 = loadKnowledgeBinding files (iniString sec ''RAGFLOW_BINDING_DIR'') k1;
               k3 = k2\<lparr>ks_engineProfileConfigured :=
                         (sec ''ENGINE_PROFILE_VERSION'' \<noteq> None \<and>
                          trimSpace (iniString sec ''ENGINE_PROFILE_VERSION'') \<noteq> ''''),
                       ks_EngineProfileVersion := mustString sec ''ENGINE_PROFILE_VERSION'' (ks_EngineProfileVersion k2),
                       ks_AllowLoopbackHTTP := mustParse parseBool sec ''ALLOW_LOOPBACK_HTTP'' False,
                       ks_AllowInternalHTTP := mustParse parseBool sec ''ALLOW_INTERNAL_HTTP'' False,
                       ks_InternalHTTPHost := trimSpace (iniString sec ''INTERNAL_HTTP_HOST''),
                       ks_AllowedExtensions := mustString sec ''ALLOWED_EXTENSIONS'' (ks_AllowedExtensions k2)\<rparr>;
               k4 = loadFileSize (sec ''MAX_FILE_SIZE_MIB'') k3;
               k5 = loadDuration parseDuration (sec ''HTTP_TIMEOUT'') (\<lambda>d k. k\<lparr>ks_HTTPTimeout := d\<rparr>) k4;
               k6 = loadDuration parseDuration (sec ''POLL_INTERVAL'') (\<lambda>d k. k\<lparr>ks_PollInterval := d\<rparr>) k5;
               k7 = loadMaxAttempts (sec ''MAX_ATTEMPTS'') k6;
               k8 = (if sec ''RETRIEVE_MAX_TOP_K'' \<noteq> None
                     then k7\<lparr>ks_RetrieveMaxTopK := mustParse parseInt sec ''RETRIEVE_MAX_TOP_K'' (ks_RetrieveMaxTopK k7)\<rparr>
                     else k7)
           in if sec ''RETRIEVE_QUERY_MAX_BYTES'' \<noteq> None
              then k8\<lparr>ks_RetrieveQueryMaxByte :=
                        mustParse parseInt sec ''RETRIEVE_QUERY_MAX_BYTES'' (ks_RetrieveQueryMaxByte k8)\<rparr>
              else k8))"

section \<open>Facts\<close>

text \<open>The shift to bytes never leaves int64.\<close>

lemma loadFileSize_bytes:
  assumes "parseInt64 (trimSpace s) = Some mib" "0 < mib" "mib \<le> (2 ^ 63 - 1) div 2 ^ 20"
  shows "ks_MaxFileSize (loadFileSize (Some s) k) = mib * 2 ^ 20"
proof -
  have "mib * 2 ^ 20 < 2 ^ 63" using assms(3) by simp
  with assms show ?thesis by (simp add: loadFileSize_def wrap64_id)
qed

text \<open>What a passed validation of an enabled configuration gives.\<close>

lemma validateKnowledgeSettings_None:
  assumes "validateKnowledgeSettings urlParse isLoopbackIP isProd isInTesting k = None" "ks_Enabled k"
  shows "trimSpace (ks_RAGFlowAPIKey k) \<noteq> ''''" "trimSpace (ks_RAGFlowDatasetID k) \<noteq> ''''"
    "0 < ks_MaxFileSize k" "0 < ks_MaxAttempts k" "ks_MaxAttempts k \<le> 1000"
    "0 < ks_RetrieveMaxTopK k" "ks_RetrieveMaxTopK k \<le> 50"
    "32 \<le> ks_RetrieveQueryMaxByte k" "ks_RetrieveQueryMaxByte k \<le> 16384"
  using assms by (auto simp: validateKnowledgeSettings_def split: if_splits)

lemma validateKnowledgeSettings_url:
  assumes "validateKnowledgeSettings urlParse isLoopbackIP isProd isInTesting k = None" "ks_Enabled k"
  shows "\<exists>u. urlParse (trimSpace (ks_RAGFlowBaseURL k)) = Some u \<and> url_Scheme u \<noteq> '''' \<and> url_Host u \<noteq> '''' \<and>
     \<not> url_HasUser u \<and> url_RawQuery u = '''' \<and> url_Fragment u = '''' \<and> (url_Path u = '''' \<or> url_Path u = ''/'') \<and>
     (url_Scheme u = ''https'' \<or>
      url_Scheme u = ''http'' \<and>
      (ks_AllowLoopbackHTTP k \<and> isKnowledgeLoopbackHost isLoopbackIP (url_Hostname u) \<or>
       ks_AllowInternalHTTP k \<and> isKnowledgeInternalDockerHost (url_Hostname u) (ks_InternalHTTPHost k)))"
  using assms by (auto simp: validateKnowledgeSettings_def split: if_splits option.splits)

lemma validateKnowledgeSettings_transport:
  assumes "validateKnowledgeSettings urlParse isLoopbackIP isProd isInTesting k = None" "ks_Enabled k"
  shows "\<exists>u. urlParse (trimSpace (ks_RAGFlowBaseURL k)) = Some u \<and> \<not> url_HasUser u \<and> url_RawQuery u = '''' \<and>
     (url_Scheme u = ''https'' \<or>
      url_Scheme u = ''http'' \<and>
      (ks_AllowLoopbackHTTP k \<and> isKnowledgeLoopbackHost isLoopbackIP (url_Hostname u) \<and> (\<not> isProd \<or> isInTesting) \<or>
       ks_AllowInternalHTTP k \<and> isKnowledgeInternalDockerHost (url_Hostname u) (ks_InternalHTTPHost k)))"
  using assms by (auto simp: validateKnowledgeSettings_def split: if_splits option.splits)

end
