(* ===== verification/World.thy ===== *)
theory World
  imports Models Settings
begin

text \<open>
  The state the operations run on and the primitive calls they are made of.

  A \<open>world\<close> is the database, the environment and three counters of what happened so far.
  The environment holds everything the code does not decide: which database call fails
  (\<open>faults\<close>), the clock in nanoseconds, SHA-256, the configuration, the Git and permission
  services of Gitea, the random source and the index engine. It is an argument of every
  theorem, so a theorem holds for every schedule of failures and every behaviour of the
  engine; the engine answers from the whole history of requests (\<open>sent\<close>).

  \<open>withTx\<close> is \<^verbatim>\<open>models/db/context.go\<close>: an error of the body or of the commit restores the
  database the transaction began with, and nothing else.
\<close>

section \<open>Errors\<close>

datatype error =
    ErrApprovalNotFound
  | ErrApprovalConflict
  | ErrSelfApproval
  | ErrPublicationNotFound
  | ErrPublicationConflict
  | ErrMaskingNotDeclared
  | ErrInvalidManifest
  | ErrInvalidFileName
  | ErrUnsupportedFileType
  | ErrIntegrityMismatch
  | ErrFileSize
  | ErrSpaceAlreadyExists
  | ErrRetrievalModelUnavailable
  | ErrUserNotExist int string
  | ErrRepoNotExist int
  | ErrNameCharsNotAllowed string
  | ErrNameReserved string
  | ErrNamePatternNotAllowed string
  | ErrInvalidArgument string
  | ErrSetting settingError
  | DBFailure
  | DBConstraint
  | ExternalError string
  | ErrorsNew string
  | Errorf string error

text \<open>\<open>errors.Is\<close>: the target anywhere in the chain of \<open>%w\<close>.\<close>

fun errorIs :: "error \<Rightarrow> error \<Rightarrow> bool" where
  "errorIs (Errorf s e) target \<longleftrightarrow> Errorf s e = target \<or> errorIs e target"
| "errorIs e target \<longleftrightarrow> e = target"

section \<open>The index engine's data\<close>

text \<open>The request and result types of \<^verbatim>\<open>services/knowledge/ragflow/client.go\<close>.\<close>

type_synonym float64 = "64 word"

record GovernanceMetadata =
  gm_SpaceID :: int
  gm_DocumentID :: int
  gm_RevisionID :: int
  gm_PublicationID :: int
  gm_PublicationGeneration :: int
  gm_RevisionSHA256 :: string
  gm_ACLPolicyVersion :: int
  gm_RevocationGeneration :: int

datatype DocumentState =
    DocumentStateUnstarted
  | DocumentStateRunning
  | DocumentStateDone
  | DocumentStateFailed

record UploadRequest =
  ur_FileName :: string
  ur_Content :: string
  ur_Size :: int

record RetrievalRequest =
  rr_Question :: string
  rr_PublicationID :: int
  rr_PublicationGeneration :: int
  rr_TopK :: int

record RetrievedChunk =
  rk_ID :: string
  rk_DocumentID :: string
  rk_Content :: string
  rk_Similarity :: float64

text \<open>
  What \<open>archive/zip\<close> and \<open>encoding/xml\<close> give \<^verbatim>\<open>services/knowledge/ingest/ooxml.go\<close>: the entries
  of an archive with their decompressed streams, the attributes of relationships and overrides.
\<close>

type_synonym uint64 = "64 word"

record ZipEntry =
  ze_Name :: string
  ze_Encrypted :: bool
  ze_IsDir :: bool
  ze_UncompressedSize64 :: uint64
  ze_CompressedSize64 :: uint64
  ze_Open :: "(string \<times> error option) option"
  ze_CloseFails :: bool

record relationship =
  rel_Type :: string
  rel_Target :: string
  rel_TargetMode :: string

record contentTypeOverride =
  ovr_PartName :: string
  ovr_ContentType :: string

text \<open>The four columns a controlled MySQL view is read by; each can be NULL.\<close>

record mysqlRow =
  my_ID :: "string option"
  my_Title :: "string option"
  my_Content :: "string option"
  my_Cursor :: "string option"

datatype engineCall =
    CallUpload UploadRequest
  | CallSetMetadata string GovernanceMetadata
  | CallStartParsing "string list"
  | CallGetDocumentStatus string
  | CallDeleteDocuments "string list"
  | CallRetrieve RetrievalRequest

text \<open>
  The entries of a Git tree: a directory with its listing, which may not be readable, or something
  else with its name, whether it is a regular file, and its size.
\<close>

datatype gitEntry =
    GitDir string "gitEntry list option"
  | GitFile string bool int

section \<open>Environment and world\<close>

record environment =
  faults :: "nat \<Rightarrow> bool"
  clock :: "nat \<Rightarrow> int"
  sha256 :: "string \<Rightarrow> string"
  randomString :: "nat \<Rightarrow> error + string"
  setting :: KnowledgeSetting
  urlParse :: "string \<Rightarrow> ParsedURL option"
  isLoopbackIP :: "string \<Rightarrow> bool"
  isProd :: bool
  isInTesting :: bool
  engUpload :: "engineCall list \<Rightarrow> error + string option"
  engSetMetadata :: "engineCall list \<Rightarrow> error option"
  engStartParsing :: "engineCall list \<Rightarrow> error option"
  engGetDocumentStatus :: "engineCall list \<Rightarrow> error + DocumentState"
  engDeleteDocuments :: "engineCall list \<Rightarrow> error option"
  engRetrieve :: "engineCall list \<Rightarrow> error + RetrievedChunk list"
  gitOpen :: "Repository \<Rightarrow> string \<Rightarrow> string \<Rightarrow> error + (string \<times> error option)"
  createRepo :: "nat \<Rightarrow> User \<Rightarrow> User \<Rightarrow> string \<Rightarrow> string \<Rightarrow> Repository table \<Rightarrow> (error + Repository) \<times> Repository table"
  deleteRepo :: "nat \<Rightarrow> User \<Rightarrow> Repository \<Rightarrow> Repository table \<Rightarrow> error option \<times> Repository table"
  changeRepoFiles :: "nat \<Rightarrow> Repository \<Rightarrow> User \<Rightarrow> string \<Rightarrow> string \<Rightarrow> string \<Rightarrow> error + string option"
  codeReadable :: "User \<Rightarrow> Repository \<Rightarrow> error + bool"
  zipEntries :: "string \<Rightarrow> int \<Rightarrow> ZipEntry list option"
  xmlRelationships :: "string \<Rightarrow> relationship list option"
  xmlOverrides :: "string \<Rightarrow> contentTypeOverride list option"
  detectContentType :: "string \<Rightarrow> string"
  isPrintRune :: "nat \<Rightarrow> bool"
  lowerOther :: "nat \<times> string \<Rightarrow> string"
  parseFloat :: "string \<Rightarrow> float64 option"
  cancelled :: "nat \<Rightarrow> bool"
  getenv :: "string \<Rightarrow> string"
  mysqlOpen :: "string \<Rightarrow> bool"
  mysqlPing :: "string \<Rightarrow> bool"
  mysqlQuery :: "string \<Rightarrow> string \<Rightarrow> string \<Rightarrow> (mysqlRow option list \<times> bool) option"
  zone :: "int \<Rightarrow> int"
  visibleRepos :: "User \<Rightarrow> error + (Repository \<times> string) list"
  branchTree :: "Repository \<Rightarrow> (string \<times> gitEntry list option) option"

record world =
  db :: database
  env :: environment
  calls :: nat
  ticks :: nat
  sent :: "engineCall list"

text \<open>
  \<open>gitOpen\<close> is the blob of a path at a commit: it cannot be opened, or it is a stream of bytes
  that ends, or breaks off with an error. \<open>createRepo\<close> and \<open>deleteRepo\<close> are Gitea's repository
  service: their result and what they make of the table of repositories. \<open>changeRepoFiles\<close>
  commits one file: repository, doer, message, path and content give the commit. \<open>visibleRepos\<close> is
  Gitea's search for the repositories a user sees, with the names of their owners, and \<open>branchTree\<close>
  the commit and the tree at the head of a repository's default branch.
\<close>

text \<open>
  Tables of the standard library that are not worth restating are functions of the environment:
  \<open>unicode.IsPrint\<close> and \<open>unicode.ToLower\<close> beyond ASCII, \<open>strconv.ParseFloat\<close>, and how many seconds
  the local time zone is ahead of UTC at an instant (\<open>zone\<close>). \<open>cancelled n\<close> tells whether the context of the
  operation is done when \<open>n\<close> calls have been made. A MySQL query either cannot be run, or yields
  rows, each of which may fail to scan, and a flag that the iteration ended without an error.
\<close>

type_synonym 'a prog = "(world, error, 'a) io"

text \<open>
  \<open>io.ReadAll(io.LimitReader(r, limit))\<close> of a stream that is its bytes and how it ends: the bytes
  up to \<open>limit\<close>; the error it breaks off with is seen only when the limit is beyond the bytes.
\<close>

definition readLimited :: "int \<Rightarrow> string \<times> error option \<Rightarrow> error + string" where
  "readLimited limit stream =
     (if nat limit \<le> length (fst stream) then Inr (take (nat limit) (fst stream))
      else case snd stream of Some e \<Rightarrow> Inl e | None \<Rightarrow> Inr (fst stream))"

lemma readLimited_value:
  "readLimited limit stream = Inr content \<Longrightarrow> content = take (nat limit) (fst stream)"
  by (auto simp: readLimited_def split: if_splits option.splits)

section \<open>Clock\<close>

definition timeNow :: "int prog" where
  "timeNow w = (Inr (clock (env w) (ticks w)), w\<lparr>ticks := Suc (ticks w)\<rparr>)"

definition timeStampNow :: "TimeStamp prog" where
  "timeStampNow = andThen timeNow (\<lambda>t. ret (t div second))"

definition currentUnix :: "world \<Rightarrow> TimeStamp" where
  "currentUnix w = clock (env w) (ticks w) div second"

definition askEnv :: "(environment \<Rightarrow> 'a) \<Rightarrow> 'a prog" where
  "askEnv f w = (Inr (f (env w)), w)"

text \<open>\<open>ctx.Err() != nil\<close>\<close>

definition ctxDone :: "bool prog" where
  "ctxDone w = (Inr (cancelled (env w) (calls w)), w)"

section \<open>Database calls\<close>

text \<open>
  One round trip: it fails with \<open>DBFailure\<close> and no effect when the schedule says so,
  otherwise the statement runs; a statement can itself fail on a unique index.
\<close>

definition dbCall :: "(TimeStamp \<Rightarrow> database \<Rightarrow> error + ('a \<times> database)) \<Rightarrow> 'a prog" where
  "dbCall f w =
     (let w1 = w\<lparr>calls := Suc (calls w)\<rparr> in
      if faults (env w) (calls w) then (Inl DBFailure, w1)
      else (case f (currentUnix w) (db w) of
              Inl e \<Rightarrow> (Inl e, w1)
            | Inr (a, d) \<Rightarrow> (Inr a, w1\<lparr>db := d\<rparr>)))"

definition query :: "(database \<Rightarrow> 'a) \<Rightarrow> 'a prog" where
  "query q = dbCall (\<lambda>now d. Inr (q d, d))"

text \<open>\<open>db.GetByID\<close>: \<open>None\<close> is "does not exist".\<close>

definition getByID :: "('r \<Rightarrow> int) \<Rightarrow> (database \<Rightarrow> 'r table) \<Rightarrow> int \<Rightarrow> 'r option prog" where
  "getByID idf sel i = query (\<lambda>d. tblGet idf i (sel d))"

text \<open>\<open>Where(P).Get\<close>, \<open>Where(P).Find\<close> and \<open>Where(P).Count\<close>.\<close>

definition getFirst :: "(database \<Rightarrow> 'r table) \<Rightarrow> ('r \<Rightarrow> bool) \<Rightarrow> 'r option prog" where
  "getFirst sel P = query (\<lambda>d. tblFirst P (sel d))"

definition findRows :: "(database \<Rightarrow> 'r table) \<Rightarrow> ('r \<Rightarrow> bool) \<Rightarrow> 'r list prog" where
  "findRows sel P = query (\<lambda>d. tblFind P (sel d))"

definition countRows :: "(database \<Rightarrow> 'r table) \<Rightarrow> ('r \<Rightarrow> bool) \<Rightarrow> int prog" where
  "countRows sel P = query (\<lambda>d. tblCount P (sel d))"

text \<open>
  \<open>Where(P).Cols(..).Update\<close>: \<open>f\<close> writes the named columns, given the time of the
  statement for the managed \<open>updated\<close> column; the result is the number of matched rows.
\<close>

definition updateRows ::
  "(database \<Rightarrow> 'r table) \<Rightarrow> (('r table \<Rightarrow> 'r table) \<Rightarrow> database \<Rightarrow> database) \<Rightarrow>
   ('r \<Rightarrow> bool) \<Rightarrow> (TimeStamp \<Rightarrow> 'r \<Rightarrow> 'r) \<Rightarrow> int prog" where
  "updateRows sel upd P f =
     dbCall (\<lambda>now d. Inr (tblCount P (sel d), upd (\<lambda>_. tblUpdate P (f now) (sel d)) d))"

text \<open>\<open>db.Insert\<close>: the bean with its key and managed timestamps.\<close>

definition insertRow ::
  "(database \<Rightarrow> 'r table) \<Rightarrow> (('r table \<Rightarrow> 'r table) \<Rightarrow> database \<Rightarrow> database) \<Rightarrow>
   (int \<Rightarrow> 'r \<Rightarrow> 'r) \<Rightarrow> (TimeStamp \<Rightarrow> 'r \<Rightarrow> 'r) \<Rightarrow> ('r \<Rightarrow> 'r \<Rightarrow> bool) \<Rightarrow> 'r \<Rightarrow> 'r prog" where
  "insertRow sel upd setId stamp clash r =
     dbCall (\<lambda>now d. case tblInsert setId clash (stamp now r) (sel d) of
        None \<Rightarrow> Inl DBConstraint
      | Some (r', t') \<Rightarrow> Inr (r', upd (\<lambda>_. t') d))"

definition deleteRows ::
  "(database \<Rightarrow> 'r table) \<Rightarrow> (('r table \<Rightarrow> 'r table) \<Rightarrow> database \<Rightarrow> database) \<Rightarrow> ('r \<Rightarrow> bool) \<Rightarrow> int prog" where
  "deleteRows sel upd P = dbCall (\<lambda>now d. Inr (tblCount P (sel d), upd (\<lambda>_. tblDelete P (sel d)) d))"

section \<open>Transactions\<close>

definition withTx :: "'a prog \<Rightarrow> 'a prog" where
  "withTx f w =
     (case query (\<lambda>_. ()) w of
        (Inl e, w1) \<Rightarrow> (Inl e, w1)
      | (Inr _, w1) \<Rightarrow>
          (case f w1 of
             (Inl e, w2) \<Rightarrow> (Inl e, w2\<lparr>db := db w\<rparr>)
           | (Inr a, w2) \<Rightarrow>
               (case query (\<lambda>_. ()) w2 of
                  (Inl e, w3) \<Rightarrow> (Inl e, w3\<lparr>db := db w\<rparr>)
                | (Inr _, w3) \<Rightarrow> (Inr a, w3))))"

section \<open>Engine calls\<close>

definition engineRequest :: "engineCall \<Rightarrow> (environment \<Rightarrow> engineCall list \<Rightarrow> error + 'a) \<Rightarrow> 'a prog" where
  "engineRequest c respond w =
     (let h = sent w @ [c] in (respond (env w) h, w\<lparr>sent := h\<rparr>))"

definition optionError :: "error option \<Rightarrow> error + unit" where
  "optionError r = (case r of None \<Rightarrow> Inr () | Some e \<Rightarrow> Inl e)"

definition engineUpload :: "UploadRequest \<Rightarrow> string option prog" where
  "engineUpload r = engineRequest (CallUpload r) engUpload"

definition engineSetMetadata :: "string \<Rightarrow> GovernanceMetadata \<Rightarrow> unit prog" where
  "engineSetMetadata i m = engineRequest (CallSetMetadata i m) (\<lambda>e h. optionError (engSetMetadata e h))"

definition engineStartParsing :: "string list \<Rightarrow> unit prog" where
  "engineStartParsing is = engineRequest (CallStartParsing is) (\<lambda>e h. optionError (engStartParsing e h))"

definition engineGetDocumentStatus :: "string \<Rightarrow> DocumentState prog" where
  "engineGetDocumentStatus i = engineRequest (CallGetDocumentStatus i) engGetDocumentStatus"

definition engineDeleteDocuments :: "string list \<Rightarrow> unit prog" where
  "engineDeleteDocuments is = engineRequest (CallDeleteDocuments is) (\<lambda>e h. optionError (engDeleteDocuments e h))"

definition engineRetrieve :: "RetrievalRequest \<Rightarrow> RetrievedChunk list prog" where
  "engineRetrieve r = engineRequest (CallRetrieve r) engRetrieve"

section \<open>Repository service\<close>

definition repoCreate :: "User \<Rightarrow> User \<Rightarrow> string \<Rightarrow> string \<Rightarrow> Repository prog" where
  "repoCreate actor owner name description w =
     (case createRepo (env w) (calls w) actor owner name description (repositories (db w)) of
        (r, t) \<Rightarrow> (r, w\<lparr>calls := Suc (calls w), db := (db w)\<lparr>repositories := t\<rparr>\<rparr>))"

definition repoDelete :: "User \<Rightarrow> Repository \<Rightarrow> unit prog" where
  "repoDelete actor repo w =
     (case deleteRepo (env w) (calls w) actor repo (repositories (db w)) of
        (r, t) \<Rightarrow> (optionError r, w\<lparr>calls := Suc (calls w), db := (db w)\<lparr>repositories := t\<rparr>\<rparr>))"

definition repoChangeFile :: "Repository \<Rightarrow> User \<Rightarrow> string \<Rightarrow> string \<Rightarrow> string \<Rightarrow> string option prog" where
  "repoChangeFile repo actor message treePath content w =
     (changeRepoFiles (env w) (calls w) repo actor message treePath content, w\<lparr>calls := Suc (calls w)\<rparr>)"

section \<open>Idioms\<close>

text \<open>
  The three shapes nearly every call has: a load whose error is wrapped and whose absence is
  a sentinel error, a guarded update that must hit exactly one row, an insert whose error is
  wrapped.
\<close>

definition mustGet :: "string \<Rightarrow> error \<Rightarrow> ('r \<Rightarrow> int) \<Rightarrow> (database \<Rightarrow> 'r table) \<Rightarrow> int \<Rightarrow> 'r prog" where
  "mustGet msg missing idf sel i =
     andThen (onErr (Errorf msg) (getByID idf sel i)) (\<lambda>found. case found of None \<Rightarrow> raise missing | Some r \<Rightarrow> ret r)"

definition mustUpdate ::
  "string \<Rightarrow> error \<Rightarrow> (database \<Rightarrow> 'r table) \<Rightarrow> (('r table \<Rightarrow> 'r table) \<Rightarrow> database \<Rightarrow> database) \<Rightarrow>
   ('r \<Rightarrow> bool) \<Rightarrow> (TimeStamp \<Rightarrow> 'r \<Rightarrow> 'r) \<Rightarrow> unit prog" where
  "mustUpdate msg conflict sel upd P f =
     andThen (onErr (Errorf msg) (updateRows sel upd P f)) (\<lambda>updated. if updated \<noteq> 1 then raise conflict else ret ())"

definition mustInsert ::
  "string \<Rightarrow> (database \<Rightarrow> 'r table) \<Rightarrow> (('r table \<Rightarrow> 'r table) \<Rightarrow> database \<Rightarrow> database) \<Rightarrow>
   (int \<Rightarrow> 'r \<Rightarrow> 'r) \<Rightarrow> (TimeStamp \<Rightarrow> 'r \<Rightarrow> 'r) \<Rightarrow> ('r \<Rightarrow> 'r \<Rightarrow> bool) \<Rightarrow> 'r \<Rightarrow> 'r prog" where
  "mustInsert msg sel upd setId stamp clash r = onErr (Errorf msg) (insertRow sel upd setId stamp clash r)"

section \<open>Execution and inversion\<close>

lemma currentUnix_simps [simp]:
  "currentUnix (w\<lparr>db := d\<rparr>) = currentUnix w"
  "currentUnix (w\<lparr>calls := n\<rparr>) = currentUnix w"
  "currentUnix (w\<lparr>sent := h\<rparr>) = currentUnix w"
  by (simp_all add: currentUnix_def)

lemma timeNow_run [run_simps]:
  "timeNow w = (Inr t, w') \<longleftrightarrow> t = clock (env w) (ticks w) \<and> w' = w\<lparr>ticks := Suc (ticks w)\<rparr>"
  by (auto simp: timeNow_def)

lemma timeStampNow_run [run_simps]:
  "timeStampNow w = (Inr t, w') \<longleftrightarrow> t = currentUnix w \<and> w' = w\<lparr>ticks := Suc (ticks w)\<rparr>"
  by (auto simp: timeStampNow_def timeNow_def ret_def andThen_def currentUnix_def)

lemma askEnv_run [run_simps]: "askEnv f w = (Inr a, w') \<longleftrightarrow> a = f (env w) \<and> w' = w"
  by (auto simp: askEnv_def)

lemma ctxDone_run [run_simps]:
  "ctxDone w = (Inr a, w') \<longleftrightarrow> a = cancelled (env w) (calls w) \<and> w' = w"
  by (auto simp: ctxDone_def)

lemma query_run [run_simps]:
  "query q w = (Inr a, w') \<longleftrightarrow>
     \<not> faults (env w) (calls w) \<and> a = q (db w) \<and> w' = w\<lparr>calls := Suc (calls w)\<rparr>"
  by (auto simp: query_def dbCall_def Let_def)

lemma getByID_run [run_simps]:
  "getByID idf sel i w = (Inr a, w') \<longleftrightarrow>
     \<not> faults (env w) (calls w) \<and> a = tblGet idf i (sel (db w)) \<and> w' = w\<lparr>calls := Suc (calls w)\<rparr>"
  by (simp add: getByID_def query_run)

lemma getFirst_run [run_simps]:
  "getFirst sel P w = (Inr a, w') \<longleftrightarrow>
     \<not> faults (env w) (calls w) \<and> a = tblFirst P (sel (db w)) \<and> w' = w\<lparr>calls := Suc (calls w)\<rparr>"
  by (simp add: getFirst_def query_run)

lemma findRows_run [run_simps]:
  "findRows sel P w = (Inr a, w') \<longleftrightarrow>
     \<not> faults (env w) (calls w) \<and> a = tblFind P (sel (db w)) \<and> w' = w\<lparr>calls := Suc (calls w)\<rparr>"
  by (simp add: findRows_def query_run)

lemma countRows_run [run_simps]:
  "countRows sel P w = (Inr a, w') \<longleftrightarrow>
     \<not> faults (env w) (calls w) \<and> a = tblCount P (sel (db w)) \<and> w' = w\<lparr>calls := Suc (calls w)\<rparr>"
  by (simp add: countRows_def query_run)

lemma updateRows_run [run_simps]:
  "updateRows sel upd P f w = (Inr n, w') \<longleftrightarrow>
     \<not> faults (env w) (calls w) \<and> n = tblCount P (sel (db w)) \<and>
     w' = w\<lparr>calls := Suc (calls w), db := upd (\<lambda>_. tblUpdate P (f (currentUnix w)) (sel (db w))) (db w)\<rparr>"
  by (auto simp: updateRows_def dbCall_def Let_def)

lemma insertRow_run [run_simps]:
  "insertRow sel upd setId stamp clash r w = (Inr r', w') \<longleftrightarrow>
     \<not> faults (env w) (calls w) \<and>
     (\<exists>t'. tblInsert setId clash (stamp (currentUnix w) r) (sel (db w)) = Some (r', t') \<and>
           w' = w\<lparr>calls := Suc (calls w), db := upd (\<lambda>_. t') (db w)\<rparr>)"
  by (auto simp: insertRow_def dbCall_def Let_def split: option.splits prod.splits)

lemma deleteRows_run [run_simps]:
  "deleteRows sel upd P w = (Inr n, w') \<longleftrightarrow>
     \<not> faults (env w) (calls w) \<and> n = tblCount P (sel (db w)) \<and>
     w' = w\<lparr>calls := Suc (calls w), db := upd (\<lambda>_. tblDelete P (sel (db w))) (db w)\<rparr>"
  by (auto simp: deleteRows_def dbCall_def Let_def)

lemma withTx_run [run_simps]:
  "withTx f w = (Inr a, w') \<longleftrightarrow>
     \<not> faults (env w) (calls w) \<and>
     (\<exists>w2. f (w\<lparr>calls := Suc (calls w)\<rparr>) = (Inr a, w2) \<and>
           \<not> faults (env w2) (calls w2) \<and> w' = w2\<lparr>calls := Suc (calls w2)\<rparr>)"
  by (auto simp: withTx_def query_def dbCall_def Let_def split: prod.splits sum.splits)

lemma engineRequest_run [run_simps]:
  "engineRequest c respond w = (Inr a, w') \<longleftrightarrow>
     respond (env w) (sent w @ [c]) = Inr a \<and> w' = w\<lparr>sent := sent w @ [c]\<rparr>"
  by (auto simp: engineRequest_def Let_def)

lemma mustGet_run [run_simps]:
  "mustGet msg missing idf sel i w = (Inr r, w') \<longleftrightarrow>
     \<not> faults (env w) (calls w) \<and> tblGet idf i (sel (db w)) = Some r \<and> w' = w\<lparr>calls := Suc (calls w)\<rparr>"
  by (auto simp: mustGet_def run_simps)

lemma mustUpdate_run [run_simps]:
  "mustUpdate msg conflict sel upd P f w = (Inr u, w') \<longleftrightarrow>
     \<not> faults (env w) (calls w) \<and> tblCount P (sel (db w)) = 1 \<and>
     w' = w\<lparr>calls := Suc (calls w), db := upd (\<lambda>_. tblUpdate P (f (currentUnix w)) (sel (db w))) (db w)\<rparr>"
  by (auto simp: mustUpdate_def run_simps)

lemma mustInsert_run [run_simps]:
  "mustInsert msg sel upd setId stamp clash r w = (Inr r', w') \<longleftrightarrow>
     \<not> faults (env w) (calls w) \<and>
     (\<exists>t'. tblInsert setId clash (stamp (currentUnix w) r) (sel (db w)) = Some (r', t') \<and>
           w' = w\<lparr>calls := Suc (calls w), db := upd (\<lambda>_. t') (db w)\<rparr>)"
  by (simp add: mustInsert_def onErr_run insertRow_run)

lemma repoCreate_run [run_simps]:
  "repoCreate actor owner name description w = (Inr r, w') \<longleftrightarrow>
     (\<exists>t. createRepo (env w) (calls w) actor owner name description (repositories (db w)) = (Inr r, t) \<and>
          w' = w\<lparr>calls := Suc (calls w), db := (db w)\<lparr>repositories := t\<rparr>\<rparr>)"
  by (auto simp: repoCreate_def split: prod.splits)

lemma repoDelete_run [run_simps]:
  "repoDelete actor repo w = (Inr u, w') \<longleftrightarrow>
     (\<exists>t. deleteRepo (env w) (calls w) actor repo (repositories (db w)) = (None, t) \<and>
          w' = w\<lparr>calls := Suc (calls w), db := (db w)\<lparr>repositories := t\<rparr>\<rparr>)"
  by (auto simp: repoDelete_def optionError_def split: prod.splits option.splits)

lemma repoChangeFile_run [run_simps]:
  "repoChangeFile repo actor message treePath content w = (Inr c, w') \<longleftrightarrow>
     changeRepoFiles (env w) (calls w) repo actor message treePath content = Inr c \<and> w' = w\<lparr>calls := Suc (calls w)\<rparr>"
  by (auto simp: repoChangeFile_def)

text \<open>A failed transaction leaves the database as it was.\<close>

lemma withTx_error: "withTx f w = (Inl e, w') \<Longrightarrow> db w' = db w"
  by (auto simp: withTx_def query_def dbCall_def Let_def split: prod.splits sum.splits if_splits)

text \<open>Symbolic execution without failures, for evaluating closed examples.\<close>

lemmas call_exec [exec_simps] =
  timeNow_def timeStampNow_def askEnv_def dbCall_def query_def getByID_def getFirst_def findRows_def
  countRows_def updateRows_def insertRow_def deleteRows_def withTx_def engineRequest_def optionError_def
  engineUpload_def engineSetMetadata_def engineStartParsing_def engineGetDocumentStatus_def
  engineDeleteDocuments_def engineRetrieve_def mustGet_def mustUpdate_def mustInsert_def
  repoCreate_def repoDelete_def repoChangeFile_def ctxDone_def

section \<open>Frames\<close>

text \<open>
  A preorder \<open>D\<close> on databases, such as "keeps this invariant" or "does not touch this table",
  that the calls of an operation stay in. It extends the frame contract: \<open>within m\<close> says that
  every run of \<open>m\<close>, successful or not, leads from a database to one related by \<open>D\<close>. Reads, the
  clock and the engine are within every \<open>D\<close>; each component shows it for its writes.
\<close>

locale db_frame =
  fixes D :: "database \<Rightarrow> database \<Rightarrow> bool"
  assumes D_refl: "D d d"
    and D_trans: "D d e \<Longrightarrow> D e f \<Longrightarrow> D d f"

sublocale db_frame \<subseteq> frame "\<lambda>w w'. D (db w) (db w')"
  by unfold_locales (auto intro: D_refl D_trans)

context db_frame
begin

text \<open>For a transaction it is enough to look at the runs that returned a value.\<close>

lemma within_withTx:
  assumes "\<And>w a w'. f w = (Inr a, w') \<Longrightarrow> D (db w) (db w')"
  shows "within (withTx f)"
proof (rule withinI)
  fix w r w'
  assume run: "withTx f w = (r, w')"
  show "D (db w) (db w')"
  proof (cases r)
    case (Inl e)
    with run show ?thesis by (simp add: withTx_error D_refl)
  next
    case (Inr a)
    with run obtain w2 where "f (w\<lparr>calls := Suc (calls w)\<rparr>) = (Inr a, w2)"
      "w' = w2\<lparr>calls := Suc (calls w2)\<rparr>"
      by (auto simp: withTx_run)
    with assms [of "w\<lparr>calls := Suc (calls w)\<rparr>" a w2] show ?thesis by simp
  qed
qed

lemma within_withTx_body: "within f \<Longrightarrow> within (withTx f)"
  by (rule within_withTx) (rule withinD)

lemma within_same: "(\<And>w r w'. m w = (r, w') \<Longrightarrow> db w' = db w) \<Longrightarrow> within m"
  by (rule withinI) (metis D_refl)

lemma within_query: "within (query q)"
  by (rule within_same) (auto simp: query_def dbCall_def Let_def split: if_splits)

lemma within_engineRequest: "within (engineRequest c respond)"
  by (rule within_same) (auto simp: engineRequest_def Let_def)

lemma within_timeNow: "within timeNow"
  by (rule within_same) (auto simp: timeNow_def)

lemma within_askEnv: "within (askEnv f)"
  by (rule within_same) (auto simp: askEnv_def)

lemma within_ctxDone: "within ctxDone"
  by (rule within_same) (auto simp: ctxDone_def)

lemma within_repoChangeFile: "within (repoChangeFile repo actor message treePath content)"
  by (rule within_same) (auto simp: repoChangeFile_def)

lemma within_repoCreate:
  "(\<And>d t. D d (d\<lparr>repositories := t\<rparr>)) \<Longrightarrow> within (repoCreate actor owner name description)"
  by (rule withinI) (auto simp: repoCreate_def split: prod.splits)

lemma within_repoDelete: "(\<And>d t. D d (d\<lparr>repositories := t\<rparr>)) \<Longrightarrow> within (repoDelete actor repo)"
  by (rule withinI) (auto simp: repoDelete_def split: prod.splits)

lemma within_reads:
  "within (getByID idf sel i)" "within (getFirst sel' P')" "within (findRows sel'' P'')"
  "within (countRows sel3 P3)" "within timeStampNow" "within (mustGet msg missing idf4 sel4 i4)"
  unfolding getByID_def getFirst_def findRows_def countRows_def timeStampNow_def mustGet_def
  by (intro within_intros within_query within_timeNow)+

lemma within_engine:
  "within (engineUpload u)" "within (engineSetMetadata i m)" "within (engineStartParsing is)"
  "within (engineGetDocumentStatus i)" "within (engineDeleteDocuments is)" "within (engineRetrieve q)"
  unfolding engineUpload_def engineSetMetadata_def engineStartParsing_def engineGetDocumentStatus_def
    engineDeleteDocuments_def engineRetrieve_def by (rule within_engineRequest)+

lemma within_updateRows:
  assumes "\<And>now d. D d (upd (\<lambda>_. tblUpdate P (f now) (sel d)) d)"
  shows "within (updateRows sel upd P f)"
  by (rule withinI) (auto simp: updateRows_def dbCall_def Let_def assms D_refl split: if_splits)

lemma within_insertRow:
  assumes "\<And>now d r' t'. tblInsert setId clash (stamp now r) (sel d) = Some (r', t') \<Longrightarrow> D d (upd (\<lambda>_. t') d)"
  shows "within (insertRow sel upd setId stamp clash r)"
  by (rule withinI) (auto simp: insertRow_def dbCall_def Let_def assms D_refl split: if_splits option.splits)

lemma within_deleteRows:
  assumes "\<And>d. D d (upd (\<lambda>_. tblDelete P (sel d)) d)"
  shows "within (deleteRows sel upd P)"
  by (rule withinI) (auto simp: deleteRows_def dbCall_def Let_def assms D_refl split: if_splits)

lemma within_mustUpdate:
  assumes "\<And>now d. D d (upd (\<lambda>_. tblUpdate P (f now) (sel d)) d)"
  shows "within (mustUpdate msg conflict sel upd P f)"
  unfolding mustUpdate_def by (intro within_intros within_updateRows assms)

lemma within_mustInsert:
  assumes "\<And>now d r' t'. tblInsert setId clash (stamp now r) (sel d) = Some (r', t') \<Longrightarrow> D d (upd (\<lambda>_. t') d)"
  shows "within (mustInsert msg sel upd setId stamp clash r)"
  unfolding mustInsert_def by (intro within_intros within_insertRow assms)

lemmas call_intros = within_intros within_query within_reads within_engine within_engineRequest within_timeNow
  within_askEnv within_ctxDone within_repoChangeFile

end

text \<open>
  A preorder on worlds that only looks at the environment and the requests sent to the engine.
  It may be restricted to the states with \<open>pre\<close>; outside it holds trivially, so that what a
  call returned in such a state can be used for the calls after it (\<open>within_then\<close>).
\<close>

locale sent_frame = frame R for R :: "world \<Rightarrow> world \<Rightarrow> bool" +
  fixes pre :: "world \<Rightarrow> bool"
  assumes R_quiet: "env w' = env w \<Longrightarrow> sent w' = sent w \<Longrightarrow> R w w'"
    and R_vacuous: "\<not> pre w \<Longrightarrow> R w w'"
begin

lemma within_then:
  assumes "within m" "\<And>w a w'. pre w \<Longrightarrow> m w = (Inr a, w') \<Longrightarrow> within (k a)"
  shows "within (andThen m k)"
proof (rule withinI)
  fix w r w2
  assume run: "andThen m k w = (r, w2)"
  show "R w w2"
  proof (cases "pre w")
    case True
    show ?thesis
    proof (cases "m w")
      case (Pair x w1)
      with assms(1) have "R w w1" by (rule withinD)
      with Pair run True assms(2) [of w _ w1] show ?thesis
        by (cases x) (auto simp: andThen_def dest: withinD intro: R_trans)
    qed
  qed (rule R_vacuous)
qed

lemma within_quiet: "(\<And>w r w'. m w = (r, w') \<Longrightarrow> env w' = env w \<and> sent w' = sent w) \<Longrightarrow> within m"
  by (rule withinI) (metis R_quiet)

lemma within_dbCall: "within (dbCall f)"
  by (rule within_quiet) (auto simp: dbCall_def Let_def split: if_splits sum.splits)

lemma within_clock: "within timeNow" "within timeStampNow"
proof -
  show "within timeNow" by (rule within_quiet) (auto simp: timeNow_def)
  then show "within timeStampNow" unfolding timeStampNow_def by (intro within_intros)
qed

lemma within_askEnv: "within (askEnv f)"
  by (rule within_quiet) (auto simp: askEnv_def)

lemma within_withTx:
  assumes "within f"
  shows "within (withTx f)"
proof (rule withinI)
  fix w r w'
  assume run: "withTx f w = (r, w')"
  have restore: "R v (v\<lparr>db := d\<rparr>)" "R v (v\<lparr>calls := n\<rparr>)" for v d n
    by (auto intro: R_quiet)
  have body: "R w v" if "f (w\<lparr>calls := Suc (calls w)\<rparr>) = (x, v)" for x v
    using withinD [OF assms that] restore(2) R_trans by metis
  show "R w w'"
  proof (cases "f (w\<lparr>calls := Suc (calls w)\<rparr>)")
    case (Pair x v)
    have "R v (v\<lparr>calls := n, db := d\<rparr>)" for n d
      by (auto intro: R_quiet)
    then have "R w v" "R w (v\<lparr>db := d\<rparr>)" "R w (v\<lparr>calls := n\<rparr>)" "R w (v\<lparr>calls := n, db := d\<rparr>)" for n d
      using body [OF Pair] restore R_trans by metis+
    with Pair run restore [of w] show ?thesis
      by (auto simp: withTx_def query_def dbCall_def Let_def split: if_splits sum.splits)
  qed
qed

lemma within_engineRequest: "(\<And>w. R w (w\<lparr>sent := sent w @ [c]\<rparr>)) \<Longrightarrow> within (engineRequest c respond)"
  by (rule withinI) (auto simp: engineRequest_def Let_def)

lemma within_calls:
  "within (query q)" "within (getByID idf sel i)" "within (getFirst sel' P')" "within (findRows sel'' P'')"
  "within (countRows sel3 P3)" "within (updateRows sel4 upd4 P4 f4)" "within (insertRow sel5 upd5 setId5 stamp5 clash5 r5)"
  "within (deleteRows sel6 upd6 P6)"
  unfolding query_def getByID_def getFirst_def findRows_def countRows_def updateRows_def insertRow_def deleteRows_def
  by (rule within_dbCall)+

lemma within_musts:
  "within (mustGet msg missing idf sel i)" "within (mustUpdate msg2 conflict sel2 upd2 P2 f2)"
  "within (mustInsert msg3 sel3 upd3 setId3 stamp3 clash3 r3)"
  unfolding mustGet_def mustUpdate_def mustInsert_def by (intro within_intros within_calls)+

lemma within_ctxDone: "within ctxDone"
  by (rule within_quiet) (auto simp: ctxDone_def)

lemma within_repository:
  "within (repoCreate actor owner name description)" "within (repoDelete actor repo)"
  "within (repoChangeFile repo actor message treePath content)"
  by (rule within_quiet; auto simp: repoCreate_def repoDelete_def repoChangeFile_def split: prod.splits)+

lemmas sent_intros = within_intros within_calls within_musts within_clock within_askEnv within_ctxDone
  within_repository within_withTx

end

text \<open>The relation of a run that leaves the database as it was.\<close>

interpretation unchanged: db_frame "\<lambda>d d'. d' = d"
  by unfold_locales auto

end
