(* ===== verification/Lifecycle.thy ===== *)
theory Lifecycle
  imports World
begin

text \<open>
  The pure rules of the model package: the lifecycle table and the publication test of
  \<^verbatim>\<open>models/knowledge/state.go\<close>, the text checks of \<^verbatim>\<open>models/knowledge/validation.go\<close> and the
  operation key of \<^verbatim>\<open>models/knowledge/approval.go\<close>.

  The lemmas show what the table allows along whole paths, that an accepted trace identifier
  or governance text has no separator or control character, that generated trace identifiers
  are always accepted, and that operation keys are injective.
\<close>

section \<open>state.go\<close>

record LifecycleState =
  lc_Governance :: GovernanceStatus
  lc_Validity :: ValidityStatus
  lc_Index :: IndexStatus

abbreviation lcs :: "GovernanceStatus \<Rightarrow> ValidityStatus \<Rightarrow> IndexStatus \<Rightarrow> LifecycleState" where
  "lcs g v i \<equiv> \<lparr>lc_Governance = g, lc_Validity = v, lc_Index = i\<rparr>"

definition allowedEdges :: "(LifecycleState \<times> LifecycleState) list" where
  "allowedEdges =
    [(lcs GovernanceStatusDraft ValidityStatusUnpublished IndexStatusUnindexed,
      lcs GovernanceStatusPending ValidityStatusUnpublished IndexStatusUnindexed),
     (lcs GovernanceStatusPending ValidityStatusUnpublished IndexStatusUnindexed,
      lcs GovernanceStatusRejected ValidityStatusUnpublished IndexStatusUnindexed),
     (lcs GovernanceStatusPending ValidityStatusUnpublished IndexStatusUnindexed,
      lcs GovernanceStatusApproved ValidityStatusScheduled IndexStatusUnindexed),
     (lcs GovernanceStatusApproved ValidityStatusScheduled IndexStatusUnindexed,
      lcs GovernanceStatusApproved ValidityStatusScheduled IndexStatusQueued),
     (lcs GovernanceStatusApproved ValidityStatusScheduled IndexStatusQueued,
      lcs GovernanceStatusApproved ValidityStatusScheduled IndexStatusIndexing),
     (lcs GovernanceStatusApproved ValidityStatusScheduled IndexStatusIndexing,
      lcs GovernanceStatusApproved ValidityStatusScheduled IndexStatusEvaluation),
     (lcs GovernanceStatusApproved ValidityStatusScheduled IndexStatusEvaluation,
      lcs GovernanceStatusApproved ValidityStatusCurrent IndexStatusSearchable),
     (lcs GovernanceStatusApproved ValidityStatusCurrent IndexStatusSearchable,
      lcs GovernanceStatusApproved ValidityStatusUnpublished IndexStatusSearchable),
     (lcs GovernanceStatusApproved ValidityStatusUnpublished IndexStatusSearchable,
      lcs GovernanceStatusApproved ValidityStatusUnpublished IndexStatusDeleting),
     (lcs GovernanceStatusApproved ValidityStatusUnpublished IndexStatusDeleting,
      lcs GovernanceStatusApproved ValidityStatusUnpublished IndexStatusDeleted),
     (lcs GovernanceStatusApproved ValidityStatusScheduled IndexStatusIndexing,
      lcs GovernanceStatusApproved ValidityStatusScheduled IndexStatusFailed),
     (lcs GovernanceStatusApproved ValidityStatusScheduled IndexStatusFailed,
      lcs GovernanceStatusApproved ValidityStatusScheduled IndexStatusQueued)]"

definition canTransition :: "LifecycleState \<Rightarrow> LifecycleState \<Rightarrow> bool" where
  "canTransition from to \<longleftrightarrow> list_ex (\<lambda>edge. fst edge = from \<and> snd edge = to) allowedEdges"

definition isPublished :: "Publication option \<Rightarrow> TimeStamp \<Rightarrow> int \<Rightarrow> int \<Rightarrow> bool" where
  "isPublished po now currentPublicationID currentRevocationGeneration =
     (case po of None \<Rightarrow> False
      | Some p \<Rightarrow>
          if pub_ID p \<le> 0 \<or> \<not> pub_IsCurrent p then False
          else if pub_GovernanceStatus p \<noteq> GovernanceStatusApproved \<or> pub_ValidityStatus p \<noteq> ValidityStatusCurrent \<or>
                  pub_IndexStatus p \<noteq> IndexStatusSearchable then False
          else if pub_ID p \<noteq> currentPublicationID \<or> pub_RevocationGeneration p \<noteq> currentRevocationGeneration then False
          else if pub_EffectiveUnix p > 0 \<and> now < pub_EffectiveUnix p then False
          else pub_ExpiresUnix p = 0 \<or> now < pub_ExpiresUnix p)"

lemma canTransition_edges: "canTransition from to \<longleftrightarrow> (from, to) \<in> set allowedEdges"
  by (force simp: canTransition_def list_ex_iff)

lemmas canTransition_simp = canTransition_edges allowedEdges_def

text \<open>
  Once a publication is withdrawn from validity while indexed, every further path stays
  there: only the derived index is cleaned up.
\<close>

definition withdrawnState :: "LifecycleState \<Rightarrow> bool" where
  "withdrawnState s \<longleftrightarrow> lc_Governance s = GovernanceStatusApproved \<and> lc_Validity s = ValidityStatusUnpublished"

lemma canTransition_withdrawn: "canTransition s t \<Longrightarrow> withdrawnState s \<Longrightarrow> withdrawnState t"
  by (auto simp: canTransition_simp withdrawnState_def)

lemma withdrawn_forever: "canTransition\<^sup>*\<^sup>* s t \<Longrightarrow> withdrawnState s \<Longrightarrow> withdrawnState t"
  by (induction rule: rtranclp_induct) (auto dest: canTransition_withdrawn)

text \<open>The searchable state has one predecessor: a scheduled, approved, evaluated snapshot.\<close>

lemma canTransition_to_current:
  "canTransition s t \<Longrightarrow> lc_Validity t = ValidityStatusCurrent \<Longrightarrow>
   s = lcs GovernanceStatusApproved ValidityStatusScheduled IndexStatusEvaluation \<and>
   t = lcs GovernanceStatusApproved ValidityStatusCurrent IndexStatusSearchable"
  by (auto simp: canTransition_simp)

lemma canTransition_approval:
  "canTransition s t \<Longrightarrow> lc_Governance t = GovernanceStatusApproved \<Longrightarrow> lc_Governance s \<noteq> GovernanceStatusApproved \<Longrightarrow>
   lc_Governance s = GovernanceStatusPending \<and> lc_Validity t = ValidityStatusScheduled \<and> lc_Index t = IndexStatusUnindexed"
  by (auto simp: canTransition_simp)

lemma isPublishedD:
  assumes "isPublished (Some p) now current revocation"
  shows "pub_IsCurrent p" "pub_GovernanceStatus p = GovernanceStatusApproved"
    "pub_ValidityStatus p = ValidityStatusCurrent" "pub_IndexStatus p = IndexStatusSearchable"
    "pub_ID p = current" "pub_RevocationGeneration p = revocation"
    "pub_EffectiveUnix p \<le> 0 \<or> pub_EffectiveUnix p \<le> now" "pub_ExpiresUnix p = 0 \<or> now < pub_ExpiresUnix p"
  using assms by (auto simp: isPublished_def split: if_splits)

text \<open>Publication is an interval of time: expiry is final, and effectiveness does not lapse.\<close>

lemma isPublished_expired:
  "\<not> isPublished (Some p) t current revocation \<Longrightarrow> isPublished (Some p) t0 current revocation \<Longrightarrow> t0 \<le> t \<Longrightarrow>
   t \<le> t' \<Longrightarrow> \<not> isPublished (Some p) t' current revocation"
  by (auto simp: isPublished_def split: if_splits)

section \<open>validation.go\<close>

definition maxGovernanceTextBytes :: nat where
  "maxGovernanceTextBytes = 1024"

definition maxTraceIDBytes :: nat where
  "maxTraceIDBytes = 128"

definition validTraceID :: "string \<Rightarrow> bool" where
  "validTraceID s \<longleftrightarrow> length s > 0 \<and> length s \<le> maxTraceIDBytes \<and> s = trimSpace s \<and> isToken s"

definition sensitiveMarkers :: "string list" where
  "sensitiveMarkers = [''api_key'', ''apikey'', ''secret'', ''password'', ''token='', ''private key'']"

definition validGovernanceText :: "string \<Rightarrow> bool \<Rightarrow> bool" where
  "validGovernanceText s allowEmpty =
     (if s \<noteq> trimSpace s then False
      else if s = '''' then allowEmpty
      else if length s > maxGovernanceTextBytes \<or> hasControl s then False
      else if containsAny s [CHR 0x5C, CHR ''/'', CHR '':''] then False
      else \<not> list_ex (\<lambda>marker. containsStr (toLower s) marker) sensitiveMarkers)"

lemma validTraceID_token: "validTraceID s \<longleftrightarrow> isToken s \<and> length s \<le> 128"
proof
  show "validTraceID s \<Longrightarrow> isToken s \<and> length s \<le> 128"
    by (simp add: validTraceID_def maxTraceIDBytes_def)
  show "isToken s \<and> length s \<le> 128 \<Longrightarrow> validTraceID s"
    by (cases s) (simp_all add: validTraceID_def maxTraceIDBytes_def trimSpace_token)
qed

lemma validGovernanceText_safe:
  assumes "validGovernanceText s allowEmpty"
  shows "length s \<le> 1024" "\<not> containsAny s [CHR 0x5C, CHR ''/'', CHR '':'']"
    "\<forall>marker \<in> set sensitiveMarkers. \<not> containsStr (toLower s) marker"
  using assms
  by (auto simp: validGovernanceText_def maxGovernanceTextBytes_def containsAny_def list_ex_iff
      sensitiveMarkers_def toLower_def split: if_splits)

text \<open>
  A generated trace identifier \<open>prefix-id-nanoseconds\<close> passes the check whatever the numbers.
\<close>

lemma token_append: "isToken s \<Longrightarrow> list_all isTokenChar t \<Longrightarrow> isToken (s @ t)"
  by (cases s) auto

lemma generated_traceID:
  assumes "isToken p" "length p \<le> 40" "- (2 ^ 63) \<le> i" "i < 2 ^ 63" "- (2 ^ 63) \<le> t" "t < 2 ^ 63"
  shows "validTraceID (p @ itoa i @ ''-'' @ itoa t)"
proof -
  have "length (itoa i) \<le> 20" "length (itoa t) \<le> 20"
    using assms by (simp_all add: itoa_length)
  then show ?thesis
    using assms itoa_tokenChars [of i] itoa_tokenChars [of t]
    by (simp add: validTraceID_token token_append isTokenChar_def)
qed

section \<open>Operation keys\<close>

record IndexIdempotencyKeyInput =
  ik_OwnerID :: int
  ik_SpaceID :: int
  ik_PublicationID :: int
  ik_Generation :: int
  ik_RevisionSHA256 :: string
  ik_EngineProfileVersion :: string
  ik_JobType :: IndexJobType

definition buildIndexIdempotencyKey :: "IndexIdempotencyKeyInput \<Rightarrow> string" where
  "buildIndexIdempotencyKey input =
     itoa (ik_OwnerID input) @ '':'' @ itoa (ik_SpaceID input) @ '':'' @ itoa (ik_PublicationID input) @ '':'' @
     itoa (ik_Generation input) @ '':'' @ toLower (ik_RevisionSHA256 input) @ '':'' @
     ik_EngineProfileVersion input @ '':'' @ indexJobTypeStr (ik_JobType input)"

lemma colon_free: "list_all isTokenChar s \<Longrightarrow> CHR '':'' \<notin> set s"
  by (auto simp: list_all_iff isTokenChar_def isAlnum_def isDigit_def)

lemma indexJobTypeStr_colon: "CHR '':'' \<notin> set (indexJobTypeStr j)"
  by (cases j) simp_all

lemma indexJobTypeStr_inject [simp]: "indexJobTypeStr i = indexJobTypeStr j \<longleftrightarrow> i = j"
  by (cases i; cases j) simp_all

text \<open>
  Different operations have different keys: the key determines owner, space, publication,
  generation, content digest, engine profile and job type, even when the configured profile
  name contains the separator.
\<close>

lemma buildIndexIdempotencyKey_inject:
  assumes key: "buildIndexIdempotencyKey a = buildIndexIdempotencyKey b"
    and a: "ik_RevisionSHA256 a = hexEncode x" and b: "ik_RevisionSHA256 b = hexEncode y"
  shows "a = b"
proof -
  have free: "CHR '':'' \<notin> set (itoa i)" for i
    by (rule colon_free) (rule itoa_tokenChars)
  have hex: "CHR '':'' \<notin> set (hexEncode d)" for d
    using hexEncode_alnum [of d] by (intro colon_free) (auto simp: list_all_iff)
  note sep = sep_first [where c = "CHR '':''"]
  have "ik_OwnerID a = ik_OwnerID b \<and> ik_SpaceID a = ik_SpaceID b \<and> ik_PublicationID a = ik_PublicationID b \<and>
        ik_Generation a = ik_Generation b \<and> x = y \<and>
        ik_EngineProfileVersion a @ CHR '':'' # indexJobTypeStr (ik_JobType a) =
        ik_EngineProfileVersion b @ CHR '':'' # indexJobTypeStr (ik_JobType b)"
    using key by (simp add: buildIndexIdempotencyKey_def a b toLower_hexEncode sep free hex)
  moreover from this have "ik_EngineProfileVersion a = ik_EngineProfileVersion b \<and>
      indexJobTypeStr (ik_JobType a) = indexJobTypeStr (ik_JobType b)"
    by (intro sep_last [OF indexJobTypeStr_colon indexJobTypeStr_colon]) simp
  ultimately show ?thesis
    using a b by simp
qed

end
