(* ===== verification/Go_Json.thy ===== *)
theory Go_Json
  imports Go_Strings "HOL-Library.List_Lexorder" "HOL-Library.Char_ord"
begin

text \<open>
  \<open>encoding/json\<close> as the knowledge code uses it to encode: \<open>jsonQuote\<close> is the escaping of a
  string (with the default HTML escapes) and \<open>jsonMap\<close> a map with string keys, whose members
  \<open>json.Marshal\<close> writes in the order of the keys.
\<close>

definition quoteRune :: "nat \<times> string \<Rightarrow> string" where
  "quoteRune rb =
     (let r = fst rb; bs = snd rb; bslash = CHR 0x5C in
      if r = 34 \<or> r = 92 then bslash # bs
      else if r = 8 then [bslash, CHR ''b''] else if r = 12 then [bslash, CHR ''f'']
      else if r = 10 then [bslash, CHR ''n''] else if r = 13 then [bslash, CHR ''r'']
      else if r = 9 then [bslash, CHR ''t'']
      else if r < 32 \<or> r = 60 \<or> r = 62 \<or> r = 38 then
        bslash # ''u00'' @ [hexDigit (r div 16), hexDigit (r mod 16)]
      else if r = 65533 \<and> length bs = 1 then bslash # ''ufffd''
      else if r = 8232 then bslash # ''u2028'' else if r = 8233 then bslash # ''u2029''
      else bs)"

definition jsonQuote :: "string \<Rightarrow> string" where
  "jsonQuote s = CHR 0x22 # concat (map quoteRune (runes s)) @ [CHR 0x22]"

fun joinStr :: "string \<Rightarrow> string list \<Rightarrow> string" where
  "joinStr sep [] = []"
| "joinStr sep [x] = x"
| "joinStr sep (x # y # xs) = x @ sep @ joinStr sep (y # xs)"

text \<open>The members are given with their encoded values.\<close>

definition jsonMap :: "(string \<times> string) list \<Rightarrow> string" where
  "jsonMap kvs =
     ''{'' @ joinStr '','' (map (\<lambda>(k, v). jsonQuote k @ '':'' @ v) (sort_key fst kvs)) @ ''}''"

lemmas json_eval [eval_simps] = quoteRune_def jsonQuote_def jsonMap_def

lemma jsonQuote_plain:
  assumes "list_all (\<lambda>c. isAlnum c \<or> c = CHR ''_'') s"
  shows "jsonQuote s = CHR 0x22 # s @ [CHR 0x22]"
proof -
  have "isAlnum c \<or> c = CHR ''_'' \<Longrightarrow> (of_char c :: nat) < 128" for c
    by (auto simp: isAlnum_def isDigit_def)
  then have "ascii s" using assms by (auto simp: ascii_def list_all_iff)
  moreover have "concat (map (\<lambda>c. quoteRune (of_char c, [c])) s) = s"
    using assms
    by (induction s) (auto simp: quoteRune_def Let_def isAlnum_def isDigit_def)
  ultimately show ?thesis
    by (simp add: jsonQuote_def runes_ascii comp_def)
qed

section \<open>Parsing\<close>

text \<open>
  \<open>jsonParse\<close> is the value \<open>json.Unmarshal\<close> sees: the whole input is one value with space around
  it. Strings are decoded (escapes, surrogate pairs, U+FFFD for invalid bytes), numbers are kept as
  their literal text, objects keep the members in order with duplicates. Nesting is limited to
  10000 as in the source's scanner.

  The comparisons of lengths in the equations below hold whenever they are reached, since every
  parser consumes input; they make the recursion descend visibly.
\<close>

datatype json =
    JNull
  | JBool bool
  | JNum string
  | JStr string
  | JArr "json list"
  | JObj "(string \<times> json) list"

definition jsonSpace :: "char \<Rightarrow> bool" where
  "jsonSpace c \<longleftrightarrow> c = CHR '' '' \<or> of_char c = (9 :: nat) \<or> of_char c = (10 :: nat) \<or> of_char c = (13 :: nat)"

definition skipSpace :: "string \<Rightarrow> string" where
  "skipSpace s = dropWhile jsonSpace s"

subsection \<open>Strings\<close>

definition hex4 :: "string \<Rightarrow> nat option" where
  "hex4 s =
     (case s of
        a # b # c # d # _ \<Rightarrow>
          (case (hexVal a, hexVal b, hexVal c, hexVal d) of
             (Some w, Some x, Some y, Some z) \<Rightarrow> Some (w * 4096 + x * 256 + y * 16 + z)
           | _ \<Rightarrow> None)
      | _ \<Rightarrow> None)"

definition isSurrogate :: "nat \<Rightarrow> bool" where
  "isSurrogate r \<longleftrightarrow> 55296 \<le> r \<and> r \<le> 57343"

text \<open>\<open>utf16.DecodeRune\<close>: the rune of a surrogate pair, or nothing.\<close>

definition surrogatePair :: "nat \<Rightarrow> nat \<Rightarrow> nat option" where
  "surrogatePair a b =
     (if 55296 \<le> a \<and> a \<le> 56319 \<and> 56320 \<le> b \<and> b \<le> 57343
      then Some ((a - 55296) * 1024 + (b - 56320) + 65536) else None)"

definition simpleEscape :: "char \<Rightarrow> char option" where
  "simpleEscape c =
     (let n = of_char c :: nat in
      if n = 34 \<or> n = 92 \<or> n = 47 then Some c
      else if n = 98 then Some (char_of (8 :: nat)) else if n = 102 then Some (char_of (12 :: nat))
      else if n = 110 then Some (char_of (10 :: nat)) else if n = 114 then Some (char_of (13 :: nat))
      else if n = 116 then Some (char_of (9 :: nat)) else None)"

text \<open>The bytes after the opening quote: the decoded string and the rest after the closing quote.\<close>

function parseString :: "string \<Rightarrow> (string \<times> string) option" where
  "parseString s =
     (case s of [] \<Rightarrow> None
      | c # cs \<Rightarrow>
        (let n = of_char c :: nat in
         if n = 34 then Some ([], cs)
         else if n < 32 then None
         else if n = 92 then
           (case cs of [] \<Rightarrow> None
            | e # es \<Rightarrow>
              if e = CHR ''u'' then
                (case hex4 es of None \<Rightarrow> None
                 | Some r \<Rightarrow>
                   (let plain = map_option (apfst ((@) (utf8Encode (if isSurrogate r then 65533 else r)))) (parseString (drop 4 es)) in
                    case drop 4 es of
                      b # u # hs \<Rightarrow>
                        if isSurrogate r \<and> of_char b = (92 :: nat) \<and> u = CHR ''u'' then
                          (case hex4 hs of None \<Rightarrow> plain
                           | Some r2 \<Rightarrow>
                             (case surrogatePair r r2 of None \<Rightarrow> plain
                              | Some p \<Rightarrow> map_option (apfst ((@) (utf8Encode p))) (parseString (drop 4 hs))))
                        else plain
                    | _ \<Rightarrow> plain))
              else
                (case simpleEscape e of None \<Rightarrow> None
                 | Some d \<Rightarrow> map_option (apfst (Cons d)) (parseString es)))
         else if n < 128 then map_option (apfst (Cons c)) (parseString cs)
         else
           (let k = snd (decodeRune c cs); r = fst (decodeRune c cs) in
            map_option (apfst ((@) (if r = 65533 \<and> k = 1 then utf8Encode 65533 else c # take (k - 1) cs)))
              (parseString (drop (k - 1) cs)))))"
  by pat_completeness auto
termination
  by (relation "measure length") (auto dest!: arg_cong [where f = length])

subsection \<open>Numbers\<close>

definition spanDigits :: "string \<Rightarrow> string \<times> string" where
  "spanDigits s = (takeWhile isDigit s, dropWhile isDigit s)"

text \<open>\<^verbatim>\<open>-?(0|[1-9][0-9]*)(.[0-9]+)?([eE][+-]?[0-9]+)?\<close>: the literal and the rest.\<close>

definition parseFraction :: "string \<Rightarrow> (string \<times> string) option" where
  "parseFraction s =
     (case s of c # cs \<Rightarrow>
        if c = CHR ''.'' then
          (let (ds, rest) = spanDigits cs in if ds = [] then None else Some (c # ds, rest))
        else Some ([], s)
      | [] \<Rightarrow> Some ([], []))"

definition parseExponent :: "string \<Rightarrow> (string \<times> string) option" where
  "parseExponent s =
     (case s of c # cs \<Rightarrow>
        if c = CHR ''e'' \<or> c = CHR ''E'' then
          (let sign = (case cs of x # _ \<Rightarrow> if x = CHR ''+'' \<or> x = CHR ''-'' then [x] else [] | [] \<Rightarrow> []);
               (ds, rest) = spanDigits (drop (length sign) cs)
           in if ds = [] then None else Some (c # sign @ ds, rest))
        else Some ([], s)
      | [] \<Rightarrow> Some ([], []))"

definition parseNumber :: "string \<Rightarrow> (string \<times> string) option" where
  "parseNumber s =
     (let sign = (case s of c # _ \<Rightarrow> if c = CHR ''-'' then [c] else [] | [] \<Rightarrow> []);
          body = drop (length sign) s;
          (ds0, rest0) = spanDigits body;
          (ds, rest) = (if hasPrefix ds0 ''0'' then (''0'', drop 1 ds0 @ rest0) else (ds0, rest0))
      in if ds = [] then None
         else case parseFraction rest of None \<Rightarrow> None | Some (fr, rest1) \<Rightarrow>
              (case parseExponent rest1 of None \<Rightarrow> None | Some (ex, rest2) \<Rightarrow>
                Some (sign @ ds @ fr @ ex, rest2)))"

subsection \<open>Values\<close>

lemma skipSpace_length: "length (skipSpace s) \<le> length s"
  by (simp add: skipSpace_def length_dropWhile_le)

lemma skipSpace_Cons: "skipSpace s = c # cs \<Longrightarrow> length cs < length s"
  using skipSpace_length [of s] by simp

definition afterSpace :: "char \<Rightarrow> string \<Rightarrow> string option" where
  "afterSpace c s = (case skipSpace s of [] \<Rightarrow> None | x # xs \<Rightarrow> if x = c then Some xs else None)"

lemma afterSpace_length: "afterSpace c s = Some t \<Longrightarrow> length t < length s"
  by (auto simp: afterSpace_def dest: skipSpace_Cons split: list.splits if_splits)

function
  parseValue :: "nat \<Rightarrow> string \<Rightarrow> (json \<times> string) option" and
  parseElems :: "nat \<Rightarrow> string \<Rightarrow> (json list \<times> string) option" and
  parseMembers :: "nat \<Rightarrow> string \<Rightarrow> ((string \<times> json) list \<times> string) option" where
  "parseValue d s =
     (case skipSpace s of [] \<Rightarrow> None
      | c # cs \<Rightarrow>
        if of_char c = (34 :: nat) then map_option (apfst JStr) (parseString cs)
        else if c = CHR ''{'' then
          (case d of 0 \<Rightarrow> None
           | Suc e \<Rightarrow> (case afterSpace (CHR ''}'') cs of Some rest \<Rightarrow> Some (JObj [], rest)
                       | None \<Rightarrow> map_option (apfst JObj) (parseMembers e cs)))
        else if c = CHR ''['' then
          (case d of 0 \<Rightarrow> None
           | Suc e \<Rightarrow> (case afterSpace (CHR '']'') cs of Some rest \<Rightarrow> Some (JArr [], rest)
                       | None \<Rightarrow> map_option (apfst JArr) (parseElems e cs)))
        else if hasPrefix (c # cs) ''null'' then Some (JNull, drop 3 cs)
        else if hasPrefix (c # cs) ''true'' then Some (JBool True, drop 3 cs)
        else if hasPrefix (c # cs) ''false'' then Some (JBool False, drop 4 cs)
        else map_option (apfst JNum) (parseNumber (c # cs)))"
| "parseElems d s =
     (case parseValue d s of None \<Rightarrow> None
      | Some (v, rest) \<Rightarrow>
        (case afterSpace (CHR '','') rest of
           Some t \<Rightarrow> if length t < length s then map_option (apfst (Cons v)) (parseElems d t) else None
         | None \<Rightarrow> map_option (\<lambda>t. ([v], t)) (afterSpace (CHR '']'') rest)))"
| "parseMembers d s =
     (case afterSpace (CHR 0x22) s of None \<Rightarrow> None
      | Some s1 \<Rightarrow>
        (case parseString s1 of None \<Rightarrow> None
         | Some (k, s2) \<Rightarrow>
           (case afterSpace (CHR '':'') s2 of None \<Rightarrow> None
            | Some s3 \<Rightarrow>
              if length s3 < length s then
                (case parseValue d s3 of None \<Rightarrow> None
                 | Some (v, s4) \<Rightarrow>
                   (case afterSpace (CHR '','') s4 of
                      Some t \<Rightarrow> if length t < length s then map_option (apfst (Cons (k, v))) (parseMembers d t) else None
                    | None \<Rightarrow> map_option (\<lambda>t. ([(k, v)], t)) (afterSpace (CHR ''}'') s4)))
              else None)))"
  by pat_completeness auto
termination
  by (relation "measure (case_sum (\<lambda>(d, s). 2 * length s) (case_sum (\<lambda>(d, s). 2 * length s + 1) (\<lambda>(d, s). 2 * length s + 1)))")
    (auto dest: skipSpace_Cons)

declare parseString.simps [simp del] parseValue.simps [simp del] parseElems.simps [simp del] parseMembers.simps [simp del]

definition maxNestingDepth :: nat where
  "maxNestingDepth = 10000"

definition jsonParse :: "string \<Rightarrow> json option" where
  "jsonParse s =
     (case parseValue maxNestingDepth s of None \<Rightarrow> None
      | Some (v, rest) \<Rightarrow> if skipSpace rest = [] then Some v else None)"

text \<open>\<open>json.Valid\<close>\<close>

definition jsonValid :: "string \<Rightarrow> bool" where
  "jsonValid s \<longleftrightarrow> jsonParse s \<noteq> None"

lemmas json_parse_eval [eval_simps] =
  jsonParse_def maxNestingDepth_def skipSpace_def jsonSpace_def afterSpace_def parseString.simps parseValue.simps
  parseElems.simps parseMembers.simps parseNumber_def parseFraction_def parseExponent_def spanDigits_def hex4_def
  simpleEscape_def isSurrogate_def surrogatePair_def

end
