(* ===== verification/Approval.thy ===== *)
theory Approval
  imports Lifecycle Go_Json
begin

text \<open>
  The approval decisions of \<^verbatim>\<open>models/knowledge/approval.go\<close>: \<open>ApproveRevision\<close>,
  \<open>RejectRevision\<close> and the replay path \<open>loadApprovalResult\<close>.

  The lemmas invert every run that returned a value: an approval by somebody other than the
  requester of a pending revision that is still the current one of a pending document, or the
  records of an approval that was already decided, read without a write.
\<close>

record ApproveRevisionOptions =
  aro_ApprovalID :: int
  aro_DecidedBy :: int
  aro_Comment :: string
  aro_EngineProfileVersion :: string
  aro_ACLPolicyVersion :: int
  aro_TraceID :: string

record RejectRevisionOptions =
  rro_ApprovalID :: int
  rro_DecidedBy :: int
  rro_Comment :: string
  rro_TraceID :: string

record ApproveRevisionResult =
  arr_Publication :: Publication
  arr_Outbox :: Outbox
  arr_IndexJob :: IndexJob
  arr_Created :: bool

section \<open>Inserts of the package\<close>

text \<open>\<open>db.Insert\<close> at the entities that several operations create.\<close>

abbreviation insertPublication :: "string \<Rightarrow> Publication \<Rightarrow> Publication prog" where
  "insertPublication msg \<equiv>
     mustInsert msg publications publications_update (\<lambda>i r. r\<lparr>pub_ID := i\<rparr>) pub_stamp pub_clash"

abbreviation insertOutbox :: "string \<Rightarrow> Outbox \<Rightarrow> Outbox prog" where
  "insertOutbox msg \<equiv> mustInsert msg outboxes outboxes_update (\<lambda>i r. r\<lparr>ob_ID := i\<rparr>) ob_stamp ob_clash"

abbreviation insertIndexJob :: "string \<Rightarrow> IndexJob \<Rightarrow> IndexJob prog" where
  "insertIndexJob msg \<equiv> mustInsert msg indexJobs indexJobs_update (\<lambda>i r. r\<lparr>job_ID := i\<rparr>) job_stamp job_clash"

abbreviation insertAuditEvent :: "string \<Rightarrow> AuditEvent \<Rightarrow> AuditEvent prog" where
  "insertAuditEvent msg \<equiv>
     mustInsert msg auditEvents auditEvents_update (\<lambda>i r. r\<lparr>ae_ID := i\<rparr>) ae_stamp ae_clash"

definition appendPublicationAudit :: "AuditEvent \<Rightarrow> unit prog" where
  "appendPublicationAudit event =
     andThen (insertAuditEvent ''append knowledge audit event'' event) (\<lambda>_. ret ())"

section \<open>loadApprovalResult\<close>

definition loadApprovalResult :: "int \<Rightarrow> ApproveRevisionResult prog" where
  "loadApprovalResult approvalID =
     andThen (onErr (Errorf ''load knowledge publication'')
       (getFirst publications (\<lambda>p. pub_ApprovalID p = approvalID))) (\<lambda>po.
     case po of None \<Rightarrow> raise ErrApprovalConflict | Some publication \<Rightarrow>
     andThen (onErr (Errorf ''load knowledge index job'')
       (getFirst indexJobs (\<lambda>j. job_PublicationID j = pub_ID publication \<and> job_JobType j = IndexJobTypeUpsert))) (\<lambda>jo.
     case jo of None \<Rightarrow> raise ErrApprovalConflict | Some job \<Rightarrow>
     andThen (onErr (Errorf ''load knowledge outbox event'')
       (getFirst outboxes (\<lambda>x. ob_IdempotencyKey x = job_IdempotencyKey job))) (\<lambda>oo.
     case oo of None \<Rightarrow> raise ErrApprovalConflict | Some outbox \<Rightarrow>
     ret \<lparr>arr_Publication = publication, arr_Outbox = outbox, arr_IndexJob = job, arr_Created = False\<rparr>)))"

section \<open>ApproveRevision\<close>

text \<open>The publication of an approved revision, before the database gives it a key.\<close>

definition newPublication ::
  "ApproveRevisionOptions \<Rightarrow> Approval \<Rightarrow> Revision \<Rightarrow> Document \<Rightarrow> Space \<Rightarrow> Publication" where
  "newPublication opts approval revision document space =
     \<lparr>pub_ID = 0, pub_SpaceID = sp_ID space, pub_DocumentID = doc_ID document,
      pub_RevisionID = rev_ID revision, pub_ApprovalID = appr_ID approval,
      pub_Generation = sp_PublicationGeneration space + 1,
      pub_GovernanceStatus = GovernanceStatusApproved, pub_ValidityStatus = ValidityStatusScheduled,
      pub_IndexStatus = IndexStatusQueued, pub_ACLPolicyVersion = aro_ACLPolicyVersion opts,
      pub_RevocationGeneration = sp_RevocationGeneration space, pub_IsCurrent = False,
      pub_EffectiveUnix = 0, pub_ExpiresUnix = 0, pub_CreatedUnix = 0, pub_UpdatedUnix = 0\<rparr>"

text \<open>The outbox event and the job of an index operation; both carry the operation key.\<close>

definition newOutbox :: "int \<Rightarrow> string \<Rightarrow> string \<Rightarrow> string \<Rightarrow> Outbox" where
  "newOutbox publicationID eventType key payload =
     \<lparr>ob_ID = 0, ob_AggregateType = ''knowledge_publication'', ob_AggregateID = publicationID,
      ob_EventType = eventType, ob_IdempotencyKey = key, ob_PayloadJSON = payload,
      ob_Status = OutboxStatusPending, ob_Attempt = 0, ob_NextAttemptUnix = 0, ob_CreatedUnix = 0,
      ob_UpdatedUnix = 0\<rparr>"

definition newIndexJob :: "int \<Rightarrow> IndexJobType \<Rightarrow> string \<Rightarrow> string \<Rightarrow> string \<Rightarrow> int \<Rightarrow> IndexJob" where
  "newIndexJob publicationID jobType key revisionSHA256 profile maxAttempts =
     \<lparr>job_ID = 0, job_PublicationID = publicationID, job_JobType = jobType, job_IdempotencyKey = key,
      job_Status = IndexJobStatusQueued, job_RevisionSHA256 = revisionSHA256,
      job_EngineProfileVersion = profile, job_Attempt = 0, job_MaxAttempts = maxAttempts,
      job_NextAttemptUnix = 0, job_LastError = '''', job_CreatedUnix = 0, job_UpdatedUnix = 0\<rparr>"

definition approvalKey :: "ApproveRevisionOptions \<Rightarrow> Revision \<Rightarrow> Space \<Rightarrow> int \<Rightarrow> string" where
  "approvalKey opts revision space publicationID = buildIndexIdempotencyKey
     \<lparr>ik_OwnerID = sp_OwnerID space, ik_SpaceID = sp_ID space, ik_PublicationID = publicationID,
      ik_Generation = sp_PublicationGeneration space + 1, ik_RevisionSHA256 = rev_ContentSHA256 revision,
      ik_EngineProfileVersion = aro_EngineProfileVersion opts, ik_JobType = IndexJobTypeUpsert\<rparr>"

text \<open>The writes of an approval, in order.\<close>

definition recordApproval ::
  "ApproveRevisionOptions \<Rightarrow> Approval \<Rightarrow> Revision \<Rightarrow> Document \<Rightarrow> Space \<Rightarrow> ApproveRevisionResult prog" where
  "recordApproval opts approval revision document space =
     andThen timeStampNow (\<lambda>now.
     andThen (insertPublication ''create knowledge publication''
       (newPublication opts approval revision document space)) (\<lambda>publication.
     andThen (insertOutbox ''create knowledge outbox event''
       (newOutbox (pub_ID publication) ''knowledge.index.upsert.requested''
         (approvalKey opts revision space (pub_ID publication))
         (jsonMap [(''publication_id'', itoa (pub_ID publication)),
                   (''generation'', itoa (sp_PublicationGeneration space + 1)),
                   (''job_type'', jsonQuote ''upsert'')]))) (\<lambda>outbox.
     andThen (insertIndexJob ''create knowledge index job''
       (newIndexJob (pub_ID publication) IndexJobTypeUpsert
         (approvalKey opts revision space (pub_ID publication)) (rev_ContentSHA256 revision)
         (aro_EngineProfileVersion opts) 5)) (\<lambda>job.
     andThen (mustUpdate ''decide knowledge approval'' ErrApprovalConflict approvals approvals_update
       (\<lambda>a. appr_ID a = appr_ID approval \<and> appr_Status a = ApprovalStatusPending)
       (\<lambda>_ a. a\<lparr>appr_Status := ApprovalStatusApproved, appr_DecidedBy := aro_DecidedBy opts,
                appr_DecidedUnix := now, appr_Comment := aro_Comment opts\<rparr>)) (\<lambda>_.
     andThen (mustUpdate ''advance knowledge publication generation'' ErrApprovalConflict spaces spaces_update
       (\<lambda>s. sp_ID s = sp_ID space \<and> sp_PublicationGeneration s = sp_PublicationGeneration space + 1 - 1)
       (\<lambda>t s. sp_touch t (s\<lparr>sp_PublicationGeneration := sp_PublicationGeneration space + 1\<rparr>))) (\<lambda>_.
     andThen (mustUpdate ''advance knowledge document'' ErrApprovalConflict documents documents_update
       (\<lambda>x. doc_ID x = doc_ID document \<and> doc_GovernanceStatus x = GovernanceStatusPending \<and>
            doc_CurrentRevisionID x = rev_ID revision)
       (\<lambda>t x. doc_touch t (x\<lparr>doc_GovernanceStatus := GovernanceStatusApproved,
                              doc_CurrentRevisionID := rev_ID revision\<rparr>))) (\<lambda>_.
     andThen (insertAuditEvent ''append knowledge audit event''
       \<lparr>ae_ID = 0, ae_ActorID = aro_DecidedBy opts, ae_Action = ''knowledge.revision.approved'',
        ae_EntityType = ''knowledge_publication'', ae_EntityID = pub_ID publication,
        ae_SpaceID = sp_ID space, ae_Result = ''succeeded'', ae_ReasonCode = ''approved'',
        ae_TraceID = aro_TraceID opts,
        ae_MetadataJSON = jsonMap [(''approval_id'', itoa (appr_ID approval)),
                                   (''revision_id'', itoa (rev_ID revision)),
                                   (''publication_id'', itoa (pub_ID publication)),
                                   (''generation'', itoa (sp_PublicationGeneration space + 1))],
        ae_CreatedUnix = 0\<rparr>) (\<lambda>_.
     ret \<lparr>arr_Publication = publication, arr_Outbox = outbox, arr_IndexJob = job, arr_Created = True\<rparr>))))))))"

definition decideApproval :: "ApproveRevisionOptions \<Rightarrow> ApproveRevisionResult prog" where
  "decideApproval opts =
     andThen (mustGet ''load knowledge approval'' ErrApprovalNotFound appr_ID approvals (aro_ApprovalID opts)) (\<lambda>approval.
     if appr_Status approval = ApprovalStatusApproved then loadApprovalResult (appr_ID approval)
     else if appr_Status approval \<noteq> ApprovalStatusPending then raise ErrApprovalConflict
     else if appr_RequestedBy approval = aro_DecidedBy opts then raise ErrSelfApproval
     else
     andThen (mustGet ''load knowledge revision'' ErrApprovalConflict rev_ID revisions (appr_RevisionID approval)) (\<lambda>revision.
     andThen (mustGet ''load knowledge document'' ErrApprovalConflict doc_ID documents (rev_DocumentID revision)) (\<lambda>document.
     if doc_GovernanceStatus document \<noteq> GovernanceStatusPending \<or> doc_CurrentRevisionID document \<noteq> rev_ID revision
     then raise ErrApprovalConflict
     else
     andThen (mustGet ''load knowledge space'' ErrApprovalConflict sp_ID spaces (doc_SpaceID document)) (\<lambda>space.
     if sp_Status space \<noteq> SpaceStatusActive then raise ErrApprovalConflict
     else recordApproval opts approval revision document space))))"

definition ApproveRevision :: "ApproveRevisionOptions \<Rightarrow> ApproveRevisionResult prog" where
  "ApproveRevision opts =
     (if aro_ApprovalID opts \<le> 0 \<or> aro_DecidedBy opts \<le> 0 \<or> aro_ACLPolicyVersion opts \<le> 0 \<or>
         trimSpace (aro_EngineProfileVersion opts) = '''' \<or> \<not> validTraceID (aro_TraceID opts) \<or>
         \<not> validGovernanceText (aro_Comment opts) True
      then raise ErrApprovalConflict
      else withTx (decideApproval opts))"

section \<open>RejectRevision\<close>

definition restoreDocument :: "Document \<Rightarrow> Document prog" where
  "restoreDocument document =
     (let rejected = document\<lparr>doc_GovernanceStatus := GovernanceStatusRejected\<rparr> in
      if doc_CurrentPublicationID document > 0 then
        andThen (onErr (Errorf ''load current knowledge publication'')
          (getByID pub_ID publications (doc_CurrentPublicationID document))) (\<lambda>found.
        case found of None \<Rightarrow> ret rejected | Some current \<Rightarrow>
        ret (if pub_IsCurrent current \<and> pub_ValidityStatus current = ValidityStatusCurrent
             then rejected\<lparr>doc_GovernanceStatus := GovernanceStatusApproved,
                           doc_CurrentRevisionID := pub_RevisionID current\<rparr>
             else rejected))
      else ret rejected)"

definition decideRejection :: "RejectRevisionOptions \<Rightarrow> unit prog" where
  "decideRejection opts =
     andThen (mustGet ''load knowledge approval'' ErrApprovalNotFound appr_ID approvals (rro_ApprovalID opts)) (\<lambda>approval.
     if appr_Status approval \<noteq> ApprovalStatusPending then raise ErrApprovalConflict
     else if appr_RequestedBy approval = rro_DecidedBy opts then raise ErrSelfApproval
     else
     andThen (attempt (getByID rev_ID revisions (appr_RevisionID approval))) (\<lambda>foundRevision.
     case foundRevision of Inl _ \<Rightarrow> raise ErrApprovalConflict | Inr ro \<Rightarrow>
     (case ro of None \<Rightarrow> raise ErrApprovalConflict | Some revision \<Rightarrow>
     andThen (attempt (getByID doc_ID documents (rev_DocumentID revision))) (\<lambda>foundDocument.
     case foundDocument of Inl _ \<Rightarrow> raise ErrApprovalConflict | Inr xo \<Rightarrow>
     (case xo of None \<Rightarrow> raise ErrApprovalConflict | Some document \<Rightarrow>
     andThen timeStampNow (\<lambda>now.
     andThen (mustUpdate ''reject knowledge approval'' ErrApprovalConflict approvals approvals_update
       (\<lambda>a. appr_ID a = appr_ID approval \<and> appr_Status a = ApprovalStatusPending)
       (\<lambda>_ a. a\<lparr>appr_Status := ApprovalStatusRejected, appr_DecidedBy := rro_DecidedBy opts,
                appr_DecidedUnix := now, appr_Comment := rro_Comment opts\<rparr>)) (\<lambda>_.
     andThen (restoreDocument document) (\<lambda>restored.
     andThen (onErr (Errorf ''restore knowledge document after rejection'')
       (updateRows documents documents_update (\<lambda>x. doc_ID x = doc_ID document)
          (\<lambda>t x. doc_touch t (x\<lparr>doc_GovernanceStatus := doc_GovernanceStatus restored,
                                 doc_CurrentRevisionID := doc_CurrentRevisionID restored\<rparr>)))) (\<lambda>_.
     appendPublicationAudit
       \<lparr>ae_ID = 0, ae_ActorID = rro_DecidedBy opts, ae_Action = ''knowledge.revision.rejected'',
        ae_EntityType = ''knowledge_revision'', ae_EntityID = rev_ID revision,
        ae_SpaceID = doc_SpaceID document, ae_Result = ''succeeded'', ae_ReasonCode = ''rejected'',
        ae_TraceID = rro_TraceID opts,
        ae_MetadataJSON = jsonMap [(''approval_id'', itoa (appr_ID approval))],
        ae_CreatedUnix = 0\<rparr>)))))))))"

definition RejectRevision :: "RejectRevisionOptions \<Rightarrow> unit prog" where
  "RejectRevision opts =
     (if rro_ApprovalID opts \<le> 0 \<or> rro_DecidedBy opts \<le> 0 \<or> \<not> validTraceID (rro_TraceID opts) \<or>
         \<not> validGovernanceText (rro_Comment opts) False
      then raise ErrApprovalConflict
      else withTx (decideRejection opts))"

section \<open>Inversion\<close>

text \<open>
  The database after an approval: one publication, one outbox event, one job and one audit
  event more; the approval decided, the space's generation advanced, the document approved.
\<close>

definition approvedDatabase ::
  "ApproveRevisionOptions \<Rightarrow> TimeStamp \<Rightarrow> TimeStamp \<Rightarrow> Approval \<Rightarrow> Revision \<Rightarrow> Document \<Rightarrow> Space \<Rightarrow>
   Publication table \<Rightarrow> Outbox table \<Rightarrow> IndexJob table \<Rightarrow> AuditEvent table \<Rightarrow> database \<Rightarrow> database" where
  "approvedDatabase opts now t approval revision document space tp tob tj tae d =
     d\<lparr>publications := tp, outboxes := tob, indexJobs := tj,
       approvals := tblUpdate (\<lambda>a. appr_ID a = appr_ID approval \<and> appr_Status a = ApprovalStatusPending)
         (\<lambda>a. a\<lparr>appr_Status := ApprovalStatusApproved, appr_DecidedBy := aro_DecidedBy opts,
                appr_DecidedUnix := now, appr_Comment := aro_Comment opts\<rparr>) (approvals d),
       spaces := tblUpdate (\<lambda>s. sp_ID s = sp_ID space \<and> sp_PublicationGeneration s = sp_PublicationGeneration space)
         (\<lambda>s. sp_touch t (s\<lparr>sp_PublicationGeneration := sp_PublicationGeneration space + 1\<rparr>)) (spaces d),
       documents := tblUpdate (\<lambda>x. doc_ID x = doc_ID document \<and> doc_GovernanceStatus x = GovernanceStatusPending \<and>
            doc_CurrentRevisionID x = rev_ID revision)
         (\<lambda>x. doc_touch t (x\<lparr>doc_GovernanceStatus := GovernanceStatusApproved,
                              doc_CurrentRevisionID := rev_ID revision\<rparr>)) (documents d),
       auditEvents := tae\<rparr>"

lemma recordApproval_run:
  assumes "recordApproval opts approval revision document space w = (Inr res, w')"
  obtains now t tp tob tj tae audit where
    "tblInsert (\<lambda>i r. r\<lparr>pub_ID := i\<rparr>) pub_clash (pub_stamp t (newPublication opts approval revision document space))
       (publications (db w)) = Some (arr_Publication res, tp)"
    "\<exists>payload. tblInsert (\<lambda>i r. r\<lparr>ob_ID := i\<rparr>) ob_clash (ob_stamp t (newOutbox (pub_ID (arr_Publication res))
         ''knowledge.index.upsert.requested'' (approvalKey opts revision space (pub_ID (arr_Publication res))) payload))
       (outboxes (db w)) = Some (arr_Outbox res, tob)"
    "tblInsert (\<lambda>i r. r\<lparr>job_ID := i\<rparr>) job_clash (job_stamp t (newIndexJob (pub_ID (arr_Publication res))
         IndexJobTypeUpsert (approvalKey opts revision space (pub_ID (arr_Publication res)))
         (rev_ContentSHA256 revision) (aro_EngineProfileVersion opts) 5))
       (indexJobs (db w)) = Some (arr_IndexJob res, tj)"
    "\<exists>event. tblInsert (\<lambda>i r. r\<lparr>ae_ID := i\<rparr>) ae_clash (ae_stamp t event) (auditEvents (db w)) = Some (audit, tae)"
    "db w' = approvedDatabase opts now t approval revision document space tp tob tj tae (db w)"
    "arr_Created res"
    "tblCount (\<lambda>a. appr_ID a = appr_ID approval \<and> appr_Status a = ApprovalStatusPending) (approvals (db w)) = 1"
  using assms
  by (auto simp: recordApproval_def run_simps approvedDatabase_def intro!: that)

text \<open>
  \<open>approvable\<close> is what \<open>ApproveRevision\<close> found before it wrote: a pending approval requested
  by somebody else, of the revision its pending document currently has, in an active space.
\<close>

definition approvable ::
  "ApproveRevisionOptions \<Rightarrow> Approval \<Rightarrow> Revision \<Rightarrow> Document \<Rightarrow> Space \<Rightarrow> database \<Rightarrow> bool" where
  "approvable opts approval revision document space d \<longleftrightarrow>
     tblGet appr_ID (aro_ApprovalID opts) (approvals d) = Some approval \<and>
     appr_Status approval = ApprovalStatusPending \<and> appr_RequestedBy approval \<noteq> aro_DecidedBy opts \<and>
     tblGet rev_ID (appr_RevisionID approval) (revisions d) = Some revision \<and>
     tblGet doc_ID (rev_DocumentID revision) (documents d) = Some document \<and>
     doc_GovernanceStatus document = GovernanceStatusPending \<and>
     doc_CurrentRevisionID document = rev_ID revision \<and>
     tblGet sp_ID (doc_SpaceID document) (spaces d) = Some space \<and> sp_Status space = SpaceStatusActive"

text \<open>The records of an approval that was decided before.\<close>

definition approvalResult :: "database \<Rightarrow> int \<Rightarrow> ApproveRevisionResult \<Rightarrow> bool" where
  "approvalResult d approvalID res \<longleftrightarrow>
     tblFirst (\<lambda>p. pub_ApprovalID p = approvalID) (publications d) = Some (arr_Publication res) \<and>
     tblFirst (\<lambda>j. job_PublicationID j = pub_ID (arr_Publication res) \<and> job_JobType j = IndexJobTypeUpsert)
       (indexJobs d) = Some (arr_IndexJob res) \<and>
     tblFirst (\<lambda>x. ob_IdempotencyKey x = job_IdempotencyKey (arr_IndexJob res)) (outboxes d) = Some (arr_Outbox res)"

lemma loadApprovalResult_run:
  "loadApprovalResult i w = (Inr res, w') \<longleftrightarrow>
     \<not> faults (env w) (calls w) \<and> \<not> faults (env w) (Suc (calls w)) \<and> \<not> faults (env w) (Suc (Suc (calls w))) \<and>
     approvalResult (db w) i res \<and> \<not> arr_Created res \<and> w' = w\<lparr>calls := Suc (Suc (Suc (calls w)))\<rparr>"
  by (cases res) (auto simp: loadApprovalResult_def run_simps approvalResult_def)

lemma decideApproval_run:
  assumes "decideApproval opts w = (Inr res, w')"
  obtains (replay) approval where
    "tblGet appr_ID (aro_ApprovalID opts) (approvals (db w)) = Some approval"
    "appr_Status approval = ApprovalStatusApproved" "approvalResult (db w) (appr_ID approval) res"
    "\<not> arr_Created res" "db w' = db w"
  | (decided) approval revision document space w1 where
    "recordApproval opts approval revision document space w1 = (Inr res, w')"
    "approvable opts approval revision document space (db w)" "db w1 = db w"
proof -
  from assms obtain approval where a: "tblGet appr_ID (aro_ApprovalID opts) (approvals (db w)) = Some approval"
    by (auto simp: decideApproval_def run_simps)
  show thesis
  proof (cases "appr_Status approval = ApprovalStatusApproved")
    case True
    with assms a replay show thesis
      by (auto simp: decideApproval_def run_simps loadApprovalResult_run)
  next
    case False
    with assms a show thesis
      by (auto simp: decideApproval_def run_simps approvable_def intro!: decided)
  qed
qed

lemma ApproveRevision_run:
  assumes "ApproveRevision opts w = (Inr res, w')"
  obtains w1 w2 where "decideApproval opts w1 = (Inr res, w2)" "db w1 = db w" "db w2 = db w'"
    "0 < aro_DecidedBy opts" "validTraceID (aro_TraceID opts)"
  using assms by (auto simp: ApproveRevision_def run_simps split: if_splits)

lemma ApproveRevision_error: "ApproveRevision opts w = (Inl e, w') \<Longrightarrow> db w' = db w"
  by (auto simp: ApproveRevision_def raise_def split: if_splits dest: withTx_error)

lemma RejectRevision_error: "RejectRevision opts w = (Inl e, w') \<Longrightarrow> db w' = db w"
  by (auto simp: RejectRevision_def raise_def split: if_splits dest: withTx_error)

text \<open>
  A rejection writes the approval and the document's status and revision pointer, and appends
  an audit event. Publications are only read.
\<close>

definition rejectedDocument :: "Document \<Rightarrow> Publication table \<Rightarrow> Document" where
  "rejectedDocument document pubs =
     (let rejected = document\<lparr>doc_GovernanceStatus := GovernanceStatusRejected\<rparr> in
      if doc_CurrentPublicationID document > 0 then
        (case tblGet pub_ID (doc_CurrentPublicationID document) pubs of
           None \<Rightarrow> rejected
         | Some current \<Rightarrow>
             if pub_IsCurrent current \<and> pub_ValidityStatus current = ValidityStatusCurrent
             then rejected\<lparr>doc_GovernanceStatus := GovernanceStatusApproved,
                           doc_CurrentRevisionID := pub_RevisionID current\<rparr>
             else rejected)
      else rejected)"

lemma restoreDocument_run:
  "restoreDocument document w = (Inr x, w') \<Longrightarrow>
     x = rejectedDocument document (publications (db w)) \<and> db w' = db w \<and> env w' = env w \<and> ticks w' = ticks w"
  by (cases "doc_CurrentPublicationID document > 0";
      cases "tblGet pub_ID (doc_CurrentPublicationID document) (publications (db w))")
    (auto simp: restoreDocument_def rejectedDocument_def run_simps Let_def)

definition rejectedDatabase ::
  "RejectRevisionOptions \<Rightarrow> TimeStamp \<Rightarrow> TimeStamp \<Rightarrow> Approval \<Rightarrow> Document \<Rightarrow> AuditEvent table \<Rightarrow> database \<Rightarrow> database" where
  "rejectedDatabase opts now t approval document tae d =
     d\<lparr>approvals := tblUpdate (\<lambda>a. appr_ID a = appr_ID approval \<and> appr_Status a = ApprovalStatusPending)
         (\<lambda>a. a\<lparr>appr_Status := ApprovalStatusRejected, appr_DecidedBy := rro_DecidedBy opts,
                appr_DecidedUnix := now, appr_Comment := rro_Comment opts\<rparr>) (approvals d),
       documents := tblUpdate (\<lambda>x. doc_ID x = doc_ID document)
         (\<lambda>x. doc_touch t (x\<lparr>doc_GovernanceStatus := doc_GovernanceStatus (rejectedDocument document (publications d)),
                doc_CurrentRevisionID := doc_CurrentRevisionID (rejectedDocument document (publications d))\<rparr>)) (documents d),
       auditEvents := tae\<rparr>"

lemma decideRejection_run:
  assumes "decideRejection opts w = (Inr u, w')"
  obtains approval revision document now t tae audit where
    "tblGet appr_ID (rro_ApprovalID opts) (approvals (db w)) = Some approval"
    "appr_Status approval = ApprovalStatusPending" "appr_RequestedBy approval \<noteq> rro_DecidedBy opts"
    "tblGet rev_ID (appr_RevisionID approval) (revisions (db w)) = Some revision"
    "tblGet doc_ID (rev_DocumentID revision) (documents (db w)) = Some document"
    "\<exists>event. tblInsert (\<lambda>i r. r\<lparr>ae_ID := i\<rparr>) ae_clash (ae_stamp t event) (auditEvents (db w)) = Some (audit, tae)"
    "db w' = rejectedDatabase opts now t approval document tae (db w)"
  using assms
  by (auto simp: decideRejection_def appendPublicationAudit_def run_simps rejectedDatabase_def
      dest!: restoreDocument_run intro!: that)

lemma RejectRevision_run:
  assumes "RejectRevision opts w = (Inr u, w')"
  obtains w1 w2 where "decideRejection opts w1 = (Inr u, w2)" "db w1 = db w" "db w2 = db w'"
  using assms by (auto simp: RejectRevision_def run_simps split: if_splits)

end
