(* ===== verification/Publishing.thy ===== *)
theory Publishing
  imports Approval
begin

text \<open>
  The publication pointer of \<^verbatim>\<open>models/knowledge/publication.go\<close>: \<open>ActivatePublication\<close> makes an
  evaluated candidate the current publication of its document and supersedes the previous
  one, \<open>UnpublishPublication\<close> revokes the current publication, leaves a tombstone and queues the
  deletion from the index.

  The lemmas invert every successful run: what was found (\<open>activatable\<close>, \<open>unpublishable\<close>) and the
  database it leaves.
\<close>

record ActivatePublicationOptions =
  apo_PublicationID :: int
  apo_ActorID :: int
  apo_ExpectedPublicationGeneration :: int
  apo_ExpectedRevocationGeneration :: int
  apo_EngineProfileVersion :: string
  apo_TraceID :: string

record UnpublishPublicationOptions =
  upo_PublicationID :: int
  upo_ActorID :: int
  upo_ExpectedPublicationGeneration :: int
  upo_ExpectedRevocationGeneration :: int
  upo_EngineProfileVersion :: string
  upo_TraceID :: string
  upo_Reason :: string

definition loadPublicationParents :: "Publication \<Rightarrow> (Document \<times> Space) prog" where
  "loadPublicationParents publication =
     andThen (mustGet ''load knowledge document'' ErrPublicationConflict doc_ID documents (pub_DocumentID publication)) (\<lambda>document.
     if doc_SpaceID document \<noteq> pub_SpaceID publication then raise ErrPublicationConflict
     else
     andThen (mustGet ''load knowledge space'' ErrPublicationConflict sp_ID spaces (pub_SpaceID publication)) (\<lambda>space.
     if sp_Status space \<noteq> SpaceStatusActive then raise ErrPublicationConflict
     else ret (document, space)))"

definition publicationAuditMetadata :: "int \<Rightarrow> int \<Rightarrow> int \<Rightarrow> string" where
  "publicationAuditMetadata publicationID generation revocationGeneration =
     jsonMap [(''publication_id'', itoa publicationID), (''generation'', itoa generation),
              (''revocation_generation'', itoa revocationGeneration)]"

section \<open>ActivatePublication\<close>

definition supersedeCurrent :: "Document \<Rightarrow> Space \<Rightarrow> unit prog" where
  "supersedeCurrent document space =
     (let oldPublicationID = doc_CurrentPublicationID document in
      if oldPublicationID > 0 then
        andThen (mustGet ''load current knowledge publication'' ErrPublicationConflict pub_ID publications oldPublicationID) (\<lambda>oldCurrent.
        if pub_SpaceID oldCurrent \<noteq> sp_ID space \<or> pub_DocumentID oldCurrent \<noteq> doc_ID document \<or> \<not> pub_IsCurrent oldCurrent
        then raise ErrPublicationConflict
        else
        mustUpdate ''supersede current knowledge publication'' ErrPublicationConflict publications publications_update
          (\<lambda>p. pub_ID p = pub_ID oldCurrent \<and> pub_IsCurrent p)
          (\<lambda>t p. pub_touch t (p\<lparr>pub_IsCurrent := False, pub_IndexStatus := IndexStatusSuperseded\<rparr>)))
      else ret ())"

definition activateBinding :: "ActivatePublicationOptions \<Rightarrow> Publication \<Rightarrow> TimeStamp \<Rightarrow> unit prog" where
  "activateBinding opts candidate now =
     (if apo_EngineProfileVersion opts \<noteq> '''' then
        andThen (onErr (Errorf ''load knowledge index binding'')
          (getFirst indexBindings (\<lambda>b. ib_PublicationID b = pub_ID candidate \<and>
             ib_EngineProfileVersion b = apo_EngineProfileVersion opts))) (\<lambda>found.
        case found of None \<Rightarrow> raise ErrPublicationConflict | Some binding \<Rightarrow>
        if ib_Status binding \<noteq> IndexStatusEvaluation \<or> trimSpace (ib_EngineDocumentID binding) = ''''
        then raise ErrPublicationConflict
        else
        mustUpdate ''activate knowledge index binding'' ErrPublicationConflict indexBindings indexBindings_update
          (\<lambda>b. ib_ID b = ib_ID binding \<and> ib_Status b = IndexStatusEvaluation)
          (\<lambda>_ b. b\<lparr>ib_Status := IndexStatusSearchable, ib_LastSuccessUnix := now\<rparr>))
      else ret ())"

definition switchPointer :: "ActivatePublicationOptions \<Rightarrow> Publication \<Rightarrow> Document \<Rightarrow> Space \<Rightarrow> unit prog" where
  "switchPointer opts candidate document space =
     andThen (supersedeCurrent document space) (\<lambda>_.
     andThen timeStampNow (\<lambda>now.
     andThen (mustUpdate ''activate knowledge publication'' ErrPublicationConflict publications publications_update
       (\<lambda>p. pub_ID p = pub_ID candidate \<and> pub_Generation p = apo_ExpectedPublicationGeneration opts \<and>
            pub_RevocationGeneration p = apo_ExpectedRevocationGeneration opts \<and>
            pub_GovernanceStatus p = GovernanceStatusApproved \<and> pub_ValidityStatus p = ValidityStatusScheduled \<and>
            pub_IndexStatus p = IndexStatusEvaluation \<and> \<not> pub_IsCurrent p)
       (\<lambda>t p. pub_touch t (p\<lparr>pub_IsCurrent := True, pub_ValidityStatus := ValidityStatusCurrent,
                              pub_IndexStatus := IndexStatusSearchable, pub_EffectiveUnix := now\<rparr>))) (\<lambda>_.
     andThen (activateBinding opts candidate now) (\<lambda>_.
     andThen (mustUpdate ''switch knowledge publication pointer'' ErrPublicationConflict documents documents_update
       (\<lambda>x. doc_ID x = doc_ID document \<and> doc_CurrentPublicationID x = doc_CurrentPublicationID document)
       (\<lambda>t x. doc_touch t (x\<lparr>doc_CurrentRevisionID := pub_RevisionID candidate,
                              doc_CurrentPublicationID := pub_ID candidate\<rparr>))) (\<lambda>_.
     appendPublicationAudit
       \<lparr>ae_ID = 0, ae_ActorID = apo_ActorID opts, ae_Action = ''knowledge.publication.activated'',
        ae_EntityType = ''knowledge_publication'', ae_EntityID = pub_ID candidate, ae_SpaceID = sp_ID space,
        ae_Result = ''succeeded'', ae_ReasonCode = ''activated'', ae_TraceID = apo_TraceID opts,
        ae_MetadataJSON = publicationAuditMetadata (pub_ID candidate) (pub_Generation candidate)
          (pub_RevocationGeneration candidate),
        ae_CreatedUnix = 0\<rparr>)))))"

definition activateCandidate :: "ActivatePublicationOptions \<Rightarrow> unit prog" where
  "activateCandidate opts =
     andThen (mustGet ''load knowledge publication'' ErrPublicationNotFound pub_ID publications (apo_PublicationID opts)) (\<lambda>candidate.
     andThen (loadPublicationParents candidate) (\<lambda>parents.
     let document = fst parents; space = snd parents in
     if pub_GovernanceStatus candidate \<noteq> GovernanceStatusApproved \<or>
        pub_ValidityStatus candidate \<noteq> ValidityStatusScheduled \<or>
        pub_IndexStatus candidate \<noteq> IndexStatusEvaluation \<or> pub_IsCurrent candidate \<or>
        pub_Generation candidate \<noteq> apo_ExpectedPublicationGeneration opts \<or>
        pub_RevocationGeneration candidate \<noteq> apo_ExpectedRevocationGeneration opts \<or>
        sp_RevocationGeneration space \<noteq> apo_ExpectedRevocationGeneration opts
     then raise ErrPublicationConflict
     else switchPointer opts candidate document space))"

definition ActivatePublication :: "ActivatePublicationOptions \<Rightarrow> unit prog" where
  "ActivatePublication opts =
     (if apo_PublicationID opts \<le> 0 \<or> apo_ActorID opts \<le> 0 \<or> apo_ExpectedPublicationGeneration opts \<le> 0 \<or>
         apo_ExpectedRevocationGeneration opts \<le> 0 \<or> \<not> validTraceID (apo_TraceID opts)
      then raise ErrPublicationConflict
      else withTx (activateCandidate opts))"

section \<open>UnpublishPublication\<close>

definition deletionKey :: "UnpublishPublicationOptions \<Rightarrow> Publication \<Rightarrow> Revision \<Rightarrow> Space \<Rightarrow> string" where
  "deletionKey opts publication revision space = buildIndexIdempotencyKey
     \<lparr>ik_OwnerID = sp_OwnerID space, ik_SpaceID = sp_ID space, ik_PublicationID = pub_ID publication,
      ik_Generation = pub_Generation publication, ik_RevisionSHA256 = rev_ContentSHA256 revision,
      ik_EngineProfileVersion = upo_EngineProfileVersion opts, ik_JobType = IndexJobTypeDelete\<rparr>"

definition newTombstone :: "UnpublishPublicationOptions \<Rightarrow> Publication \<Rightarrow> Space \<Rightarrow> RevocationTombstone" where
  "newTombstone opts publication space =
     \<lparr>tomb_ID = 0, tomb_PublicationID = pub_ID publication, tomb_SpaceID = sp_ID space,
      tomb_PublicationGeneration = pub_Generation publication,
      tomb_RevocationGeneration = pub_RevocationGeneration publication,
      tomb_EngineProfileVersion = upo_EngineProfileVersion opts, tomb_ActorID = upo_ActorID opts,
      tomb_Reason = upo_Reason opts, tomb_TraceID = upo_TraceID opts, tomb_CreatedUnix = 0\<rparr>"

definition revokePublication ::
  "UnpublishPublicationOptions \<Rightarrow> Publication \<Rightarrow> Document \<Rightarrow> Space \<Rightarrow> Revision \<Rightarrow> unit prog" where
  "revokePublication opts publication document space revision =
     andThen (mustUpdate ''revoke knowledge publication pointer'' ErrPublicationConflict documents documents_update
       (\<lambda>x. doc_ID x = doc_ID document \<and> doc_CurrentPublicationID x = pub_ID publication)
       (\<lambda>t x. doc_touch t (x\<lparr>doc_CurrentPublicationID := 0\<rparr>))) (\<lambda>_.
     andThen (mustUpdate ''unpublish knowledge publication'' ErrPublicationConflict publications publications_update
       (\<lambda>p. pub_ID p = pub_ID publication \<and> pub_IsCurrent p \<and> pub_ValidityStatus p = ValidityStatusCurrent)
       (\<lambda>t p. pub_touch t (p\<lparr>pub_IsCurrent := False, pub_ValidityStatus := ValidityStatusUnpublished\<rparr>))) (\<lambda>_.
     andThen (mustInsert ''create knowledge revocation'' tombstones tombstones_update
       (\<lambda>i r. r\<lparr>tomb_ID := i\<rparr>) tomb_stamp tomb_clash (newTombstone opts publication space)) (\<lambda>_.
     andThen (insertOutbox ''create knowledge deletion outbox''
       (newOutbox (pub_ID publication) ''knowledge.index.delete.requested''
         (deletionKey opts publication revision space)
         (jsonMap [(''publication_id'', itoa (pub_ID publication)),
                   (''revocation_generation'', itoa (pub_RevocationGeneration publication)),
                   (''job_type'', jsonQuote ''delete'')]))) (\<lambda>_.
     andThen (insertIndexJob ''create knowledge deletion job''
       (newIndexJob (pub_ID publication) IndexJobTypeDelete (deletionKey opts publication revision space)
         (rev_ContentSHA256 revision) (upo_EngineProfileVersion opts) 5)) (\<lambda>_.
     appendPublicationAudit
       \<lparr>ae_ID = 0, ae_ActorID = upo_ActorID opts, ae_Action = ''knowledge.publication.unpublished'',
        ae_EntityType = ''knowledge_publication'', ae_EntityID = pub_ID publication, ae_SpaceID = sp_ID space,
        ae_Result = ''succeeded'', ae_ReasonCode = ''unpublished'', ae_TraceID = upo_TraceID opts,
        ae_MetadataJSON = publicationAuditMetadata (pub_ID publication) (pub_Generation publication)
          (pub_RevocationGeneration publication),
        ae_CreatedUnix = 0\<rparr>)))))"

definition unpublishCurrent :: "UnpublishPublicationOptions \<Rightarrow> unit prog" where
  "unpublishCurrent opts =
     andThen (onErr (Errorf ''load knowledge revocation'')
       (getFirst tombstones (\<lambda>t. tomb_PublicationID t = upo_PublicationID opts))) (\<lambda>found.
     case found of
       Some tombstone \<Rightarrow>
         if tomb_PublicationGeneration tombstone = upo_ExpectedPublicationGeneration opts \<and>
            tomb_RevocationGeneration tombstone = upo_ExpectedRevocationGeneration opts \<and>
            tomb_EngineProfileVersion tombstone = upo_EngineProfileVersion opts \<and>
            tomb_Reason tombstone = upo_Reason opts \<and> tomb_TraceID tombstone = upo_TraceID opts
         then ret () else raise ErrPublicationConflict
     | None \<Rightarrow>
         andThen (mustGet ''load knowledge publication'' ErrPublicationNotFound pub_ID publications (upo_PublicationID opts)) (\<lambda>publication.
         andThen (loadPublicationParents publication) (\<lambda>parents.
         let document = fst parents; space = snd parents in
         if \<not> pub_IsCurrent publication \<or> pub_ValidityStatus publication \<noteq> ValidityStatusCurrent \<or>
            pub_IndexStatus publication \<noteq> IndexStatusSearchable \<or>
            doc_CurrentPublicationID document \<noteq> pub_ID publication \<or>
            pub_Generation publication \<noteq> upo_ExpectedPublicationGeneration opts \<or>
            pub_RevocationGeneration publication \<noteq> upo_ExpectedRevocationGeneration opts \<or>
            sp_RevocationGeneration space \<noteq> upo_ExpectedRevocationGeneration opts
         then raise ErrPublicationConflict
         else
         andThen (mustGet ''load knowledge revision'' ErrPublicationConflict rev_ID revisions (pub_RevisionID publication)) (\<lambda>revision.
         revokePublication opts publication document space revision))))"

definition UnpublishPublication :: "UnpublishPublicationOptions \<Rightarrow> unit prog" where
  "UnpublishPublication opts =
     (if upo_PublicationID opts \<le> 0 \<or> upo_ActorID opts \<le> 0 \<or> upo_ExpectedPublicationGeneration opts \<le> 0 \<or>
         upo_ExpectedRevocationGeneration opts \<le> 0 \<or> trimSpace (upo_EngineProfileVersion opts) = '''' \<or>
         \<not> validTraceID (upo_TraceID opts) \<or> \<not> validGovernanceText (upo_Reason opts) False
      then raise ErrPublicationConflict
      else withTx (unpublishCurrent opts))"

section \<open>Inversion\<close>

definition activatable ::
  "ActivatePublicationOptions \<Rightarrow> Publication \<Rightarrow> Document \<Rightarrow> Space \<Rightarrow> database \<Rightarrow> bool" where
  "activatable opts candidate document space d \<longleftrightarrow>
     tblGet pub_ID (apo_PublicationID opts) (publications d) = Some candidate \<and>
     tblGet doc_ID (pub_DocumentID candidate) (documents d) = Some document \<and>
     doc_SpaceID document = pub_SpaceID candidate \<and>
     tblGet sp_ID (pub_SpaceID candidate) (spaces d) = Some space \<and> sp_Status space = SpaceStatusActive \<and>
     pub_GovernanceStatus candidate = GovernanceStatusApproved \<and>
     pub_ValidityStatus candidate = ValidityStatusScheduled \<and>
     pub_IndexStatus candidate = IndexStatusEvaluation \<and> \<not> pub_IsCurrent candidate \<and>
     pub_Generation candidate = apo_ExpectedPublicationGeneration opts \<and>
     pub_RevocationGeneration candidate = apo_ExpectedRevocationGeneration opts \<and>
     sp_RevocationGeneration space = apo_ExpectedRevocationGeneration opts"

text \<open>The publications after the previous one, if any, was superseded.\<close>

definition supersededPublications :: "TimeStamp \<Rightarrow> Document \<Rightarrow> Publication table \<Rightarrow> Publication table" where
  "supersededPublications t document pubs =
     (if doc_CurrentPublicationID document > 0 then
        tblUpdate (\<lambda>p. pub_ID p = doc_CurrentPublicationID document \<and> pub_IsCurrent p)
          (\<lambda>p. pub_touch t (p\<lparr>pub_IsCurrent := False, pub_IndexStatus := IndexStatusSuperseded\<rparr>)) pubs
      else pubs)"

definition activatedPublications ::
  "ActivatePublicationOptions \<Rightarrow> TimeStamp \<Rightarrow> TimeStamp \<Rightarrow> Publication table \<Rightarrow> Publication table" where
  "activatedPublications opts now t =
     tblUpdate (\<lambda>p. pub_ID p = apo_PublicationID opts \<and> pub_Generation p = apo_ExpectedPublicationGeneration opts \<and>
            pub_RevocationGeneration p = apo_ExpectedRevocationGeneration opts \<and>
            pub_GovernanceStatus p = GovernanceStatusApproved \<and> pub_ValidityStatus p = ValidityStatusScheduled \<and>
            pub_IndexStatus p = IndexStatusEvaluation \<and> \<not> pub_IsCurrent p)
       (\<lambda>p. pub_touch t (p\<lparr>pub_IsCurrent := True, pub_ValidityStatus := ValidityStatusCurrent,
                              pub_IndexStatus := IndexStatusSearchable, pub_EffectiveUnix := now\<rparr>))"

definition switchedDocuments :: "TimeStamp \<Rightarrow> Publication \<Rightarrow> Document \<Rightarrow> Document table \<Rightarrow> Document table" where
  "switchedDocuments t candidate document =
     tblUpdate (\<lambda>x. doc_ID x = doc_ID document \<and> doc_CurrentPublicationID x = doc_CurrentPublicationID document)
       (\<lambda>x. doc_touch t (x\<lparr>doc_CurrentRevisionID := pub_RevisionID candidate,
                              doc_CurrentPublicationID := pub_ID candidate\<rparr>))"

definition boundIndex :: "ActivatePublicationOptions \<Rightarrow> TimeStamp \<Rightarrow> IndexBinding table \<Rightarrow> IndexBinding table \<Rightarrow> bool" where
  "boundIndex opts now before after \<longleftrightarrow>
     (if apo_EngineProfileVersion opts = '''' then after = before
      else \<exists>binding.
        tblFirst (\<lambda>b. ib_PublicationID b = apo_PublicationID opts \<and>
          ib_EngineProfileVersion b = apo_EngineProfileVersion opts) before = Some binding \<and>
        ib_Status binding = IndexStatusEvaluation \<and> trimSpace (ib_EngineDocumentID binding) \<noteq> '''' \<and>
        after = tblUpdate (\<lambda>b. ib_ID b = ib_ID binding \<and> ib_Status b = IndexStatusEvaluation)
          (\<lambda>b. b\<lparr>ib_Status := IndexStatusSearchable, ib_LastSuccessUnix := now\<rparr>) before)"

lemma loadPublicationParents_run [run_simps]:
  "loadPublicationParents p w = (Inr parents, w') \<longleftrightarrow>
     \<not> faults (env w) (calls w) \<and> \<not> faults (env w) (Suc (calls w)) \<and>
     tblGet doc_ID (pub_DocumentID p) (documents (db w)) = Some (fst parents) \<and>
     doc_SpaceID (fst parents) = pub_SpaceID p \<and>
     tblGet sp_ID (pub_SpaceID p) (spaces (db w)) = Some (snd parents) \<and> sp_Status (snd parents) = SpaceStatusActive \<and>
     w' = w\<lparr>calls := Suc (Suc (calls w))\<rparr>"
  by (cases parents) (auto simp: loadPublicationParents_def run_simps)

lemma same_publications: "d = d\<lparr>publications := publications d\<rparr>"
  by (cases d) simp

lemma same_indexBindings: "d = d\<lparr>indexBindings := indexBindings d\<rparr>"
  by (cases d) simp

lemma appendPublicationAudit_run:
  assumes "appendPublicationAudit event w = (Inr u, w')"
  obtains t audit tae where
    "tblInsert (\<lambda>i r. r\<lparr>ae_ID := i\<rparr>) ae_clash (ae_stamp t event) (auditEvents (db w)) = Some (audit, tae)"
    "db w' = (db w)\<lparr>auditEvents := tae\<rparr>"
  using assms by (auto simp: appendPublicationAudit_def run_simps intro!: that)

lemma supersedeCurrent_run:
  assumes "supersedeCurrent document space w = (Inr u, w')"
  obtains t where "db w' = (db w)\<lparr>publications := supersededPublications t document (publications (db w))\<rparr>"
    "doc_CurrentPublicationID document > 0 \<longrightarrow>
       (\<exists>old. tblGet pub_ID (doc_CurrentPublicationID document) (publications (db w)) = Some old \<and> pub_IsCurrent old \<and>
             pub_DocumentID old = doc_ID document \<and> pub_SpaceID old = sp_ID space)"
proof (cases "doc_CurrentPublicationID document > 0")
  case True
  with assms obtain old where "tblGet pub_ID (doc_CurrentPublicationID document) (publications (db w)) = Some old"
    by (auto simp: supersedeCurrent_def run_simps)
  moreover from this have "pub_ID old = doc_CurrentPublicationID document"
    by (rule tblGet_id)
  ultimately show thesis
    using True assms by (auto simp: supersedeCurrent_def supersededPublications_def run_simps intro!: that)
next
  case False
  with assms show thesis
    by (auto simp: supersedeCurrent_def supersededPublications_def run_simps intro: that same_publications)
qed

lemma activateBinding_run:
  assumes "activateBinding opts candidate now w = (Inr u, w')" "pub_ID candidate = apo_PublicationID opts"
  shows "\<exists>tb. boundIndex opts now (indexBindings (db w)) tb \<and> db w' = (db w)\<lparr>indexBindings := tb\<rparr>"
  using assms
  by (cases "apo_EngineProfileVersion opts = ''''")
    (auto simp: activateBinding_def boundIndex_def run_simps intro: same_indexBindings)

lemma switchPointer_run:
  assumes "switchPointer opts candidate document space w = (Inr u, w')" "pub_ID candidate = apo_PublicationID opts"
  obtains now t1 t2 t3 t4 tb tae audit event where
    "boundIndex opts now (indexBindings (db w)) tb"
    "tblInsert (\<lambda>i r. r\<lparr>ae_ID := i\<rparr>) ae_clash (ae_stamp t4 event) (auditEvents (db w)) = Some (audit, tae)"
    "db w' = (db w)\<lparr>publications := activatedPublications opts now t2
                (supersededPublications t1 document (publications (db w))),
              indexBindings := tb, documents := switchedDocuments t3 candidate document (documents (db w)),
              auditEvents := tae\<rparr>"
    "doc_CurrentPublicationID document > 0 \<longrightarrow>
       (\<exists>old. tblGet pub_ID (doc_CurrentPublicationID document) (publications (db w)) = Some old \<and> pub_IsCurrent old \<and>
             pub_DocumentID old = doc_ID document \<and> pub_SpaceID old = sp_ID space)"
proof -
  from assms(1) obtain u1 w1 now w3 u3 w4 w5 e t2 t3 where steps:
    "supersedeCurrent document space w = (Inr u1, w1)"
    "activateBinding opts candidate now w3 = (Inr u3, w4)"
    "appendPublicationAudit e w5 = (Inr u, w')"
    "db w3 = (db w1)\<lparr>publications := activatedPublications opts now t2 (publications (db w1))\<rparr>"
    "db w5 = (db w4)\<lparr>documents := switchedDocuments t3 candidate document (documents (db w4))\<rparr>"
    by (auto simp: switchPointer_def run_simps activatedPublications_def switchedDocuments_def assms(2))
  obtain t1 where s1: "db w1 = (db w)\<lparr>publications := supersededPublications t1 document (publications (db w))\<rparr>"
    "doc_CurrentPublicationID document > 0 \<longrightarrow>
       (\<exists>old. tblGet pub_ID (doc_CurrentPublicationID document) (publications (db w)) = Some old \<and> pub_IsCurrent old \<and>
             pub_DocumentID old = doc_ID document \<and> pub_SpaceID old = sp_ID space)"
    by (rule supersedeCurrent_run [OF steps(1)])
  obtain tb where s2: "boundIndex opts now (indexBindings (db w3)) tb" "db w4 = (db w3)\<lparr>indexBindings := tb\<rparr>"
    using activateBinding_run [OF steps(2) assms(2)] by auto
  obtain t4 audit tae where s3:
    "tblInsert (\<lambda>i r. r\<lparr>ae_ID := i\<rparr>) ae_clash (ae_stamp t4 e) (auditEvents (db w5)) = Some (audit, tae)"
    "db w' = (db w5)\<lparr>auditEvents := tae\<rparr>"
    by (rule appendPublicationAudit_run [OF steps(3)])
  have "db w' = (db w)\<lparr>publications := activatedPublications opts now t2
      (supersededPublications t1 document (publications (db w))),
    indexBindings := tb, documents := switchedDocuments t3 candidate document (documents (db w)), auditEvents := tae\<rparr>"
    by (simp add: s1 s2 s3 steps(4,5))
  from _ _ this s1(2) show thesis
    by (rule that) (use s2(1) s3(1) in \<open>simp_all add: s1 s2(2) steps(4,5)\<close>)
qed

lemma activateCandidate_run:
  assumes "activateCandidate opts w = (Inr u, w')"
  obtains candidate document space w1 where
    "switchPointer opts candidate document space w1 = (Inr u, w')"
    "activatable opts candidate document space (db w)" "db w1 = db w"
  using assms by (auto simp: activateCandidate_def run_simps activatable_def Let_def split: if_splits intro!: that)

lemma ActivatePublication_run:
  assumes "ActivatePublication opts w = (Inr u, w')"
  obtains w1 w2 where "activateCandidate opts w1 = (Inr u, w2)" "db w1 = db w" "db w2 = db w'"
    "0 < apo_PublicationID opts"
  using assms by (auto simp: ActivatePublication_def run_simps split: if_splits)

lemma ActivatePublication_error: "ActivatePublication opts w = (Inl e, w') \<Longrightarrow> db w' = db w"
  by (auto simp: ActivatePublication_def raise_def split: if_splits dest: withTx_error)

definition unpublishable ::
  "UnpublishPublicationOptions \<Rightarrow> Publication \<Rightarrow> Document \<Rightarrow> Space \<Rightarrow> Revision \<Rightarrow> database \<Rightarrow> bool" where
  "unpublishable opts publication document space revision d \<longleftrightarrow>
     tblFirst (\<lambda>t. tomb_PublicationID t = upo_PublicationID opts) (tombstones d) = None \<and>
     tblGet pub_ID (upo_PublicationID opts) (publications d) = Some publication \<and>
     tblGet doc_ID (pub_DocumentID publication) (documents d) = Some document \<and>
     doc_SpaceID document = pub_SpaceID publication \<and>
     tblGet sp_ID (pub_SpaceID publication) (spaces d) = Some space \<and> sp_Status space = SpaceStatusActive \<and>
     pub_IsCurrent publication \<and> pub_ValidityStatus publication = ValidityStatusCurrent \<and>
     pub_IndexStatus publication = IndexStatusSearchable \<and>
     doc_CurrentPublicationID document = pub_ID publication \<and>
     pub_Generation publication = upo_ExpectedPublicationGeneration opts \<and>
     pub_RevocationGeneration publication = upo_ExpectedRevocationGeneration opts \<and>
     sp_RevocationGeneration space = upo_ExpectedRevocationGeneration opts \<and>
     tblGet rev_ID (pub_RevisionID publication) (revisions d) = Some revision"

lemma revokePublication_run:
  assumes "revokePublication opts publication document space revision w = (Inr u, w')"
  obtains t tt tob tj tae tombstone outbox job audit payload event where
    "tblInsert (\<lambda>i r. r\<lparr>tomb_ID := i\<rparr>) tomb_clash (tomb_stamp t (newTombstone opts publication space))
       (tombstones (db w)) = Some (tombstone, tt)"
    "tblInsert (\<lambda>i r. r\<lparr>ob_ID := i\<rparr>) ob_clash (ob_stamp t (newOutbox (pub_ID publication)
       ''knowledge.index.delete.requested'' (deletionKey opts publication revision space) payload))
       (outboxes (db w)) = Some (outbox, tob)"
    "tblInsert (\<lambda>i r. r\<lparr>job_ID := i\<rparr>) job_clash (job_stamp t (newIndexJob (pub_ID publication) IndexJobTypeDelete
       (deletionKey opts publication revision space) (rev_ContentSHA256 revision) (upo_EngineProfileVersion opts) 5))
       (indexJobs (db w)) = Some (job, tj)"
    "tblInsert (\<lambda>i r. r\<lparr>ae_ID := i\<rparr>) ae_clash (ae_stamp t event) (auditEvents (db w)) = Some (audit, tae)"
    "db w' = (db w)\<lparr>
       documents := tblUpdate (\<lambda>x. doc_ID x = doc_ID document \<and> doc_CurrentPublicationID x = pub_ID publication)
         (\<lambda>x. doc_touch t (x\<lparr>doc_CurrentPublicationID := 0\<rparr>)) (documents (db w)),
       publications := tblUpdate (\<lambda>p. pub_ID p = pub_ID publication \<and> pub_IsCurrent p \<and> pub_ValidityStatus p = ValidityStatusCurrent)
         (\<lambda>p. pub_touch t (p\<lparr>pub_IsCurrent := False, pub_ValidityStatus := ValidityStatusUnpublished\<rparr>)) (publications (db w)),
       tombstones := tt, outboxes := tob, indexJobs := tj, auditEvents := tae\<rparr>"
  using assms by (auto simp: revokePublication_def appendPublicationAudit_def run_simps intro!: that)

lemma unpublishCurrent_run:
  assumes "unpublishCurrent opts w = (Inr u, w')"
  obtains (replay) tombstone where
    "tblFirst (\<lambda>t. tomb_PublicationID t = upo_PublicationID opts) (tombstones (db w)) = Some tombstone"
    "tomb_Reason tombstone = upo_Reason opts" "tomb_TraceID tombstone = upo_TraceID opts" "db w' = db w"
  | (revoked) publication document space revision w1 where
    "revokePublication opts publication document space revision w1 = (Inr u, w')"
    "unpublishable opts publication document space revision (db w)" "db w1 = db w"
proof (cases "tblFirst (\<lambda>t. tomb_PublicationID t = upo_PublicationID opts) (tombstones (db w))")
  case None
  with assms show thesis
    by (auto simp: unpublishCurrent_def run_simps unpublishable_def Let_def split: if_splits intro!: revoked)
next
  case (Some tombstone)
  with assms show thesis
    by (auto simp: unpublishCurrent_def run_simps split: if_splits intro!: replay)
qed

lemma UnpublishPublication_run:
  assumes "UnpublishPublication opts w = (Inr u, w')"
  obtains w1 w2 where "unpublishCurrent opts w1 = (Inr u, w2)" "db w1 = db w" "db w2 = db w'"
  using assms by (auto simp: UnpublishPublication_def run_simps split: if_splits)

lemma UnpublishPublication_error: "UnpublishPublication opts w = (Inl e, w') \<Longrightarrow> db w' = db w"
  by (auto simp: UnpublishPublication_def raise_def split: if_splits dest: withTx_error)

end
