(* ===== verification/Governance.thy ===== *)
theory Governance
  imports Publishing
begin

text \<open>
  What the governance model promises about the database as a whole.

  \<open>governance\<close> is the invariant: pointers of documents and flags of publications agree, every
  publication stems from an approval of its revision by somebody other than the requester,
  generations are unique and bounded by the space's counter, a revoked publication is neither
  current nor schedulable. \<open>history\<close> relates two databases of a run: revisions, tombstones and
  audit events are only appended, a decided approval and the identity of a publication never
  change, generation counters do not go back, a revocation is final.

  \<open>governed\<close> is the preorder "keeps the invariant and respects history"; it instantiates the
  frame contract, so that an operation satisfies it once its writes do. The lemmas
  \<open>governed_..\<close> are those writes: one per table that carries no governance state, one per
  guarded write that does.
\<close>

section \<open>The invariant\<close>

definition pointersAgree :: "Document table \<Rightarrow> Publication table \<Rightarrow> bool" where
  "pointersAgree docs pubs \<longleftrightarrow>
     (\<forall>p \<in> set (rows pubs). pub_IsCurrent p \<longrightarrow>
        (case tblGet doc_ID (pub_DocumentID p) docs of None \<Rightarrow> False
         | Some x \<Rightarrow> doc_CurrentPublicationID x = pub_ID p)) \<and>
     (\<forall>x \<in> set (rows docs). doc_CurrentPublicationID x \<noteq> 0 \<longrightarrow>
        (case tblGet pub_ID (doc_CurrentPublicationID x) pubs of None \<Rightarrow> False
         | Some p \<Rightarrow> pub_IsCurrent p \<and> pub_DocumentID p = doc_ID x))"

definition provenance :: "Approval table \<Rightarrow> Revision table \<Rightarrow> Publication table \<Rightarrow> bool" where
  "provenance apprs revs pubs \<longleftrightarrow>
     (\<forall>p \<in> set (rows pubs).
        (case tblGet appr_ID (pub_ApprovalID p) apprs of None \<Rightarrow> False
         | Some a \<Rightarrow> appr_Status a = ApprovalStatusApproved \<and> appr_DecidedBy a \<noteq> appr_RequestedBy a \<and>
             appr_RevisionID a = pub_RevisionID p) \<and>
        (case tblGet rev_ID (pub_RevisionID p) revs of None \<Rightarrow> False
         | Some r \<Rightarrow> rev_DocumentID r = pub_DocumentID p))"

definition generations :: "Space table \<Rightarrow> Document table \<Rightarrow> Publication table \<Rightarrow> bool" where
  "generations sps docs pubs \<longleftrightarrow>
     (\<forall>p \<in> set (rows pubs).
        (case tblGet sp_ID (pub_SpaceID p) sps of None \<Rightarrow> False
         | Some s \<Rightarrow> pub_Generation p \<le> sp_PublicationGeneration s) \<and>
        (case tblGet doc_ID (pub_DocumentID p) docs of None \<Rightarrow> False
         | Some x \<Rightarrow> doc_SpaceID x = pub_SpaceID p))"

definition unambiguous :: "Publication table \<Rightarrow> bool" where
  "unambiguous pubs \<longleftrightarrow>
     (\<forall>p \<in> set (rows pubs). \<forall>q \<in> set (rows pubs).
        pub_SpaceID p = pub_SpaceID q \<and> pub_Generation p = pub_Generation q \<or>
        pub_ApprovalID p = pub_ApprovalID q \<longrightarrow> pub_ID p = pub_ID q)"

definition approvedValid :: "Publication table \<Rightarrow> bool" where
  "approvedValid pubs \<longleftrightarrow>
     (\<forall>p \<in> set (rows pubs). pub_GovernanceStatus p = GovernanceStatusApproved \<and>
        (pub_IsCurrent p \<longrightarrow> pub_ValidityStatus p = ValidityStatusCurrent))"

definition revoked :: "RevocationTombstone table \<Rightarrow> Publication table \<Rightarrow> bool" where
  "revoked tombs pubs \<longleftrightarrow>
     (\<forall>t \<in> set (rows tombs).
        (case tblGet pub_ID (tomb_PublicationID t) pubs of None \<Rightarrow> False
         | Some p \<Rightarrow> \<not> pub_IsCurrent p \<and> pub_ValidityStatus p = ValidityStatusUnpublished))"

definition governance :: "database \<Rightarrow> bool" where
  "governance d \<longleftrightarrow>
     dbWf d \<and> pointersAgree (documents d) (publications d) \<and>
     provenance (approvals d) (revisions d) (publications d) \<and>
     generations (spaces d) (documents d) (publications d) \<and> unambiguous (publications d) \<and> approvedValid (publications d) \<and>
     revoked (tombstones d) (publications d)"

lemma governance_empty: "governance emptyDatabase"
  by (simp add: governance_def dbWf_empty pointersAgree_def provenance_def generations_def unambiguous_def
      approvedValid_def revoked_def)
    (simp_all add: emptyDatabase_def emptyTable_def)

section \<open>History\<close>

text \<open>The columns of a publication that are fixed when it is created.\<close>

definition identity :: "Publication \<Rightarrow> int \<times> int \<times> int \<times> int \<times> int \<times> int \<times> int" where
  "identity p = (pub_SpaceID p, pub_DocumentID p, pub_RevisionID p, pub_ApprovalID p, pub_Generation p,
     pub_ACLPolicyVersion p, pub_RevocationGeneration p)"

definition keepsRows :: "('r \<Rightarrow> int) \<Rightarrow> ('r \<Rightarrow> 'r \<Rightarrow> bool) \<Rightarrow> 'r table \<Rightarrow> 'r table \<Rightarrow> bool" where
  "keepsRows idf ok t t' \<longleftrightarrow>
     (\<forall>i r. tblGet idf i t = Some r \<longrightarrow> (\<exists>r'. tblGet idf i t' = Some r' \<and> ok r r'))"

text \<open>
  A publication leaves the scheduled state once; one that is neither scheduled nor current is
  never current again, and an unpublished one stays unpublished.
\<close>

definition publicationStep :: "Publication \<Rightarrow> Publication \<Rightarrow> bool" where
  "publicationStep p p' \<longleftrightarrow> identity p' = identity p \<and>
     (pub_ValidityStatus p \<noteq> ValidityStatusScheduled \<longrightarrow> pub_ValidityStatus p' \<noteq> ValidityStatusScheduled \<and>
        (\<not> pub_IsCurrent p \<longrightarrow> \<not> pub_IsCurrent p')) \<and>
     (pub_ValidityStatus p = ValidityStatusUnpublished \<longrightarrow> pub_ValidityStatus p' = ValidityStatusUnpublished)"

definition approvalStep :: "Approval \<Rightarrow> Approval \<Rightarrow> bool" where
  "approvalStep a a' \<longleftrightarrow> appr_RevisionID a' = appr_RevisionID a \<and> appr_RequestedBy a' = appr_RequestedBy a \<and>
     (appr_Status a \<noteq> ApprovalStatusPending \<longrightarrow> a' = a)"

definition spaceStep :: "Space \<Rightarrow> Space \<Rightarrow> bool" where
  "spaceStep s s' \<longleftrightarrow> sp_PublicationGeneration s \<le> sp_PublicationGeneration s'"

definition documentStep :: "Document \<Rightarrow> Document \<Rightarrow> bool" where
  "documentStep x x' \<longleftrightarrow> doc_SpaceID x' = doc_SpaceID x"

definition appended :: "'r table \<Rightarrow> 'r table \<Rightarrow> bool" where
  "appended t t' \<longleftrightarrow> prefix (rows t) (rows t')"

text \<open>A space that has publications is kept (an unused one may be deleted).\<close>

definition spacesKept :: "database \<Rightarrow> database \<Rightarrow> bool" where
  "spacesKept d d' \<longleftrightarrow>
     (\<forall>i s. tblGet sp_ID i (spaces d) = Some s \<and>
        (\<exists>j p. tblGet pub_ID j (publications d) = Some p \<and> pub_SpaceID p = i) \<longrightarrow>
        (\<exists>s'. tblGet sp_ID i (spaces d') = Some s' \<and> spaceStep s s'))"

definition history :: "database \<Rightarrow> database \<Rightarrow> bool" where
  "history d d' \<longleftrightarrow>
     keepsRows pub_ID publicationStep (publications d) (publications d') \<and>
     keepsRows appr_ID approvalStep (approvals d) (approvals d') \<and>
     keepsRows doc_ID documentStep (documents d) (documents d') \<and>
     spacesKept d d' \<and>
     appended (revisions d) (revisions d') \<and> appended (tombstones d) (tombstones d') \<and>
     appended (auditEvents d) (auditEvents d')"

lemma keepsRows_refl [simp]: "(\<And>r. ok r r) \<Longrightarrow> keepsRows idf ok t t"
  by (auto simp: keepsRows_def)

lemma keepsRows_trans:
  "(\<And>a b c. ok a b \<Longrightarrow> ok b c \<Longrightarrow> ok a c) \<Longrightarrow> keepsRows idf ok t u \<Longrightarrow> keepsRows idf ok u v \<Longrightarrow> keepsRows idf ok t v"
  unfolding keepsRows_def by metis

lemma step_refl [simp]: "publicationStep p p" "approvalStep a a" "documentStep x x" "spaceStep s s"
  by (simp_all add: publicationStep_def approvalStep_def documentStep_def spaceStep_def)

lemma appended_refl [simp]: "appended t t"
  by (simp add: appended_def)

lemma spacesKept_rows: "keepsRows sp_ID spaceStep (spaces d) (spaces d') \<Longrightarrow> spacesKept d d'"
  by (auto simp: keepsRows_def spacesKept_def)

lemma spacesKept_same [simp]: "spaces d' = spaces d \<Longrightarrow> spacesKept d d'"
  by (rule spacesKept_rows) simp

lemma spacesKept_trans:
  assumes "spacesKept d e" "spacesKept e f" "keepsRows pub_ID publicationStep (publications d) (publications e)"
  shows "spacesKept d f"
  unfolding spacesKept_def
proof (intro allI impI, elim conjE exE)
  fix i s j p
  assume s: "tblGet sp_ID i (spaces d) = Some s" and p: "tblGet pub_ID j (publications d) = Some p" "pub_SpaceID p = i"
  obtain s1 where s1: "tblGet sp_ID i (spaces e) = Some s1" "spaceStep s s1"
    using assms(1) s p unfolding spacesKept_def by blast
  obtain p1 where "tblGet pub_ID j (publications e) = Some p1" "pub_SpaceID p1 = i"
    using assms(3) p unfolding keepsRows_def publicationStep_def by (fastforce simp: identity_def)
  with assms(2) s1(1) obtain s2 where "tblGet sp_ID i (spaces f) = Some s2" "spaceStep s1 s2"
    unfolding spacesKept_def by blast
  with s1(2) show "\<exists>s'. tblGet sp_ID i (spaces f) = Some s' \<and> spaceStep s s'"
    by (auto simp: spaceStep_def)
qed

lemma history_refl: "history d d"
  by (simp add: history_def)

lemma publicationStep_trans: "publicationStep a b \<Longrightarrow> publicationStep b c \<Longrightarrow> publicationStep a c"
  unfolding publicationStep_def by auto

lemma history_trans:
  assumes "history d e" "history e f"
  shows "history d f"
proof -
  note trans = keepsRows_trans [rotated]
  have "keepsRows pub_ID publicationStep (publications d) (publications f)"
    by (rule trans) (use assms publicationStep_trans in \<open>auto simp: history_def\<close>)
  moreover have "keepsRows appr_ID approvalStep (approvals d) (approvals f)"
    by (rule trans) (use assms in \<open>auto simp: history_def approvalStep_def\<close>)
  moreover have "keepsRows doc_ID documentStep (documents d) (documents f)"
    by (rule trans) (use assms in \<open>auto simp: history_def documentStep_def\<close>)
  moreover have "spacesKept d f"
    using assms spacesKept_trans unfolding history_def by blast
  ultimately show ?thesis
    using assms by (auto simp: history_def appended_def)
qed

section \<open>How the parts of the invariant are kept\<close>

text \<open>\<open>lookup\<close> is an existing row with a property, the shape all parts have.\<close>

lemma case_get: "(case x of None \<Rightarrow> False | Some r \<Rightarrow> Q r) \<longleftrightarrow> (\<exists>r. x = Some r \<and> Q r)"
  by (cases x) auto

lemma pointersAgree_docs:
  assumes "pointersAgree docs pubs" "\<And>x. doc_ID (g x) = doc_ID x"
    "\<And>x. doc_CurrentPublicationID (g x) = doc_CurrentPublicationID x"
  shows "pointersAgree (tblUpdate P g docs) pubs"
  using assms(1)
  by (fastforce simp: pointersAgree_def rows_tblUpdate tblGet_update assms(2,3) case_get)

lemma pointersAgree_pubs:
  assumes "pointersAgree docs pubs"
    "\<And>p. pub_ID (f p) = pub_ID p" "\<And>p. pub_IsCurrent (f p) = pub_IsCurrent p" "\<And>p. pub_DocumentID (f p) = pub_DocumentID p"
  shows "pointersAgree docs (tblUpdate P f pubs)"
  using assms(1)
  by (fastforce simp: pointersAgree_def rows_tblUpdate tblGet_update assms(2-4) case_get)

lemma pointersAgree_new_pub:
  assumes "pointersAgree docs pubs" "tblWf pub_ID pubs"
    "tblInsert (\<lambda>i r. r\<lparr>pub_ID := i\<rparr>) clash p pubs = Some (p', pubs')" "\<not> pub_IsCurrent p"
  shows "pointersAgree docs pubs'"
  using assms(1,4) pub_tbl.insert_row [OF assms(3)] pub_tbl.insert_get_old [OF assms(3,2)]
  by (fastforce simp: pointersAgree_def case_get)

lemma pointersAgree_new_doc:
  assumes "pointersAgree docs pubs" "tblWf doc_ID docs"
    "tblInsert (\<lambda>i r. r\<lparr>doc_ID := i\<rparr>) clash x docs = Some (x', docs')" "doc_CurrentPublicationID x = 0"
  shows "pointersAgree docs' pubs"
  using assms(1,4) doc_tbl.insert_row [OF assms(3)] doc_tbl.insert_get_old [OF assms(3,2)]
  by (fastforce simp: pointersAgree_def case_get)

lemma identityD:
  assumes "identity p = identity q"
  shows "pub_SpaceID p = pub_SpaceID q" "pub_DocumentID p = pub_DocumentID q" "pub_RevisionID p = pub_RevisionID q"
    "pub_ApprovalID p = pub_ApprovalID q" "pub_Generation p = pub_Generation q"
    "pub_ACLPolicyVersion p = pub_ACLPolicyVersion q" "pub_RevocationGeneration p = pub_RevocationGeneration q"
  using assms by (simp_all add: identity_def)

lemma provenance_pubs:
  assumes "provenance apprs revs pubs" "\<And>p. identity (f p) = identity p"
  shows "provenance apprs revs (tblUpdate P f pubs)"
  using assms(1) identityD [OF assms(2)] by (auto simp: provenance_def rows_tblUpdate case_get)

lemma provenance_apprs:
  assumes "provenance apprs revs pubs" "\<And>a. appr_ID (f a) = appr_ID a" "\<And>a. P a \<Longrightarrow> appr_Status a = ApprovalStatusPending"
  shows "provenance (tblUpdate P f apprs) revs pubs"
  using assms by (fastforce simp: provenance_def tblGet_update case_get)

lemma provenance_new_appr:
  assumes "provenance apprs revs pubs" "tblWf appr_ID apprs"
    "tblInsert (\<lambda>i r. r\<lparr>appr_ID := i\<rparr>) clash a apprs = Some (a', apprs')"
  shows "provenance apprs' revs pubs"
  using assms(1) appr_tbl.insert_get_old [OF assms(3,2)] by (fastforce simp: provenance_def case_get)

lemma provenance_new_rev:
  assumes "provenance apprs revs pubs" "tblWf rev_ID revs"
    "tblInsert (\<lambda>i r. r\<lparr>rev_ID := i\<rparr>) clash a revs = Some (a', revs')"
  shows "provenance apprs revs' pubs"
  using assms(1) rev_tbl.insert_get_old [OF assms(3,2)] by (fastforce simp: provenance_def case_get)

lemma generations_pubs:
  assumes "generations sps docs pubs" "\<And>p. identity (f p) = identity p"
  shows "generations sps docs (tblUpdate P f pubs)"
  using assms(1) identityD [OF assms(2)] by (auto simp: generations_def rows_tblUpdate case_get)

lemma unambiguous_pubs:
  assumes "unambiguous pubs" "\<And>p. pub_ID (f p) = pub_ID p" "\<And>p. identity (f p) = identity p"
  shows "unambiguous (tblUpdate P f pubs)"
proof -
  have "pub_ID (if P p then f p else p) = pub_ID p" "pub_SpaceID (if P p then f p else p) = pub_SpaceID p"
    "pub_Generation (if P p then f p else p) = pub_Generation p" "pub_ApprovalID (if P p then f p else p) = pub_ApprovalID p" for p
    using assms(2) identityD [OF assms(3)] by simp_all
  with assms(1) show ?thesis
    by (simp only: unambiguous_def rows_tblUpdate set_map ball_simps)
qed

lemma unambiguous_new_pub:
  assumes "unambiguous pubs" "tblInsert (\<lambda>i r. r\<lparr>pub_ID := i\<rparr>) pub_clash p pubs = Some (p', pubs')"
  shows "unambiguous pubs'"
proof -
  have fresh: "\<not> pub_clash p old" if "old \<in> set (rows pubs)" for old
    using pub_tbl.insert_fresh [OF assms(2) that] .
  have rows: "rows pubs' = rows pubs @ [p']" "p' = p\<lparr>pub_ID := next_id pubs\<rparr>"
    using pub_tbl.insert_row [OF assms(2)] by simp_all
  have "\<not> (pub_SpaceID p' = pub_SpaceID old \<and> pub_Generation p' = pub_Generation old)"
    "pub_ApprovalID p' \<noteq> pub_ApprovalID old" if "old \<in> set (rows pubs)" for old
    using fresh [OF that] rows(2) by (auto simp: pub_clash_def)
  with assms(1) show ?thesis
    unfolding unambiguous_def rows(1) by fastforce
qed

lemma generations_new_pub:
  assumes "generations sps docs pubs" "tblInsert (\<lambda>i r. r\<lparr>pub_ID := i\<rparr>) pub_clash p pubs = Some (p', pubs')"
    "tblGet sp_ID (pub_SpaceID p) sps = Some s" "pub_Generation p \<le> sp_PublicationGeneration s"
    "tblGet doc_ID (pub_DocumentID p) docs = Some x" "doc_SpaceID x = pub_SpaceID p"
  shows "generations sps docs pubs'"
  using assms(1,3-6) pub_tbl.insert_row [OF assms(2)] by (simp add: generations_def)

lemma provenance_new_pub:
  assumes "provenance apprs revs pubs" "tblInsert (\<lambda>i r. r\<lparr>pub_ID := i\<rparr>) pub_clash p pubs = Some (p', pubs')"
    "tblGet appr_ID (pub_ApprovalID p) apprs = Some a" "appr_Status a = ApprovalStatusApproved"
    "appr_DecidedBy a \<noteq> appr_RequestedBy a" "appr_RevisionID a = pub_RevisionID p"
    "tblGet rev_ID (pub_RevisionID p) revs = Some r" "rev_DocumentID r = pub_DocumentID p"
  shows "provenance apprs revs pubs'"
  using assms(1,3-8) pub_tbl.insert_row [OF assms(2)] by (simp add: provenance_def)

lemma generations_spaces:
  assumes "generations sps docs pubs" "\<And>s. sp_ID (g s) = sp_ID s"
    "\<And>s. P s \<Longrightarrow> sp_PublicationGeneration s \<le> sp_PublicationGeneration (g s)"
  shows "generations (tblUpdate P g sps) docs pubs"
proof -
  have "tblGet sp_ID i (tblUpdate P g sps) = Some (if P s then g s else s) \<and>
        sp_PublicationGeneration s \<le> sp_PublicationGeneration (if P s then g s else s)"
    if "tblGet sp_ID i sps = Some s" for i s
    using that assms(3) by (simp add: tblGet_update assms(2))
  with assms(1) show ?thesis
    unfolding generations_def case_get by (meson order_trans)
qed

lemma generations_docs:
  assumes "generations sps docs pubs" "\<And>x. doc_ID (g x) = doc_ID x" "\<And>x. doc_SpaceID (g x) = doc_SpaceID x"
  shows "generations sps (tblUpdate P g docs) pubs"
proof -
  have "doc_SpaceID (if P x then g x else x) = doc_SpaceID x" for x
    using assms(3) by simp
  with assms(1) show ?thesis
    by (simp add: generations_def tblGet_update assms(2) case_get del: if_split)
qed

lemma generations_new_doc:
  assumes "generations sps docs pubs" "tblWf doc_ID docs"
    "tblInsert (\<lambda>i r. r\<lparr>doc_ID := i\<rparr>) clash x docs = Some (x', docs')"
  shows "generations sps docs' pubs"
  using assms(1) unfolding generations_def case_get
  by (meson doc_tbl.insert_get_old [OF assms(3,2)])

lemma generations_new_space:
  assumes "generations sps docs pubs" "tblWf sp_ID sps"
    "tblInsert (\<lambda>i r. r\<lparr>sp_ID := i\<rparr>) clash x sps = Some (x', sps')"
  shows "generations sps' docs pubs"
  using assms(1) unfolding generations_def case_get
  by (meson sp_tbl.insert_get_old [OF assms(3,2)])

lemma approvedValid_pubs:
  assumes "approvedValid pubs"
    "\<And>p. P p \<Longrightarrow> pub_GovernanceStatus p = GovernanceStatusApproved \<Longrightarrow>
      (pub_IsCurrent p \<longrightarrow> pub_ValidityStatus p = ValidityStatusCurrent) \<Longrightarrow>
      pub_GovernanceStatus (f p) = GovernanceStatusApproved \<and>
      (pub_IsCurrent (f p) \<longrightarrow> pub_ValidityStatus (f p) = ValidityStatusCurrent)"
  shows "approvedValid (tblUpdate P f pubs)"
  using assms by (auto simp: approvedValid_def rows_tblUpdate)

lemma revoked_pubs:
  assumes "revoked tombs pubs" "\<And>p. pub_ID (f p) = pub_ID p"
    "\<And>p. P p \<Longrightarrow> pub_ValidityStatus p = ValidityStatusUnpublished \<Longrightarrow> \<not> pub_IsCurrent p \<Longrightarrow>
      pub_ValidityStatus (f p) = ValidityStatusUnpublished \<and> \<not> pub_IsCurrent (f p)"
  shows "revoked tombs (tblUpdate P f pubs)"
  using assms by (fastforce simp: revoked_def tblGet_update case_get)

lemma revoked_new_pub:
  assumes "revoked tombs pubs" "tblWf pub_ID pubs"
    "tblInsert (\<lambda>i r. r\<lparr>pub_ID := i\<rparr>) clash p pubs = Some (p', pubs')"
  shows "revoked tombs pubs'"
  using assms(1) pub_tbl.insert_get_old [OF assms(3,2)] by (fastforce simp: revoked_def case_get)

lemma keepsRows_update:
  assumes "\<And>r. idf (f r) = idf r" "\<And>r. P r \<Longrightarrow> ok r (f r)" "\<And>r. ok r r"
  shows "keepsRows idf ok t (tblUpdate P f t)"
  using assms by (simp add: keepsRows_def tblGet_update)

lemma keepsRows_grow:
  assumes "\<And>i r. tblGet idf i t = Some r \<Longrightarrow> tblGet idf i t' = Some r" "\<And>r. ok r r"
  shows "keepsRows idf ok t t'"
  using assms by (auto simp: keepsRows_def)

lemma appended_grow: "rows t' = rows t @ [r] \<Longrightarrow> appended t t'"
  by (simp add: appended_def)

section \<open>The relation of governed runs\<close>

definition governed :: "database \<Rightarrow> database \<Rightarrow> bool" where
  "governed d d' \<longleftrightarrow> (governance d \<longrightarrow> governance d' \<and> history d d')"

interpretation gov: db_frame governed
  by unfold_locales (auto simp: governed_def history_refl dest: history_trans)

text \<open>Tables without governance state may change in any well-formed way.\<close>

lemma governed_other:
  "(tblWf ds_ID (dataSources d) \<Longrightarrow> tblWf ds_ID t1) \<Longrightarrow> governed d (d\<lparr>dataSources := t1\<rparr>)"
  "(tblWf rc_ID (reviewChecks d) \<Longrightarrow> tblWf rc_ID t2) \<Longrightarrow> governed d (d\<lparr>reviewChecks := t2\<rparr>)"
  "(tblWf sr_ID (syncRuns d) \<Longrightarrow> tblWf sr_ID t3) \<Longrightarrow> governed d (d\<lparr>syncRuns := t3\<rparr>)"
  "(tblWf dify_ID (difyBindings d) \<Longrightarrow> tblWf dify_ID t4) \<Longrightarrow> governed d (d\<lparr>difyBindings := t4\<rparr>)"
  "(tblWf re_ID (retrievalEvents d) \<Longrightarrow> tblWf re_ID t5) \<Longrightarrow> governed d (d\<lparr>retrievalEvents := t5\<rparr>)"
  "(tblWf fb_ID (feedbacks d) \<Longrightarrow> tblWf fb_ID t6) \<Longrightarrow> governed d (d\<lparr>feedbacks := t6\<rparr>)"
  "(tblWf ib_ID (indexBindings d) \<Longrightarrow> tblWf ib_ID t7) \<Longrightarrow> governed d (d\<lparr>indexBindings := t7\<rparr>)"
  "(tblWf job_ID (indexJobs d) \<Longrightarrow> tblWf job_ID t8) \<Longrightarrow> governed d (d\<lparr>indexJobs := t8\<rparr>)"
  "(tblWf ob_ID (outboxes d) \<Longrightarrow> tblWf ob_ID t9) \<Longrightarrow> governed d (d\<lparr>outboxes := t9\<rparr>)"
  by (simp_all add: governed_def governance_def dbWf_def history_def)

lemma governed_audit:
  assumes "tblInsert (\<lambda>i r. r\<lparr>ae_ID := i\<rparr>) ae_clash e (auditEvents d) = Some (e', t)"
  shows "governed d (d\<lparr>auditEvents := t\<rparr>)"
  using ae_tbl.insert_row(2) [OF assms] ae_tbl.insert_wf [OF assms]
  by (auto simp: governed_def governance_def dbWf_def history_def intro: appended_grow)

text \<open>Bookkeeping of the index: any column of a publication but the governed ones.\<close>

lemma governed_publications:
  assumes "\<And>p. pub_ID (f p) = pub_ID p" "\<And>p. identity (f p) = identity p"
    "\<And>p. pub_GovernanceStatus (f p) = pub_GovernanceStatus p" "\<And>p. pub_ValidityStatus (f p) = pub_ValidityStatus p"
    "\<And>p. pub_IsCurrent (f p) = pub_IsCurrent p"
  shows "governed d (d\<lparr>publications := tblUpdate P f (publications d)\<rparr>)"
proof -
  have step: "publicationStep p (f p)" for p
    using assms by (simp add: publicationStep_def)
  have "governance d \<Longrightarrow> governance (d\<lparr>publications := tblUpdate P f (publications d)\<rparr>)"
    by (auto simp: governance_def dbWf_def tblWf_update assms(1) identityD(2) [OF assms(2)] assms(3-5)
        intro: pointersAgree_pubs provenance_pubs generations_pubs unambiguous_pubs approvedValid_pubs
          revoked_pubs assms(1,2))
  moreover have "history d (d\<lparr>publications := tblUpdate P f (publications d)\<rparr>)"
    by (simp add: history_def keepsRows_update assms(1) step)
  ultimately show ?thesis by (simp add: governed_def)
qed

text \<open>Bookkeeping of documents: title, status, revision pointer, but not the publication pointer.\<close>

lemma governed_documents:
  assumes "\<And>x. doc_ID (g x) = doc_ID x" "\<And>x. doc_SpaceID (g x) = doc_SpaceID x"
    "\<And>x. doc_CurrentPublicationID (g x) = doc_CurrentPublicationID x"
  shows "governed d (d\<lparr>documents := tblUpdate P g (documents d)\<rparr>)"
proof -
  have "governance d \<Longrightarrow> governance (d\<lparr>documents := tblUpdate P g (documents d)\<rparr>)"
    by (auto simp: governance_def dbWf_def tblWf_update assms(1)
        intro: pointersAgree_docs generations_docs assms)
  moreover have "history d (d\<lparr>documents := tblUpdate P g (documents d)\<rparr>)"
    by (simp add: history_def keepsRows_update assms(1,2) documentStep_def)
  ultimately show ?thesis by (simp add: governed_def)
qed

lemma governed_spaces:
  assumes "\<And>s. sp_ID (g s) = sp_ID s" "\<And>s. P s \<Longrightarrow> sp_PublicationGeneration s \<le> sp_PublicationGeneration (g s)"
  shows "governed d (d\<lparr>spaces := tblUpdate P g (spaces d)\<rparr>)"
proof -
  have "governance d \<Longrightarrow> governance (d\<lparr>spaces := tblUpdate P g (spaces d)\<rparr>)"
    by (auto simp: governance_def dbWf_def tblWf_update assms(1) intro: generations_spaces assms)
  moreover have "history d (d\<lparr>spaces := tblUpdate P g (spaces d)\<rparr>)"
    by (simp add: history_def spacesKept_rows keepsRows_update assms(1,2) spaceStep_def)
  ultimately show ?thesis by (simp add: governed_def)
qed

text \<open>Deciding a pending approval, whatever the decision.\<close>

lemma governed_approvals:
  assumes "\<And>a. appr_ID (f a) = appr_ID a" "\<And>a. P a \<Longrightarrow> appr_Status a = ApprovalStatusPending"
    "\<And>a. appr_RevisionID (f a) = appr_RevisionID a" "\<And>a. appr_RequestedBy (f a) = appr_RequestedBy a"
  shows "governed d (d\<lparr>approvals := tblUpdate P f (approvals d)\<rparr>)"
proof -
  have "governance d \<Longrightarrow> governance (d\<lparr>approvals := tblUpdate P f (approvals d)\<rparr>)"
    by (auto simp: governance_def dbWf_def tblWf_update assms(1) intro: provenance_apprs assms)
  moreover have "history d (d\<lparr>approvals := tblUpdate P f (approvals d)\<rparr>)"
    by (simp add: history_def keepsRows_update assms approvalStep_def)
  ultimately show ?thesis by (simp add: governed_def)
qed

text \<open>New documents, revisions, approvals and spaces.\<close>

lemma governed_new_document:
  assumes "tblInsert (\<lambda>i r. r\<lparr>doc_ID := i\<rparr>) doc_clash x (documents d) = Some (x', t)" "doc_CurrentPublicationID x = 0"
  shows "governed d (d\<lparr>documents := t\<rparr>)"
  using assms(2) doc_tbl.insert_wf [OF assms(1)] doc_tbl.insert_get_old [OF assms(1)]
    pointersAgree_new_doc [OF _ _ assms(1)] generations_new_doc [OF _ _ assms(1)]
  by (auto simp: governed_def governance_def dbWf_def history_def intro: keepsRows_grow)

lemma governed_new_revision:
  assumes "tblInsert (\<lambda>i r. r\<lparr>rev_ID := i\<rparr>) rev_clash x (revisions d) = Some (x', t)"
  shows "governed d (d\<lparr>revisions := t\<rparr>)"
  using rev_tbl.insert_wf [OF assms(1)] provenance_new_rev [OF _ _ assms(1)] rev_tbl.insert_row(2) [OF assms]
  by (auto simp: governed_def governance_def dbWf_def history_def intro: appended_grow)

lemma governed_new_approval:
  assumes "tblInsert (\<lambda>i r. r\<lparr>appr_ID := i\<rparr>) appr_clash x (approvals d) = Some (x', t)"
  shows "governed d (d\<lparr>approvals := t\<rparr>)"
  using appr_tbl.insert_wf [OF assms(1)] provenance_new_appr [OF _ _ assms(1)] appr_tbl.insert_get_old [OF assms]
  by (auto simp: governed_def governance_def dbWf_def history_def intro: keepsRows_grow)

lemma governed_new_space:
  assumes "tblInsert (\<lambda>i r. r\<lparr>sp_ID := i\<rparr>) sp_clash x (spaces d) = Some (x', t)"
  shows "governed d (d\<lparr>spaces := t\<rparr>)"
  using sp_tbl.insert_wf [OF assms(1)] generations_new_space [OF _ _ assms(1)] sp_tbl.insert_get_old [OF assms]
  by (auto simp: governed_def governance_def dbWf_def history_def intro!: spacesKept_rows keepsRows_grow)

lemma governed_repositories: "governed d (d\<lparr>repositories := t\<rparr>)"
  by (simp add: governed_def governance_def dbWf_def history_def)

text \<open>An unused space may be deleted.\<close>

lemma governed_deleted_space:
  assumes "\<And>p. p \<in> set (rows (publications d)) \<Longrightarrow> pub_SpaceID p \<noteq> i"
  shows "governed d (d\<lparr>spaces := tblDelete (\<lambda>s. sp_ID s = i) (spaces d)\<rparr>)" (is "governed d ?d")
proof -
  have gens: "generations (tblDelete (\<lambda>s. sp_ID s = i) (spaces d)) (documents d) (publications d)"
    if "generations (spaces d) (documents d) (publications d)" "tblWf sp_ID (spaces d)"
    using that assms by (simp add: generations_def tblGet_delete)
  have "governance d \<Longrightarrow> governance ?d"
    using gens by (simp add: governance_def dbWf_def tblWf_delete)
  moreover have "governance d \<Longrightarrow> spacesKept d ?d"
    using assms by (auto simp: spacesKept_def governance_def dbWf_def tblGet_delete dest: tblGetD)
  then have "governance d \<Longrightarrow> history d ?d"
    by (simp add: history_def)
  ultimately show ?thesis by (simp add: governed_def)
qed

section \<open>Approval and rejection are governed\<close>

lemma governed_new_publication:
  assumes ins: "tblInsert (\<lambda>i r. r\<lparr>pub_ID := i\<rparr>) pub_clash p (publications d) = Some (p', t)"
    and new: "\<not> pub_IsCurrent p" "pub_GovernanceStatus p = GovernanceStatusApproved"
    and appr: "tblGet appr_ID (pub_ApprovalID p) (approvals d) = Some a" "appr_Status a = ApprovalStatusApproved"
      "appr_DecidedBy a \<noteq> appr_RequestedBy a" "appr_RevisionID a = pub_RevisionID p"
    and rev: "tblGet rev_ID (pub_RevisionID p) (revisions d) = Some r" "rev_DocumentID r = pub_DocumentID p"
    and space: "tblGet sp_ID (pub_SpaceID p) (spaces d) = Some s" "pub_Generation p \<le> sp_PublicationGeneration s"
    and doc: "tblGet doc_ID (pub_DocumentID p) (documents d) = Some x" "doc_SpaceID x = pub_SpaceID p"
  shows "governed d (d\<lparr>publications := t\<rparr>)"
proof -
  have valid: "approvedValid (publications d) \<Longrightarrow> approvedValid t"
    using new pub_tbl.insert_row [OF ins] by (simp add: approvedValid_def)
  have "governance d \<Longrightarrow> governance (d\<lparr>publications := t\<rparr>)"
    using pointersAgree_new_pub [OF _ _ ins new(1)] provenance_new_pub [OF _ ins appr rev]
      generations_new_pub [OF _ ins space doc] unambiguous_new_pub [OF _ ins] valid
      revoked_new_pub [OF _ _ ins] pub_tbl.insert_wf [OF ins]
    by (simp add: governance_def dbWf_def)
  moreover have "governance d \<Longrightarrow> history d (d\<lparr>publications := t\<rparr>)"
    using pub_tbl.insert_get_old [OF ins] by (auto simp: governance_def dbWf_def history_def intro: keepsRows_grow)
  ultimately show ?thesis by (simp add: governed_def)
qed

lemma governed_approvedDatabase:
  assumes ok: "approvable opts approval revision document space d"
    and ins: "tblInsert (\<lambda>i r. r\<lparr>pub_ID := i\<rparr>) pub_clash (pub_stamp t (newPublication opts approval revision document space))
       (publications d) = Some (p, tp)"
    and others: "tblWf ob_ID (outboxes d) \<Longrightarrow> tblWf ob_ID tob" "tblWf job_ID (indexJobs d) \<Longrightarrow> tblWf job_ID tj"
    and audit: "tblInsert (\<lambda>i r. r\<lparr>ae_ID := i\<rparr>) ae_clash e (auditEvents d) = Some (e', tae)"
  shows "governed d (approvedDatabase opts now t approval revision document space tp tob tj tae d)"
proof -
  define ta where "ta = tblUpdate (\<lambda>a. appr_ID a = appr_ID approval \<and> appr_Status a = ApprovalStatusPending)
    (\<lambda>a. a\<lparr>appr_Status := ApprovalStatusApproved, appr_DecidedBy := aro_DecidedBy opts,
           appr_DecidedUnix := now, appr_Comment := aro_Comment opts\<rparr>) (approvals d)"
  define d1 where "d1 = d\<lparr>approvals := ta\<rparr>"
  define ts where "ts = tblUpdate (\<lambda>s. sp_ID s = sp_ID space \<and> sp_PublicationGeneration s = sp_PublicationGeneration space)
    (\<lambda>s. sp_touch t (s\<lparr>sp_PublicationGeneration := sp_PublicationGeneration space + 1\<rparr>)) (spaces d1)"
  define d2 where "d2 = d1\<lparr>spaces := ts\<rparr>"
  define tx where "tx = tblUpdate (\<lambda>x. doc_ID x = doc_ID document \<and> doc_GovernanceStatus x = GovernanceStatusPending \<and>
         doc_CurrentRevisionID x = rev_ID revision)
    (\<lambda>x. doc_touch t (x\<lparr>doc_GovernanceStatus := GovernanceStatusApproved,
                           doc_CurrentRevisionID := rev_ID revision\<rparr>)) (documents d2)"
  define d3 where "d3 = d2\<lparr>documents := tx\<rparr>"
  define d4 where "d4 = d3\<lparr>publications := tp\<rparr>"
  define d5 where "d5 = d4\<lparr>outboxes := tob\<rparr>"
  define d6 where "d6 = d5\<lparr>indexJobs := tj\<rparr>"
  note ds = d6_def d5_def d4_def d3_def d2_def d1_def
  note ok' = ok [unfolded approvable_def]
  have ids: "appr_ID approval = aro_ApprovalID opts" "rev_ID revision = appr_RevisionID approval"
    "doc_ID document = rev_DocumentID revision" "sp_ID space = doc_SpaceID document"
    using ok' by (auto dest: tblGet_id)
  have "governed d d1"
    unfolding d1_def ta_def by (rule governed_approvals) auto
  moreover have "governed d1 d2"
    unfolding d2_def ts_def by (rule governed_spaces) (auto simp: sp_touch_def)
  moreover have "governed d2 d3"
    unfolding d3_def tx_def by (rule governed_documents) (auto simp: doc_touch_def)
  moreover have "governed d3 d4"
    unfolding d4_def
  proof (rule governed_new_publication [where r = revision and
        a = "approval\<lparr>appr_Status := ApprovalStatusApproved, appr_DecidedBy := aro_DecidedBy opts,
               appr_DecidedUnix := now, appr_Comment := aro_Comment opts\<rparr>" and
        s = "sp_touch t (space\<lparr>sp_PublicationGeneration := sp_PublicationGeneration space + 1\<rparr>)" and
        x = "doc_touch t (document\<lparr>doc_GovernanceStatus := GovernanceStatusApproved,
               doc_CurrentRevisionID := rev_ID revision\<rparr>)"])
    show "tblInsert (\<lambda>i r. r\<lparr>pub_ID := i\<rparr>) pub_clash (pub_stamp t (newPublication opts approval revision document space))
        (publications d3) = Some (p, tp)"
      using ins by (simp add: ds)
  qed (use ok' ids not_sym in \<open>simp_all add: ds newPublication_def pub_stamp_def ta_def ts_def tx_def tblGet_update
        sp_touch_def doc_touch_def\<close>)
  moreover have "governed d4 d5"
    unfolding d5_def by (rule governed_other) (use others in \<open>simp add: ds\<close>)
  moreover have "governed d5 d6"
    unfolding d6_def by (rule governed_other) (use others in \<open>simp add: ds\<close>)
  moreover have "governed d6 (d6\<lparr>auditEvents := tae\<rparr>)"
    by (rule governed_audit) (use audit in \<open>simp add: ds\<close>)
  moreover have "approvedDatabase opts now t approval revision document space tp tob tj tae d = d6\<lparr>auditEvents := tae\<rparr>"
    by (rule database.equality) (simp_all add: ds approvedDatabase_def ta_def ts_def tx_def)
  ultimately show ?thesis
    by (metis gov.D_trans)
qed

lemma governed_ApproveRevision: "gov.within (ApproveRevision opts)"
  unfolding ApproveRevision_def
proof (intro gov.call_intros gov.within_withTx)
  fix w res w'
  assume run: "decideApproval opts w = (Inr res, w')"
  show "governed (db w) (db w')"
    using run
  proof (cases rule: decideApproval_run)
    case replay
    then show ?thesis by (simp add: gov.D_refl)
  next
    case (decided approval revision document space w1)
    from decided(1) show ?thesis
      by (rule recordApproval_run)
        (use decided(2,3) in \<open>auto intro!: governed_approvedDatabase intro: ob_tbl.insert_wf job_tbl.insert_wf\<close>)
  qed
qed

lemma governed_RejectRevision: "gov.within (RejectRevision opts)"
  unfolding RejectRevision_def
proof (intro gov.call_intros gov.within_withTx)
  fix w u w'
  assume run: "decideRejection opts w = (Inr u, w')"
  obtain approval document now t tae audit event where
    ins: "tblInsert (\<lambda>i r. r\<lparr>ae_ID := i\<rparr>) ae_clash (ae_stamp t event) (auditEvents (db w)) = Some (audit, tae)" and
    result: "db w' = rejectedDatabase opts now t approval document tae (db w)"
    using run by (rule decideRejection_run) auto
  define d1 where "d1 = (db w)\<lparr>approvals := approvals (db w')\<rparr>"
  define d2 where "d2 = d1\<lparr>documents := documents (db w')\<rparr>"
  have "governed (db w) d1"
    unfolding d1_def result rejectedDatabase_def by simp (rule governed_approvals; simp)
  moreover have "documents (db w') = tblUpdate (\<lambda>x. doc_ID x = doc_ID document)
      (\<lambda>x. doc_touch t (x\<lparr>doc_GovernanceStatus := doc_GovernanceStatus (rejectedDocument document (publications (db w))),
         doc_CurrentRevisionID := doc_CurrentRevisionID (rejectedDocument document (publications (db w)))\<rparr>)) (documents d1)"
    by (simp add: d1_def result rejectedDatabase_def)
  then have "governed d1 d2"
    unfolding d2_def by (simp only:) (rule governed_documents; simp add: doc_touch_def)
  moreover have "governed d2 (d2\<lparr>auditEvents := tae\<rparr>)"
    by (rule governed_audit) (use ins in \<open>simp add: d2_def d1_def\<close>)
  moreover have "db w' = d2\<lparr>auditEvents := tae\<rparr>"
    by (simp add: d2_def d1_def result rejectedDatabase_def)
  ultimately show "governed (db w) (db w')"
    by (metis gov.D_trans)
qed

section \<open>Activation and revocation are governed\<close>

lemma rows_all: "tblWf idf t \<Longrightarrow> (\<forall>r \<in> set (rows t). Q r) \<longleftrightarrow> (\<forall>i r. tblGet idf i t = Some r \<longrightarrow> Q r)"
  by (metis tblWf_get tblGetD)

lemma rows_all_id:
  assumes "tblWf idf t"
  shows "(\<forall>r \<in> set (rows t). Q (idf r) r) \<longleftrightarrow> (\<forall>i r. tblGet idf i t = Some r \<longrightarrow> Q i r)"
proof -
  have "(tblGet idf i t = Some r \<longrightarrow> Q (idf r) r) = (tblGet idf i t = Some r \<longrightarrow> Q i r)" for i r
    by (auto dest: tblGet_id)
  then show ?thesis
    by (simp add: rows_all [OF assms, of "\<lambda>r. Q (idf r) r"])
qed

lemma pointersAgree_get:
  assumes "tblWf doc_ID docs" "tblWf pub_ID pubs"
  shows "pointersAgree docs pubs \<longleftrightarrow>
     (\<forall>i p. tblGet pub_ID i pubs = Some p \<and> pub_IsCurrent p \<longrightarrow>
        (\<exists>x. tblGet doc_ID (pub_DocumentID p) docs = Some x \<and> doc_CurrentPublicationID x = i)) \<and>
     (\<forall>j x. tblGet doc_ID j docs = Some x \<and> doc_CurrentPublicationID x \<noteq> 0 \<longrightarrow>
        (\<exists>p. tblGet pub_ID (doc_CurrentPublicationID x) pubs = Some p \<and> pub_IsCurrent p \<and> pub_DocumentID p = j))"
  using rows_all_id [OF assms(2), of "\<lambda>i p. pub_IsCurrent p \<longrightarrow>
      (\<exists>x. tblGet doc_ID (pub_DocumentID p) docs = Some x \<and> doc_CurrentPublicationID x = i)"]
    rows_all_id [OF assms(1), of "\<lambda>j x. doc_CurrentPublicationID x \<noteq> 0 \<longrightarrow>
      (\<exists>p. tblGet pub_ID (doc_CurrentPublicationID x) pubs = Some p \<and> pub_IsCurrent p \<and> pub_DocumentID p = j)"]
  by (simp add: pointersAgree_def case_get imp_conjL)

lemma superseded_get:
  "tblGet pub_ID i (supersededPublications t document pubs) =
     map_option (\<lambda>p. if 0 < doc_CurrentPublicationID document \<and> i = doc_CurrentPublicationID document \<and> pub_IsCurrent p
       then pub_touch t (p\<lparr>pub_IsCurrent := False, pub_IndexStatus := IndexStatusSuperseded\<rparr>) else p)
     (tblGet pub_ID i pubs)"
  by (cases "tblGet pub_ID i pubs")
    (auto simp: supersededPublications_def tblGet_update pub_touch_def dest: tblGet_id)

lemma activated_get:
  assumes "activatable opts candidate document space d"
  shows "tblGet pub_ID i (activatedPublications opts now t2 (supersededPublications t1 document (publications d))) =
     (if i = apo_PublicationID opts then
        Some (pub_touch t2 (candidate\<lparr>pub_IsCurrent := True, pub_ValidityStatus := ValidityStatusCurrent,
                pub_IndexStatus := IndexStatusSearchable, pub_EffectiveUnix := now\<rparr>))
      else tblGet pub_ID i (supersededPublications t1 document (publications d)))"
proof (cases "i = apo_PublicationID opts")
  case True
  then show ?thesis
    using assms by (auto simp: activatedPublications_def tblGet_update pub_touch_def superseded_get activatable_def
        dest: tblGet_id)
next
  case False
  have id: "pub_ID p \<noteq> apo_PublicationID opts" if "tblGet pub_ID i (supersededPublications t1 document (publications d)) = Some p" for p
    using that False by (auto dest: tblGet_id)
  then show ?thesis
    using False
    by (cases "tblGet pub_ID i (supersededPublications t1 document (publications d))")
      (auto simp: activatedPublications_def tblGet_update pub_touch_def)
qed

lemma tblWf_superseded [simp]: "tblWf pub_ID (supersededPublications t x pubs) \<longleftrightarrow> tblWf pub_ID pubs"
  by (simp add: supersededPublications_def tblWf_update pub_touch_def)

lemma tblWf_activated [simp]: "tblWf pub_ID (activatedPublications opts now t pubs) \<longleftrightarrow> tblWf pub_ID pubs"
  by (simp add: activatedPublications_def tblWf_update pub_touch_def)

lemma switched_get:
  assumes "tblGet doc_ID (doc_ID document) docs = Some document"
  shows "tblGet doc_ID j (switchedDocuments t candidate document docs) =
     (if j = doc_ID document then
        Some (doc_touch t (document\<lparr>doc_CurrentRevisionID := pub_RevisionID candidate,
                              doc_CurrentPublicationID := pub_ID candidate\<rparr>))
      else tblGet doc_ID j docs)"
  using assms
  by (cases "tblGet doc_ID j docs") (auto simp: switchedDocuments_def tblGet_update doc_touch_def dest: tblGet_id)

lemma pointersAgree_switched:
  assumes inv: "pointersAgree (documents d) (publications d)" "tblWf doc_ID (documents d)" "tblWf pub_ID (publications d)"
    and ok: "activatable opts candidate document space d"
  shows "pointersAgree (switchedDocuments t3 candidate document (documents d))
    (activatedPublications opts now t2 (supersededPublications t1 document (publications d)))"
proof -
  define o' where "o' = doc_CurrentPublicationID document"
  have wf: "tblWf doc_ID (switchedDocuments t3 candidate document (documents d))"
    using inv(2) by (simp add: switchedDocuments_def tblWf_update doc_touch_def)
  have wf2: "tblWf pub_ID (activatedPublications opts now t2 (supersededPublications t1 document (publications d)))"
    using inv(3) by simp
  have cand: "tblGet pub_ID (apo_PublicationID opts) (publications d) = Some candidate"
    "pub_ID candidate = apo_PublicationID opts" "\<not> pub_IsCurrent candidate" "doc_ID document = pub_DocumentID candidate"
    using ok by (auto simp: activatable_def dest: tblGet_id)
  have doc: "tblGet doc_ID (doc_ID document) (documents d) = Some document"
    using ok cand(4) by (simp add: activatable_def)
  note inv' = inv(1) [unfolded pointersAgree_get [OF inv(2,3)]]
  have pos: "o' \<noteq> 0 \<Longrightarrow> 0 < o'"
    using inv' doc tblGet_pos [OF inv(3)] unfolding o'_def by blast
  have only: "i = o' \<and> 0 < o'" if "tblGet pub_ID i (publications d) = Some p" "pub_IsCurrent p" "pub_DocumentID p = doc_ID document" for i p
  proof -
    have "i = o'"
      using inv' that doc unfolding o'_def by fastforce
    then show ?thesis using tblGet_pos [OF inv(3) that(1)] by simp
  qed
  have other: "doc_CurrentPublicationID x \<noteq> apo_PublicationID opts \<and> doc_CurrentPublicationID x \<noteq> o'"
    if "tblGet doc_ID j (documents d) = Some x" "j \<noteq> doc_ID document" "doc_CurrentPublicationID x \<noteq> 0" for j x
    using inv' that cand(1,3) doc by (metis o'_def option.inject)
  show ?thesis
    unfolding pointersAgree_get [OF wf wf2] activated_get [OF ok] superseded_get switched_get [OF doc]
  proof (intro conjI allI impI; elim conjE)
    fix i p
    assume p: "(if i = apo_PublicationID opts then Some (pub_touch t2 (candidate\<lparr>pub_IsCurrent := True,
        pub_ValidityStatus := ValidityStatusCurrent, pub_IndexStatus := IndexStatusSearchable, pub_EffectiveUnix := now\<rparr>))
      else map_option (\<lambda>p. if 0 < doc_CurrentPublicationID document \<and> i = doc_CurrentPublicationID document \<and> pub_IsCurrent p
       then pub_touch t1 (p\<lparr>pub_IsCurrent := False, pub_IndexStatus := IndexStatusSuperseded\<rparr>) else p)
      (tblGet pub_ID i (publications d))) = Some p" and cur: "pub_IsCurrent p"
    show "\<exists>x. (if pub_DocumentID p = doc_ID document then Some (doc_touch t3 (document\<lparr>doc_CurrentRevisionID := pub_RevisionID candidate,
        doc_CurrentPublicationID := pub_ID candidate\<rparr>)) else tblGet doc_ID (pub_DocumentID p) (documents d)) = Some x \<and>
        doc_CurrentPublicationID x = i"
    proof (cases "i = apo_PublicationID opts")
      case True
      with p cand show ?thesis by (auto simp: pub_touch_def doc_touch_def)
    next
      case False
      with p obtain q where q: "tblGet pub_ID i (publications d) = Some q"
        "p = (if 0 < o' \<and> i = o' \<and> pub_IsCurrent q
              then pub_touch t1 (q\<lparr>pub_IsCurrent := False, pub_IndexStatus := IndexStatusSuperseded\<rparr>) else q)"
        by (auto simp: o'_def)
      with cur have "p = q" "\<not> (0 < o' \<and> i = o')"
        by (auto simp: pub_touch_def split: if_splits)
      with q(1) cur only [of i q] inv' show ?thesis by auto
    qed
  next
    fix j x
    assume x: "(if j = doc_ID document then Some (doc_touch t3 (document\<lparr>doc_CurrentRevisionID := pub_RevisionID candidate,
        doc_CurrentPublicationID := pub_ID candidate\<rparr>)) else tblGet doc_ID j (documents d)) = Some x"
      and nz: "doc_CurrentPublicationID x \<noteq> 0"
    show "\<exists>p. (if doc_CurrentPublicationID x = apo_PublicationID opts then Some (pub_touch t2 (candidate\<lparr>pub_IsCurrent := True,
        pub_ValidityStatus := ValidityStatusCurrent, pub_IndexStatus := IndexStatusSearchable, pub_EffectiveUnix := now\<rparr>))
      else map_option (\<lambda>p. if 0 < doc_CurrentPublicationID document \<and> doc_CurrentPublicationID x = doc_CurrentPublicationID document \<and> pub_IsCurrent p
       then pub_touch t1 (p\<lparr>pub_IsCurrent := False, pub_IndexStatus := IndexStatusSuperseded\<rparr>) else p)
      (tblGet pub_ID (doc_CurrentPublicationID x) (publications d))) = Some p \<and> pub_IsCurrent p \<and> pub_DocumentID p = j"
    proof (cases "j = doc_ID document")
      case True
      with x cand show ?thesis by (auto simp: pub_touch_def doc_touch_def)
    next
      case False
      with x nz other inv' obtain p where "tblGet pub_ID (doc_CurrentPublicationID x) (publications d) = Some p"
        "pub_IsCurrent p" "pub_DocumentID p = j" by (metis)
      with False x nz other [of j x] show ?thesis by (auto simp: o'_def)
    qed
  qed
qed

lemma governed_switch:
  assumes ok: "activatable opts candidate document space d"
  shows "governed d (d\<lparr>publications := activatedPublications opts now t2 (supersededPublications t1 document (publications d)),
    documents := switchedDocuments t3 candidate document (documents d)\<rparr>)" (is "governed d ?d")
proof -
  note pubs = supersededPublications_def activatedPublications_def
  have prov: "provenance apprs revs (publications d) \<Longrightarrow>
      provenance apprs revs (activatedPublications opts now t2 (supersededPublications t1 document (publications d)))" for apprs revs
    by (simp add: pubs provenance_pubs pub_touch_def identity_def)
  have gens: "generations sps docs (publications d) \<Longrightarrow>
      generations sps docs (activatedPublications opts now t2 (supersededPublications t1 document (publications d)))" for sps docs
    by (simp add: pubs generations_pubs pub_touch_def identity_def)
  have docs: "generations sps (documents d) t \<Longrightarrow> generations sps (switchedDocuments t3 candidate document (documents d)) t" for sps t
    by (simp add: switchedDocuments_def generations_docs doc_touch_def)
  have unamb: "unambiguous (publications d) \<Longrightarrow>
      unambiguous (activatedPublications opts now t2 (supersededPublications t1 document (publications d)))"
    by (simp add: pubs unambiguous_pubs pub_touch_def identity_def)
  have valid: "approvedValid (publications d) \<Longrightarrow>
      approvedValid (activatedPublications opts now t2 (supersededPublications t1 document (publications d)))"
    by (simp add: pubs approvedValid_pubs pub_touch_def)
  have rev: "revoked tombs (publications d) \<Longrightarrow>
      revoked tombs (activatedPublications opts now t2 (supersededPublications t1 document (publications d)))" for tombs
    by (auto simp: pubs pub_touch_def intro!: revoked_pubs)
  have wf: "tblWf doc_ID (documents d) \<Longrightarrow> tblWf doc_ID (switchedDocuments t3 candidate document (documents d))"
    by (simp add: switchedDocuments_def tblWf_update doc_touch_def)
  have "governance d \<Longrightarrow> governance ?d"
    using pointersAgree_switched [OF _ _ _ ok] prov gens docs unamb valid rev wf
    by (simp add: governance_def dbWf_def)
  moreover have "keepsRows pub_ID publicationStep (publications d) (publications ?d)"
  proof (rule keepsRows_trans)
    show "keepsRows pub_ID publicationStep (publications d) (supersededPublications t1 document (publications d))"
      by (simp add: supersededPublications_def keepsRows_update pub_touch_def publicationStep_def identity_def)
    show "keepsRows pub_ID publicationStep (supersededPublications t1 document (publications d)) (publications ?d)"
      by (auto simp: activatedPublications_def pub_touch_def publicationStep_def identity_def intro!: keepsRows_update)
  qed (rule publicationStep_trans)
  then have "history d ?d"
    by (simp add: history_def switchedDocuments_def keepsRows_update doc_touch_def documentStep_def)
  ultimately show ?thesis by (simp add: governed_def)
qed

lemma governed_activateCandidate:
  assumes "activateCandidate opts w = (Inr u, w')"
  shows "governed (db w) (db w')"
proof -
  from assms obtain candidate document space w1 where
    run: "switchPointer opts candidate document space w1 = (Inr u, w')" and
    ok: "activatable opts candidate document space (db w)" and w1: "db w1 = db w"
    by (rule activateCandidate_run)
  have id: "pub_ID candidate = apo_PublicationID opts"
    using ok by (auto simp: activatable_def dest: tblGet_id)
  obtain now t1 t2 t3 t4 tb tae audit event where bind: "boundIndex opts now (indexBindings (db w)) tb" and
    ins: "tblInsert (\<lambda>i r. r\<lparr>ae_ID := i\<rparr>) ae_clash (ae_stamp t4 event) (auditEvents (db w)) = Some (audit, tae)" and
    result: "db w' = (db w)\<lparr>publications := activatedPublications opts now t2
                (supersededPublications t1 document (publications (db w))),
              indexBindings := tb, documents := switchedDocuments t3 candidate document (documents (db w)),
              auditEvents := tae\<rparr>"
    using switchPointer_run [OF run id] unfolding w1 by metis
  define d1 where "d1 = (db w)\<lparr>publications := activatedPublications opts now t2
      (supersededPublications t1 document (publications (db w))),
      documents := switchedDocuments t3 candidate document (documents (db w))\<rparr>"
  have "governed (db w) d1"
    unfolding d1_def by (rule governed_switch [OF ok])
  moreover have "governed d1 (d1\<lparr>indexBindings := tb\<rparr>)"
    by (rule governed_other)
      (use bind in \<open>auto simp: d1_def boundIndex_def tblWf_update split: if_splits\<close>)
  moreover have "governed (d1\<lparr>indexBindings := tb\<rparr>) (d1\<lparr>indexBindings := tb, auditEvents := tae\<rparr>)"
    by (rule governed_audit) (use ins in \<open>simp add: d1_def\<close>)
  moreover have "db w' = d1\<lparr>indexBindings := tb, auditEvents := tae\<rparr>"
    by (rule database.equality) (simp_all add: d1_def result)
  ultimately show "governed (db w) (db w')"
    by (metis gov.D_trans)
qed

lemma governed_ActivatePublication: "gov.within (ActivatePublication opts)"
  unfolding ActivatePublication_def by (intro gov.call_intros gov.within_withTx) (rule governed_activateCandidate)

text \<open>The pointer, the publication and the tombstone of a revocation.\<close>

definition revokedDatabase ::
  "TimeStamp \<Rightarrow> Publication \<Rightarrow> Document \<Rightarrow> RevocationTombstone table \<Rightarrow> database \<Rightarrow> database" where
  "revokedDatabase t publication document tt d =
     d\<lparr>documents := tblUpdate (\<lambda>x. doc_ID x = doc_ID document \<and> doc_CurrentPublicationID x = pub_ID publication)
         (\<lambda>x. doc_touch t (x\<lparr>doc_CurrentPublicationID := 0\<rparr>)) (documents d),
       publications := tblUpdate (\<lambda>p. pub_ID p = pub_ID publication \<and> pub_IsCurrent p \<and> pub_ValidityStatus p = ValidityStatusCurrent)
         (\<lambda>p. pub_touch t (p\<lparr>pub_IsCurrent := False, pub_ValidityStatus := ValidityStatusUnpublished\<rparr>)) (publications d),
       tombstones := tt\<rparr>"

lemma revokedDatabase_get:
  assumes "unpublishable opts publication document space revision d"
  shows "tblGet pub_ID i (publications (revokedDatabase t publication document tt d)) =
      (if i = pub_ID publication then Some (pub_touch t (publication\<lparr>pub_IsCurrent := False, pub_ValidityStatus := ValidityStatusUnpublished\<rparr>))
       else tblGet pub_ID i (publications d))"
    "tblGet doc_ID j (documents (revokedDatabase t publication document tt d)) =
      (if j = doc_ID document then Some (doc_touch t (document\<lparr>doc_CurrentPublicationID := 0\<rparr>))
       else tblGet doc_ID j (documents d))"
proof -
  have p: "tblGet pub_ID (pub_ID publication) (publications d) = Some publication" "pub_IsCurrent publication"
    "pub_ValidityStatus publication = ValidityStatusCurrent" "doc_CurrentPublicationID document = pub_ID publication"
    and x: "tblGet doc_ID (doc_ID document) (documents d) = Some document"
    using assms tblGet_id [of pub_ID "upo_PublicationID opts" "publications d" publication]
      tblGet_id [of doc_ID "pub_DocumentID publication" "documents d" document]
    by (simp_all add: unpublishable_def)
  show "tblGet pub_ID i (publications (revokedDatabase t publication document tt d)) =
      (if i = pub_ID publication then Some (pub_touch t (publication\<lparr>pub_IsCurrent := False, pub_ValidityStatus := ValidityStatusUnpublished\<rparr>))
       else tblGet pub_ID i (publications d))"
    using p by (cases "tblGet pub_ID i (publications d)")
      (auto simp: revokedDatabase_def tblGet_update pub_touch_def dest: tblGet_id)
  show "tblGet doc_ID j (documents (revokedDatabase t publication document tt d)) =
      (if j = doc_ID document then Some (doc_touch t (document\<lparr>doc_CurrentPublicationID := 0\<rparr>))
       else tblGet doc_ID j (documents d))"
    using x p(4) by (cases "tblGet doc_ID j (documents d)")
      (auto simp: revokedDatabase_def tblGet_update doc_touch_def dest: tblGet_id)
qed

lemma pointersAgree_revoked:
  assumes inv: "pointersAgree (documents d) (publications d)" "tblWf doc_ID (documents d)" "tblWf pub_ID (publications d)"
    and ok: "unpublishable opts publication document space revision d"
  shows "pointersAgree (documents (revokedDatabase t publication document tt d))
    (publications (revokedDatabase t publication document tt d))"
proof -
  let ?d = "revokedDatabase t publication document tt d"
  have wf: "tblWf doc_ID (documents ?d)" "tblWf pub_ID (publications ?d)"
    using inv(2,3) by (simp_all add: revokedDatabase_def tblWf_update pub_touch_def doc_touch_def)
  note inv' = inv(1) [unfolded pointersAgree_get [OF inv(2,3)]]
  have p: "tblGet pub_ID (pub_ID publication) (publications d) = Some publication" "pub_DocumentID publication = doc_ID document"
    "doc_CurrentPublicationID document = pub_ID publication"
    and x: "tblGet doc_ID (doc_ID document) (documents d) = Some document"
    using ok tblGet_id [of pub_ID "upo_PublicationID opts" "publications d" publication]
      tblGet_id [of doc_ID "pub_DocumentID publication" "documents d" document]
    by (simp_all add: unpublishable_def)
  show ?thesis
    unfolding pointersAgree_get [OF wf] revokedDatabase_get [OF ok]
  proof (intro conjI allI impI; elim conjE)
    fix i q
    assume q: "(if i = pub_ID publication then Some (pub_touch t (publication\<lparr>pub_IsCurrent := False, pub_ValidityStatus := ValidityStatusUnpublished\<rparr>))
       else tblGet pub_ID i (publications d)) = Some q" "pub_IsCurrent q"
    then have "i \<noteq> pub_ID publication" "tblGet pub_ID i (publications d) = Some q"
      by (auto simp: pub_touch_def split: if_splits)
    with q(2) inv' x p(3) show "\<exists>y. (if pub_DocumentID q = doc_ID document then Some (doc_touch t (document\<lparr>doc_CurrentPublicationID := 0\<rparr>))
       else tblGet doc_ID (pub_DocumentID q) (documents d)) = Some y \<and> doc_CurrentPublicationID y = i"
      by fastforce
  next
    fix j y
    assume y: "(if j = doc_ID document then Some (doc_touch t (document\<lparr>doc_CurrentPublicationID := 0\<rparr>))
       else tblGet doc_ID j (documents d)) = Some y" "doc_CurrentPublicationID y \<noteq> 0"
    then have "j \<noteq> doc_ID document" "tblGet doc_ID j (documents d) = Some y"
      by (auto simp: doc_touch_def split: if_splits)
    with y(2) inv' p(1,2) show "\<exists>q. (if doc_CurrentPublicationID y = pub_ID publication then Some (pub_touch t (publication\<lparr>pub_IsCurrent := False, pub_ValidityStatus := ValidityStatusUnpublished\<rparr>))
       else tblGet pub_ID (doc_CurrentPublicationID y) (publications d)) = Some q \<and> pub_IsCurrent q \<and> pub_DocumentID q = j"
      by (metis option.inject)
  qed
qed

lemma revoked_new_tombstone:
  assumes "revoked tombs pubs" "tblInsert (\<lambda>i r. r\<lparr>tomb_ID := i\<rparr>) tomb_clash e tombs = Some (e', tombs')"
    "tblGet pub_ID (tomb_PublicationID e) pubs = Some p" "\<not> pub_IsCurrent p" "pub_ValidityStatus p = ValidityStatusUnpublished"
  shows "revoked tombs' pubs"
  using assms(1,3-5) tomb_tbl.insert_row [OF assms(2)] by (simp add: revoked_def)

lemma governed_revokedDatabase:
  assumes ok: "unpublishable opts publication document space revision d"
    and ins: "tblInsert (\<lambda>i r. r\<lparr>tomb_ID := i\<rparr>) tomb_clash (tomb_stamp t (newTombstone opts publication space))
      (tombstones d) = Some (tombstone, tt)"
  shows "governed d (revokedDatabase t publication document tt d)" (is "governed d ?d")
proof -
  have docs: "generations sps (documents d) pubs \<Longrightarrow> generations sps (documents ?d) pubs" for sps pubs
    by (simp add: revokedDatabase_def generations_docs doc_touch_def)
  have gens: "generations sps docs (publications d) \<Longrightarrow> generations sps docs (publications ?d)" for sps docs
    by (simp add: revokedDatabase_def generations_pubs pub_touch_def identity_def)
  have prov: "provenance apprs revs (publications d) \<Longrightarrow> provenance apprs revs (publications ?d)" for apprs revs
    by (simp add: revokedDatabase_def provenance_pubs pub_touch_def identity_def)
  have unamb: "unambiguous (publications d) \<Longrightarrow> unambiguous (publications ?d)"
    by (simp add: revokedDatabase_def unambiguous_pubs pub_touch_def identity_def)
  have valid: "approvedValid (publications d) \<Longrightarrow> approvedValid (publications ?d)"
    by (simp add: revokedDatabase_def approvedValid_pubs pub_touch_def)
  have "revoked (tombstones d) (publications d) \<Longrightarrow> revoked (tombstones d) (publications ?d)"
    by (auto simp: revokedDatabase_def pub_touch_def intro!: revoked_pubs)
  then have rev: "revoked (tombstones d) (publications d) \<Longrightarrow> revoked tt (publications ?d)"
    by (rule revoked_new_tombstone [OF _ ins, where p = "pub_touch t (publication\<lparr>pub_IsCurrent := False,
          pub_ValidityStatus := ValidityStatusUnpublished\<rparr>)"])
      (simp_all add: newTombstone_def tomb_stamp_def revokedDatabase_get [OF ok] pub_touch_def)
  have wf: "tblWf doc_ID (documents d) \<Longrightarrow> tblWf doc_ID (documents ?d)" "tblWf pub_ID (publications d) \<Longrightarrow> tblWf pub_ID (publications ?d)"
    by (simp_all add: revokedDatabase_def tblWf_update doc_touch_def pub_touch_def)
  have same: "approvals ?d = approvals d" "revisions ?d = revisions d" "spaces ?d = spaces d" "tombstones ?d = tt"
    by (simp_all add: revokedDatabase_def)
  have "governance d \<Longrightarrow> dbWf ?d"
    using wf tomb_tbl.insert_wf [OF ins] by (simp add: governance_def dbWf_def revokedDatabase_def)
  then have "governance d \<Longrightarrow> governance ?d"
    using pointersAgree_revoked [OF _ _ _ ok] docs gens prov unamb valid rev
    by (simp add: governance_def same) (simp add: dbWf_def)
  moreover have "history d ?d"
    using tomb_tbl.insert_row(2) [OF ins]
    by (simp add: history_def revokedDatabase_def keepsRows_update doc_touch_def documentStep_def pub_touch_def
        publicationStep_def identity_def appended_grow)
  ultimately show ?thesis by (simp add: governed_def)
qed

lemma governed_unpublishCurrent:
  assumes "unpublishCurrent opts w = (Inr u, w')"
  shows "governed (db w) (db w')"
  using assms
proof (cases rule: unpublishCurrent_run)
  case replay
  then show ?thesis by (simp add: gov.D_refl)
next
  case (revoked publication document space revision w1)
  from revoked(1) show ?thesis
  proof (rule revokePublication_run, unfold revoked(3))
    fix t tt tob tj tae tombstone outbox job audit payload event
    assume ins: "tblInsert (\<lambda>i r. r\<lparr>tomb_ID := i\<rparr>) tomb_clash (tomb_stamp t (newTombstone opts publication space))
        (tombstones (db w)) = Some (tombstone, tt)"
      "tblInsert (\<lambda>i r. r\<lparr>ob_ID := i\<rparr>) ob_clash (ob_stamp t (newOutbox (pub_ID publication)
        ''knowledge.index.delete.requested'' (deletionKey opts publication revision space) payload))
        (outboxes (db w)) = Some (outbox, tob)"
      "tblInsert (\<lambda>i r. r\<lparr>job_ID := i\<rparr>) job_clash (job_stamp t (newIndexJob (pub_ID publication) IndexJobTypeDelete
        (deletionKey opts publication revision space) (rev_ContentSHA256 revision) (upo_EngineProfileVersion opts) 5))
        (indexJobs (db w)) = Some (job, tj)"
      "tblInsert (\<lambda>i r. r\<lparr>ae_ID := i\<rparr>) ae_clash (ae_stamp t event) (auditEvents (db w)) = Some (audit, tae)"
    define d1 where "d1 = revokedDatabase t publication document tt (db w)"
    have "governed (db w) d1"
      unfolding d1_def by (rule governed_revokedDatabase [OF revoked(2) ins(1)])
    moreover have "governed d1 (d1\<lparr>outboxes := tob\<rparr>)"
      by (rule governed_other) (use ob_tbl.insert_wf [OF ins(2)] in \<open>simp add: d1_def revokedDatabase_def\<close>)
    moreover have "governed (d1\<lparr>outboxes := tob\<rparr>) (d1\<lparr>outboxes := tob, indexJobs := tj\<rparr>)"
      by (rule governed_other) (use job_tbl.insert_wf [OF ins(3)] in \<open>simp add: d1_def revokedDatabase_def\<close>)
    moreover have "governed (d1\<lparr>outboxes := tob, indexJobs := tj\<rparr>) (d1\<lparr>outboxes := tob, indexJobs := tj, auditEvents := tae\<rparr>)"
      by (rule governed_audit) (use ins(4) in \<open>simp add: d1_def revokedDatabase_def\<close>)
    moreover assume "db w' = (db w)\<lparr>
       documents := tblUpdate (\<lambda>x. doc_ID x = doc_ID document \<and> doc_CurrentPublicationID x = pub_ID publication)
         (\<lambda>x. doc_touch t (x\<lparr>doc_CurrentPublicationID := 0\<rparr>)) (documents (db w)),
       publications := tblUpdate (\<lambda>p. pub_ID p = pub_ID publication \<and> pub_IsCurrent p \<and> pub_ValidityStatus p = ValidityStatusCurrent)
         (\<lambda>p. pub_touch t (p\<lparr>pub_IsCurrent := False, pub_ValidityStatus := ValidityStatusUnpublished\<rparr>)) (publications (db w)),
       tombstones := tt, outboxes := tob, indexJobs := tj, auditEvents := tae\<rparr>"
    then have "db w' = d1\<lparr>outboxes := tob, indexJobs := tj, auditEvents := tae\<rparr>"
      by (simp add: d1_def revokedDatabase_def)
    ultimately show "governed (db w) (db w')"
      by (metis gov.D_trans)
  qed
qed

lemma governed_UnpublishPublication: "gov.within (UnpublishPublication opts)"
  unfolding UnpublishPublication_def by (intro gov.call_intros gov.within_withTx) (rule governed_unpublishCurrent)

end
