(* ===== verification/Sample.thy ===== *)
theory Sample
  imports Governance
begin

text \<open>
  A small concrete state, used to evaluate the operations on real input: one space, one
  approved data source, one document whose first revision waits for a decision. Nothing fails,
  the clock stands at 1000 s.
\<close>

definition sampleSetting :: KnowledgeSetting where
  "sampleSetting = defaultKnowledgeSetting"

text \<open>A stand-in for SHA-256 with digests of 32 bytes.\<close>

definition sampleDigest :: "string \<Rightarrow> string" where
  "sampleDigest s = take 32 (s @ replicate 32 (CHR ''0''))"

definition sampleEnv :: environment where
  "sampleEnv =
     \<lparr>faults = \<lambda>_. False, clock = \<lambda>_. 1000 * second, sha256 = sampleDigest, randomString = \<lambda>_. Inr ''token'',
      setting = sampleSetting, urlParse = \<lambda>_. None, isLoopbackIP = \<lambda>_. False, isProd = False,
      isInTesting = True, engUpload = \<lambda>_. Inr (Some ''doc-1''), engSetMetadata = \<lambda>_. None,
      engStartParsing = \<lambda>_. None, engGetDocumentStatus = \<lambda>_. Inr DocumentStateDone,
      engDeleteDocuments = \<lambda>_. None, engRetrieve = \<lambda>_. Inr [], gitOpen = \<lambda>_ _ _. Inr (''data'', None),
      createRepo = \<lambda>_ _ owner name _ t.
        (let r = \<lparr>repo_ID = next_id t, repo_OwnerID = user_ID owner, repo_Name = name, repo_DefaultBranch = ''main''\<rparr>
         in (Inr r, \<lparr>rows = rows t @ [r], next_id = next_id t + 1\<rparr>)),
      deleteRepo = \<lambda>_ _ r t. (None, tblDelete (\<lambda>x. repo_ID x = repo_ID r) t),
      changeRepoFiles = \<lambda>_ _ _ _ _ _. Inr (Some ''c0ffee''), codeReadable = \<lambda>_ _. Inr True,
      zipEntries = \<lambda>_ _. None, xmlRelationships = \<lambda>_. None, xmlOverrides = \<lambda>_. None,
      detectContentType = \<lambda>_. ''text/plain; charset=utf-8'', isPrintRune = \<lambda>_. True, lowerOther = snd,
      parseFloat = \<lambda>_. Some 0, cancelled = \<lambda>_. False, getenv = \<lambda>_. ''dsn'', mysqlOpen = \<lambda>_. True,
      mysqlPing = \<lambda>_. True, mysqlQuery = \<lambda>_ _ _. Some ([], True),
      zone = \<lambda>_. 0, visibleRepos = \<lambda>_. Inr [], branchTree = \<lambda>_. None\<rparr>"

definition sampleSpace :: Space where
  "sampleSpace =
     \<lparr>sp_ID = 1, sp_OwnerID = 5, sp_RepoID = 9, sp_Name = ''Policies'', sp_Slug = ''policies'',
      sp_Description = '''', sp_Status = SpaceStatusActive, sp_PublicationGeneration = 0,
      sp_RevocationGeneration = 1, sp_CreatedBy = 5, sp_CreatedUnix = 10, sp_UpdatedUnix = 10\<rparr>"

definition sampleDocument :: Document where
  "sampleDocument =
     \<lparr>doc_ID = 1, doc_SpaceID = 1, doc_DataSourceID = 1, doc_Title = ''Guide'', doc_RepoPath = ''guide.txt'',
      doc_MIMEType = ''text/plain'', doc_GovernanceStatus = GovernanceStatusPending, doc_CurrentRevisionID = 1,
      doc_CurrentPublicationID = 0, doc_CreatedBy = 7, doc_CreatedUnix = 20, doc_UpdatedUnix = 20\<rparr>"

definition sampleRevision :: Revision where
  "sampleRevision =
     \<lparr>rev_ID = 1, rev_DocumentID = 1, rev_RevisionNo = 1, rev_FileName = ''guide.txt'', rev_RepoPath = ''guide.txt'',
      rev_ContentSHA256 = hexEncode (sampleDigest ''data''), rev_Size = 4, rev_GitCommitSHA = ''c0ffee'', rev_MaskPolicyVersion = ''v1'',
      rev_MaskManifestJSON = ''{}'', rev_SourceAuthorization = ''ref'', rev_BusinessDomainCode = ''hr'',
      rev_ContentTypeCode = ''policy'', rev_SecurityLevel = SecurityLevelInternal, rev_ApplicableScopeJSON = ''{}'',
      rev_VersionNo = ''1'', rev_RevisionRelation = '''', rev_SourceDepartment = ''hr'', rev_ContentOwnerID = 7,
      rev_MaintenanceOwnerID = 7, rev_ApprovalBasisRef = ''basis'', rev_EffectiveUnix = 0, rev_ExpiresUnix = 0,
      rev_SearchabilityStatus = SearchabilityStatusSearchable, rev_CreatedBy = 7, rev_CreatedUnix = 20\<rparr>"

definition sampleApproval :: Approval where
  "sampleApproval =
     \<lparr>appr_ID = 1, appr_RevisionID = 1, appr_Status = ApprovalStatusPending, appr_RequestedBy = 7,
      appr_RequestedUnix = 20, appr_DecidedBy = 0, appr_DecidedUnix = 0, appr_Comment = ''''\<rparr>"

definition sampleDatabase :: database where
  "sampleDatabase = emptyDatabase\<lparr>
     spaces := \<lparr>rows = [sampleSpace], next_id = 2\<rparr>,
     documents := \<lparr>rows = [sampleDocument], next_id = 2\<rparr>,
     revisions := \<lparr>rows = [sampleRevision], next_id = 2\<rparr>,
     approvals := \<lparr>rows = [sampleApproval], next_id = 2\<rparr>\<rparr>"

definition sampleWorld :: world where
  "sampleWorld = \<lparr>db = sampleDatabase, env = sampleEnv, calls = 0, ticks = 0, sent = []\<rparr>"

definition sampleApprove :: ApproveRevisionOptions where
  "sampleApprove =
     \<lparr>aro_ApprovalID = 1, aro_DecidedBy = 8, aro_Comment = '''', aro_EngineProfileVersion = ''p1'',
      aro_ACLPolicyVersion = 1, aro_TraceID = ''trace-1''\<rparr>"

lemmas table_eval [eval_simps] =
  tblGet_def tblFirst_def tblFind_def tblCount_def tblUpdate_def tblDelete_def tblInsert_def emptyTable_def

lemmas sample_eval =
  sampleWorld_def sampleDatabase_def sampleApproval_def sampleRevision_def sampleDocument_def sampleSpace_def
  sampleEnv_def sampleSetting_def emptyDatabase_def sampleApprove_def

lemma sample_text [simp]: "trimSpace ''p1'' = ''p1''" "validTraceID ''trace-1''" "validGovernanceText '''' True"
  by (simp_all add: validGovernanceText_def eval_simps validTraceID_token)

lemma governance_sampleDatabase: "governance sampleDatabase"
  by (simp add: governance_def dbWf_def pointersAgree_def provenance_def generations_def unambiguous_def
      approvedValid_def revoked_def tblWf_def sample_eval eval_simps)

lemma sampleApprove_runs:
  "\<exists>res w'. ApproveRevision sampleApprove sampleWorld = (Inr res, w') \<and> arr_Created res"
  by (simp add: ApproveRevision_def decideApproval_def recordApproval_def exec_simps sample_eval table_eval
      newPublication_def newOutbox_def newIndexJob_def currentUnix_def pub_stamp_def Let_def)

end
