(* ===== verification/Properties_Approval.thy ===== *)
theory Properties_Approval
  imports Sample
begin

text \<open>
  The properties of approval decisions. Every theorem is about a whole run of an operation on
  an arbitrary world: any database, any schedule of database failures.
\<close>

text \<open>
  C15: An approval that creates a publication was pending, was requested by somebody other than
  the decider, and concerned the revision its pending document currently has, in an active
  space; the publication is the next generation of that space, scheduled and not current, and
  the upsert job carries the digest of the approved revision.
\<close>

theorem approval_creates:
  assumes run: "ApproveRevision opts w = (Inr res, w')" and created: "arr_Created res"
  shows "\<exists>approval revision document space.
    approvable opts approval revision document space (db w) \<and>
    pub_RevisionID (arr_Publication res) = rev_ID revision \<and>
    pub_ApprovalID (arr_Publication res) = aro_ApprovalID opts \<and>
    pub_Generation (arr_Publication res) = sp_PublicationGeneration space + 1 \<and>
    pub_ValidityStatus (arr_Publication res) = ValidityStatusScheduled \<and>
    \<not> pub_IsCurrent (arr_Publication res) \<and>
    job_PublicationID (arr_IndexJob res) = pub_ID (arr_Publication res) \<and>
    job_RevisionSHA256 (arr_IndexJob res) = rev_ContentSHA256 revision \<and>
    arr_Publication res \<in> set (rows (publications (db w'))) \<and>
    arr_IndexJob res \<in> set (rows (indexJobs (db w')))"
proof -
  obtain w1 w2 where d: "decideApproval opts w1 = (Inr res, w2)" "db w1 = db w" "db w2 = db w'"
    using run by (rule ApproveRevision_run)
  from d(1) show ?thesis
  proof (cases rule: decideApproval_run)
    case replay
    with created show ?thesis by simp
  next
    case (decided approval revision document space w0)
    from decided(1) show ?thesis
    proof (rule recordApproval_run)
      fix now t tp tob tj tae audit
      assume p: "tblInsert (\<lambda>i r. r\<lparr>pub_ID := i\<rparr>) pub_clash (pub_stamp t (newPublication opts approval revision document space))
          (publications (db w0)) = Some (arr_Publication res, tp)"
        and j: "tblInsert (\<lambda>i r. r\<lparr>job_ID := i\<rparr>) job_clash (job_stamp t (newIndexJob (pub_ID (arr_Publication res))
          IndexJobTypeUpsert (approvalKey opts revision space (pub_ID (arr_Publication res)))
          (rev_ContentSHA256 revision) (aro_EngineProfileVersion opts) 5)) (indexJobs (db w0)) = Some (arr_IndexJob res, tj)"
        and w2: "db w2 = approvedDatabase opts now t approval revision document space tp tob tj tae (db w0)"
      have "appr_ID approval = aro_ApprovalID opts"
        using decided(2) by (auto simp: approvable_def dest: tblGet_id)
      with decided(2) show ?thesis
        using pub_tbl.insert_row [OF p] job_tbl.insert_row [OF j] w2 [unfolded d(3)] d(2)
        by (intro exI [of _ approval] exI [of _ revision] exI [of _ document] exI [of _ space])
          (simp add: approvedDatabase_def pub_stamp_def newPublication_def job_stamp_def newIndexJob_def)
    qed
  qed
qed

theorem approval_creates_witness:
  "\<exists>res w'. ApproveRevision sampleApprove sampleWorld = (Inr res, w') \<and>
     job_PublicationID (arr_IndexJob res) = pub_ID (arr_Publication res)"
  using sampleApprove_runs approval_creates [of sampleApprove sampleWorld] by blast

text \<open>
  C32: Repeating a decided approval writes nothing: the result is the publication, job and
  outbox event stored for that approval, and the database is the same.
\<close>

theorem approval_replay:
  assumes run: "ApproveRevision opts w = (Inr res, w')" and replayed: "\<not> arr_Created res"
  shows "db w' = db w \<and> approvalResult (db w) (aro_ApprovalID opts) res \<and>
    (\<exists>a. tblGet appr_ID (aro_ApprovalID opts) (approvals (db w)) = Some a \<and> appr_Status a = ApprovalStatusApproved)"
proof -
  obtain w1 w2 where d: "decideApproval opts w1 = (Inr res, w2)" "db w1 = db w" "db w2 = db w'"
    using run by (rule ApproveRevision_run)
  from d(1) show ?thesis
  proof (cases rule: decideApproval_run)
    case (replay approval)
    with d show ?thesis by (auto dest: tblGet_id)
  next
    case (decided approval revision document space w0)
    from decided(1) have "arr_Created res" by (rule recordApproval_run)
    with replayed show ?thesis by simp
  qed
qed

definition sampleApproved :: world where
  "sampleApproved = snd (ApproveRevision sampleApprove sampleWorld)"

lemma sampleApproved_replays: "\<exists>res w'. ApproveRevision sampleApprove sampleApproved = (Inr res, w') \<and> \<not> arr_Created res"
  by (simp add: sampleApproved_def ApproveRevision_def decideApproval_def recordApproval_def loadApprovalResult_def
      exec_simps sample_eval table_eval newPublication_def newOutbox_def newIndexJob_def currentUnix_def pub_stamp_def
      job_stamp_def ob_stamp_def Let_def)

theorem approval_replay_witness:
  "\<exists>res w'. ApproveRevision sampleApprove sampleApproved = (Inr res, w') \<and> db w' = db sampleApproved"
  using sampleApproved_replays approval_replay [of sampleApprove sampleApproved] by blast

text \<open>
  A rejection is decided by somebody other than the requester, and only an approval that
  is still pending can be rejected; publications, revisions and spaces stay as they are.
\<close>

theorem rejection_by_other:
  assumes "RejectRevision opts w = (Inr u, w')"
  shows "\<exists>a. tblGet appr_ID (rro_ApprovalID opts) (approvals (db w)) = Some a \<and>
      appr_Status a = ApprovalStatusPending \<and> appr_RequestedBy a \<noteq> rro_DecidedBy opts \<and>
      publications (db w') = publications (db w) \<and> revisions (db w') = revisions (db w) \<and>
      spaces (db w') = spaces (db w)"
proof -
  obtain w1 w2 where d: "decideRejection opts w1 = (Inr u, w2)" "db w1 = db w" "db w2 = db w'"
    using assms by (rule RejectRevision_run)
  from d(1) show ?thesis
    by (rule decideRejection_run) (simp add: d(2) d(3) [symmetric] rejectedDatabase_def)
qed

definition sampleReject :: RejectRevisionOptions where
  "sampleReject = \<lparr>rro_ApprovalID = 1, rro_DecidedBy = 8, rro_Comment = ''ok'', rro_TraceID = ''trace-1''\<rparr>"

lemma sampleReject_runs: "\<exists>w'. RejectRevision sampleReject sampleWorld = (Inr (), w')"
proof -
  have "validGovernanceText ''ok'' False"
    by (simp add: validGovernanceText_def sensitiveMarkers_def maxGovernanceTextBytes_def eval_simps)
  then show ?thesis
    by (simp add: RejectRevision_def decideRejection_def restoreDocument_def appendPublicationAudit_def exec_simps
        sample_eval sampleReject_def table_eval Let_def)
qed

theorem rejection_by_other_witness:
  "\<exists>w'. RejectRevision sampleReject sampleWorld = (Inr (), w') \<and> publications (db w') = publications sampleDatabase"
  using sampleReject_runs rejection_by_other [of sampleReject sampleWorld] by (auto simp: sampleWorld_def)

end
