(* ===== verification/Gitea.thy ===== *)
theory Gitea
  imports Lifecycle
begin

text \<open>
  The lookups of Gitea's own models that the knowledge code calls (\<^verbatim>\<open>models/user/user.go\<close>,
  \<^verbatim>\<open>models/repo/repo.go\<close>, \<^verbatim>\<open>models/db/name.go\<close>): users and repositories by key, and the rule
  for usable repository names.
\<close>

definition getUserByID :: "int \<Rightarrow> User prog" where
  "getUserByID i =
     andThen (getByID user_ID users i) (\<lambda>found.
     case found of None \<Rightarrow> raise (ErrUserNotExist i '''') | Some u \<Rightarrow> ret u)"

definition getUserByName :: "string \<Rightarrow> User prog" where
  "getUserByName name =
     (if length name = 0 then raise (ErrUserNotExist 0 name)
      else
      andThen (getFirst users (\<lambda>u. user_LowerName u = toLower name)) (\<lambda>found.
      case found of None \<Rightarrow> raise (ErrUserNotExist 0 name) | Some u \<Rightarrow> ret u))"

definition getRepositoryByID :: "int \<Rightarrow> Repository prog" where
  "getRepositoryByID i =
     andThen (getByID repo_ID repositories i) (\<lambda>found.
     case found of None \<Rightarrow> raise (ErrRepoNotExist i) | Some r \<Rightarrow> ret r)"

text \<open>The characters of \<^verbatim>\<open>^[-.\w]+$\<close>.\<close>

definition repoNameChar :: "char \<Rightarrow> bool" where
  "repoNameChar c \<longleftrightarrow> isAlnum c \<or> c = CHR ''_'' \<or> c = CHR ''-'' \<or> c = CHR ''.''"

definition isUsableName :: "string list \<Rightarrow> string list \<Rightarrow> string \<Rightarrow> error option" where
  "isUsableName reservedNames reservedPatterns name0 =
     (let name = trimSpace (toLower name0);
          matches = (\<lambda>pat. (hd pat = CHR ''*'' \<and> hasSuffix name (tl pat)) \<or>
                           (last pat = CHR ''*'' \<and> hasPrefix name (butlast pat))) in
      if name = '''' then Some (ErrInvalidArgument ''name is empty'')
      else if name \<in> set reservedNames then Some (ErrNameReserved name)
      else map_option ErrNamePatternNotAllowed (List.find matches reservedPatterns))"

definition isUsableRepoName :: "string \<Rightarrow> error option" where
  "isUsableRepoName name =
     (if name = '''' \<or> \<not> list_all repoNameChar name \<or> containsStr name ''..''
      then Some (ErrNameCharsNotAllowed name)
      else isUsableName [''.'', ''..'', ''-''] [''*.wiki'', ''*.git'', ''*.rss'', ''*.atom''] name)"

lemma getUserByID_run [run_simps]:
  "getUserByID i w = (Inr u, w') \<longleftrightarrow>
     \<not> faults (env w) (calls w) \<and> tblGet user_ID i (users (db w)) = Some u \<and> w' = w\<lparr>calls := Suc (calls w)\<rparr>"
  by (auto simp: getUserByID_def run_simps)

lemma getRepositoryByID_run [run_simps]:
  "getRepositoryByID i w = (Inr r, w') \<longleftrightarrow>
     \<not> faults (env w) (calls w) \<and> tblGet repo_ID i (repositories (db w)) = Some r \<and> w' = w\<lparr>calls := Suc (calls w)\<rparr>"
  by (auto simp: getRepositoryByID_def run_simps)

context db_frame
begin

lemma within_gitea: "within (getUserByID i)" "within (getUserByName n)" "within (getRepositoryByID j)"
  unfolding getUserByID_def getUserByName_def getRepositoryByID_def by (intro call_intros)+

end

text \<open>A usable name is a single path component made of safe characters.\<close>

lemma isUsableRepoName_safe:
  assumes "isUsableRepoName name = None"
  shows "name \<noteq> ''''" "CHR ''/'' \<notin> set name" "\<not> containsStr name ''..''" "name \<noteq> ''.''"
proof -
  have c: "name \<noteq> ''''" "list_all repoNameChar name" "\<not> containsStr name ''..''"
    using assms by (auto simp: isUsableRepoName_def split: if_splits)
  then show "name \<noteq> ''''" "CHR ''/'' \<notin> set name" "\<not> containsStr name ''..''"
    by (auto simp: list_all_iff repoNameChar_def isAlnum_def isDigit_def)
  show "name \<noteq> ''.''"
    using assms by (auto simp: isUsableRepoName_def isUsableName_def eval_simps split: if_splits)
qed

end
