(* ===== verification/Access.thy ===== *)
theory Access
  imports Gitea Governance
begin

text \<open>
  Two shapes of the service layer: a lookup whose failure and whose absence are the same error
  (\<open>if err != nil || !exists\<close>), and the check that the caller is a site administrator.
\<close>

definition foundOr :: "error \<Rightarrow> 'a option prog \<Rightarrow> 'a prog" where
  "foundOr refusal m =
     andThen (attempt m) (\<lambda>r. case r of Inl _ \<Rightarrow> raise refusal | Inr found \<Rightarrow>
     (case found of None \<Rightarrow> raise refusal | Some a \<Rightarrow> ret a))"

definition adminOr :: "error \<Rightarrow> int \<Rightarrow> User prog" where
  "adminOr refusal actorID =
     andThen (attempt (getUserByID actorID)) (\<lambda>r. case r of Inl _ \<Rightarrow> raise refusal | Inr actor \<Rightarrow>
     if \<not> user_IsAdmin actor then raise refusal else ret actor)"

text \<open>An attempt, by its two outcomes.\<close>

lemma attempt_then_run:
  "andThen (attempt m) k w = (Inr b, w2) \<longleftrightarrow>
     (\<exists>e w1. m w = (Inl e, w1) \<and> k (Inl e) w1 = (Inr b, w2)) \<or>
     (\<exists>a w1. m w = (Inr a, w1) \<and> k (Inr a) w1 = (Inr b, w2))"
  by (cases "m w"; cases "fst (m w)") (auto simp: run_simps)

lemma found_orient [run_simps]:
  "Some a = tblGet idf i t \<longleftrightarrow> tblGet idf i t = Some a" "Some b = tblFirst P t2 \<longleftrightarrow> tblFirst P t2 = Some b"
  by (auto simp: eq_commute)

lemma foundOr_run [run_simps]: "foundOr refusal m w = (Inr a, w') \<longleftrightarrow> m w = (Inr (Some a), w')"
  by (auto simp: foundOr_def run_simps)

lemma adminOr_run [run_simps]:
  "adminOr refusal i w = (Inr u, w') \<longleftrightarrow>
     \<not> faults (env w) (calls w) \<and> tblGet user_ID i (users (db w)) = Some u \<and> user_IsAdmin u \<and>
     w' = w\<lparr>calls := Suc (calls w)\<rparr>"
  unfolding adminOr_def attempt_then_run by (auto simp: run_simps)

lemmas access_exec [exec_simps] = foundOr_def adminOr_def getUserByID_def getUserByName_def getRepositoryByID_def

context db_frame
begin

lemma within_foundOr: "within m \<Longrightarrow> within (foundOr refusal m)"
  unfolding foundOr_def by (intro call_intros)

lemma within_adminOr: "within (adminOr refusal i)"
  unfolding adminOr_def by (intro call_intros within_gitea)

lemmas access_intros = call_intros within_gitea within_foundOr within_adminOr

text \<open>Only the runs that end in an error, for operations whose last step is not in the relation.\<close>

definition fails_within :: "'a prog \<Rightarrow> bool" where
  "fails_within m \<longleftrightarrow> (\<forall>w e w'. m w = (Inl e, w') \<longrightarrow> D (db w) (db w'))"

lemma fails_within_all: "within m \<Longrightarrow> fails_within m"
  by (auto simp: fails_within_def dest: withinD)

lemma fails_within_andThen: "within m \<Longrightarrow> (\<And>a. fails_within (k a)) \<Longrightarrow> fails_within (andThen m k)"
  unfolding fails_within_def andThen_def
  by (auto split: prod.splits sum.splits dest: withinD) (blast intro: D_trans dest: withinD)

lemma fails_within_last: "fails_within m \<Longrightarrow> fails_within (andThen (onErr f m) (\<lambda>_. ret a))"
  unfolding fails_within_def andThen_def onErr_def ret_def by (auto split: prod.splits sum.splits)

lemma fails_within_if: "(c \<Longrightarrow> fails_within m) \<Longrightarrow> (\<not> c \<Longrightarrow> fails_within n) \<Longrightarrow> fails_within (if c then m else n)"
  by simp

lemma fails_within_raise: "fails_within (raise e)"
  by (rule fails_within_all) (rule within_raise)

lemma fails_within_deleteRows: "fails_within (deleteRows sel upd P)"
  by (auto simp: fails_within_def deleteRows_def dbCall_def Let_def D_refl split: if_splits)

lemmas fails_intros = fails_within_if fails_within_raise fails_within_last fails_within_deleteRows fails_within_andThen

end

text \<open>Runs that change nothing but the audit log.\<close>

interpretation audits: db_frame "\<lambda>d d'. \<exists>t. d' = d\<lparr>auditEvents := t\<rparr>"
proof
  show "\<exists>t. d = d\<lparr>auditEvents := t\<rparr>" for d :: database by (rule exI [of _ "auditEvents d"]) simp
qed auto

lemma audits_insert: "audits.within (insertRow auditEvents auditEvents_update (\<lambda>i r. r\<lparr>ae_ID := i\<rparr>) ae_stamp ae_clash event)"
  by (rule audits.within_insertRow) auto

context sent_frame
begin

lemma within_gitea: "within (getUserByID i)" "within (getUserByName n)" "within (getRepositoryByID j)"
  unfolding getUserByID_def getUserByName_def getRepositoryByID_def by (intro sent_intros)+

lemma within_foundOr: "within m \<Longrightarrow> within (foundOr refusal m)"
  unfolding foundOr_def by (intro sent_intros)

lemma within_adminOr: "within (adminOr refusal i)"
  unfolding adminOr_def by (intro sent_intros within_gitea)

lemmas access_sent_intros = sent_intros within_gitea within_foundOr within_adminOr

end

end
