(* ===== verification/Go_Path.thy ===== *)
theory Go_Path
  imports Go_Json
begin

text \<open>
  \<open>path.Clean\<close> and \<open>path.Join\<close>: a path is cut at the slashes, empty and "." components are
  dropped, ".." removes the component before it (at the root it is dropped, in a relative path
  with nothing before it is kept).
\<close>

fun splitOn :: "char \<Rightarrow> string \<Rightarrow> string list" where
  "splitOn c [] = [[]]"
| "splitOn c (x # xs) =
     (if x = c then [] # splitOn c xs
      else case splitOn c xs of [] \<Rightarrow> [[x]] | y # ys \<Rightarrow> (x # y) # ys)"

definition cleanStep :: "bool \<Rightarrow> string list \<Rightarrow> string \<Rightarrow> string list" where
  "cleanStep rooted acc c =
     (if c = '''' \<or> c = ''.'' then acc
      else if c = ''..'' then
        (if acc \<noteq> [] \<and> last acc \<noteq> ''..'' then butlast acc else if rooted then acc else acc @ [''..''])
      else acc @ [c])"

definition cleanParts :: "string \<Rightarrow> string list" where
  "cleanParts p = foldl (cleanStep (hasPrefix p ''/'')) [] (splitOn (CHR ''/'') p)"

definition pathClean :: "string \<Rightarrow> string" where
  "pathClean p =
     (let out = (if hasPrefix p ''/'' then ''/'' else '''') @ joinStr ''/'' (cleanParts p)
      in if out = '''' then ''.'' else out)"

definition pathJoin :: "string list \<Rightarrow> string" where
  "pathJoin elems =
     (case filter (\<lambda>e. e \<noteq> '''') elems of [] \<Rightarrow> '''' | es \<Rightarrow> pathClean (joinStr ''/'' es))"

lemmas path_eval [eval_simps] = cleanStep_def cleanParts_def pathClean_def pathJoin_def

lemma splitOn_free: "\<forall>s \<in> set (splitOn c p). c \<notin> set s"
  by (induction p) (auto split: list.splits)

lemma splitOn_nonempty: "splitOn c p \<noteq> []"
  by (induction p) (auto split: list.splits)

lemma splitOn_plain: "c \<notin> set s \<Longrightarrow> splitOn c s = [s]"
  by (induction s) auto

lemma splitOn_append: "c \<notin> set s \<Longrightarrow> splitOn c (s @ c # t) = s # splitOn c t"
  by (induction s) auto

lemma splitOn_join:
  assumes "parts \<noteq> []" "\<forall>s \<in> set parts. c \<notin> set s"
  shows "splitOn c (joinStr [c] parts) = parts"
  using assms by (induction "[c]" parts rule: joinStr.induct) (auto simp: splitOn_plain splitOn_append)

text \<open>The components of a cleaned path: no empty ones, no ".", and ".." only in front.\<close>

definition cleanList :: "bool \<Rightarrow> string list \<Rightarrow> bool" where
  "cleanList rooted parts \<longleftrightarrow>
     (\<forall>s \<in> set parts. s \<noteq> '''' \<and> s \<noteq> ''.'' \<and> CHR ''/'' \<notin> set s) \<and>
     (\<exists>n rest. parts = replicate n ''..'' @ rest \<and> ''..'' \<notin> set rest \<and> (rooted \<longrightarrow> n = 0))"

definition keptComponent :: "string \<Rightarrow> bool" where
  "keptComponent s \<longleftrightarrow> s \<noteq> '''' \<and> s \<noteq> ''.'' \<and> CHR ''/'' \<notin> set s"

lemma cleanListI:
  "\<forall>s \<in> set rest. keptComponent s \<and> s \<noteq> ''..'' \<Longrightarrow> (rooted \<Longrightarrow> n = 0) \<Longrightarrow>
   cleanList rooted (replicate n ''..'' @ rest)"
  unfolding cleanList_def
proof (intro conjI exI)
  assume rest: "\<forall>s \<in> set rest. keptComponent s \<and> s \<noteq> ''..''" and n: "rooted \<Longrightarrow> n = 0"
  have dots: "''..'' \<noteq> '''' \<and> ''..'' \<noteq> ''.'' \<and> CHR ''/'' \<notin> set ''..''" by simp
  show "\<forall>s \<in> set (replicate n ''..'' @ rest). s \<noteq> '''' \<and> s \<noteq> ''.'' \<and> CHR ''/'' \<notin> set s"
    using rest dots unfolding keptComponent_def by (metis Un_iff in_set_replicate set_append)
  show "replicate n ''..'' @ rest = replicate n ''..'' @ rest" by (rule refl)
  show "''..'' \<notin> set rest" using rest by blast
  show "rooted \<longrightarrow> n = 0" using n by blast
qed

lemma cleanListE:
  assumes "cleanList rooted acc"
  obtains n rest where "acc = replicate n ''..'' @ rest"
    "\<forall>s \<in> set rest. keptComponent s \<and> s \<noteq> ''..''" "rooted \<Longrightarrow> n = 0"
proof -
  obtain n rest where acc: "acc = replicate n ''..'' @ rest" "''..'' \<notin> set rest" "rooted \<longrightarrow> n = 0"
    using assms unfolding cleanList_def by blast
  have "\<forall>s \<in> set acc. keptComponent s"
    using assms unfolding cleanList_def keptComponent_def by blast
  then have "\<forall>s \<in> set rest. keptComponent s \<and> s \<noteq> ''..''" using acc(1,2) by auto
  with acc that show ?thesis by blast
qed

lemma cleanStep_clean:
  assumes "cleanList rooted acc" "CHR ''/'' \<notin> set c"
  shows "cleanList rooted (cleanStep rooted acc c)"
proof -
  define dots :: string where "dots = ''..''"
  obtain n rest where acc: "acc = replicate n dots @ rest" and rest: "\<forall>s \<in> set rest. keptComponent s \<and> s \<noteq> dots"
    and n: "rooted \<Longrightarrow> n = 0"
    using assms(1) unfolding dots_def by (rule cleanListE) blast
  note build = cleanListI [folded dots_def]
  note step = cleanStep_def [folded dots_def]
  consider "c = '''' \<or> c = ''.''" | "c = dots" "\<not> (c = '''' \<or> c = ''.'')" "rest = []"
    | "c = dots" "\<not> (c = '''' \<or> c = ''.'')" "rest \<noteq> []" | "\<not> (c = '''' \<or> c = ''.'')" "c \<noteq> dots"
    by blast
  then show ?thesis
  proof cases
    case 1
    with assms(1) show ?thesis by (simp only: step if_True)
  next
    case 2
    then have "cleanStep rooted acc c = (if rooted then acc else replicate (Suc n) dots @ [])"
      using acc by (cases n) (auto simp: step replicate_append_same)
    with assms(1) build [of "[]" rooted "Suc n"] show ?thesis by (cases rooted) simp_all
  next
    case 3
    have "last acc = last rest" "acc \<noteq> []" "last rest \<in> set rest" using acc 3 by auto
    with rest have "acc \<noteq> [] \<and> last acc \<noteq> dots" by auto
    with 3 have "cleanStep rooted acc c = butlast acc" by (simp add: step)
    also have "\<dots> = replicate n dots @ butlast rest" using acc 3 by (simp add: butlast_append)
    finally show ?thesis using build [of "butlast rest" rooted n] rest n by (auto dest: in_set_butlastD)
  next
    case 4
    then have "cleanStep rooted acc c = replicate n dots @ (rest @ [c])" using acc by (simp add: step)
    moreover have "keptComponent c" using 4 assms(2) by (simp add: keptComponent_def)
    ultimately show ?thesis using build [of "rest @ [c]" rooted n] rest n 4 by auto
  qed
qed

lemma cleanParts_clean: "cleanList (hasPrefix p ''/'') (cleanParts p)"
proof -
  have "cleanList r acc \<Longrightarrow> \<forall>s \<in> set cs. CHR ''/'' \<notin> set s \<Longrightarrow> cleanList r (foldl (cleanStep r) acc cs)" for r acc cs
    by (induction cs arbitrary: acc) (auto intro: cleanStep_clean)
  moreover have "cleanList r []" for r
    by (auto simp: cleanList_def intro!: exI [of _ 0])
  ultimately show ?thesis
    unfolding cleanParts_def using splitOn_free by blast
qed

text \<open>Joining plain components keeps them.\<close>

definition plainComponent :: "string \<Rightarrow> bool" where
  "plainComponent s \<longleftrightarrow> s \<noteq> '''' \<and> s \<noteq> ''.'' \<and> s \<noteq> ''..'' \<and> CHR ''/'' \<notin> set s"

lemma foldl_plain: "list_all plainComponent cs \<Longrightarrow> foldl (cleanStep r) acc cs = acc @ cs"
  by (induction cs arbitrary: acc) (auto simp: cleanStep_def plainComponent_def)

lemma joinStr_empty_iff: "list_all plainComponent cs \<Longrightarrow> joinStr ''/'' cs = '''' \<longleftrightarrow> cs = []"
  by (cases cs; cases "tl cs") (auto simp: plainComponent_def)

lemma joinStr_relative: "list_all plainComponent cs \<Longrightarrow> \<not> hasPrefix (joinStr ''/'' cs) ''/''"
  by (cases cs; cases "tl cs"; cases "hd cs") (auto simp: plainComponent_def hasPrefix_def)

lemma pathClean_plain:
  assumes "list_all plainComponent cs" "cs \<noteq> []"
  shows "pathClean (joinStr ''/'' cs) = joinStr ''/'' cs"
proof -
  have "splitOn (CHR ''/'') (joinStr ''/'' cs) = cs"
    using assms by (intro splitOn_join) (auto simp: list_all_iff plainComponent_def)
  then have "cleanParts (joinStr ''/'' cs) = cs"
    using assms(1) by (simp add: cleanParts_def foldl_plain)
  with assms joinStr_relative [OF assms(1)] show ?thesis
    by (simp add: pathClean_def joinStr_empty_iff)
qed

lemma pathJoin_plain:
  assumes "list_all plainComponent cs" "cs \<noteq> []"
  shows "pathJoin cs = joinStr ''/'' cs"
proof -
  have "filter (\<lambda>e. e \<noteq> '''') cs = cs"
    using assms(1) by (auto simp: filter_id_conv list_all_iff plainComponent_def)
  with assms show ?thesis by (cases cs) (simp_all add: pathJoin_def pathClean_plain)
qed

end
