(* ===== verification/Catalog_Text.thy ===== *)
theory Catalog_Text
  imports World Go_Path
begin

text \<open>
  The text rules of \<^verbatim>\<open>services/knowledge/catalog\<close>: display texts, the names of repositories and
  files derived from titles (\<^verbatim>\<open>catalog.go\<close>), and \<open>%q\<close> of the format package.

  The lemmas show that a slug is a safe, bounded, non-empty path component whatever the title,
  and that a revision is stored under the \<open>documents\<close> directory.
\<close>

section \<open>Display text\<close>

definition displayMarkers :: "string list" where
  "displayMarkers = [''api_key'', ''apikey'', ''secret'', ''password'', ''token='', ''private key'']"

definition validDisplayText :: "string \<Rightarrow> bool \<Rightarrow> bool" where
  "validDisplayText value0 allowEmpty =
     (let v = trimSpace value0 in
      if v = '''' then allowEmpty
      else if 255 < length v \<or> hasControl v then False
      else \<not> list_ex (containsStr (toLower v)) displayMarkers)"

section \<open>Slugs\<close>

definition slugChar :: "char \<Rightarrow> bool" where
  "slugChar c \<longleftrightarrow> (97 \<le> (of_char c :: nat) \<and> of_char c \<le> (122 :: nat)) \<or> isDigit c \<or> c \<in> set ''._-''"

text \<open>\<open>slugInvalid.ReplaceAllString\<close>: every run of other characters becomes one "-".\<close>

fun replaceRuns :: "bool \<Rightarrow> string \<Rightarrow> string" where
  "replaceRuns inRun [] = []"
| "replaceRuns inRun (c # cs) =
     (if slugChar c then c # replaceRuns False cs
      else if inRun then replaceRuns True cs else CHR ''-'' # replaceRuns True cs)"

text \<open>\<open>strings.ToLower\<close> with the mapping of all runes, since the result is hashed.\<close>

definition lowerAll :: "environment \<Rightarrow> string \<Rightarrow> string" where
  "lowerAll e s = concat (map (\<lambda>rb. if fst rb < 128 \<or> fst rb = 65533 then lowerRune rb else lowerOther e rb) (runes s))"

definition makeSlug :: "environment \<Rightarrow> string \<Rightarrow> string" where
  "makeSlug e value0 =
     (let source = lowerAll e (trimSpace value0);
          v1 = trimChars (replaceRuns False source) ''-._'';
          v2 = (if v1 = '''' then ''knowledge-'' @ hexEncode (take 4 (sha256 e source)) else v1);
          v3 = (if 48 < length v2 then trimChars (take 48 v2) ''-._'' else v2)
      in if v3 = '''' then ''knowledge'' else v3)"

definition buildRevisionRepoPath :: "environment \<Rightarrow> int \<Rightarrow> string \<Rightarrow> string \<Rightarrow> string" where
  "buildRevisionRepoPath e now contentSHA fileName =
     (let stem = makeSlug e (trimSuffix fileName (fileExt fileName))
      in pathJoin [''documents'', itoa now @ ''-'' @ take 12 contentSHA, stem @ toLower (fileExt fileName)])"

section \<open>Quoting\<close>

text \<open>\<open>%q\<close>, that is \<open>strconv.Quote\<close>.\<close>

definition hexFixed :: "nat \<Rightarrow> nat \<Rightarrow> string" where
  "hexFixed n r = map (\<lambda>i. hexDigit (r div 16 ^ (n - 1 - i) mod 16)) [0..<n]"

definition goQuoteRune :: "environment \<Rightarrow> nat \<times> string \<Rightarrow> string" where
  "goQuoteRune e rb =
     (let r = fst rb; bs = snd rb; bslash = CHR 0x5C in
      if r = 65533 \<and> length bs = 1 then bslash # CHR ''x'' # hexFixed 2 (of_char (hd bs))
      else if r = 34 \<or> r = 92 then bslash # bs
      else if (32 \<le> r \<and> r \<le> 126) \<or> (128 \<le> r \<and> isPrintRune e r) then bs
      else if r = 7 then [bslash, CHR ''a''] else if r = 8 then [bslash, CHR ''b'']
      else if r = 12 then [bslash, CHR ''f''] else if r = 10 then [bslash, CHR ''n'']
      else if r = 13 then [bslash, CHR ''r''] else if r = 9 then [bslash, CHR ''t'']
      else if r = 11 then [bslash, CHR ''v'']
      else if r < 32 \<or> r = 127 then bslash # CHR ''x'' # hexFixed 2 r
      else if r < 65536 then bslash # CHR ''u'' # hexFixed 4 r
      else bslash # CHR ''U'' # hexFixed 8 r)"

definition goQuote :: "environment \<Rightarrow> string \<Rightarrow> string" where
  "goQuote e s = CHR 0x22 # concat (map (goQuoteRune e) (runes s)) @ [CHR 0x22]"

lemmas text_eval [eval_simps] =
  displayMarkers_def validDisplayText_def slugChar_def lowerAll_def makeSlug_def buildRevisionRepoPath_def
  hexFixed_def goQuoteRune_def goQuote_def

section \<open>What slugs and paths are\<close>

lemma replaceRuns_slug: "list_all slugChar (replaceRuns b s)"
  by (induction b s rule: replaceRuns.induct) (auto simp: slugChar_def)

lemma trimChars_subset: "set (trimChars s cs) \<subseteq> set s"
  by (auto simp: trimChars_def trimRight_def dest!: set_dropWhileD)

lemma slug_trim: "list_all slugChar s \<Longrightarrow> list_all slugChar (trimChars s cs)"
  using trimChars_subset [of s cs] by (auto simp: list_all_iff)

lemma hexEncode_slug: "list_all slugChar (hexEncode s)"
proof -
  have "slugChar (hexDigit n)" if "n < 16" for n
    using that by (auto simp: hexDigit_def slugChar_def isDigit_def)
  then have "list_all slugChar (hexEncode s)" if "list_all (\<lambda>c. (of_char c :: nat) < 256) s" for s
    using that by (induction s) (auto simp: less_mult_imp_div_less)
  then show ?thesis by (simp add: list_all_iff)
qed

lemma trimChars_ends:
  assumes "trimChars s cs = c # t"
  shows "c \<notin> set cs"
proof -
  let ?d = "dropWhile (\<lambda>c. c \<in> set cs) s"
  have "prefix (trimChars s cs) ?d"
    unfolding trimChars_def trimRight_def
    by (metis suffix_dropWhile suffix_to_prefix rev_rev_ident)
  then obtain u where "?d = c # u" using assms by (auto simp: prefix_def)
  then show ?thesis by (metis hd_dropWhile list.discI list.sel(1))
qed

theorem makeSlug_safe:
  "makeSlug e v \<noteq> ''''" "length (makeSlug e v) \<le> 48" "list_all slugChar (makeSlug e v)"
  "hd (makeSlug e v) \<notin> set ''-._''"
proof -
  define v1 where "v1 = trimChars (replaceRuns False (lowerAll e (trimSpace v))) ''-._''"
  define v2 where "v2 = (if v1 = '''' then ''knowledge-'' @ hexEncode (take 4 (sha256 e (lowerAll e (trimSpace v)))) else v1)"
  define v3 where "v3 = (if 48 < length v2 then trimChars (take 48 v2) ''-._'' else v2)"
  have slug: "makeSlug e v = (if v3 = '''' then ''knowledge'' else v3)"
    by (simp add: makeSlug_def Let_def v3_def v2_def v1_def)
  have k: "list_all slugChar ''knowledge-''" "list_all slugChar ''knowledge''"
    by (simp_all add: slugChar_def isDigit_def)
  have 2: "list_all slugChar v2"
    using k hexEncode_slug by (simp add: v2_def v1_def slug_trim replaceRuns_slug)
  have "list_all slugChar (take 48 v2)" using 2 by (auto simp: list_all_iff dest: in_set_takeD)
  then have 3: "list_all slugChar v3" using 2 by (simp add: v3_def slug_trim)
  have "length (trimChars (take 48 v2) ''-._'') \<le> 48"
    using length_dropWhile_le [of "\<lambda>c. c \<in> set ''-._''" "take 48 v2"]
      length_dropWhile_le [of "\<lambda>c. c \<in> set ''-._''" "rev (dropWhile (\<lambda>c. c \<in> set ''-._'') (take 48 v2))"]
    unfolding trimChars_def trimRight_def by (simp only: length_rev length_take)
  then have len: "length v3 \<le> 48" by (simp add: v3_def)
  have h2: "v2 \<noteq> '''' \<Longrightarrow> hd v2 \<notin> set ''-._''"
    using trimChars_ends [of _ "''-._''"] by (cases v1) (auto simp: v2_def v1_def)
  have h3: "v3 \<noteq> '''' \<Longrightarrow> hd v3 \<notin> set ''-._''"
    using h2 trimChars_ends [of "take 48 v2" "''-._''"] by (cases v3) (auto simp: v3_def split: if_splits)
  show "makeSlug e v \<noteq> ''''" "length (makeSlug e v) \<le> 48" "list_all slugChar (makeSlug e v)"
    "hd (makeSlug e v) \<notin> set ''-._''"
    using k 3 len h3 by (auto simp: slug)
qed

text \<open>A revision lies in a directory of its own below \<open>documents\<close>.\<close>

lemma fileExt_shape: "fileExt s = [] \<or> (\<exists>t. fileExt s = CHR ''.'' # t \<and> CHR ''/'' \<notin> set t)"
  by (auto simp: fileExt_def Let_def dest!: set_takeWhileD)

lemma toLower_noslash: "CHR ''/'' \<notin> set s \<Longrightarrow> ascii s \<Longrightarrow> CHR ''/'' \<notin> set (toLower s)"
proof -
  assume s: "CHR ''/'' \<notin> set s" "ascii s"
  have low: "CHR ''/'' \<notin> set (lowerRune (of_char c, [c]))" if "c \<noteq> CHR ''/''" "of_char c < (128 :: nat)" for c
  proof -
    have "char_of ((of_char c :: nat) + 32) \<noteq> CHR ''/''" if "65 \<le> (of_char c :: nat)" "of_char c \<le> (90 :: nat)"
    proof
      assume "char_of ((of_char c :: nat) + 32) = CHR ''/''"
      then have "of_char (char_of ((of_char c :: nat) + 32)) = (47 :: nat)" by simp
      with that show False by simp
    qed
    with \<open>c \<noteq> CHR ''/''\<close> \<open>of_char c < 128\<close> show ?thesis by auto
  qed
  have "\<forall>c \<in> set s. CHR ''/'' \<notin> set (lowerRune (of_char c, [c]))"
    using s low by (metis ascii_def list_all_iff)
  then show ?thesis unfolding toLower_ascii [OF s(2)] by (simp del: lowerRune.simps)
qed

lemma slugChar_component:
  assumes "list_all slugChar s" "s \<noteq> ''''" "hd s \<notin> set ''-._''" "CHR ''/'' \<notin> set t"
  shows "plainComponent (s @ t)"
proof -
  have "\<not> slugChar (CHR ''/'')" by (simp add: slugChar_def isDigit_def)
  with assms show ?thesis by (cases s) (auto simp: plainComponent_def list_all_iff)
qed

lemma buildRevisionRepoPath_shape:
  assumes "CHR ''/'' \<notin> set contentSHA" "ascii (fileExt fileName)"
  shows "buildRevisionRepoPath e now contentSHA fileName =
    ''documents/'' @ itoa now @ ''-'' @ take 12 contentSHA @ ''/'' @
      makeSlug e (trimSuffix fileName (fileExt fileName)) @ toLower (fileExt fileName)"
proof -
  let ?d = "itoa now @ ''-'' @ take 12 contentSHA"
  let ?f = "makeSlug e (trimSuffix fileName (fileExt fileName)) @ toLower (fileExt fileName)"
  have "CHR ''/'' \<notin> set (fileExt fileName)" using fileExt_shape [of fileName] by auto
  then have "plainComponent ?f"
    using assms(2) by (intro slugChar_component makeSlug_safe toLower_noslash)
  moreover have "plainComponent ?d"
  proof -
    have "\<not> isTokenChar (CHR ''/'')" by (simp add: isTokenChar_def isAlnum_def isDigit_def)
    then have "CHR ''/'' \<notin> set (itoa now)"
      using itoa_tokenChars [of now] by (auto simp: list_all_iff)
    moreover have "?d \<noteq> ''.''" "?d \<noteq> ''..''" "?d \<noteq> ''''"
      by (auto dest: arg_cong [where f = "\<lambda>x. CHR ''-'' \<in> set x"])
    ultimately show ?thesis using assms(1) by (auto simp: plainComponent_def dest: in_set_takeD)
  qed
  moreover have "plainComponent ''documents''" by (simp add: plainComponent_def)
  ultimately show ?thesis
    using pathJoin_plain [of "[''documents'', ?d, ?f]"] by (simp add: buildRevisionRepoPath_def Let_def)
qed

end
