(* ===== verification/DataSources.thy ===== *)
theory DataSources
  imports Access Catalog_Text
begin

text \<open>
  The register of data sources, \<^verbatim>\<open>services/knowledge/catalog/data_source.go\<close>: registration,
  approval by a second administrator, and the confirmation of a periodic review.

  The lemmas invert successful runs: what a registered source looks like, and that a source is
  enabled by an administrator who did not create it.
\<close>

record CreateDataSourceOptions =
  cds_SpaceID :: int
  cds_ActorID :: int
  cds_SourceCode :: string
  cds_Name :: string
  cds_SourceType :: DataSourceType
  cds_BusinessDomainCode :: string
  cds_ContentTypeCode :: string
  cds_SourceDepartment :: string
  cds_ContentOwnerUsername :: string
  cds_MaintenanceUsername :: string
  cds_EffectiveUnix :: TimeStamp
  cds_ExpiresUnix :: TimeStamp
  cds_ReviewFrequency :: ReviewFrequency
  cds_SecurityLevel :: SecurityLevel
  cds_ApprovalBasisRef :: string
  cds_ApplicableScopeJSON :: string
  cds_SourceAuthorizationRef :: string
  cds_SourceFormat :: string
  cds_SearchabilityStatus :: SearchabilityStatus
  cds_ConnectorType :: string
  cds_SecretRef :: string
  cds_ReadScope :: string
  cds_QueryTemplateRef :: string
  cds_SchemaVersion :: string
  cds_FieldMappingJSON :: string
  cds_IncrementalCursorField :: string
  cds_DataRetentionRule :: string
  cds_MaskPolicyVersion :: string

section \<open>Validation\<close>

definition dataSourceCodePattern :: "string \<Rightarrow> bool" where
  "dataSourceCodePattern s \<longleftrightarrow> isToken s \<and> length s \<le> 128"

definition sourceReference :: "string \<Rightarrow> bool" where
  "sourceReference s \<longleftrightarrow>
     list_ex (\<lambda>p. hasPrefix s p \<and> isToken (trimPrefix s p) \<and> length (trimPrefix s p) \<le> 256)
       [''grant-id:'', ''approval-ref:'', ''contract-ref:'']"

text \<open>"V" and one to four groups of digits separated by dots.\<close>

definition documentVersion :: "string \<Rightarrow> bool" where
  "documentVersion s \<longleftrightarrow>
     (case s of [] \<Rightarrow> False
      | c # cs \<Rightarrow> c = CHR ''V'' \<and> length (splitOn (CHR ''.'') cs) \<le> 4 \<and>
          list_all (\<lambda>g. g \<noteq> '''' \<and> list_all isDigit g) (splitOn (CHR ''.'') cs))"

definition validDataSourceType :: "DataSourceType \<Rightarrow> bool" where
  "validDataSourceType v \<longleftrightarrow> (case v of DataSourceTypeOther _ \<Rightarrow> False | _ \<Rightarrow> True)"

definition validReviewFrequency :: "ReviewFrequency \<Rightarrow> bool" where
  "validReviewFrequency v \<longleftrightarrow>
     v = ReviewFrequencyWeekly \<or> v = ReviewFrequencyMonthly \<or> v = ReviewFrequencyQuarterly \<or>
     v = ReviewFrequencyEventTriggered"

definition validSecurityLevel :: "SecurityLevel \<Rightarrow> bool" where
  "validSecurityLevel v \<longleftrightarrow>
     v = SecurityLevelPublic \<or> v = SecurityLevelInternal \<or> v = SecurityLevelRestricted \<or> v = SecurityLevelProhibited"

definition validSearchabilityStatus :: "SearchabilityStatus \<Rightarrow> bool" where
  "validSearchabilityStatus v \<longleftrightarrow>
     v = SearchabilityStatusSearchable \<or> v = SearchabilityStatusOCRRequired \<or> v = SearchabilityStatusNotSearchable"

definition validSecretRef :: "string \<Rightarrow> bool" where
  "validSecretRef v0 \<longleftrightarrow>
     (let v = trimSpace v0; r = trimPrefix v ''secret-ref:''
      in hasPrefix v ''secret-ref:'' \<and>
         (case r of [] \<Rightarrow> False
          | c # cs \<Rightarrow> isAlnum c \<and> list_all (\<lambda>x. isTokenChar x \<or> x = CHR ''/'') cs \<and> length cs \<le> 255))"

definition validSafeReference :: "string \<Rightarrow> bool" where
  "validSafeReference v0 \<longleftrightarrow>
     (let v = trimSpace v0 in
      \<not> (v = '''' \<or> 255 < length v \<or> containsAny v [CHR 0x5C, CHR 0x00, CHR 0x0A, CHR 0x0D]) \<and>
      (let lower = toLower v in
       \<not> containsStr lower ''password'' \<and> \<not> containsStr lower ''api_key'' \<and> \<not> containsStr lower ''token='' \<and>
       \<not> hasPrefix lower ''/'' \<and>
       \<not> (case lower of c # d # _ \<Rightarrow> 97 \<le> (of_char c :: nat) \<and> of_char c \<le> (122 :: nat) \<and> d = CHR '':'' | _ \<Rightarrow> False)))"

text \<open>The members of an object that decode into a map; \<open>null\<close> decodes into the nil map.\<close>

definition validScopeJSON :: "string \<Rightarrow> bool" where
  "validScopeJSON v0 \<longleftrightarrow>
     (let v = trimSpace v0 in
      \<not> (length v = 0 \<or> 16 * 1024 < length v \<or> \<not> jsonValid v) \<and>
      (case jsonParse v of Some (JObj members) \<Rightarrow> 0 < length (remdups (map fst members)) | _ \<Rightarrow> False))"

definition validMaskPolicyRef :: "string \<Rightarrow> bool" where
  "validMaskPolicyRef v0 \<longleftrightarrow>
     (let v = trimSpace v0 in
      hasPrefix v ''mask-policy-'' \<and> isToken (trimPrefix v ''mask-policy-'') \<and> length (trimPrefix v ''mask-policy-'') \<le> 128)"

definition validDocumentVersion :: "string \<Rightarrow> bool" where
  "validDocumentVersion v \<longleftrightarrow> documentVersion (trimSpace v)"

definition validRevisionRelation :: "string \<Rightarrow> bool" where
  "validRevisionRelation v \<longleftrightarrow> v = ''new'' \<or> v = ''revision'' \<or> v = ''replacement'' \<or> v = ''supplement''"

definition validConnectorOptions :: "CreateDataSourceOptions \<Rightarrow> bool" where
  "validConnectorOptions opts \<longleftrightarrow>
     \<not> (cds_SourceType opts = DataSourceTypeDatabase \<and> cds_ConnectorType opts \<noteq> ''mysql'') \<and>
     validDisplayText (cds_ConnectorType opts) False \<and> validSecretRef (cds_SecretRef opts) \<and>
     validSafeReference (cds_QueryTemplateRef opts) \<and> validDisplayText (cds_SchemaVersion opts) False \<and>
     validScopeJSON (cds_FieldMappingJSON opts) \<and> validDisplayText (cds_IncrementalCursorField opts) False \<and>
     validDisplayText (cds_DataRetentionRule opts) False \<and> validScopeJSON (cds_ReadScope opts)"

definition validateDataSourceOptions :: "CreateDataSourceOptions \<Rightarrow> error option" where
  "validateDataSourceOptions opts =
     (if \<not> dataSourceCodePattern (cds_SourceCode opts) \<or> \<not> validDisplayText (cds_Name opts) False \<or>
         \<not> validDataSourceType (cds_SourceType opts) \<or> \<not> validDisplayText (cds_BusinessDomainCode opts) False \<or>
         \<not> validDisplayText (cds_ContentTypeCode opts) False \<or> \<not> validDisplayText (cds_SourceDepartment opts) False \<or>
         trimSpace (cds_ContentOwnerUsername opts) = '''' \<or> trimSpace (cds_MaintenanceUsername opts) = '''' \<or>
         cds_EffectiveUnix opts \<le> 0 \<or> \<not> validReviewFrequency (cds_ReviewFrequency opts) \<or>
         \<not> validSecurityLevel (cds_SecurityLevel opts) \<or> \<not> validSafeReference (cds_ApprovalBasisRef opts) \<or>
         \<not> validScopeJSON (cds_ApplicableScopeJSON opts) \<or> \<not> sourceReference (cds_SourceAuthorizationRef opts) \<or>
         \<not> validDisplayText (cds_SourceFormat opts) False \<or> \<not> validSearchabilityStatus (cds_SearchabilityStatus opts) \<or>
         \<not> validMaskPolicyRef (cds_MaskPolicyVersion opts)
      then Some (ErrorsNew ''invalid knowledge data source input'')
      else if 0 < cds_ExpiresUnix opts \<and> cds_ExpiresUnix opts \<le> cds_EffectiveUnix opts
      then Some (ErrorsNew ''knowledge data source expiry must be after its effective date'')
      else if (cds_SourceType opts = DataSourceTypeDatabase \<or> cds_SourceType opts = DataSourceTypeAPI) \<and>
              \<not> validConnectorOptions opts
      then Some (ErrorsNew ''database or API data source is missing required controlled-connection settings'')
      else None)"

lemmas data_source_eval [eval_simps] =
  dataSourceCodePattern_def sourceReference_def documentVersion_def validDataSourceType_def validReviewFrequency_def
  validSecurityLevel_def validSearchabilityStatus_def validSecretRef_def validSafeReference_def validScopeJSON_def
  validMaskPolicyRef_def validDocumentVersion_def validRevisionRelation_def validConnectorOptions_def
  validateDataSourceOptions_def jsonValid_def

section \<open>Operations\<close>

definition insertDataSourceAudit :: "DataSource \<Rightarrow> int \<Rightarrow> string \<Rightarrow> string \<Rightarrow> unit prog" where
  "insertDataSourceAudit source actorID action result =
     andThen timeNow (\<lambda>nanos.
     andThen (askEnv goQuote) (\<lambda>quote.
     andThen (insertRow auditEvents auditEvents_update (\<lambda>i r. r\<lparr>ae_ID := i\<rparr>) ae_stamp ae_clash
       \<lparr>ae_ID = 0, ae_ActorID = actorID, ae_Action = action, ae_EntityType = ''data_source'',
        ae_EntityID = ds_ID source, ae_SpaceID = ds_SpaceID source, ae_Result = result,
        ae_ReasonCode = ''governance'', ae_TraceID = ''data-source-'' @ itoa (ds_ID source) @ ''-'' @ itoa nanos,
        ae_MetadataJSON = ''{'' @ [CHR 0x22] @ ''source_code'' @ [CHR 0x22] @ '':'' @ quote (ds_SourceCode source) @
          '','' @ [CHR 0x22] @ ''source_type'' @ [CHR 0x22] @ '':'' @ quote (dataSourceTypeStr (ds_SourceType source)) @
          '','' @ [CHR 0x22] @ ''security_level'' @ [CHR 0x22] @ '':'' @ quote (securityLevelStr (ds_SecurityLevel source)) @ ''}'',
        ae_CreatedUnix = 0\<rparr>) (\<lambda>_. ret ())))"

definition loadManagedSpace :: "int \<Rightarrow> int \<Rightarrow> (Space \<times> User) prog" where
  "loadManagedSpace spaceID actorID =
     (if spaceID \<le> 0 \<or> actorID \<le> 0 then raise (ErrorsNew ''invalid knowledge space or actor'')
      else
      andThen (mustGet ''load knowledge space'' (ErrorsNew ''knowledge space is not active'') sp_ID spaces spaceID) (\<lambda>space.
      if sp_Status space \<noteq> SpaceStatusActive then raise (ErrorsNew ''knowledge space is not active'')
      else
      andThen (onErr (Errorf ''load knowledge actor'') (getUserByID actorID)) (\<lambda>actor.
      if user_ID actor \<noteq> sp_OwnerID space \<and> \<not> user_IsAdmin actor
      then raise (ErrorsNew ''knowledge space operation is not authorized'')
      else ret (space, actor))))"

definition newDataSource :: "CreateDataSourceOptions \<Rightarrow> Space \<Rightarrow> User \<Rightarrow> User \<Rightarrow> User \<Rightarrow> DataSource" where
  "newDataSource opts space actor contentOwner maintenanceOwner =
     \<lparr>ds_ID = 0, ds_SpaceID = sp_ID space, ds_SourceCode = trimSpace (cds_SourceCode opts),
      ds_Name = trimSpace (cds_Name opts), ds_SourceType = cds_SourceType opts,
      ds_BusinessDomainCode = trimSpace (cds_BusinessDomainCode opts),
      ds_ContentTypeCode = trimSpace (cds_ContentTypeCode opts),
      ds_SourceDepartment = trimSpace (cds_SourceDepartment opts),
      ds_ContentOwnerID = user_ID contentOwner, ds_MaintenanceOwnerID = user_ID maintenanceOwner,
      ds_EffectiveUnix = cds_EffectiveUnix opts, ds_ExpiresUnix = cds_ExpiresUnix opts,
      ds_ReviewFrequency = cds_ReviewFrequency opts, ds_SecurityLevel = cds_SecurityLevel opts,
      ds_ApprovalBasisRef = trimSpace (cds_ApprovalBasisRef opts),
      ds_ApplicableScopeJSON = trimSpace (cds_ApplicableScopeJSON opts),
      ds_SourceAuthorizationRef = trimSpace (cds_SourceAuthorizationRef opts),
      ds_SourceFormat = trimSpace (cds_SourceFormat opts), ds_SearchabilityStatus = cds_SearchabilityStatus opts,
      ds_Status = DataSourceStatusPendingReview, ds_ConnectorType = trimSpace (cds_ConnectorType opts),
      ds_SecretRef = trimSpace (cds_SecretRef opts), ds_ReadScope = trimSpace (cds_ReadScope opts),
      ds_QueryTemplateRef = trimSpace (cds_QueryTemplateRef opts), ds_SchemaVersion = trimSpace (cds_SchemaVersion opts),
      ds_FieldMappingJSON = trimSpace (cds_FieldMappingJSON opts),
      ds_IncrementalCursorField = trimSpace (cds_IncrementalCursorField opts),
      ds_DataRetentionRule = trimSpace (cds_DataRetentionRule opts),
      ds_MaskPolicyVersion = trimSpace (cds_MaskPolicyVersion opts), ds_LastSyncUnix = 0, ds_LastSuccessCursor = '''',
      ds_CreatedBy = user_ID actor, ds_CreatedUnix = 0, ds_UpdatedUnix = 0\<rparr>"

definition CreateDataSource :: "CreateDataSourceOptions \<Rightarrow> DataSource prog" where
  "CreateDataSource opts =
     andThen (loadManagedSpace (cds_SpaceID opts) (cds_ActorID opts)) (\<lambda>(space, actor).
     case validateDataSourceOptions opts of Some err \<Rightarrow> raise err | None \<Rightarrow>
     andThen (onErr (Errorf ''load data-source content owner'') (getUserByName (trimSpace (cds_ContentOwnerUsername opts)))) (\<lambda>contentOwner.
     andThen (onErr (Errorf ''load data-source maintenance owner'') (getUserByName (trimSpace (cds_MaintenanceUsername opts)))) (\<lambda>maintenanceOwner.
     withTx (
       andThen (mustInsert ''create knowledge data source'' dataSources dataSources_update (\<lambda>i r. r\<lparr>ds_ID := i\<rparr>) ds_stamp ds_clash
         (newDataSource opts space actor contentOwner maintenanceOwner)) (\<lambda>source.
       andThen (insertDataSourceAudit source (user_ID actor) ''data_source_created'' ''pending_review'') (\<lambda>_.
       ret source))))))"

definition approveSource :: "int \<Rightarrow> int \<Rightarrow> unit prog" where
  "approveSource sourceID actorID =
     andThen (mustGet ''load knowledge data source'' (ErrorsNew ''knowledge data source cannot be approved'') ds_ID dataSources sourceID) (\<lambda>source.
     if ds_Status source \<noteq> DataSourceStatusPendingReview \<or> ds_CreatedBy source = actorID \<or>
        ds_SecurityLevel source = SecurityLevelProhibited
     then raise (ErrorsNew ''knowledge data source cannot be approved'')
     else
     andThen (mustUpdate ''enable knowledge data source'' (ErrorsNew ''knowledge data source approval conflict'')
       dataSources dataSources_update (\<lambda>s. ds_ID s = ds_ID source)
       (\<lambda>t s. ds_touch t (s\<lparr>ds_Status := DataSourceStatusEnabled\<rparr>))) (\<lambda>_.
     insertDataSourceAudit (source\<lparr>ds_Status := DataSourceStatusEnabled\<rparr>) actorID ''data_source_enabled'' ''approved''))"

definition EnableDataSource :: "int \<Rightarrow> int \<Rightarrow> unit prog" where
  "EnableDataSource sourceID actorID =
     andThen (onErr (Errorf ''load data-source approver'') (getUserByID actorID)) (\<lambda>actor.
     if \<not> user_IsAdmin actor then raise (ErrorsNew ''data-source approval requires an administrator'')
     else withTx (approveSource sourceID actorID))"

definition confirmReview :: "int \<Rightarrow> User \<Rightarrow> unit prog" where
  "confirmReview sourceID actor =
     andThen (mustGet ''load knowledge data source for review'' (ErrorsNew ''knowledge data source cannot be reviewed'') ds_ID dataSources sourceID) (\<lambda>source.
     if ds_Status source \<noteq> DataSourceStatusEnabled \<or> \<not> validReviewFrequency (ds_ReviewFrequency source)
     then raise (ErrorsNew ''knowledge data source cannot be reviewed'')
     else insertDataSourceAudit source (user_ID actor) ''data_source_review_confirmed'' ''succeeded'')"

definition ConfirmDataSourceReview :: "int \<Rightarrow> int \<Rightarrow> unit prog" where
  "ConfirmDataSourceReview sourceID actorID =
     andThen (adminOr (ErrorsNew ''knowledge data-source review requires an administrator'') actorID) (\<lambda>actor.
     withTx (confirmReview sourceID actor))"

section \<open>Inversion\<close>

text \<open>The audit event a data-source operation appends.\<close>

definition sourceAudit :: "DataSource \<Rightarrow> int \<Rightarrow> string \<Rightarrow> string \<Rightarrow> AuditEvent \<Rightarrow> bool" where
  "sourceAudit source actorID action result event \<longleftrightarrow>
     ae_ActorID event = actorID \<and> ae_Action event = action \<and> ae_EntityType event = ''data_source'' \<and>
     ae_EntityID event = ds_ID source \<and> ae_SpaceID event = ds_SpaceID source \<and> ae_Result event = result"

lemma audit_insertD:
  assumes "tblInsert (\<lambda>i r. r\<lparr>ae_ID := i\<rparr>) ae_clash e t = Some (e', t')"
  shows "e' = e\<lparr>ae_ID := next_id t\<rparr> \<and> rows t' = rows t @ [e']"
  using ae_tbl.insert_row [OF assms] by simp

lemma insertDataSourceAudit_run:
  "insertDataSourceAudit source actorID action result w = (Inr u, w') \<Longrightarrow>
   \<exists>t event. db w' = (db w)\<lparr>auditEvents := t\<rparr> \<and> rows t = rows (auditEvents (db w)) @ [event] \<and>
     sourceAudit source actorID action result event"
  by (auto simp: insertDataSourceAudit_def run_simps sourceAudit_def ae_stamp_def dest!: audit_insertD)

lemma governed_insertAudit: "gov.within (insertRow auditEvents auditEvents_update (\<lambda>i r. r\<lparr>ae_ID := i\<rparr>) ae_stamp ae_clash event)"
  by (intro gov.within_insertRow governed_audit)

lemma governed_insertDataSourceAudit: "gov.within (insertDataSourceAudit source actorID action result)"
  unfolding insertDataSourceAudit_def by (intro gov.call_intros governed_insertAudit)

lemma loadManagedSpace_run [run_simps]:
  "loadManagedSpace spaceID actorID w = (Inr sa, w') \<longleftrightarrow>
     0 < spaceID \<and> 0 < actorID \<and> \<not> faults (env w) (calls w) \<and> \<not> faults (env w) (Suc (calls w)) \<and>
     tblGet sp_ID spaceID (spaces (db w)) = Some (fst sa) \<and> sp_Status (fst sa) = SpaceStatusActive \<and>
     tblGet user_ID actorID (users (db w)) = Some (snd sa) \<and>
     (user_ID (snd sa) = sp_OwnerID (fst sa) \<or> user_IsAdmin (snd sa)) \<and> w' = w\<lparr>calls := Suc (Suc (calls w))\<rparr>"
  by (cases sa) (auto simp: loadManagedSpace_def run_simps)

lemma getUserByName_run [run_simps]:
  "getUserByName name w = (Inr u, w') \<longleftrightarrow>
     name \<noteq> '''' \<and> \<not> faults (env w) (calls w) \<and>
     tblFirst (\<lambda>x. user_LowerName x = toLower name) (users (db w)) = Some u \<and> w' = w\<lparr>calls := Suc (calls w)\<rparr>"
  by (auto simp: getUserByName_def run_simps)

text \<open>A registered source waits for review and was created by a manager of its space.\<close>

lemma CreateDataSource_run:
  assumes "CreateDataSource opts w = (Inr source, w')"
  obtains space actor contentOwner maintenanceOwner now t te event where
    "tblGet sp_ID (cds_SpaceID opts) (spaces (db w)) = Some space" "sp_Status space = SpaceStatusActive"
    "tblGet user_ID (cds_ActorID opts) (users (db w)) = Some actor"
    "user_ID actor = sp_OwnerID space \<or> user_IsAdmin actor"
    "validateDataSourceOptions opts = None"
    "tblInsert (\<lambda>i r. r\<lparr>ds_ID := i\<rparr>) ds_clash (ds_stamp now (newDataSource opts space actor contentOwner maintenanceOwner))
       (dataSources (db w)) = Some (source, t)"
    "db w' = (db w)\<lparr>dataSources := t, auditEvents := te\<rparr>" "rows te = rows (auditEvents (db w)) @ [event]"
    "sourceAudit source (user_ID actor) ''data_source_created'' ''pending_review'' event"
  using assms
  by (auto simp: CreateDataSource_def run_simps dest!: insertDataSourceAudit_run intro!: that)

text \<open>A source is enabled by an administrator other than its creator, and only if it waits for review.\<close>

lemma EnableDataSource_run:
  assumes "EnableDataSource sourceID actorID w = (Inr u, w')"
  obtains actor source now te event where
    "tblGet user_ID actorID (users (db w)) = Some actor" "user_IsAdmin actor"
    "tblGet ds_ID sourceID (dataSources (db w)) = Some source" "ds_Status source = DataSourceStatusPendingReview"
    "ds_CreatedBy source \<noteq> actorID" "ds_SecurityLevel source \<noteq> SecurityLevelProhibited"
    "db w' = (db w)\<lparr>dataSources := tblUpdate (\<lambda>s. ds_ID s = ds_ID source)
       (\<lambda>s. ds_touch now (s\<lparr>ds_Status := DataSourceStatusEnabled\<rparr>)) (dataSources (db w)), auditEvents := te\<rparr>"
    "rows te = rows (auditEvents (db w)) @ [event]"
    "sourceAudit (source\<lparr>ds_Status := DataSourceStatusEnabled\<rparr>) actorID ''data_source_enabled'' ''approved'' event"
  using assms
  by (auto simp: EnableDataSource_def approveSource_def run_simps dest!: insertDataSourceAudit_run intro!: that)

lemma ConfirmDataSourceReview_run:
  assumes "ConfirmDataSourceReview sourceID actorID w = (Inr u, w')"
  obtains actor source te event where
    "tblGet user_ID actorID (users (db w)) = Some actor" "user_IsAdmin actor"
    "tblGet ds_ID sourceID (dataSources (db w)) = Some source" "ds_Status source = DataSourceStatusEnabled"
    "db w' = (db w)\<lparr>auditEvents := te\<rparr>" "rows te = rows (auditEvents (db w)) @ [event]"
    "sourceAudit source (user_ID actor) ''data_source_review_confirmed'' ''succeeded'' event"
  using assms
  by (auto simp: ConfirmDataSourceReview_def confirmReview_def run_simps dest!: insertDataSourceAudit_run intro!: that)

section \<open>Governance\<close>

lemma governed_dataSources:
  "(\<And>s. ds_ID (f s) = ds_ID s) \<Longrightarrow> governed d (d\<lparr>dataSources := tblUpdate P f (dataSources d)\<rparr>)"
  by (rule governed_other) (simp add: tblWf_update)

lemma governed_loadManagedSpace: "gov.within (loadManagedSpace s a)"
  unfolding loadManagedSpace_def by (intro gov.access_intros)

lemma governed_CreateDataSource: "gov.within (CreateDataSource opts)"
  unfolding CreateDataSource_def
  by (intro gov.access_intros governed_loadManagedSpace gov.within_withTx_body gov.within_mustInsert
      governed_insertDataSourceAudit governed_other) (rule ds_tbl.insert_wf)

lemma governed_EnableDataSource: "gov.within (EnableDataSource i a)"
  unfolding EnableDataSource_def approveSource_def
  by (intro gov.access_intros gov.within_withTx_body gov.within_mustUpdate governed_insertDataSourceAudit
      governed_dataSources) (simp add: ds_touch_def)

lemma governed_ConfirmDataSourceReview: "gov.within (ConfirmDataSourceReview i a)"
  unfolding ConfirmDataSourceReview_def confirmReview_def
  by (intro gov.access_intros gov.within_withTx_body governed_insertDataSourceAudit)

end
