(* ===== verification/Indexer.thy ===== *)
theory Indexer
  imports Access
begin

text \<open>
  The index worker's processor, \<^verbatim>\<open>services/knowledge/indexer/processor.go\<close> and \<^verbatim>\<open>gitsource.go\<close>:
  a job is claimed, then its upsert, poll or delete is carried out against the engine and its
  outcome recorded.

  The lemmas show that the processor is governed and touches the index only (\<open>indexOnly\<close>),
  that whatever it uploads is the approved content, and what a successful run of each kind of
  job leaves behind.
\<close>

section \<open>gitsource.go\<close>

definition gitSourceOpen :: "int \<Rightarrow> string \<Rightarrow> string \<Rightarrow> (string \<times> error option) prog" where
  "gitSourceOpen repoID commitSHA repoPath =
     (if repoID \<le> 0 \<or> trimSpace commitSHA = '''' \<or> trimSpace repoPath = ''''
      then raise (ErrorsNew ''invalid knowledge git source'')
      else
      andThen (getRepositoryByID repoID) (\<lambda>repo.
      andThen (askEnv (\<lambda>e. gitOpen e repo commitSHA repoPath)) (\<lambda>opened.
      case opened of Inl e \<Rightarrow> raise e | Inr stream \<Rightarrow> ret stream)))"

section \<open>Processor\<close>

record Processor =
  prc_engineName :: string
  prc_datasetID :: string

definition newProcessor :: "string \<Rightarrow> string \<Rightarrow> error + Processor" where
  "newProcessor engineName datasetID =
     (if trimSpace engineName = '''' \<or> trimSpace datasetID = ''''
      then Inl (ErrorsNew ''invalid knowledge indexer configuration'')
      else Inr \<lparr>prc_engineName = engineName, prc_datasetID = datasetID\<rparr>)"

record graph =
  g_job :: IndexJob
  g_space :: Space
  g_document :: Document
  g_revision :: Revision
  g_publication :: Publication

subsection \<open>Bookkeeping\<close>

definition redactIndexError :: "string \<Rightarrow> string" where
  "redactIndexError message0 =
     (let message1 = (if trimSpace message0 = '''' then ''knowledge index operation failed'' else message0);
          message = trimSpace message1
      in ''knowledge index failed: '' @ (if length message > 96 then take 96 message else message))"

definition updateJob :: "int \<Rightarrow> (IndexJob \<Rightarrow> IndexJob) \<Rightarrow> unit prog" where
  "updateJob jobID f =
     andThen (updateRows indexJobs indexJobs_update (\<lambda>j. job_ID j = jobID) (\<lambda>t j. job_touch t (f j))) (\<lambda>_. ret ())"

definition cancelJob :: "int \<Rightarrow> unit prog" where
  "cancelJob jobID = updateJob jobID (\<lambda>j. j\<lparr>job_Status := IndexJobStatusCancelled,
     job_LastError := ''cancelled stale knowledge index job''\<rparr>)"

definition markJobSucceeded :: "int \<Rightarrow> unit prog" where
  "markJobSucceeded jobID = updateJob jobID (\<lambda>j. j\<lparr>job_Status := IndexJobStatusSucceeded, job_LastError := ''''\<rparr>)"

definition markJobRetry :: "int \<Rightarrow> unit prog" where
  "markJobRetry jobID = updateJob jobID (\<lambda>j. j\<lparr>job_Status := IndexJobStatusRetry\<rparr>)"

definition updateBindingStatus :: "int \<Rightarrow> IndexStatus \<Rightarrow> unit prog" where
  "updateBindingStatus bindingID status =
     andThen (updateRows indexBindings indexBindings_update (\<lambda>b. ib_ID b = bindingID)
       (\<lambda>_ b. b\<lparr>ib_Status := status\<rparr>)) (\<lambda>_. ret ())"

definition updatePublicationIndexStatus :: "int \<Rightarrow> IndexStatus \<Rightarrow> unit prog" where
  "updatePublicationIndexStatus publicationID status =
     andThen (updateRows publications publications_update (\<lambda>p. pub_ID p = publicationID)
       (\<lambda>t p. pub_touch t (p\<lparr>pub_IndexStatus := status\<rparr>))) (\<lambda>_. ret ())"

definition markOutboxDispatched :: "string \<Rightarrow> unit prog" where
  "markOutboxDispatched idempotencyKey =
     (if trimSpace idempotencyKey = '''' then ret ()
      else
      andThen (updateRows outboxes outboxes_update (\<lambda>x. ob_IdempotencyKey x = idempotencyKey)
        (\<lambda>t x. ob_touch t (x\<lparr>ob_Status := OutboxStatusDispatched\<rparr>))) (\<lambda>_. ret ()))"

definition recordFailure :: "int \<Rightarrow> int \<Rightarrow> string \<Rightarrow> unit prog" where
  "recordFailure jobID publicationID message =
     andThen (updateJob jobID (\<lambda>j. j\<lparr>job_Status := IndexJobStatusFailed, job_LastError := redactIndexError message\<rparr>)) (\<lambda>_.
     if publicationID > 0 then
       andThen (updatePublicationIndexStatus publicationID IndexStatusFailed) (\<lambda>_.
       andThen (getFirst indexBindings (\<lambda>b. ib_PublicationID b = publicationID)) (\<lambda>found.
       case found of None \<Rightarrow> ret () | Some binding \<Rightarrow> updateBindingStatus (ib_ID binding) IndexStatusFailed))
     else ret ())"

definition failJob :: "int \<Rightarrow> int \<Rightarrow> string \<Rightarrow> bool \<Rightarrow> unit prog" where
  "failJob jobID publicationID message returnError =
     andThen (withTx (recordFailure jobID publicationID message)) (\<lambda>_.
     if returnError then raise (ErrorsNew (redactIndexError message)) else ret ())"

subsection \<open>Claiming and loading\<close>

text \<open>\<open>None\<close> is a job that is already succeeded or cancelled: nothing to do.\<close>

definition claimable :: "IndexJobStatus \<Rightarrow> bool" where
  "claimable status \<longleftrightarrow> status = IndexJobStatusQueued \<or> status = IndexJobStatusRetry"

definition claimJob :: "int \<Rightarrow> IndexJob option prog" where
  "claimJob jobID =
     (if jobID \<le> 0 then raise (ErrorsNew ''invalid knowledge index job'')
      else
      andThen (mustGet ''load knowledge index job'' (ErrorsNew ''knowledge index job not found'') job_ID indexJobs jobID) (\<lambda>job.
      if job_Status job = IndexJobStatusSucceeded \<or> job_Status job = IndexJobStatusCancelled then ret None
      else if \<not> claimable (job_Status job) then raise (ErrorsNew ''knowledge index job is not claimable'')
      else
      (let claimed = job\<lparr>job_Status := IndexJobStatusRunning, job_Attempt := job_Attempt job + 1\<rparr> in
       andThen (mustUpdate ''claim knowledge index job'' (ErrorsNew ''knowledge index job claim conflict'') indexJobs indexJobs_update
         (\<lambda>j. job_ID j = job_ID job \<and> claimable (job_Status j))
         (\<lambda>t j. job_touch t (j\<lparr>job_Status := job_Status claimed, job_Attempt := job_Attempt claimed\<rparr>))) (\<lambda>_.
       ret (Some claimed)))))"

definition loadGraph :: "IndexJob \<Rightarrow> graph prog" where
  "loadGraph job =
     andThen (mustGet ''load knowledge publication'' (ErrorsNew ''knowledge publication not found'') pub_ID publications (job_PublicationID job)) (\<lambda>publication.
     andThen (mustGet ''load knowledge revision'' (ErrorsNew ''knowledge revision not found'') rev_ID revisions (pub_RevisionID publication)) (\<lambda>revision.
     andThen (mustGet ''load knowledge document'' (ErrorsNew ''knowledge document mismatch'') doc_ID documents (pub_DocumentID publication)) (\<lambda>document.
     if doc_ID document \<noteq> rev_DocumentID revision then raise (ErrorsNew ''knowledge document mismatch'')
     else
     andThen (mustGet ''load knowledge space'' (ErrorsNew ''knowledge space mismatch'') sp_ID spaces (pub_SpaceID publication)) (\<lambda>space.
     if sp_ID space \<noteq> doc_SpaceID document then raise (ErrorsNew ''knowledge space mismatch'')
     else ret \<lparr>g_job = job, g_space = space, g_document = document, g_revision = revision, g_publication = publication\<rparr>))))"

definition loadBinding :: "Processor \<Rightarrow> int \<Rightarrow> IndexBinding option prog" where
  "loadBinding p publicationID =
     getFirst indexBindings (\<lambda>b. ib_PublicationID b = publicationID \<and> ib_Engine b = prc_engineName p \<and>
       ib_DatasetID b = prc_datasetID p)"

definition validForUpsert :: "graph \<Rightarrow> bool" where
  "validForUpsert g \<longleftrightarrow>
     sp_Status (g_space g) = SpaceStatusActive \<and>
     pub_GovernanceStatus (g_publication g) = GovernanceStatusApproved \<and>
     pub_ValidityStatus (g_publication g) = ValidityStatusScheduled \<and>
     pub_Generation (g_publication g) > 0 \<and>
     pub_RevocationGeneration (g_publication g) = sp_RevocationGeneration (g_space g) \<and>
     rev_ID (g_revision g) = pub_RevisionID (g_publication g) \<and>
     rev_ContentSHA256 (g_revision g) = job_RevisionSHA256 (g_job g)"

definition readRevision :: "graph \<Rightarrow> string prog" where
  "readRevision g =
     andThen (gitSourceOpen (sp_RepoID (g_space g)) (rev_GitCommitSHA (g_revision g)) (rev_RepoPath (g_revision g))) (\<lambda>stream.
     case readLimited (rev_Size (g_revision g) + 1) stream of Inl e \<Rightarrow> raise e | Inr content \<Rightarrow>
     if int (length content) \<noteq> rev_Size (g_revision g) then raise (ErrorsNew ''revision size mismatch'')
     else
     andThen (askEnv sha256) (\<lambda>hash.
     if hexEncode (hash content) \<noteq> rev_ContentSHA256 (g_revision g) then raise (ErrorsNew ''revision sha mismatch'')
     else ret content))"

subsection \<open>Upsert\<close>

definition pollKey :: "graph \<Rightarrow> IndexJob \<Rightarrow> string" where
  "pollKey g completedJob = buildIndexIdempotencyKey
     \<lparr>ik_OwnerID = sp_OwnerID (g_space g), ik_SpaceID = sp_ID (g_space g),
      ik_PublicationID = pub_ID (g_publication g), ik_Generation = pub_Generation (g_publication g),
      ik_RevisionSHA256 = rev_ContentSHA256 (g_revision g),
      ik_EngineProfileVersion = job_EngineProfileVersion completedJob, ik_JobType = IndexJobTypePoll\<rparr>"

definition enqueuePollJob :: "graph \<Rightarrow> IndexJob \<Rightarrow> unit prog" where
  "enqueuePollJob g completedJob =
     (let key = pollKey g completedJob in
      andThen (getFirst indexJobs (\<lambda>j. job_IdempotencyKey j = key)) (\<lambda>found.
      if found \<noteq> None then ret ()
      else
      andThen (insertRow indexJobs indexJobs_update (\<lambda>i r. r\<lparr>job_ID := i\<rparr>) job_stamp job_clash
        (newIndexJob (pub_ID (g_publication g)) IndexJobTypePoll key (rev_ContentSHA256 (g_revision g))
          (job_EngineProfileVersion completedJob) (job_MaxAttempts completedJob))) (\<lambda>_.
      andThen (insertRow outboxes outboxes_update (\<lambda>i r. r\<lparr>ob_ID := i\<rparr>) ob_stamp ob_clash
        (newOutbox (pub_ID (g_publication g)) ''knowledge.index.poll.requested'' key
          (CHR ''{'' # jsonQuote ''publication_id'' @ '':'' @ itoa (pub_ID (g_publication g)) @ '','' @
            jsonQuote ''job_type'' @ '':'' @ jsonQuote ''poll'' @ ''}''))) (\<lambda>_. ret ()))))"

definition governanceMetadata :: "graph \<Rightarrow> GovernanceMetadata" where
  "governanceMetadata g =
     \<lparr>gm_SpaceID = sp_ID (g_space g), gm_DocumentID = doc_ID (g_document g), gm_RevisionID = rev_ID (g_revision g),
      gm_PublicationID = pub_ID (g_publication g), gm_PublicationGeneration = pub_Generation (g_publication g),
      gm_RevisionSHA256 = rev_ContentSHA256 (g_revision g),
      gm_ACLPolicyVersion = pub_ACLPolicyVersion (g_publication g),
      gm_RevocationGeneration = pub_RevocationGeneration (g_publication g)\<rparr>"

definition recordIndexing :: "graph \<Rightarrow> IndexJob \<Rightarrow> IndexBinding \<Rightarrow> unit prog" where
  "recordIndexing g job binding =
     andThen (updateBindingStatus (ib_ID binding) IndexStatusIndexing) (\<lambda>_.
     andThen (updatePublicationIndexStatus (pub_ID (g_publication g)) IndexStatusIndexing) (\<lambda>_.
     andThen (markJobSucceeded (job_ID job)) (\<lambda>_.
     andThen (markOutboxDispatched (job_IdempotencyKey job)) (\<lambda>_.
     enqueuePollJob g job))))"

text \<open>The part of an upsert after the binding exists.\<close>

definition startIndexing :: "graph \<Rightarrow> IndexJob \<Rightarrow> IndexBinding \<Rightarrow> unit prog" where
  "startIndexing g job binding =
     andThen (attempt (engineSetMetadata (ib_EngineDocumentID binding) (governanceMetadata g))) (\<lambda>described.
     case described of Inl _ \<Rightarrow> failJob (job_ID job) (job_PublicationID job) ''metadata failed'' True | Inr _ \<Rightarrow>
     andThen (attempt (engineStartParsing [ib_EngineDocumentID binding])) (\<lambda>started.
     case started of Inl _ \<Rightarrow> failJob (job_ID job) (job_PublicationID job) ''parse start failed'' True | Inr _ \<Rightarrow>
     withTx (recordIndexing g job binding)))"

definition newBinding :: "Processor \<Rightarrow> graph \<Rightarrow> IndexJob \<Rightarrow> string \<Rightarrow> IndexBinding" where
  "newBinding p g job engineDocumentID =
     \<lparr>ib_ID = 0, ib_SpaceID = sp_ID (g_space g), ib_DocumentID = doc_ID (g_document g),
      ib_RevisionID = rev_ID (g_revision g), ib_PublicationID = pub_ID (g_publication g),
      ib_Engine = prc_engineName p, ib_EngineProfileVersion = job_EngineProfileVersion job,
      ib_DatasetID = prc_datasetID p, ib_EngineDocumentID = engineDocumentID,
      ib_ContentSHA256 = rev_ContentSHA256 (g_revision g), ib_Status = IndexStatusIndexing,
      ib_LastSuccessUnix = 0\<rparr>"

definition uploadRevision :: "Processor \<Rightarrow> graph \<Rightarrow> IndexJob \<Rightarrow> unit prog" where
  "uploadRevision p g job =
     andThen (attempt (readRevision g)) (\<lambda>readResult.
     case readResult of Inl _ \<Rightarrow> failJob (job_ID job) (job_PublicationID job) ''source integrity check failed'' True | Inr content \<Rightarrow>
     andThen (attempt (engineUpload \<lparr>ur_FileName = rev_FileName (g_revision g), ur_Content = content, ur_Size = rev_Size (g_revision g)\<rparr>)) (\<lambda>uploaded.
     case uploaded of Inl _ \<Rightarrow> failJob (job_ID job) (job_PublicationID job) ''upload failed'' True | Inr answer \<Rightarrow>
     (case answer of None \<Rightarrow> failJob (job_ID job) (job_PublicationID job) ''upload failed'' True | Some engineDocumentID \<Rightarrow>
     if trimSpace engineDocumentID = '''' then failJob (job_ID job) (job_PublicationID job) ''upload failed'' True
     else
     andThen (attempt (insertRow indexBindings indexBindings_update (\<lambda>i r. r\<lparr>ib_ID := i\<rparr>) ib_stamp ib_clash
       (newBinding p g job engineDocumentID))) (\<lambda>inserted.
     case inserted of Inl _ \<Rightarrow> failJob (job_ID job) (job_PublicationID job) ''persist binding failed'' True
     | Inr binding \<Rightarrow> startIndexing g job binding))))"

definition processUpsert :: "Processor \<Rightarrow> IndexJob \<Rightarrow> unit prog" where
  "processUpsert p job =
     andThen (attempt (loadGraph job)) (\<lambda>loaded.
     case loaded of Inl _ \<Rightarrow> failJob (job_ID job) (job_PublicationID job) ''load graph failed'' True | Inr g \<Rightarrow>
     if \<not> validForUpsert g then cancelJob (job_ID job)
     else
     andThen (attempt (loadBinding p (pub_ID (g_publication g)))) (\<lambda>bound.
     case bound of Inl _ \<Rightarrow> failJob (job_ID job) (job_PublicationID job) ''load binding failed'' True | Inr found \<Rightarrow>
     (case found of None \<Rightarrow> uploadRevision p g job | Some binding \<Rightarrow> startIndexing g job binding)))"

subsection \<open>Poll and delete\<close>

definition recordEvaluation :: "graph \<Rightarrow> IndexJob \<Rightarrow> IndexBinding \<Rightarrow> unit prog" where
  "recordEvaluation g job binding =
     andThen (updateBindingStatus (ib_ID binding) IndexStatusEvaluation) (\<lambda>_.
     andThen (updatePublicationIndexStatus (pub_ID (g_publication g)) IndexStatusEvaluation) (\<lambda>_.
     markJobSucceeded (job_ID job)))"

definition processPoll :: "Processor \<Rightarrow> IndexJob \<Rightarrow> unit prog" where
  "processPoll p job =
     andThen (attempt (loadGraph job)) (\<lambda>loaded.
     case loaded of Inl _ \<Rightarrow> failJob (job_ID job) (job_PublicationID job) ''load graph failed'' True | Inr g \<Rightarrow>
     if pub_RevocationGeneration (g_publication g) \<noteq> sp_RevocationGeneration (g_space g) then cancelJob (job_ID job)
     else
     andThen (attempt (loadBinding p (pub_ID (g_publication g)))) (\<lambda>bound.
     case bound of Inl _ \<Rightarrow> failJob (job_ID job) (job_PublicationID job) ''binding missing'' True | Inr found \<Rightarrow>
     (case found of None \<Rightarrow> failJob (job_ID job) (job_PublicationID job) ''binding missing'' True | Some binding \<Rightarrow>
     andThen (attempt (engineGetDocumentStatus (ib_EngineDocumentID binding))) (\<lambda>status.
     case status of Inl _ \<Rightarrow> failJob (job_ID job) (job_PublicationID job) ''status failed'' True | Inr state \<Rightarrow>
     (case state of
        DocumentStateDone \<Rightarrow> withTx (recordEvaluation g job binding)
      | DocumentStateFailed \<Rightarrow> failJob (job_ID job) (job_PublicationID job) ''engine failed'' False
      | _ \<Rightarrow> markJobRetry (job_ID job))))))"

definition recordAbsence :: "graph \<Rightarrow> IndexJob \<Rightarrow> unit prog" where
  "recordAbsence g job =
     andThen (updatePublicationIndexStatus (pub_ID (g_publication g)) IndexStatusDeleted) (\<lambda>_.
     markJobSucceeded (job_ID job))"

definition recordDeletion :: "graph \<Rightarrow> IndexJob \<Rightarrow> IndexBinding \<Rightarrow> unit prog" where
  "recordDeletion g job binding =
     andThen (updateBindingStatus (ib_ID binding) IndexStatusDeleted) (\<lambda>_.
     andThen (updatePublicationIndexStatus (pub_ID (g_publication g)) IndexStatusDeleted) (\<lambda>_.
     andThen (markJobSucceeded (job_ID job)) (\<lambda>_.
     markOutboxDispatched (job_IdempotencyKey job))))"

definition processDelete :: "Processor \<Rightarrow> IndexJob \<Rightarrow> unit prog" where
  "processDelete p job =
     andThen (attempt (loadGraph job)) (\<lambda>loaded.
     case loaded of Inl _ \<Rightarrow> failJob (job_ID job) (job_PublicationID job) ''load graph failed'' True | Inr g \<Rightarrow>
     andThen (attempt (loadBinding p (pub_ID (g_publication g)))) (\<lambda>bound.
     case bound of Inl _ \<Rightarrow> failJob (job_ID job) (job_PublicationID job) ''load binding failed'' True | Inr found \<Rightarrow>
     (case found of None \<Rightarrow> withTx (recordAbsence g job) | Some binding \<Rightarrow>
     if ib_Status binding = IndexStatusDeleted then withTx (recordAbsence g job)
     else
     andThen (attempt (engineDeleteDocuments [ib_EngineDocumentID binding])) (\<lambda>deleted.
     case deleted of Inl _ \<Rightarrow> failJob (job_ID job) (job_PublicationID job) ''delete failed'' True | Inr _ \<Rightarrow>
     withTx (recordDeletion g job binding)))))"

definition processJob :: "Processor \<Rightarrow> int \<Rightarrow> unit prog" where
  "processJob p jobID =
     andThen (claimJob jobID) (\<lambda>claimed.
     case claimed of None \<Rightarrow> ret () | Some job \<Rightarrow>
     (case job_JobType job of
        IndexJobTypeUpsert \<Rightarrow> processUpsert p job
      | IndexJobTypePoll \<Rightarrow> processPoll p job
      | IndexJobTypeDelete \<Rightarrow> processDelete p job
      | _ \<Rightarrow> failJob (job_ID job) (job_PublicationID job) ''unsupported job type'' True))"

section \<open>What the processor may change\<close>

text \<open>
  The writes of index work: the tables of jobs, outbox events and bindings, and the index
  status of publications. A relation that contains them contains every run of the processor.
\<close>

locale index_frame = db_frame +
  assumes D_jobs: "(tblWf job_ID (indexJobs d) \<Longrightarrow> tblWf job_ID tj) \<Longrightarrow> D d (d\<lparr>indexJobs := tj\<rparr>)"
    and D_outboxes: "(tblWf ob_ID (outboxes d) \<Longrightarrow> tblWf ob_ID tob) \<Longrightarrow> D d (d\<lparr>outboxes := tob\<rparr>)"
    and D_bindings: "(tblWf ib_ID (indexBindings d) \<Longrightarrow> tblWf ib_ID tb) \<Longrightarrow> D d (d\<lparr>indexBindings := tb\<rparr>)"
    and D_status: "D d (d\<lparr>publications := tblUpdate P (\<lambda>p. pub_touch t (p\<lparr>pub_IndexStatus := status\<rparr>)) (publications d)\<rparr>)"
begin

lemma within_updateJob: "(\<And>j. job_ID (f j) = job_ID j) \<Longrightarrow> within (updateJob i f)"
  unfolding updateJob_def
  by (intro call_intros within_updateRows D_jobs) (simp add: tblWf_update job_touch_def)

lemma within_updateBindingStatus: "within (updateBindingStatus i s)"
  unfolding updateBindingStatus_def
  by (intro call_intros within_updateRows D_bindings) (simp add: tblWf_update)

lemma within_updatePublicationIndexStatus: "within (updatePublicationIndexStatus i s)"
  unfolding updatePublicationIndexStatus_def by (intro call_intros within_updateRows D_status)

lemma within_markOutboxDispatched: "within (markOutboxDispatched k)"
  unfolding markOutboxDispatched_def
  by (intro call_intros within_updateRows D_outboxes) (simp add: tblWf_update ob_touch_def)

lemma within_job_inserts:
  "within (insertRow indexJobs indexJobs_update (\<lambda>i r. r\<lparr>job_ID := i\<rparr>) job_stamp job_clash r)"
  "within (insertRow outboxes outboxes_update (\<lambda>i r. r\<lparr>ob_ID := i\<rparr>) ob_stamp ob_clash x)"
  "within (insertRow indexBindings indexBindings_update (\<lambda>i r. r\<lparr>ib_ID := i\<rparr>) ib_stamp ib_clash b)"
  by (auto intro!: within_insertRow D_jobs D_outboxes D_bindings
      intro: job_tbl.insert_wf ob_tbl.insert_wf ib_tbl.insert_wf)

lemma within_markers: "within (cancelJob i)" "within (markJobSucceeded i)" "within (markJobRetry i)"
  unfolding cancelJob_def markJobSucceeded_def markJobRetry_def
  by (auto intro: within_updateJob)

lemmas index_intros = call_intros within_withTx_body within_gitea within_updateBindingStatus
  within_updatePublicationIndexStatus within_markOutboxDispatched within_job_inserts within_markers

lemma within_failJob: "within (failJob i p m r)"
  unfolding failJob_def recordFailure_def by (intro index_intros within_updateJob) auto

lemma within_claimJob: "within (claimJob i)"
  unfolding claimJob_def Let_def
  by (intro index_intros within_mustUpdate D_jobs) (simp add: tblWf_update job_touch_def)

lemma within_loads: "within (loadGraph job)" "within (loadBinding p i)" "within (readRevision g)"
  unfolding loadGraph_def loadBinding_def readRevision_def gitSourceOpen_def by (intro index_intros)+

lemma within_enqueuePollJob: "within (enqueuePollJob g job)"
  unfolding enqueuePollJob_def Let_def by (intro index_intros)

lemma within_startIndexing: "within (startIndexing g job b)"
  unfolding startIndexing_def recordIndexing_def by (intro index_intros within_failJob within_enqueuePollJob)

lemma within_processUpsert: "within (processUpsert p job)"
  unfolding processUpsert_def uploadRevision_def
  by (intro index_intros within_failJob within_loads within_startIndexing)

lemma within_state:
  "within a \<Longrightarrow> within b \<Longrightarrow> within c \<Longrightarrow> within m \<Longrightarrow>
   within (case s of DocumentStateUnstarted \<Rightarrow> a | DocumentStateRunning \<Rightarrow> b | DocumentStateDone \<Rightarrow> c | DocumentStateFailed \<Rightarrow> m)"
  by (cases s) simp_all

lemma within_processPoll: "within (processPoll p job)"
  unfolding processPoll_def recordEvaluation_def by (intro index_intros within_state within_failJob within_loads)

lemma within_processDelete: "within (processDelete p job)"
  unfolding processDelete_def recordAbsence_def recordDeletion_def
  by (intro index_intros within_failJob within_loads)

lemma within_processJob: "within (processJob p i)"
  unfolding processJob_def
  by (intro index_intros within_claimJob; simp split: IndexJobType.split
      add: within_processUpsert within_processPoll within_processDelete within_failJob)

end

text \<open>Everything but the index bookkeeping stays the same.\<close>

definition withoutIndex :: "Publication \<Rightarrow> Publication" where
  "withoutIndex p = p\<lparr>pub_IndexStatus := IndexStatusUnindexed, pub_UpdatedUnix := 0\<rparr>"

definition indexOnly :: "database \<Rightarrow> database \<Rightarrow> bool" where
  "indexOnly d d' \<longleftrightarrow>
     map withoutIndex (rows (publications d')) = map withoutIndex (rows (publications d)) \<and>
     d' = d\<lparr>publications := publications d', indexJobs := indexJobs d', outboxes := outboxes d',
            indexBindings := indexBindings d'\<rparr>"

lemma withoutIndex_status: "withoutIndex (pub_touch t (p\<lparr>pub_IndexStatus := s\<rparr>)) = withoutIndex p"
  by (simp add: withoutIndex_def pub_touch_def)

interpretation idx: index_frame indexOnly
proof unfold_locales
  show "indexOnly d d" for d by (simp add: indexOnly_def)
  show "indexOnly d f" if "indexOnly d e" "indexOnly e f" for d e f
    using that by (cases d; cases e; cases f) (simp add: indexOnly_def)
  show "indexOnly d (d\<lparr>publications := tblUpdate P (\<lambda>p. pub_touch t (p\<lparr>pub_IndexStatus := status\<rparr>)) (publications d)\<rparr>)" for d P t status
    by (cases d) (simp add: indexOnly_def rows_tblUpdate withoutIndex_status)
qed (simp_all add: indexOnly_def)

interpretation gov_idx: index_frame governed
  by unfold_locales
    (auto intro!: governed_other governed_publications simp: pub_touch_def identity_def)

section \<open>What is uploaded\<close>

text \<open>An upload of exactly the approved content of a publishable graph.\<close>

definition approvedUpload :: "(string \<Rightarrow> string) \<Rightarrow> graph \<Rightarrow> UploadRequest \<Rightarrow> bool" where
  "approvedUpload hash g u \<longleftrightarrow>
     validForUpsert g \<and> hexEncode (hash (ur_Content u)) = rev_ContentSHA256 (g_revision g) \<and>
     int (length (ur_Content u)) = rev_Size (g_revision g) \<and> ur_Size u = rev_Size (g_revision g) \<and>
     ur_FileName u = rev_FileName (g_revision g)"

definition sends :: "(engineCall \<Rightarrow> bool) \<Rightarrow> world \<Rightarrow> world \<Rightarrow> bool" where
  "sends P w w' \<longleftrightarrow> env w' = env w \<and> (\<exists>new. sent w' = sent w @ new \<and> list_all P new)"

definition sendsIn :: "environment \<Rightarrow> (engineCall \<Rightarrow> bool) \<Rightarrow> world \<Rightarrow> world \<Rightarrow> bool" where
  "sendsIn e P w w' \<longleftrightarrow> (env w = e \<longrightarrow> sends P w w')"

interpretation snd_in: sent_frame "sendsIn e P" "\<lambda>w. env w = e" for e P
proof unfold_locales
  fix s t u
  show "sendsIn e P s s" by (simp add: sendsIn_def sends_def)
  show "sendsIn e P s t \<Longrightarrow> sendsIn e P t u \<Longrightarrow> sendsIn e P s u"
    by (fastforce simp: sendsIn_def sends_def)
qed (auto simp: sendsIn_def sends_def)

lemma snd_in_engineRequest: "P c \<Longrightarrow> snd_in.within e P (engineRequest c respond)"
  by (rule snd_in.within_engineRequest) (simp add: sendsIn_def sends_def)

lemma snd_in_gitea: "snd_in.within e P (getRepositoryByID i)"
  unfolding getRepositoryByID_def by (intro snd_in.sent_intros)

lemma snd_in_bookkeeping:
  "snd_in.within e P (failJob i p m r)" "snd_in.within e P (cancelJob i)" "snd_in.within e P (markJobRetry i)"
  "snd_in.within e P (loadGraph job)" "snd_in.within e P (loadBinding q i)" "snd_in.within e P (readRevision g)"
  "snd_in.within e P (withTx (recordIndexing g job b))" "snd_in.within e P (claimJob i)"
  "snd_in.within e P (withTx (recordEvaluation g job b))" "snd_in.within e P (withTx (recordAbsence g job))"
  "snd_in.within e P (withTx (recordDeletion g job b))"
  unfolding failJob_def recordFailure_def updateJob_def updatePublicationIndexStatus_def updateBindingStatus_def
    cancelJob_def markJobRetry_def loadGraph_def loadBinding_def readRevision_def gitSourceOpen_def
    recordIndexing_def markOutboxDispatched_def markJobSucceeded_def enqueuePollJob_def claimJob_def Let_def
    recordEvaluation_def recordAbsence_def recordDeletion_def
  by (intro snd_in.sent_intros snd_in_gitea)+

lemma readRevision_run:
  assumes "readRevision g w = (Inr content, w')"
  shows "hexEncode (sha256 (env w) content) = rev_ContentSHA256 (g_revision g) \<and>
    int (length content) = rev_Size (g_revision g)"
  using assms by (auto simp: readRevision_def gitSourceOpen_def run_simps split: if_splits)

lemma startIndexing_sends:
  assumes "\<And>i m. P (CallSetMetadata i m)" "\<And>is. P (CallStartParsing is)"
  shows "snd_in.within e P (startIndexing g job b)"
  unfolding startIndexing_def engineSetMetadata_def engineStartParsing_def
  by (intro snd_in.sent_intros snd_in_bookkeeping snd_in_engineRequest assms)

lemma uploadRevision_sends:
  assumes "validForUpsert g"
  shows "snd_in.within e (\<lambda>c. \<forall>u. c = CallUpload u \<longrightarrow> approvedUpload (sha256 e) g u) (uploadRevision p g job)"
  unfolding uploadRevision_def
proof (rule snd_in.within_then)
  fix w a w'
  assume "env w = e" "attempt (readRevision g) w = (Inr a, w')"
  then have content: "a = Inr content \<Longrightarrow> hexEncode (sha256 e content) = rev_ContentSHA256 (g_revision g) \<and>
      int (length content) = rev_Size (g_revision g)" for content
    by (auto simp: attempt_run dest: readRevision_run)
  show "snd_in.within e (\<lambda>c. \<forall>u. c = CallUpload u \<longrightarrow> approvedUpload (sha256 e) g u)
     (case a of Inl _ \<Rightarrow> failJob (job_ID job) (job_PublicationID job) ''source integrity check failed'' True | Inr content \<Rightarrow>
     andThen (attempt (engineUpload \<lparr>ur_FileName = rev_FileName (g_revision g), ur_Content = content, ur_Size = rev_Size (g_revision g)\<rparr>)) (\<lambda>uploaded.
     case uploaded of Inl _ \<Rightarrow> failJob (job_ID job) (job_PublicationID job) ''upload failed'' True | Inr answer \<Rightarrow>
     (case answer of None \<Rightarrow> failJob (job_ID job) (job_PublicationID job) ''upload failed'' True | Some engineDocumentID \<Rightarrow>
     if trimSpace engineDocumentID = '''' then failJob (job_ID job) (job_PublicationID job) ''upload failed'' True
     else
     andThen (attempt (insertRow indexBindings indexBindings_update (\<lambda>i r. r\<lparr>ib_ID := i\<rparr>) ib_stamp ib_clash
       (newBinding p g job engineDocumentID))) (\<lambda>inserted.
     case inserted of Inl _ \<Rightarrow> failJob (job_ID job) (job_PublicationID job) ''persist binding failed'' True
     | Inr binding \<Rightarrow> startIndexing g job binding))))"
    unfolding engineUpload_def
    by (intro snd_in.sent_intros snd_in_bookkeeping snd_in_engineRequest startIndexing_sends)
      (use content assms in \<open>auto simp: approvedUpload_def\<close>)
qed (intro snd_in.sent_intros snd_in_bookkeeping)

text \<open>Every upload of an upsert job, whatever fails before or after it.\<close>

lemma processUpsert_uploads:
  assumes run: "processUpsert p job w = (r, w')"
  obtains new where "env w' = env w" "sent w' = sent w @ new"
    "\<And>u. CallUpload u \<in> set new \<Longrightarrow>
       \<exists>g w1. loadGraph job w = (Inr g, w1) \<and> approvedUpload (sha256 (env w)) g u"
proof -
  let ?P = "\<lambda>g c. \<forall>u. c = CallUpload u \<longrightarrow> approvedUpload (sha256 (env w)) g u"
  obtain x w1 where load: "loadGraph job w = (x, w1)" by (cases "loadGraph job w")
  have quiet: "snd_in.within (env w) (\<lambda>_. False) (loadGraph job)"
    by (rule snd_in_bookkeeping)
  then have w1: "env w1 = env w" "sent w1 = sent w"
    using snd_in.withinD [OF quiet load] by (auto simp: sendsIn_def sends_def list_all_iff)
  show thesis
  proof (cases x)
    case (Inl e)
    have "sendsIn (env w) (\<lambda>_. False) w1 w'"
      using run load Inl by (auto simp: processUpsert_def andThen_def attempt_def
          intro: snd_in.withinD [OF snd_in_bookkeeping(1)] split: prod.splits)
    with w1 show thesis by (intro that [of "[]"]) (auto simp: sendsIn_def sends_def list_all_iff)
  next
    case (Inr g)
    have "snd_in.within (env w) (?P g)
      (if \<not> validForUpsert g then cancelJob (job_ID job)
       else andThen (attempt (loadBinding p (pub_ID (g_publication g)))) (\<lambda>bound.
         case bound of Inl _ \<Rightarrow> failJob (job_ID job) (job_PublicationID job) ''load binding failed'' True | Inr found \<Rightarrow>
         (case found of None \<Rightarrow> uploadRevision p g job | Some binding \<Rightarrow> startIndexing g job binding)))"
      by (intro snd_in.sent_intros snd_in_bookkeeping uploadRevision_sends startIndexing_sends) auto
    moreover have "(if \<not> validForUpsert g then cancelJob (job_ID job)
       else andThen (attempt (loadBinding p (pub_ID (g_publication g)))) (\<lambda>bound.
         case bound of Inl _ \<Rightarrow> failJob (job_ID job) (job_PublicationID job) ''load binding failed'' True | Inr found \<Rightarrow>
         (case found of None \<Rightarrow> uploadRevision p g job | Some binding \<Rightarrow> startIndexing g job binding))) w1 = (r, w')"
      using run load Inr by (simp add: processUpsert_def andThen_def attempt_def)
    ultimately have "sendsIn (env w) (?P g) w1 w'"
      by (rule snd_in.withinD)
    then obtain new where "env w' = env w" "sent w' = sent w @ new" "list_all (?P g) new"
      using w1 by (auto simp: sendsIn_def sends_def)
    with load Inr show thesis by (intro that [of new]) (auto simp: list_all_iff)
  qed
qed

section \<open>Claims\<close>

lemma processJob_finished:
  assumes "tblGet job_ID i (indexJobs (db w)) = Some job"
    "job_Status job = IndexJobStatusSucceeded \<or> job_Status job = IndexJobStatusCancelled"
    "processJob p i w = (r, w')"
  shows "db w' = db w \<and> sent w' = sent w"
  using assms
  by (auto simp: processJob_def claimJob_def mustGet_def getByID_def query_def dbCall_def andThen_def onErr_def
      raise_def ret_def Let_def split: if_splits)

text \<open>A job that is running or failed is refused; nothing brings it back into the queue here.\<close>

lemma processJob_refused:
  assumes "tblGet job_ID i (indexJobs (db w)) = Some job"
    "job_Status job = IndexJobStatusRunning \<or> job_Status job = IndexJobStatusFailed"
    "processJob p i w = (r, w')"
  shows "(\<exists>e. r = Inl e) \<and> db w' = db w \<and> sent w' = sent w"
  using assms
  by (auto simp: processJob_def claimJob_def claimable_def mustGet_def getByID_def query_def dbCall_def andThen_def
      onErr_def raise_def ret_def Let_def split: if_splits)

text \<open>A successful claim counts the attempt and marks the job as running.\<close>

lemma claimJob_run:
  assumes "claimJob i w = (Inr (Some job), w')"
  obtains old where "tblGet job_ID i (indexJobs (db w)) = Some old" "claimable (job_Status old)"
    "job = old\<lparr>job_Status := IndexJobStatusRunning, job_Attempt := job_Attempt old + 1\<rparr>"
    "w' = w\<lparr>calls := Suc (Suc (calls w)), db := (db w)\<lparr>indexJobs :=
       tblUpdate (\<lambda>j. job_ID j = job_ID old \<and> claimable (job_Status j))
       (\<lambda>j. job_touch (currentUnix w) (j\<lparr>job_Status := IndexJobStatusRunning, job_Attempt := job_Attempt old + 1\<rparr>))
       (indexJobs (db w))\<rparr>\<rparr>"
proof -
  have i: "\<not> i \<le> 0"
    using assms by (auto simp: claimJob_def raise_def)
  then obtain old where old: "tblGet job_ID i (indexJobs (db w)) = Some old"
    using assms by (auto simp: claimJob_def andThen_run mustGet_run)
  moreover have c: "claimable (job_Status old)"
    using assms i old
    by (cases "claimable (job_Status old)")
      (auto simp: claimJob_def andThen_run mustGet_run raise_def ret_def split: if_splits)
  moreover from c have "job_Status old \<noteq> IndexJobStatusSucceeded" "job_Status old \<noteq> IndexJobStatusCancelled"
    by (auto simp: claimable_def)
  ultimately show thesis
    using assms i
    by (intro that [of old]) (simp_all add: claimJob_def andThen_run mustGet_run mustUpdate_run ret_run Let_def)
qed

section \<open>Successful upserts\<close>

lemma updateJob_run [run_simps]:
  "updateJob i f w = (Inr u, w') \<longleftrightarrow>
     \<not> faults (env w) (calls w) \<and> w' = w\<lparr>calls := Suc (calls w), db := (db w)\<lparr>indexJobs :=
       tblUpdate (\<lambda>j. job_ID j = i) (\<lambda>j. job_touch (currentUnix w) (f j)) (indexJobs (db w))\<rparr>\<rparr>"
  by (auto simp: updateJob_def run_simps)

lemma updateBindingStatus_run [run_simps]:
  "updateBindingStatus i s w = (Inr u, w') \<longleftrightarrow>
     \<not> faults (env w) (calls w) \<and> w' = w\<lparr>calls := Suc (calls w), db := (db w)\<lparr>indexBindings :=
       tblUpdate (\<lambda>b. ib_ID b = i) (\<lambda>b. b\<lparr>ib_Status := s\<rparr>) (indexBindings (db w))\<rparr>\<rparr>"
  by (auto simp: updateBindingStatus_def run_simps)

lemma updatePublicationIndexStatus_run [run_simps]:
  "updatePublicationIndexStatus i s w = (Inr u, w') \<longleftrightarrow>
     \<not> faults (env w) (calls w) \<and> w' = w\<lparr>calls := Suc (calls w), db := (db w)\<lparr>publications :=
       tblUpdate (\<lambda>p. pub_ID p = i) (\<lambda>p. pub_touch (currentUnix w) (p\<lparr>pub_IndexStatus := s\<rparr>)) (publications (db w))\<rparr>\<rparr>"
  by (auto simp: updatePublicationIndexStatus_def run_simps)

lemma markOutboxDispatched_run:
  "markOutboxDispatched k w = (Inr u, w') \<Longrightarrow> \<exists>t. db w' = (db w)\<lparr>outboxes := t\<rparr>"
  by (cases "trimSpace k = ''''"; cases "db w")
    (auto simp: markOutboxDispatched_def run_simps)

lemma enqueuePollJob_run:
  assumes "enqueuePollJob g job w = (Inr u, w')"
  obtains tj tob where "db w' = (db w)\<lparr>indexJobs := tj, outboxes := tob\<rparr>"
    "\<exists>j \<in> set (rows tj). job_IdempotencyKey j = pollKey g job"
    "\<exists>more. rows tj = rows (indexJobs (db w)) @ more"
proof (cases "tblFirst (\<lambda>j. job_IdempotencyKey j = pollKey g job) (indexJobs (db w))")
  case None
  with assms obtain j tj tob where ins: "tblInsert (\<lambda>i r. r\<lparr>job_ID := i\<rparr>) job_clash
      (job_stamp (currentUnix w) (newIndexJob (pub_ID (g_publication g)) IndexJobTypePoll (pollKey g job)
        (rev_ContentSHA256 (g_revision g)) (job_EngineProfileVersion job) (job_MaxAttempts job))) (indexJobs (db w)) = Some (j, tj)"
    and d: "db w' = (db w)\<lparr>indexJobs := tj, outboxes := tob\<rparr>"
    by (auto simp: enqueuePollJob_def Let_def run_simps)
  show thesis
    by (rule that [OF d]) (use job_tbl.insert_row [OF ins] in \<open>auto simp: job_stamp_def newIndexJob_def\<close>)
next
  case (Some j)
  with assms have "db w' = db w"
    by (auto simp: enqueuePollJob_def Let_def run_simps)
  then have same: "db w' = (db w)\<lparr>indexJobs := indexJobs (db w), outboxes := outboxes (db w)\<rparr>"
    by (cases "db w") simp
  show thesis
    by (rule that [OF same]) (use tblFirstD [OF Some] in auto)
qed

text \<open>
  What a finished upsert leaves: the job succeeded, the publication and the binding are being
  indexed, and a poll job for the same content is in the queue.
\<close>

lemma tblGet_grown:
  "rows t' = rows t @ extra \<Longrightarrow> tblGet idf i t = Some r \<Longrightarrow> tblGet idf i t' = Some r"
  by (auto simp: tblGet_def find_append)

lemma recordIndexing_run:
  assumes "recordIndexing g job b w = (Inr u, w')"
    and job: "tblGet job_ID (job_ID job) (indexJobs (db w)) = Some j0"
    and pub: "tblGet pub_ID (pub_ID (g_publication g)) (publications (db w)) = Some p0"
  shows "\<exists>j. tblGet job_ID (job_ID job) (indexJobs (db w')) = Some j \<and> job_Status j = IndexJobStatusSucceeded"
    "\<exists>p. tblGet pub_ID (pub_ID (g_publication g)) (publications (db w')) = Some p \<and> pub_IndexStatus p = IndexStatusIndexing"
    "\<exists>j \<in> set (rows (indexJobs (db w'))). job_IdempotencyKey j = pollKey g job"
proof -
  let ?d = "(db w)\<lparr>indexBindings := tblUpdate (\<lambda>b'. ib_ID b' = ib_ID b) (\<lambda>b'. b'\<lparr>ib_Status := IndexStatusIndexing\<rparr>) (indexBindings (db w)),
        publications := tblUpdate (\<lambda>p. pub_ID p = pub_ID (g_publication g)) (\<lambda>p. pub_touch (currentUnix w) (p\<lparr>pub_IndexStatus := IndexStatusIndexing\<rparr>)) (publications (db w)),
        indexJobs := tblUpdate (\<lambda>j. job_ID j = job_ID job) (\<lambda>j. job_touch (currentUnix w) (j\<lparr>job_Status := IndexJobStatusSucceeded, job_LastError := ''''\<rparr>)) (indexJobs (db w))\<rparr>"
  obtain w1 w2 u2 where m: "markOutboxDispatched (job_IdempotencyKey job) w1 = (Inr u2, w2)"
    and q: "enqueuePollJob g job w2 = (Inr u, w')" and d1: "db w1 = ?d"
    using assms(1) by (auto simp: recordIndexing_def markJobSucceeded_def run_simps)
  obtain t where d2: "db w2 = (db w1)\<lparr>outboxes := t\<rparr>"
    using markOutboxDispatched_run [OF m] by blast
  obtain tj tob where d3: "db w' = (db w2)\<lparr>indexJobs := tj, outboxes := tob\<rparr>"
    "\<exists>j \<in> set (rows tj). job_IdempotencyKey j = pollKey g job" "\<exists>more. rows tj = rows (indexJobs (db w2)) @ more"
    using q by (rule enqueuePollJob_run)
  show "\<exists>j. tblGet job_ID (job_ID job) (indexJobs (db w')) = Some j \<and> job_Status j = IndexJobStatusSucceeded"
  proof -
    have "tblGet job_ID (job_ID job) (indexJobs (db w2)) =
        Some (job_touch (currentUnix w) (j0\<lparr>job_Status := IndexJobStatusSucceeded, job_LastError := ''''\<rparr>))"
      using job tblGet_id [OF job] by (simp add: d2 d1 tblGet_update job_touch_def)
    with d3(3) have "tblGet job_ID (job_ID job) tj =
        Some (job_touch (currentUnix w) (j0\<lparr>job_Status := IndexJobStatusSucceeded, job_LastError := ''''\<rparr>))"
      by (metis tblGet_grown)
    then show ?thesis by (simp add: d3(1) job_touch_def)
  qed
  show "\<exists>p. tblGet pub_ID (pub_ID (g_publication g)) (publications (db w')) = Some p \<and> pub_IndexStatus p = IndexStatusIndexing"
    using pub tblGet_id [OF pub] by (simp add: d3(1) d2 d1 tblGet_update pub_touch_def)
  show "\<exists>j \<in> set (rows (indexJobs (db w'))). job_IdempotencyKey j = pollKey g job"
    using d3(2) by (simp add: d3(1))
qed

section \<open>Error texts\<close>

lemma redactIndexError_bound: "length (redactIndexError m) \<le> 120 \<and> hasPrefix (redactIndexError m) ''knowledge index failed: ''"
  by (simp add: redactIndexError_def Let_def hasPrefix_def)

section \<open>Polling has no bound\<close>

text \<open>
  A poll job in retry whose publication, revision, document, space and binding are all there,
  in a world where nothing fails and the engine goes on parsing.
\<close>

definition pollGraph :: "Processor \<Rightarrow> int \<Rightarrow> database \<Rightarrow> bool" where
  "pollGraph p publicationID d \<longleftrightarrow>
     (\<exists>publication revision document space binding.
        tblGet pub_ID publicationID (publications d) = Some publication \<and>
        tblGet rev_ID (pub_RevisionID publication) (revisions d) = Some revision \<and>
        tblGet doc_ID (pub_DocumentID publication) (documents d) = Some document \<and>
        doc_ID document = rev_DocumentID revision \<and>
        tblGet sp_ID (pub_SpaceID publication) (spaces d) = Some space \<and> sp_ID space = doc_SpaceID document \<and>
        pub_RevocationGeneration publication = sp_RevocationGeneration space \<and>
        tblFirst (\<lambda>b. ib_PublicationID b = pub_ID publication \<and> ib_Engine b = prc_engineName p \<and>
          ib_DatasetID b = prc_datasetID p) (indexBindings d) = Some binding)"

definition pollable :: "Processor \<Rightarrow> int \<Rightarrow> int \<Rightarrow> world \<Rightarrow> bool" where
  "pollable p jobID attempts w \<longleftrightarrow>
     (\<forall>n. \<not> faults (env w) n) \<and> (\<forall>h. engGetDocumentStatus (env w) h = Inr DocumentStateRunning) \<and>
     0 < jobID \<and> tblWf job_ID (indexJobs (db w)) \<and>
     (\<exists>job. tblGet job_ID jobID (indexJobs (db w)) = Some job \<and> job_Status job = IndexJobStatusRetry \<and>
        job_JobType job = IndexJobTypePoll \<and> job_Attempt job = attempts \<and>
        pollGraph p (job_PublicationID job) (db w))"

lemma pollGraph_jobs [simp]: "pollGraph p i (d\<lparr>indexJobs := t\<rparr>) = pollGraph p i d"
  by (simp add: pollGraph_def)

lemma processPoll_running:
  assumes "\<forall>n. \<not> faults (env w) n" "\<forall>h. engGetDocumentStatus (env w) h = Inr DocumentStateRunning"
    "pollGraph p (job_PublicationID job) (db w)"
  shows "\<exists>n s. processPoll p job w = (Inr (), w\<lparr>calls := n, sent := s, db := (db w)\<lparr>indexJobs :=
      tblUpdate (\<lambda>j. job_ID j = job_ID job) (\<lambda>j. job_touch (currentUnix w) (j\<lparr>job_Status := IndexJobStatusRetry\<rparr>))
        (indexJobs (db w))\<rparr>\<rparr>)"
proof -
  obtain publication revision document space binding where g:
    "tblGet pub_ID (job_PublicationID job) (publications (db w)) = Some publication"
    "tblGet rev_ID (pub_RevisionID publication) (revisions (db w)) = Some revision"
    "tblGet doc_ID (pub_DocumentID publication) (documents (db w)) = Some document"
    "doc_ID document = rev_DocumentID revision"
    "tblGet sp_ID (pub_SpaceID publication) (spaces (db w)) = Some space" "sp_ID space = doc_SpaceID document"
    "pub_RevocationGeneration publication = sp_RevocationGeneration space"
    "tblFirst (\<lambda>b. ib_PublicationID b = pub_ID publication \<and> ib_Engine b = prc_engineName p \<and>
       ib_DatasetID b = prc_datasetID p) (indexBindings (db w)) = Some binding"
    using assms(3) unfolding pollGraph_def by blast
  show ?thesis
    using assms(1,2) g
    by (simp add: processPoll_def loadGraph_def loadBinding_def markJobRetry_def updateJob_def exec_simps Let_def)
      (rule exI, rule exI, rule world.equality; simp)
qed

lemma pollable_again:
  assumes "pollable p i a w"
  shows "\<exists>w'. processJob p i w = (Inr (), w') \<and> pollable p i (a + 1) w'"
proof -
  obtain job where job: "tblGet job_ID i (indexJobs (db w)) = Some job" "job_Status job = IndexJobStatusRetry"
    "job_JobType job = IndexJobTypePoll" "job_Attempt job = a" "pollGraph p (job_PublicationID job) (db w)"
    and env: "\<forall>n. \<not> faults (env w) n" "\<forall>h. engGetDocumentStatus (env w) h = Inr DocumentStateRunning" and i: "0 < i"
    and wf: "tblWf job_ID (indexJobs (db w))"
    using assms by (auto simp: pollable_def)
  have id: "job_ID job = i" using job(1) by (rule tblGet_id)
  define claimed where "claimed = job\<lparr>job_Status := IndexJobStatusRunning, job_Attempt := a + 1\<rparr>"
  define w1 where "w1 = w\<lparr>calls := Suc (Suc (calls w)), db := (db w)\<lparr>indexJobs := tblUpdate (\<lambda>j. job_ID j = i \<and> claimable (job_Status j))
       (\<lambda>j. job_touch (currentUnix w) (j\<lparr>job_Status := IndexJobStatusRunning, job_Attempt := a + 1\<rparr>)) (indexJobs (db w))\<rparr>\<rparr>"
  have count: "tblCount (\<lambda>j. job_ID j = i \<and> claimable (job_Status j)) (indexJobs (db w)) = 1"
    using tblUpdate_count [OF wf, of i "\<lambda>j. claimable (job_Status j)"] job by (simp add: claimable_def)
  have claim: "claimJob i w = (Inr (Some claimed), w1)"
    using i env(1) job id count
    by (simp add: claimJob_def exec_simps claimable_def claimed_def w1_def Let_def)
  obtain n s where poll: "processPoll p claimed w1 = (Inr (), w1\<lparr>calls := n, sent := s, db := (db w1)\<lparr>indexJobs :=
      tblUpdate (\<lambda>j. job_ID j = job_ID claimed) (\<lambda>j. job_touch (currentUnix w1) (j\<lparr>job_Status := IndexJobStatusRetry\<rparr>))
        (indexJobs (db w1))\<rparr>\<rparr>)"
    using processPoll_running [of w1 p claimed] env job(5) by (auto simp: w1_def claimed_def)
  have "processJob p i w = (Inr (), w1\<lparr>calls := n, sent := s, db := (db w1)\<lparr>indexJobs :=
      tblUpdate (\<lambda>j. job_ID j = job_ID claimed) (\<lambda>j. job_touch (currentUnix w1) (j\<lparr>job_Status := IndexJobStatusRetry\<rparr>))
        (indexJobs (db w1))\<rparr>\<rparr>)" (is "_ = (_, ?w2)")
    using claim poll job(3) by (simp add: processJob_def andThen_def claimed_def)
  moreover have "pollable p i (a + 1) ?w2"
    using env i wf job id
    by (simp add: pollable_def w1_def claimed_def tblWf_update tblGet_update job_touch_def claimable_def)
  ultimately show ?thesis by blast
qed

text \<open>The attempts of such a job grow without limit, whatever its \<open>MaxAttempts\<close> is.\<close>

primrec processTimes :: "nat \<Rightarrow> Processor \<Rightarrow> int \<Rightarrow> world \<Rightarrow> world" where
  "processTimes 0 p i w = w"
| "processTimes (Suc n) p i w = processTimes n p i (snd (processJob p i w))"

lemma pollable_forever: "pollable p i a w \<Longrightarrow> pollable p i (a + int n) (processTimes n p i w)"
proof (induction n arbitrary: a w)
  case (Suc n)
  from pollable_again [OF Suc.prems] obtain w' where "processJob p i w = (Inr (), w')" "pollable p i (a + 1) w'"
    by blast
  with Suc.IH [of "a + 1" w'] show ?case by (simp add: add.assoc)
qed simp

end
