(* ===== verification/Ingest.thy ===== *)
theory Ingest
  imports World Go_Path
begin

text \<open>
  \<^verbatim>\<open>services/knowledge/ingest\<close>: what an upload must declare (\<^verbatim>\<open>manifest.go\<close>) and what an Office
  archive must look like (\<^verbatim>\<open>ooxml.go\<close>).

  The decoders of the library that are not Go's own text formats are functions of the environment:
  the entries \<open>archive/zip\<close> finds and their decompressed streams, the attributes \<open>encoding/xml\<close>
  reads, and the content sniffer of \<open>net/http\<close>. JSON is decoded here.

  The lemmas give what an accepted declaration and an accepted archive are known to satisfy.
\<close>

section \<open>manifest.go\<close>

definition defaultMaxFileBytes :: int where
  "defaultMaxFileBytes = 32 * 2 ^ 20"

definition maskManifestSchemaVersion :: int where
  "maskManifestSchemaVersion = 1"

definition maxMaskManifestBytes :: nat where
  "maxMaskManifestBytes = 16 * 2 ^ 10"

definition maxManifestCategories :: nat where
  "maxManifestCategories = 64"

definition maxManifestFindings :: int where
  "maxManifestFindings = 1000000"

definition maxPolicyVersionBytes :: nat where
  "maxPolicyVersionBytes = 128"

definition maxSourceAuthorization :: nat where
  "maxSourceAuthorization = 256"

text \<open>The anchored patterns: a literal prefix, then a bounded token.\<close>

definition maskPolicyVersionPattern :: "string \<Rightarrow> bool" where
  "maskPolicyVersionPattern s \<longleftrightarrow> hasPrefix s ''mask-policy-'' \<and> isToken (trimPrefix s ''mask-policy-'')"

definition grantIDPattern :: "string \<Rightarrow> bool" where
  "grantIDPattern s \<longleftrightarrow> hasPrefix s ''grant-id:'' \<and> isToken (trimPrefix s ''grant-id:'')"

definition allowedMaskCategories :: "string list" where
  "allowedMaskCategories =
     [''access_token'', ''address'', ''api_key'', ''bank_account'', ''credit_card'', ''credential'',
      ''email'', ''email_address'', ''id_number'', ''national_id'', ''organization_name'',
      ''passport_number'', ''password'', ''person_name'', ''phone'', ''phone_number'',
      ''physical_address'', ''tax_id'']"

record UploadManifest =
  um_Masked :: bool
  um_FileName :: string
  um_ContentSHA256 :: string
  um_Size :: int
  um_MIMEType :: string
  um_MaskPolicyVersion :: string
  um_MaskManifestJSON :: string
  um_SourceAuthorization :: string

record UploadFacts =
  uf_ContentSHA256 :: string
  uf_Size :: int
  uf_DetectedMIMEType :: string

record UploadPolicy =
  up_MaxFileBytes :: int
  up_AllowedTypes :: "string \<Rightarrow> string option"

definition docxMIME :: string where
  "docxMIME = ''application/vnd.openxmlformats-officedocument.wordprocessingml.document''"

definition pptxMIME :: string where
  "pptxMIME = ''application/vnd.openxmlformats-officedocument.presentationml.presentation''"

definition xlsxMIME :: string where
  "xlsxMIME = ''application/vnd.openxmlformats-officedocument.spreadsheetml.sheet''"

definition defaultUploadPolicy :: UploadPolicy where
  "defaultUploadPolicy =
     \<lparr>up_MaxFileBytes = defaultMaxFileBytes,
      up_AllowedTypes = map_of
        [(''.pdf'', ''application/pdf''), (''.docx'', docxMIME), (''.pptx'', pptxMIME),
         (''.xlsx'', xlsxMIME), (''.md'', ''text/markdown''), (''.txt'', ''text/plain'')]\<rparr>"

text \<open>The marker characters of \<open>isSafeBaseName\<close>: slash, backslash, colon and NUL.\<close>

definition isSafeBaseName :: "string \<Rightarrow> bool" where
  "isSafeBaseName name \<longleftrightarrow>
     \<not> (name = '''' \<or> 255 < length name \<or> name \<noteq> trimSpace name \<or> name = ''.'' \<or> name = ''..'') \<and>
     \<not> (containsAny name [CHR ''/'', CHR 0x5C, CHR '':'', CHR 0x00] \<or> hasControl name) \<and>
     fileBase name = name"

definition validSHA256 :: "string \<Rightarrow> bool" where
  "validSHA256 v \<longleftrightarrow> length v = 32 * 2 \<and> hexDecode v \<noteq> None"

definition equalSHA256 :: "string \<Rightarrow> string \<Rightarrow> bool" where
  "equalSHA256 left right \<longleftrightarrow>
     (case (hexDecode left, hexDecode right) of (Some l, Some r) \<Rightarrow> l = r | _ \<Rightarrow> False)"

definition normalizeMIME :: "string \<Rightarrow> string" where
  "normalizeMIME v0 =
     (let v = trimSpace (toLower v0)
      in if CHR '';'' \<in> set v then trimSpace (takeWhile (\<lambda>c. c \<noteq> CHR '';'') v) else v)"

subsection \<open>Decoding the declaration\<close>

text \<open>
  \<open>json.Decoder.Decode\<close> into the struct \<open>manifestV1\<close>. Members are decoded in order, so a repeated
  name decodes again into the same field; \<open>null\<close> leaves a number or a truth value as it is. A slice
  is its backing array and its length: decoding an array into it overwrites from the start and cuts
  the length, keeping the elements behind it, and a \<open>null\<close> element keeps what the array held.
\<close>

record manifestV1 =
  m1_SchemaVersion :: int
  m1_Masked :: bool
  m1_FindingsCount :: int
  m1_backing :: "string list"
  m1_len :: nat

definition m1_Categories :: "manifestV1 \<Rightarrow> string list" where
  "m1_Categories m = take (m1_len m) (m1_backing m)"

definition emptyManifestV1 :: manifestV1 where
  "emptyManifestV1 = \<lparr>m1_SchemaVersion = 0, m1_Masked = False, m1_FindingsCount = 0, m1_backing = [], m1_len = 0\<rparr>"

definition decodeInt :: "int \<Rightarrow> json \<Rightarrow> int option" where
  "decodeInt old v = (case v of JNull \<Rightarrow> Some old | JNum s \<Rightarrow> parseInt64 s | _ \<Rightarrow> None)"

definition decodeBool :: "bool \<Rightarrow> json \<Rightarrow> bool option" where
  "decodeBool old v = (case v of JNull \<Rightarrow> Some old | JBool b \<Rightarrow> Some b | _ \<Rightarrow> None)"

text \<open>The elements written over the backing array.\<close>

fun decodeElems :: "string list \<Rightarrow> json list \<Rightarrow> string list option" where
  "decodeElems old [] = Some old"
| "decodeElems old (v # vs) =
     (let keep = (case old of [] \<Rightarrow> '''' | o1 # _ \<Rightarrow> o1) in
      case (case v of JNull \<Rightarrow> Some keep | JStr s \<Rightarrow> Some s | _ \<Rightarrow> None) of
        None \<Rightarrow> None
      | Some s \<Rightarrow> map_option (Cons s) (decodeElems (drop 1 old) vs))"

definition decodeStrings :: "string list \<times> nat \<Rightarrow> json \<Rightarrow> (string list \<times> nat) option" where
  "decodeStrings old v =
     (case v of
        JNull \<Rightarrow> Some ([], 0)
      | JArr [] \<Rightarrow> Some ([], 0)
      | JArr vs \<Rightarrow> map_option (\<lambda>bs. (bs, length vs)) (decodeElems (fst old) vs)
      | _ \<Rightarrow> None)"

text \<open>A member whose name is no field's name in any case is an error (\<open>DisallowUnknownFields\<close>).\<close>

definition decodeMember :: "manifestV1 \<Rightarrow> string \<times> json \<Rightarrow> manifestV1 option" where
  "decodeMember m kv =
     (if equalFold (fst kv) ''schema_version''
      then map_option (\<lambda>n. m\<lparr>m1_SchemaVersion := n\<rparr>) (decodeInt (m1_SchemaVersion m) (snd kv))
      else if equalFold (fst kv) ''masked''
      then map_option (\<lambda>b. m\<lparr>m1_Masked := b\<rparr>) (decodeBool (m1_Masked m) (snd kv))
      else if equalFold (fst kv) ''findings_count''
      then map_option (\<lambda>n. m\<lparr>m1_FindingsCount := n\<rparr>) (decodeInt (m1_FindingsCount m) (snd kv))
      else if equalFold (fst kv) ''categories''
      then map_option (\<lambda>(bs, n). m\<lparr>m1_backing := bs, m1_len := n\<rparr>)
             (decodeStrings (m1_backing m, m1_len m) (snd kv))
      else None)"

fun decodeMembers :: "manifestV1 \<Rightarrow> (string \<times> json) list \<Rightarrow> manifestV1 option" where
  "decodeMembers m [] = Some m"
| "decodeMembers m (kv # kvs) =
     (case decodeMember m kv of None \<Rightarrow> None | Some m' \<Rightarrow> decodeMembers m' kvs)"

text \<open>The map of raw members has one entry per distinct name.\<close>

definition requiredFields :: "string list" where
  "requiredFields = [''schema_version'', ''masked'', ''findings_count'', ''categories'']"

definition validCategories :: "string list \<Rightarrow> bool" where
  "validCategories cs \<longleftrightarrow>
     (\<forall>c \<in> set cs. \<not> (length c = 0 \<or> 64 < length c) \<and> c \<in> set allowedMaskCategories) \<and> distinct cs"

definition validateManifestJSON :: "string \<Rightarrow> error + unit" where
  "validateManifestJSON raw0 =
     (let raw = trimSpace raw0 in
      if length raw = 0 \<or> maxMaskManifestBytes < length raw then Inl ErrInvalidManifest
      else case jsonParse raw of
        Some (JObj members) \<Rightarrow>
          if length (remdups (map fst members)) \<noteq> 4 then Inl ErrInvalidManifest
          else if \<not> list_all (\<lambda>r. r \<in> fst ` set members) requiredFields then Inl ErrInvalidManifest
          else
            (case decodeMembers emptyManifestV1 members of
               None \<Rightarrow> Inl ErrInvalidManifest
             | Some m \<Rightarrow>
               if m1_SchemaVersion m \<noteq> maskManifestSchemaVersion \<or> \<not> m1_Masked m \<or> m1_FindingsCount m < 0 \<or>
                  maxManifestFindings < m1_FindingsCount m \<or> maxManifestCategories < length (m1_Categories m)
               then Inl ErrInvalidManifest
               else if (m1_FindingsCount m = 0) \<noteq> (length (m1_Categories m) = 0) then Inl ErrInvalidManifest
               else if \<not> validCategories (m1_Categories m) then Inl ErrInvalidManifest
               else Inr ())
      | _ \<Rightarrow> Inl ErrInvalidManifest)"

definition validBoundedToken :: "string \<Rightarrow> nat \<Rightarrow> bool" where
  "validBoundedToken v maxBytes \<longleftrightarrow> 0 < length v \<and> length v \<le> maxBytes \<and> v = trimSpace v \<and> isToken v"

definition validMaskPolicyVersion :: "string \<Rightarrow> bool" where
  "validMaskPolicyVersion v \<longleftrightarrow>
     0 < length v \<and> length v \<le> maxPolicyVersionBytes \<and> v = trimSpace v \<and> maskPolicyVersionPattern v"

definition validSourceAuthorization :: "string \<Rightarrow> bool" where
  "validSourceAuthorization v \<longleftrightarrow>
     \<not> (length v = 0 \<or> maxSourceAuthorization < length v \<or> v \<noteq> trimSpace v) \<and> grantIDPattern v"

definition validateUploadManifest :: "UploadManifest \<Rightarrow> UploadFacts \<Rightarrow> UploadPolicy \<Rightarrow> error + unit" where
  "validateUploadManifest manifest facts policy =
     (if \<not> um_Masked manifest then Inl ErrMaskingNotDeclared
      else if \<not> validMaskPolicyVersion (um_MaskPolicyVersion manifest) \<or>
              \<not> validSourceAuthorization (um_SourceAuthorization manifest) then Inl ErrInvalidManifest
      else if \<not> isSafeBaseName (um_FileName manifest) then Inl ErrInvalidFileName
      else if up_MaxFileBytes policy \<le> 0 \<or> um_Size manifest \<le> 0 \<or> up_MaxFileBytes policy < um_Size manifest \<or>
              uf_Size facts \<noteq> um_Size manifest then Inl ErrFileSize
      else if \<not> validSHA256 (um_ContentSHA256 manifest) \<or> \<not> validSHA256 (uf_ContentSHA256 facts) \<or>
              \<not> equalSHA256 (um_ContentSHA256 manifest) (uf_ContentSHA256 facts) then Inl ErrIntegrityMismatch
      else
        let extension = toLower (fileExt (um_FileName manifest)) in
        case up_AllowedTypes policy extension of
          None \<Rightarrow> Inl ErrUnsupportedFileType
        | Some wantMIME \<Rightarrow>
            if normalizeMIME (um_MIMEType manifest) \<noteq> wantMIME \<or>
               normalizeMIME (uf_DetectedMIMEType facts) \<noteq> wantMIME then Inl ErrUnsupportedFileType
            else validateManifestJSON (um_MaskManifestJSON manifest))"

subsection \<open>What an accepted declaration satisfies\<close>

lemma equalSHA256_iff:
  "equalSHA256 a b \<longleftrightarrow> (\<exists>d. hexDecode a = Some d \<and> hexDecode b = Some d)"
  by (auto simp: equalSHA256_def split: option.splits)

lemma validateManifestJSON_accepts:
  assumes "validateManifestJSON raw = Inr u"
  obtains members m where
    "jsonParse (trimSpace raw) = Some (JObj members)" "decodeMembers emptyManifestV1 members = Some m"
    "set (map fst members) = set requiredFields"
    "m1_SchemaVersion m = 1" "m1_Masked m" "0 \<le> m1_FindingsCount m" "m1_FindingsCount m \<le> 1000000"
    "length (m1_Categories m) \<le> 64" "(m1_FindingsCount m = 0) = (m1_Categories m = [])"
    "distinct (m1_Categories m)" "set (m1_Categories m) \<subseteq> set allowedMaskCategories"
proof -
  let ?raw = "trimSpace raw"
  from assms obtain members m where
    1: "jsonParse ?raw = Some (JObj members)" "decodeMembers emptyManifestV1 members = Some m"
    and 2: "length (remdups (map fst members)) = 4" "list_all (\<lambda>r. r \<in> fst ` set members) requiredFields"
    and 3: "\<not> (m1_SchemaVersion m \<noteq> maskManifestSchemaVersion \<or> \<not> m1_Masked m \<or> m1_FindingsCount m < 0 \<or>
                  maxManifestFindings < m1_FindingsCount m \<or> maxManifestCategories < length (m1_Categories m))"
      "(m1_FindingsCount m = 0) = (length (m1_Categories m) = 0)" "validCategories (m1_Categories m)"
    by (auto simp: validateManifestJSON_def Let_def split: option.splits json.splits if_splits)
  have "set requiredFields \<subseteq> set (map fst members)" using 2(2) by (auto simp: list_all_iff)
  moreover have "card (set (map fst members)) = 4" using 2(1) by (simp add: length_remdups_card_conv)
  moreover have "card (set requiredFields) = 4" by (simp add: requiredFields_def)
  ultimately have "set requiredFields = set (map fst members)"
    by (intro card_subset_eq) auto
  with 1 3 that show ?thesis
    by (simp add: maskManifestSchemaVersion_def maxManifestFindings_def maxManifestCategories_def validCategories_def subset_iff)
qed

lemma validateUploadManifest_accepts:
  assumes "validateUploadManifest manifest facts policy = Inr u"
  shows "um_Masked manifest" "validMaskPolicyVersion (um_MaskPolicyVersion manifest)"
    "validSourceAuthorization (um_SourceAuthorization manifest)" "isSafeBaseName (um_FileName manifest)"
    "0 < um_Size manifest" "um_Size manifest \<le> up_MaxFileBytes policy" "uf_Size facts = um_Size manifest"
    "\<exists>d. length d = 32 \<and> hexDecode (um_ContentSHA256 manifest) = Some d \<and> hexDecode (uf_ContentSHA256 facts) = Some d"
    "up_AllowedTypes policy (toLower (fileExt (um_FileName manifest))) = Some (normalizeMIME (uf_DetectedMIMEType facts))"
    "normalizeMIME (um_MIMEType manifest) = normalizeMIME (uf_DetectedMIMEType facts)"
    "validateManifestJSON (um_MaskManifestJSON manifest) = Inr u"
proof -
  have len: "hexDecode s = Some d \<Longrightarrow> length s = 2 * length d" for s d
    by (induction s arbitrary: d rule: hexDecode.induct) (auto split: option.splits)
  note split = option.splits if_splits
  show "um_Masked manifest" "validMaskPolicyVersion (um_MaskPolicyVersion manifest)"
    "validSourceAuthorization (um_SourceAuthorization manifest)" "isSafeBaseName (um_FileName manifest)"
    "0 < um_Size manifest" "um_Size manifest \<le> up_MaxFileBytes policy" "uf_Size facts = um_Size manifest"
    "up_AllowedTypes policy (toLower (fileExt (um_FileName manifest))) = Some (normalizeMIME (uf_DetectedMIMEType facts))"
    "normalizeMIME (um_MIMEType manifest) = normalizeMIME (uf_DetectedMIMEType facts)"
    "validateManifestJSON (um_MaskManifestJSON manifest) = Inr u"
    using assms by (auto simp: validateUploadManifest_def Let_def split: split)
  have "validSHA256 (um_ContentSHA256 manifest)" "equalSHA256 (um_ContentSHA256 manifest) (uf_ContentSHA256 facts)"
    using assms by (auto simp: validateUploadManifest_def Let_def split: split)
  then show "\<exists>d. length d = 32 \<and> hexDecode (um_ContentSHA256 manifest) = Some d \<and> hexDecode (uf_ContentSHA256 facts) = Some d"
    unfolding validSHA256_def equalSHA256_iff using len by fastforce
qed

text \<open>
  A file name that passes names a file in the directory it is put in: it has no separator, no
  drive, and is neither "." nor "..".
\<close>

lemma isSafeBaseName_component:
  "isSafeBaseName name \<Longrightarrow>
   name \<noteq> '''' \<and> name \<noteq> ''.'' \<and> name \<noteq> ''..'' \<and> CHR ''/'' \<notin> set name \<and> CHR 0x5C \<notin> set name \<and> CHR '':'' \<notin> set name"
  by (auto simp: isSafeBaseName_def containsAny_def list_ex_iff)

section \<open>ooxml.go\<close>

definition sampleBytes :: int where
  "sampleBytes = 512"

record OOXMLPolicy =
  op_MaxArchiveBytes :: int
  op_MaxEntries :: int
  op_MaxEntryUncompressedBytes :: int
  op_MaxUncompressedBytes :: int
  op_MaxCompressionRatio :: uint64

record OOXMLInspection =
  oi_MIMEType :: string
  oi_EntryCount :: int
  oi_UncompressedBytes :: int

definition defaultOOXMLPolicy :: OOXMLPolicy where
  "defaultOOXMLPolicy =
     \<lparr>op_MaxArchiveBytes = defaultMaxFileBytes, op_MaxEntries = 4096,
      op_MaxEntryUncompressedBytes = 64 * 2 ^ 20, op_MaxUncompressedBytes = 256 * 2 ^ 20,
      op_MaxCompressionRatio = 200\<rparr>"

definition validOOXMLPolicy :: "OOXMLPolicy \<Rightarrow> bool" where
  "validOOXMLPolicy p \<longleftrightarrow>
     0 < op_MaxArchiveBytes p \<and> 0 < op_MaxEntries p \<and> 0 < op_MaxEntryUncompressedBytes p \<and>
     0 < op_MaxUncompressedBytes p \<and> op_MaxEntryUncompressedBytes p \<le> op_MaxUncompressedBytes p \<and>
     0 < op_MaxCompressionRatio p"

definition safeArchiveEntry :: "string \<Rightarrow> bool" where
  "safeArchiveEntry name \<longleftrightarrow>
     \<not> (name = '''' \<or> 512 < length name \<or> containsAny name [CHR 0x5C, CHR '':'', CHR 0x00] \<or> hasPrefix name ''/'') \<and>
     (let trimmed = trimSuffix name ''/''; cleaned = pathClean trimmed
      in cleaned = trimmed \<and> cleaned \<noteq> ''.'' \<and> cleaned \<noteq> ''..'' \<and> \<not> hasPrefix cleaned ''../'')"

definition compressionRatioExceeded :: "uint64 \<Rightarrow> uint64 \<Rightarrow> uint64 \<Rightarrow> bool" where
  "compressionRatioExceeded uncompressed compressed mx =
     (if compressed = 0 \<or> mx = 0 then True
      else let quotient = uncompressed div compressed; remainder = uncompressed mod compressed
           in mx < quotient \<or> (quotient = mx \<and> 0 < remainder))"

definition forbiddenOOXMLEntry :: "string \<Rightarrow> bool" where
  "forbiddenOOXMLEntry name \<longleftrightarrow>
     (let lower = toLower name
      in hasSuffix lower ''/vbaproject.bin'' \<or> containsStr lower ''/activex/'' \<or> containsStr lower ''/embeddings/'')"

definition shouldInspectOOXMLPart :: "string \<Rightarrow> bool" where
  "shouldInspectOOXMLPart name \<longleftrightarrow>
     name = ''[Content_Types].xml'' \<or> name = ''_rels/.rels'' \<or> hasSuffix (toLower name) ''.rels''"

definition validContentTypesOverride :: "environment \<Rightarrow> string \<Rightarrow> string \<Rightarrow> bool" where
  "validContentTypesOverride e raw mainPart =
     (case xmlOverrides e raw of None \<Rightarrow> False
      | Some overrides \<Rightarrow>
        (let target = ''/'' @ mainPart
         in list_ex (\<lambda>v. ovr_PartName v = target \<and> hasSuffix (ovr_ContentType v) ''.main+xml'') overrides))"

definition officeDocumentType :: string where
  "officeDocumentType = ''http://schemas.openxmlformats.org/officeDocument/2006/relationships/officeDocument''"

definition validRootRelationship :: "environment \<Rightarrow> string \<Rightarrow> string \<Rightarrow> bool" where
  "validRootRelationship e raw mainPart =
     (case xmlRelationships e raw of None \<Rightarrow> False
      | Some rels \<Rightarrow>
        list_all (\<lambda>v. rel_Type v = officeDocumentType \<longrightarrow> rel_Target v = mainPart) rels \<and>
        list_ex (\<lambda>v. rel_Type v = officeDocumentType) rels)"

definition unsafeRelationships :: "environment \<Rightarrow> string \<Rightarrow> bool" where
  "unsafeRelationships e raw =
     (case xmlRelationships e raw of None \<Rightarrow> True
      | Some rels \<Rightarrow> list_ex (\<lambda>v. equalFold (rel_TargetMode v) ''External'') rels)"

subsection \<open>Inspection\<close>

text \<open>The variables of the loop over the entries of the archive.\<close>

record ooxmlScan =
  sc_contentTypesXML :: string
  sc_relationshipsXML :: string
  sc_packageMIME :: string
  sc_mainPart :: string
  sc_totalBytes :: int

definition emptyScan :: ooxmlScan where
  "emptyScan = \<lparr>sc_contentTypesXML = '''', sc_relationshipsXML = '''', sc_packageMIME = '''', sc_mainPart = '''', sc_totalBytes = 0\<rparr>"

text \<open>The \<open>switch\<close> on the name of an entry.\<close>

definition recordPart :: "ooxmlScan \<Rightarrow> string \<Rightarrow> string \<Rightarrow> ooxmlScan option" where
  "recordPart sc name part =
     (let main = (\<lambda>mime. if sc_packageMIME sc \<noteq> '''' then None
                    else Some (sc\<lparr>sc_packageMIME := mime, sc_mainPart := name\<rparr>)) in
      if name = ''[Content_Types].xml'' then Some (sc\<lparr>sc_contentTypesXML := part\<rparr>)
      else if name = ''_rels/.rels'' then Some (sc\<lparr>sc_relationshipsXML := part\<rparr>)
      else if name = ''word/document.xml'' then main docxMIME
      else if name = ''ppt/presentation.xml'' then main pptxMIME
      else if name = ''xl/workbook.xml'' then main xlsxMIME
      else Some sc)"

text \<open>
  One entry; \<open>None\<close> is \<open>ErrUnsupportedFileType\<close>. The stream is copied up to one byte more than
  the limit; the number of bytes that came must be the declared size.
\<close>

definition inspectEntry :: "environment \<Rightarrow> OOXMLPolicy \<Rightarrow> ooxmlScan \<Rightarrow> ZipEntry \<Rightarrow> ooxmlScan option" where
  "inspectEntry e policy sc entry =
     (let name = ze_Name entry; uncompressed = ze_UncompressedSize64 entry; compressed = ze_CompressedSize64 entry in
      if \<not> safeArchiveEntry name \<or> ze_Encrypted entry then None
      else if ze_IsDir entry then Some sc
      else if word_of_int (op_MaxEntryUncompressedBytes policy) < uncompressed \<or>
              word_of_int (op_MaxUncompressedBytes policy) - word_of_int (sc_totalBytes sc) < uncompressed then None
      else if 0 < uncompressed \<and> compressionRatioExceeded uncompressed compressed (op_MaxCompressionRatio policy) then None
      else if forbiddenOOXMLEntry name then None
      else
        case ze_Open entry of None \<Rightarrow> None | Some stream \<Rightarrow>
        case readLimited (wrap64 (op_MaxEntryUncompressedBytes policy + 1)) stream of Inl x \<Rightarrow> None | Inr bytes \<Rightarrow>
        if ze_CloseFails entry \<or> word_of_int (int (length bytes)) \<noteq> uncompressed then None
        else
          let part = (if shouldInspectOOXMLPart name then bytes else '''') in
          if hasSuffix (toLower name) ''.rels'' \<and> unsafeRelationships e part then None
          else
            let sc1 = sc\<lparr>sc_totalBytes := sc_totalBytes sc + int (length bytes)\<rparr> in
            if op_MaxUncompressedBytes policy < sc_totalBytes sc1 then None
            else recordPart sc1 name part)"

fun inspectEntries :: "environment \<Rightarrow> OOXMLPolicy \<Rightarrow> ooxmlScan \<Rightarrow> ZipEntry list \<Rightarrow> ooxmlScan option" where
  "inspectEntries e policy sc [] = Some sc"
| "inspectEntries e policy sc (entry # entries) =
     (case inspectEntry e policy sc entry of None \<Rightarrow> None | Some sc' \<Rightarrow> inspectEntries e policy sc' entries)"

definition officeMIME :: "string \<Rightarrow> string option" where
  "officeMIME = map_of [(''.docx'', docxMIME), (''.pptx'', pptxMIME), (''.xlsx'', xlsxMIME)]"

text \<open>A reader is its bytes; \<open>None\<close> is the nil reader.\<close>

definition inspectOOXML ::
  "environment \<Rightarrow> string \<Rightarrow> string option \<Rightarrow> int \<Rightarrow> OOXMLPolicy \<Rightarrow> error + OOXMLInspection" where
  "inspectOOXML e fileName reader nbytes policy =
     (case reader of None \<Rightarrow> Inl ErrUnsupportedFileType | Some content \<Rightarrow>
      if nbytes \<le> 0 \<or> \<not> isSafeBaseName fileName \<or> \<not> validOOXMLPolicy policy \<or> op_MaxArchiveBytes policy < nbytes
      then Inl ErrUnsupportedFileType
      else case officeMIME (toLower (fileExt fileName)) of None \<Rightarrow> Inl ErrUnsupportedFileType | Some wantMIME \<Rightarrow>
      case zipEntries e content nbytes of None \<Rightarrow> Inl ErrUnsupportedFileType | Some entries \<Rightarrow>
      if entries = [] \<or> op_MaxEntries policy < int (length entries) then Inl ErrUnsupportedFileType
      else case inspectEntries e policy emptyScan entries of None \<Rightarrow> Inl ErrUnsupportedFileType | Some sc \<Rightarrow>
      if sc_contentTypesXML sc = '''' \<or> sc_relationshipsXML sc = '''' \<or> sc_packageMIME sc = '''' \<or>
         sc_packageMIME sc \<noteq> wantMIME \<or> sc_totalBytes sc \<le> 0 then Inl ErrUnsupportedFileType
      else if \<not> validContentTypesOverride e (sc_contentTypesXML sc) (sc_mainPart sc) \<or>
              \<not> validRootRelationship e (sc_relationshipsXML sc) (sc_mainPart sc) then Inl ErrUnsupportedFileType
      else Inr \<lparr>oi_MIMEType = sc_packageMIME sc, oi_EntryCount = int (length entries),
                oi_UncompressedBytes = sc_totalBytes sc\<rparr>)"

text \<open>\<open>ReadAt\<close> of a byte reader: five bytes or an error for the PDF header; a sample for text.\<close>

definition detectArtifactMIME :: "environment \<Rightarrow> string \<Rightarrow> string option \<Rightarrow> int \<Rightarrow> error + string" where
  "detectArtifactMIME e fileName reader nbytes =
     (case reader of None \<Rightarrow> Inl ErrUnsupportedFileType | Some content \<Rightarrow>
      if nbytes \<le> 0 \<or> \<not> isSafeBaseName fileName then Inl ErrUnsupportedFileType
      else
        let extension = toLower (fileExt fileName) in
        if extension \<in> {''.docx'', ''.pptx'', ''.xlsx''} then
          (case inspectOOXML e fileName reader nbytes defaultOOXMLPolicy of
             Inl x \<Rightarrow> Inl x | Inr inspection \<Rightarrow> Inr (oi_MIMEType inspection))
        else if extension = ''.pdf'' then
          (if length content < 5 \<or> take 5 content \<noteq> ''%PDF-'' then Inl ErrUnsupportedFileType
           else Inr ''application/pdf'')
        else if extension \<in> {''.md'', ''.txt''} then
          (let detected = detectContentType e (take (nat (min nbytes sampleBytes)) content) in
           if \<not> hasPrefix detected ''text/plain'' \<and> detected \<noteq> ''application/octet-stream''
           then Inl ErrUnsupportedFileType
           else if extension = ''.md'' then Inr ''text/markdown'' else Inr ''text/plain'')
        else Inl ErrUnsupportedFileType)"

lemmas ingest_eval [eval_simps] =
  maskPolicyVersionPattern_def grantIDPattern_def defaultUploadPolicy_def isSafeBaseName_def validSHA256_def
  equalSHA256_def normalizeMIME_def m1_Categories_def emptyManifestV1_def decodeInt_def decodeBool_def
  decodeStrings_def decodeMember_def requiredFields_def validCategories_def validateManifestJSON_def
  validMaskPolicyVersion_def validSourceAuthorization_def validateUploadManifest_def allowedMaskCategories_def
  defaultMaxFileBytes_def maskManifestSchemaVersion_def maxMaskManifestBytes_def maxManifestCategories_def
  maxManifestFindings_def maxPolicyVersionBytes_def maxSourceAuthorization_def detectArtifactMIME_def
  inspectOOXML_def inspectEntry_def recordPart_def officeMIME_def validOOXMLPolicy_def defaultOOXMLPolicy_def
  safeArchiveEntry_def compressionRatioExceeded_def forbiddenOOXMLEntry_def shouldInspectOOXMLPart_def
  validContentTypesOverride_def officeDocumentType_def validRootRelationship_def unsafeRelationships_def
  emptyScan_def sampleBytes_def docxMIME_def pptxMIME_def xlsxMIME_def

subsection \<open>What an accepted archive satisfies\<close>

lemma compressionRatio_iff:
  assumes "compressed \<noteq> 0" "mx \<noteq> 0"
  shows "compressionRatioExceeded uncompressed compressed mx \<longleftrightarrow> unat mx * unat compressed < unat uncompressed"
proof -
  let ?u = "unat uncompressed" and ?c = "unat compressed" and ?m = "unat mx"
  have pos: "0 < ?c" using assms(1) by (simp add: unat_gt_0)
  have "compressionRatioExceeded uncompressed compressed mx \<longleftrightarrow> ?m < ?u div ?c \<or> (?u div ?c = ?m \<and> 0 < ?u mod ?c)"
    using assms by (auto simp: compressionRatioExceeded_def Let_def word_less_nat_alt unat_div unat_mod word_unat_eq_iff)
  also have "\<dots> \<longleftrightarrow> ?m * ?c < ?u"
  proof -
    have u: "?u = ?u div ?c * ?c + ?u mod ?c" by simp
    have r: "?u mod ?c < ?c" using pos by simp
    consider "?m < ?u div ?c" | "?u div ?c = ?m" | "?u div ?c < ?m" by linarith
    then show ?thesis
    proof cases
      case 1
      then have "Suc ?m * ?c \<le> ?u div ?c * ?c" by (intro mult_le_mono1) simp
      then have "?c + ?m * ?c \<le> ?u div ?c * ?c" by simp
      with u r pos have "?m * ?c < ?u" by linarith
      with 1 show ?thesis by simp
    next
      case 2
      with u show ?thesis by auto
    next
      case 3
      then have "Suc (?u div ?c) * ?c \<le> ?m * ?c" by (intro mult_le_mono1) simp
      then have "?c + ?u div ?c * ?c \<le> ?m * ?c" by simp
      with u r have "\<not> ?m * ?c < ?u" by linarith
      with 3 show ?thesis by simp
    qed
  qed
  finally show ?thesis .
qed

lemma splitOn_last: "splitOn c (s @ [c]) = splitOn c s @ [[]]"
proof (induction s)
  case (Cons x s)
  then show ?case using splitOn_nonempty [of c s] by (auto split: list.splits)
qed simp

text \<open>An entry that passes stays inside the archive: no component of its name is "..".\<close>

lemma safeArchiveEntry_inside:
  assumes "safeArchiveEntry name"
  shows "\<not> hasPrefix name ''/''" "''..'' \<notin> set (splitOn (CHR ''/'') name)"
proof -
  let ?t = "trimSuffix name ''/''"
  show rel: "\<not> hasPrefix name ''/''" using assms by (simp add: safeArchiveEntry_def)
  have name: "name = ?t \<or> name = ?t @ ''/''"
    by (auto simp: trimSuffix_def hasSuffix_iff suffix_def)
  have clean: "pathClean ?t = ?t" "?t \<noteq> ''.''" "?t \<noteq> ''..''" "\<not> hasPrefix ?t ''../''"
    using assms by (auto simp: safeArchiveEntry_def Let_def)
  have relT: "\<not> hasPrefix ?t ''/''" using rel name by (metis hasPrefix_iff prefix_prefix)
  with clean(1,2) have join: "?t = joinStr ''/'' (cleanParts ?t)" "?t \<noteq> ''''"
    by (auto simp: pathClean_def Let_def split: if_splits)
  have list: "cleanList False (cleanParts ?t)" using cleanParts_clean [of ?t] relT by simp
  then obtain n rest where parts: "cleanParts ?t = replicate n ''..'' @ rest" "''..'' \<notin> set rest"
    by (auto simp: cleanList_def)
  have "n = 0"
  proof (cases n)
    case (Suc m)
    then have p: "cleanParts ?t = ''..'' # replicate m ''..'' @ rest" using parts by simp
    show ?thesis
    proof (cases "replicate m ''..'' @ rest")
      case Nil
      with p join(1) have "?t = ''..''" by simp
      with clean(3) show ?thesis by simp
    next
      case (Cons x xs)
      with p join(1) have "?t = ''..'' @ ''/'' @ joinStr ''/'' (x # xs)" by simp
      then have "hasPrefix ?t ''../''" by (simp add: hasPrefix_def)
      with clean(4) show ?thesis by simp
    qed
  qed
  with parts have dots: "''..'' \<notin> set (cleanParts ?t)" by simp
  have "cleanParts ?t \<noteq> []" using join by auto
  moreover have "\<forall>s \<in> set (cleanParts ?t). CHR ''/'' \<notin> set s" using list by (simp add: cleanList_def)
  ultimately have "splitOn (CHR ''/'') ?t = cleanParts ?t"
    using splitOn_join [of "cleanParts ?t" "CHR ''/''"] join(1) by simp
  then show "''..'' \<notin> set (splitOn (CHR ''/'') name)"
    using name dots splitOn_last [of "CHR ''/''" ?t] by (metis Un_iff list.set_intros(1) list.simps(15) set_append insert_iff empty_iff empty_set list.discI)
qed

definition acceptedEntry :: "environment \<Rightarrow> OOXMLPolicy \<Rightarrow> ZipEntry \<Rightarrow> bool" where
  "acceptedEntry e policy entry \<longleftrightarrow>
     safeArchiveEntry (ze_Name entry) \<and> \<not> ze_Encrypted entry \<and>
     (\<not> ze_IsDir entry \<longrightarrow>
        \<not> forbiddenOOXMLEntry (ze_Name entry) \<and>
        uint (ze_UncompressedSize64 entry) \<le> op_MaxEntryUncompressedBytes policy \<and>
        unat (ze_UncompressedSize64 entry) \<le> unat (op_MaxCompressionRatio policy) * unat (ze_CompressedSize64 entry) \<and>
        (hasSuffix (toLower (ze_Name entry)) ''.rels'' \<longrightarrow>
           (\<exists>stream. ze_Open entry = Some stream \<and>
              \<not> unsafeRelationships e (take (unat (ze_UncompressedSize64 entry)) (fst stream)))))"

definition declaredBytes :: "ZipEntry list \<Rightarrow> int" where
  "declaredBytes entries = (\<Sum>entry \<leftarrow> filter (Not \<circ> ze_IsDir) entries. uint (ze_UncompressedSize64 entry))"

definition boundedPolicy :: "OOXMLPolicy \<Rightarrow> bool" where
  "boundedPolicy policy \<longleftrightarrow> validOOXMLPolicy policy \<and> op_MaxUncompressedBytes policy < 2 ^ 62"

lemma uint_small: "0 \<le> i \<Longrightarrow> i < 2 ^ 64 \<Longrightarrow> uint (word_of_int i :: uint64) = i"
  by (simp add: uint_word_of_int)

lemma recordPart_total: "recordPart sc name part = Some sc' \<Longrightarrow> sc_totalBytes sc' = sc_totalBytes sc"
  by (auto simp: recordPart_def Let_def split: if_splits)

lemma inspectEntry_accepts:
  assumes run: "inspectEntry e policy sc entry = Some sc'" and policy: "boundedPolicy policy"
    and total: "0 \<le> sc_totalBytes sc" "sc_totalBytes sc \<le> op_MaxUncompressedBytes policy"
  shows "acceptedEntry e policy entry"
    "sc_totalBytes sc' = sc_totalBytes sc + declaredBytes [entry]"
    "sc_totalBytes sc' \<le> op_MaxUncompressedBytes policy"
proof -
  let ?u = "ze_UncompressedSize64 entry"
  have safe: "safeArchiveEntry (ze_Name entry)" "\<not> ze_Encrypted entry"
    using run by (auto simp: inspectEntry_def Let_def split: if_splits)
  have bounds: "0 < op_MaxEntryUncompressedBytes policy" "op_MaxEntryUncompressedBytes policy < 2 ^ 62"
    "op_MaxCompressionRatio policy \<noteq> 0"
    using policy by (auto simp: boundedPolicy_def validOOXMLPolicy_def)
  have "acceptedEntry e policy entry \<and> sc_totalBytes sc' = sc_totalBytes sc + declaredBytes [entry] \<and>
    sc_totalBytes sc' \<le> op_MaxUncompressedBytes policy"
  proof (cases "ze_IsDir entry")
    case True
    with run safe have "sc' = sc" by (auto simp: inspectEntry_def Let_def)
    with True safe total show ?thesis by (simp add: acceptedEntry_def declaredBytes_def)
  next
    case False
    with run safe obtain stream bytes sc1 where
      guards: "\<not> word_of_int (op_MaxEntryUncompressedBytes policy) < ?u" "\<not> forbiddenOOXMLEntry (ze_Name entry)"
        "0 < ?u \<Longrightarrow> \<not> compressionRatioExceeded ?u (ze_CompressedSize64 entry) (op_MaxCompressionRatio policy)"
      and opened: "ze_Open entry = Some stream"
      and read: "readLimited (wrap64 (op_MaxEntryUncompressedBytes policy + 1)) stream = Inr bytes"
        "word_of_int (int (length bytes)) = ?u"
      and rels: "hasSuffix (toLower (ze_Name entry)) ''.rels'' \<Longrightarrow> \<not> unsafeRelationships e bytes"
      and sc1: "sc1 = sc\<lparr>sc_totalBytes := sc_totalBytes sc + int (length bytes)\<rparr>"
        "\<not> op_MaxUncompressedBytes policy < sc_totalBytes sc1" "recordPart sc1 (ze_Name entry) (if shouldInspectOOXMLPart (ze_Name entry) then bytes else '''') = Some sc'"
      by (auto simp: inspectEntry_def Let_def shouldInspectOOXMLPart_def split: if_splits option.splits sum.splits)
    have "length bytes \<le> nat (op_MaxEntryUncompressedBytes policy + 1)"
      using readLimited_value [OF read(1)] bounds by (simp add: wrap64_id)
    then have "int (length bytes) \<le> op_MaxEntryUncompressedBytes policy + 1" using bounds by linarith
    then have small: "int (length bytes) < 2 ^ 64" using bounds by simp
    have len: "uint ?u = int (length bytes)" unfolding read(2) [symmetric] using small by (intro uint_small) auto
    moreover have "uint (word_of_int (op_MaxEntryUncompressedBytes policy) :: uint64) = op_MaxEntryUncompressedBytes policy"
      using bounds by (intro uint_small) auto
    ultimately have le: "uint ?u \<le> op_MaxEntryUncompressedBytes policy"
      using guards(1) by (simp add: word_less_def)
    have "unat ?u \<le> unat (op_MaxCompressionRatio policy) * unat (ze_CompressedSize64 entry)"
    proof (cases "0 < ?u")
      case True
      with guards(3) have no: "\<not> compressionRatioExceeded ?u (ze_CompressedSize64 entry) (op_MaxCompressionRatio policy)"
        by blast
      then have "ze_CompressedSize64 entry \<noteq> 0" by (auto simp: compressionRatioExceeded_def)
      with no bounds(3) show ?thesis by (simp add: compressionRatio_iff)
    next
      case False
      then have "?u = 0" using word_neq_0_conv by blast
      then show ?thesis by simp
    qed
    moreover have "length bytes = unat ?u" using len by (metis nat_int unat_eq_nat_uint)
    then have "bytes = take (unat ?u) (fst stream)"
      using readLimited_value [OF read(1)] by (metis append_eq_conv_conj append_take_drop_id)
    ultimately have "acceptedEntry e policy entry"
      using safe guards(2) le rels opened unfolding acceptedEntry_def by blast
    with False len sc1 recordPart_total [OF sc1(3)] show ?thesis by (simp add: declaredBytes_def)
  qed
  then show "acceptedEntry e policy entry"
    "sc_totalBytes sc' = sc_totalBytes sc + declaredBytes [entry]"
    "sc_totalBytes sc' \<le> op_MaxUncompressedBytes policy" by auto
qed

lemma declaredBytes_Cons: "declaredBytes (entry # entries) = declaredBytes [entry] + declaredBytes entries"
  by (simp add: declaredBytes_def)

lemma declaredBytes_nonneg: "0 \<le> declaredBytes entries"
  unfolding declaredBytes_def by (rule sum_list_nonneg) auto

lemma inspectEntries_accepts:
  assumes "inspectEntries e policy sc entries = Some sc'" "boundedPolicy policy"
    "0 \<le> sc_totalBytes sc" "sc_totalBytes sc \<le> op_MaxUncompressedBytes policy"
  shows "(\<forall>entry \<in> set entries. acceptedEntry e policy entry) \<and>
    sc_totalBytes sc' = sc_totalBytes sc + declaredBytes entries \<and> sc_totalBytes sc' \<le> op_MaxUncompressedBytes policy"
  using assms
proof (induction entries arbitrary: sc)
  case Nil
  then show ?case by (simp add: declaredBytes_def)
next
  case (Cons entry entries)
  then obtain sc1 where step: "inspectEntry e policy sc entry = Some sc1" "inspectEntries e policy sc1 entries = Some sc'"
    by (auto split: option.splits)
  note one = inspectEntry_accepts [OF step(1) Cons.prems(2-4)]
  have "0 \<le> sc_totalBytes sc1" using one(2) Cons.prems(3) declaredBytes_nonneg [of "[entry]"] by simp
  with Cons.IH [OF step(2) Cons.prems(2)] one show ?case by (simp add: declaredBytes_Cons [of entry entries])
qed

lemma inspectOOXML_accepts:
  assumes "inspectOOXML e fileName (Some content) nbytes policy = Inr inspection" "boundedPolicy policy"
  obtains entries where
    "zipEntries e content nbytes = Some entries" "oi_EntryCount inspection = int (length entries)"
    "oi_EntryCount inspection \<le> op_MaxEntries policy"
    "\<forall>entry \<in> set entries. acceptedEntry e policy entry"
    "oi_UncompressedBytes inspection = declaredBytes entries" "0 < declaredBytes entries"
    "declaredBytes entries \<le> op_MaxUncompressedBytes policy"
    "officeMIME (toLower (fileExt fileName)) = Some (oi_MIMEType inspection)"
proof -
  from assms(1) obtain entries sc where
    e: "zipEntries e content nbytes = Some entries" "\<not> op_MaxEntries policy < int (length entries)"
    "inspectEntries e policy emptyScan entries = Some sc" "0 < sc_totalBytes sc"
    "officeMIME (toLower (fileExt fileName)) = Some (sc_packageMIME sc)"
    "inspection = \<lparr>oi_MIMEType = sc_packageMIME sc, oi_EntryCount = int (length entries), oi_UncompressedBytes = sc_totalBytes sc\<rparr>"
    by (auto simp: inspectOOXML_def split: if_splits option.splits)
  have "0 \<le> op_MaxUncompressedBytes policy" using assms(2) by (simp add: boundedPolicy_def validOOXMLPolicy_def)
  with inspectEntries_accepts [OF e(3) assms(2)] e that show ?thesis by (simp add: emptyScan_def)
qed

lemma boundedPolicy_default: "boundedPolicy defaultOOXMLPolicy"
  by (simp add: boundedPolicy_def validOOXMLPolicy_def defaultOOXMLPolicy_def defaultMaxFileBytes_def)

end
