(* ===== verification/Ragflow.thy ===== *)
theory Ragflow
  imports Ingest Go_Json
begin

text \<open>
  The client of the pinned RAGFlow service, \<^verbatim>\<open>services/knowledge/ragflow/client.go\<close>: its
  configuration, the requests it makes and what it accepts as an answer.

  The HTTP service is an argument \<open>http\<close>: from the history of engine calls and the request it
  gives the status and the body of the response, or nothing when the transport fails (a redirect,
  which the client rejects, is such a failure). \<open>withRagflow\<close> is the environment whose index
  engine is the client over such a service.

  The lemmas show what an accepted configuration is, that no request leaves the configured base
  address, and that whatever the service answers, the client's results are bounded and well formed.
\<close>

section \<open>Configuration\<close>

record Config =
  cfg_BaseURL :: string
  cfg_APIKey :: string
  cfg_DatasetID :: string
  cfg_AllowLoopbackHTTP :: bool
  cfg_AllowInternalHTTP :: bool
  cfg_InternalHTTPHost :: string
  cfg_Timeout :: int
  cfg_MaxUploadBytes :: int

record Client =
  cl_baseURL :: string
  cl_apiKey :: string
  cl_datasetID :: string
  cl_timeout :: int
  cl_maxUploadBytes :: int

definition DefaultHTTPTimeout :: int where
  "DefaultHTTPTimeout = 10 * second"

definition MaxResponseBytes :: int where
  "MaxResponseBytes = 2 ^ 20"

definition defaultUploadBytes :: int where
  "defaultUploadBytes = 32 * 2 ^ 20"

definition isLoopbackHost :: "(string \<Rightarrow> bool) \<Rightarrow> string \<Rightarrow> bool" where
  "isLoopbackHost loopbackIP host \<longleftrightarrow> (if equalFold host ''localhost'' then True else loopbackIP host)"

definition isInternalDockerHost :: "string \<Rightarrow> string \<Rightarrow> bool" where
  "isInternalDockerHost host configured =
     (let configuredHost = trimSpace configured in
      configuredHost \<noteq> '''' \<and> equalFold host configuredHost \<and>
      \<not> containsAny configuredHost (CHR 0x5C # ''.:/'') \<and> \<not> equalFold configuredHost ''localhost'')"

text \<open>\<^verbatim>\<open>^[A-Za-z0-9][A-Za-z0-9._:-]{0,254}$\<close>\<close>

definition validIdentifier :: "string \<Rightarrow> bool" where
  "validIdentifier s =
     (case s of [] \<Rightarrow> False
      | c # cs \<Rightarrow> isAlnum c \<and> length cs \<le> 254 \<and> list_all (\<lambda>c. isTokenChar c \<or> c = CHR '':'') cs)"

definition validIdentifiers :: "string list \<Rightarrow> bool" where
  "validIdentifiers is \<longleftrightarrow> length is \<noteq> 0 \<and> list_all validIdentifier is"

definition newClient :: "environment \<Rightarrow> Config \<Rightarrow> error + Client" where
  "newClient e config =
     (case urlParse e (trimSpace (cfg_BaseURL config)) of
        None \<Rightarrow> Inl (ErrorsNew ''invalid RAGFlow base URL'')
      | Some parsed \<Rightarrow>
        if url_Host parsed = '''' \<or> url_Scheme parsed = '''' \<or> url_HasUser parsed \<or> url_RawQuery parsed \<noteq> '''' \<or>
           url_Fragment parsed \<noteq> '''' then Inl (ErrorsNew ''invalid RAGFlow base URL'')
        else if url_Scheme parsed \<noteq> ''https'' \<and>
          (url_Scheme parsed \<noteq> ''http'' \<or>
           \<not> (cfg_AllowLoopbackHTTP config \<and> isLoopbackHost (isLoopbackIP e) (url_Hostname parsed)) \<and>
           \<not> (cfg_AllowInternalHTTP config \<and> isInternalDockerHost (url_Hostname parsed) (cfg_InternalHTTPHost config)))
        then Inl (ErrorsNew ''RAGFlow requires HTTPS'')
        else if trimSpace (cfg_APIKey config) = '''' \<or> \<not> validIdentifier (cfg_DatasetID config)
        then Inl (ErrorsNew ''invalid RAGFlow client configuration'')
        else if url_Path parsed \<noteq> '''' \<and> url_Path parsed \<noteq> ''/'' then Inl (ErrorsNew ''invalid RAGFlow base URL'')
        else
          let timeout = (if cfg_Timeout config \<le> 0 then DefaultHTTPTimeout else cfg_Timeout config);
              maxUploadBytes = (if cfg_MaxUploadBytes config = 0 then defaultUploadBytes else cfg_MaxUploadBytes config)
          in if maxUploadBytes < 0 \<or> defaultUploadBytes < maxUploadBytes
             then Inl (ErrorsNew ''invalid RAGFlow upload limit'')
             else Inr \<lparr>cl_baseURL = trimRight (\<lambda>c. c = CHR ''/'') (url_String parsed), cl_apiKey = cfg_APIKey config,
                    cl_datasetID = cfg_DatasetID config, cl_timeout = timeout, cl_maxUploadBytes = maxUploadBytes\<rparr>)"

section \<open>Checks of requests\<close>

definition safeFileName :: "string \<Rightarrow> bool" where
  "safeFileName s \<longleftrightarrow>
     s \<noteq> '''' \<and> length s \<le> 255 \<and> s = fileBase s \<and> \<not> containsAny s [CHR ''/'', CHR 0x5C, CHR '':'', CHR 0x00] \<and>
     \<not> hasControl s \<and> s = trimSpace s"

definition mapDocumentState :: "string \<Rightarrow> DocumentState option" where
  "mapDocumentState run =
     (let u = toUpper run in
      if u = ''UNSTART'' then Some DocumentStateUnstarted
      else if u = ''RUNNING'' then Some DocumentStateRunning
      else if u = ''DONE'' then Some DocumentStateDone
      else if u = ''FAIL'' \<or> u = ''CANCEL'' \<or> u = ''CANCELED'' then Some DocumentStateFailed
      else None)"

definition validGovernanceMetadata :: "GovernanceMetadata \<Rightarrow> bool" where
  "validGovernanceMetadata m =
     (if gm_SpaceID m \<le> 0 \<or> gm_DocumentID m \<le> 0 \<or> gm_RevisionID m \<le> 0 \<or> gm_PublicationID m \<le> 0 \<or>
         gm_PublicationGeneration m \<le> 0 \<or> gm_ACLPolicyVersion m \<le> 0 \<or> gm_RevocationGeneration m \<le> 0 \<or>
         length (gm_RevisionSHA256 m) \<noteq> 64 then False
      else case hexDecode (gm_RevisionSHA256 m) of None \<Rightarrow> False | Some decoded \<Rightarrow> length decoded = 32)"


section \<open>Requests\<close>

text \<open>The random boundary of a multipart body is left out; the form has the one file field.\<close>

datatype httpBody =
    MultipartFile string string string
  | JSONBody string

record httpRequest =
  hq_Method :: string
  hq_URL :: string
  hq_Authorization :: string
  hq_Body :: "httpBody option"

type_synonym httpService = "engineCall list \<Rightarrow> httpRequest \<Rightarrow> (int \<times> (string \<times> error option)) option"

definition datasetPath :: "Client \<Rightarrow> string list \<Rightarrow> string" where
  "datasetPath c segments = foldl (\<lambda>path segment. path @ ''/'' @ segment) (''/api/v1/datasets/'' @ cl_datasetID c) segments"

text \<open>\<open>url.QueryEscape\<close>\<close>

definition upperHexDigit :: "nat \<Rightarrow> char" where
  "upperHexDigit n = (if n < 10 then char_of (48 + n) else char_of (55 + n))"

definition queryEscapeChar :: "char \<Rightarrow> string" where
  "queryEscapeChar c =
     (if isTokenChar c \<or> c = CHR ''~'' then [c] else if c = CHR '' '' then ''+''
      else [CHR ''%'', upperHexDigit (of_char c div 16), upperHexDigit (of_char c mod 16)])"

definition queryEscape :: "string \<Rightarrow> string" where
  "queryEscape s = concat (map queryEscapeChar s)"

definition jsonStrings :: "string list \<Rightarrow> string" where
  "jsonStrings ss = ''['' @ joinStr '','' (map jsonQuote ss) @ '']''"

definition metadataBody :: "GovernanceMetadata \<Rightarrow> string" where
  "metadataBody m =
     jsonMap [(''meta_fields'', jsonMap
       [(''filebay_space_id'', itoa (gm_SpaceID m)),
        (''filebay_document_id'', itoa (gm_DocumentID m)),
        (''filebay_revision_id'', itoa (gm_RevisionID m)),
        (''filebay_publication_id'', itoa (gm_PublicationID m)),
        (''filebay_publication_generation'', itoa (gm_PublicationGeneration m)),
        (''filebay_revision_sha256'', jsonQuote (gm_RevisionSHA256 m)),
        (''filebay_acl_policy_version'', itoa (gm_ACLPolicyVersion m)),
        (''filebay_revocation_generation'', itoa (gm_RevocationGeneration m))])]"

definition retrievalTopK :: "int \<Rightarrow> int" where
  "retrievalTopK requested =
     (let topK = (if requested \<le> 0 then 10 else requested) in if 50 < topK then 50 else topK)"

section \<open>Responses\<close>

text \<open>
  \<open>json.Unmarshal\<close> into structs: unknown members are skipped, names match in any case, a repeated
  name decodes into the same field again. A slice is its backing array and its length; decoding
  into it again reuses the elements that are there. A raw message is the value itself, \<open>None\<close> when
  the member is missing.
\<close>

fun decodeFields :: "('a \<Rightarrow> string \<times> json \<Rightarrow> 'a option) \<Rightarrow> 'a \<Rightarrow> (string \<times> json) list \<Rightarrow> 'a option" where
  "decodeFields f a [] = Some a"
| "decodeFields f a (kv # kvs) = (case f a kv of None \<Rightarrow> None | Some a' \<Rightarrow> decodeFields f a' kvs)"

definition decodeStruct :: "('a \<Rightarrow> string \<times> json \<Rightarrow> 'a option) \<Rightarrow> 'a \<Rightarrow> json \<Rightarrow> 'a option" where
  "decodeStruct f old v = (case v of JNull \<Rightarrow> Some old | JObj kvs \<Rightarrow> decodeFields f old kvs | _ \<Rightarrow> None)"

fun decodeElements :: "('a \<Rightarrow> json \<Rightarrow> 'a option) \<Rightarrow> 'a \<Rightarrow> 'a list \<Rightarrow> json list \<Rightarrow> 'a list option" where
  "decodeElements f z old [] = Some old"
| "decodeElements f z old (v # vs) =
     (case f (case old of [] \<Rightarrow> z | x # _ \<Rightarrow> x) v of None \<Rightarrow> None
      | Some x \<Rightarrow> map_option (Cons x) (decodeElements f z (drop 1 old) vs))"

definition decodeSlice :: "('a \<Rightarrow> json \<Rightarrow> 'a option) \<Rightarrow> 'a \<Rightarrow> 'a list \<times> nat \<Rightarrow> json \<Rightarrow> ('a list \<times> nat) option" where
  "decodeSlice f z old v =
     (case v of
        JNull \<Rightarrow> Some ([], 0)
      | JArr [] \<Rightarrow> Some ([], 0)
      | JArr vs \<Rightarrow> map_option (\<lambda>backing. (backing, length vs)) (decodeElements f z (fst old) vs)
      | _ \<Rightarrow> None)"

definition sliceElements :: "'a list \<times> nat \<Rightarrow> 'a list" where
  "sliceElements s = take (snd s) (fst s)"

definition decodeText :: "string \<Rightarrow> json \<Rightarrow> string option" where
  "decodeText old v = (case v of JNull \<Rightarrow> Some old | JStr s \<Rightarrow> Some s | _ \<Rightarrow> None)"

definition decodeFloat :: "(string \<Rightarrow> float64 option) \<Rightarrow> float64 \<Rightarrow> json \<Rightarrow> float64 option" where
  "decodeFloat parse old v = (case v of JNull \<Rightarrow> Some old | JNum s \<Rightarrow> parse s | _ \<Rightarrow> None)"

record responseEnvelope =
  env_Code :: int
  env_Data :: "json option"

definition decodeEnvelopeField :: "responseEnvelope \<Rightarrow> string \<times> json \<Rightarrow> responseEnvelope option" where
  "decodeEnvelopeField r kv =
     (if equalFold (fst kv) ''code'' then map_option (\<lambda>n. r\<lparr>env_Code := n\<rparr>) (decodeInt (env_Code r) (snd kv))
      else if equalFold (fst kv) ''data'' then Some (r\<lparr>env_Data := Some (snd kv)\<rparr>)
      else Some r)"

definition decodeEnvelope :: "string \<Rightarrow> responseEnvelope option" where
  "decodeEnvelope body =
     (case jsonParse body of None \<Rightarrow> None
      | Some v \<Rightarrow> decodeStruct decodeEnvelopeField \<lparr>env_Code = 0, env_Data = None\<rparr> v)"

text \<open>\<open>do\<close>: one request and the envelope of its answer.\<close>

definition doRequest ::
  "environment \<Rightarrow> httpService \<Rightarrow> Client \<Rightarrow> engineCall list \<Rightarrow> string \<Rightarrow> string \<Rightarrow> httpBody option \<Rightarrow> string \<Rightarrow>
   error + responseEnvelope" where
  "doRequest e http c h method path body operation =
     (if urlParse e (cl_baseURL c @ path) = None then Inl (ErrorsNew (operation @ '': build request''))
      else
      case http h \<lparr>hq_Method = method, hq_URL = cl_baseURL c @ path, hq_Authorization = ''Bearer '' @ cl_apiKey c,
                   hq_Body = body\<rparr> of
        None \<Rightarrow> Inl (ErrorsNew (operation @ '': RAGFlow transport failed''))
      | Some (status, stream) \<Rightarrow>
        (case readLimited (MaxResponseBytes + 1) stream of
           Inl _ \<Rightarrow> Inl (ErrorsNew (operation @ '': read RAGFlow response''))
         | Inr responseBody \<Rightarrow>
           if MaxResponseBytes < int (length responseBody)
           then Inl (ErrorsNew (operation @ '': RAGFlow response exceeds limit''))
           else if status < 200 \<or> 300 \<le> status
           then Inl (ErrorsNew (operation @ '': RAGFlow HTTP status '' @ itoa status))
           else (case decodeEnvelope responseBody of
                   None \<Rightarrow> Inl (ErrorsNew (operation @ '': invalid RAGFlow response''))
                 | Some envelope \<Rightarrow>
                   if env_Code envelope \<noteq> 0
                   then Inl (ErrorsNew (operation @ '': RAGFlow business code '' @ itoa (env_Code envelope)))
                   else Inr envelope)))"


section \<open>The client's operations\<close>

record remoteDocument =
  rd_ID :: string
  rd_Run :: string
  rd_ChunkCount :: int

definition emptyRemoteDocument :: remoteDocument where
  "emptyRemoteDocument = \<lparr>rd_ID = '''', rd_Run = '''', rd_ChunkCount = 0\<rparr>"

definition decodeUploadField :: "string \<Rightarrow> string \<times> json \<Rightarrow> string option" where
  "decodeUploadField old kv = (if equalFold (fst kv) ''id'' then decodeText old (snd kv) else Some old)"

definition decodeRemoteField :: "remoteDocument \<Rightarrow> string \<times> json \<Rightarrow> remoteDocument option" where
  "decodeRemoteField r kv =
     (if equalFold (fst kv) ''id'' then map_option (\<lambda>s. r\<lparr>rd_ID := s\<rparr>) (decodeText (rd_ID r) (snd kv))
      else if equalFold (fst kv) ''run'' then map_option (\<lambda>s. r\<lparr>rd_Run := s\<rparr>) (decodeText (rd_Run r) (snd kv))
      else if equalFold (fst kv) ''chunk_count''
      then map_option (\<lambda>n. r\<lparr>rd_ChunkCount := n\<rparr>) (decodeInt (rd_ChunkCount r) (snd kv))
      else Some r)"

definition emptyChunk :: RetrievedChunk where
  "emptyChunk = \<lparr>rk_ID = '''', rk_DocumentID = '''', rk_Content = '''', rk_Similarity = 0\<rparr>"

definition decodeChunkField :: "(string \<Rightarrow> float64 option) \<Rightarrow> RetrievedChunk \<Rightarrow> string \<times> json \<Rightarrow> RetrievedChunk option" where
  "decodeChunkField parse r kv =
     (if equalFold (fst kv) ''id'' then map_option (\<lambda>s. r\<lparr>rk_ID := s\<rparr>) (decodeText (rk_ID r) (snd kv))
      else if equalFold (fst kv) ''document_id''
      then map_option (\<lambda>s. r\<lparr>rk_DocumentID := s\<rparr>) (decodeText (rk_DocumentID r) (snd kv))
      else if equalFold (fst kv) ''content'' then map_option (\<lambda>s. r\<lparr>rk_Content := s\<rparr>) (decodeText (rk_Content r) (snd kv))
      else if equalFold (fst kv) ''similarity''
      then map_option (\<lambda>x. r\<lparr>rk_Similarity := x\<rparr>) (decodeFloat parse (rk_Similarity r) (snd kv))
      else Some r)"

text \<open>The list under one name of a struct.\<close>

definition decodeListField ::
  "string \<Rightarrow> ('a \<Rightarrow> string \<times> json \<Rightarrow> 'a option) \<Rightarrow> 'a \<Rightarrow> 'a list \<times> nat \<Rightarrow> string \<times> json \<Rightarrow> ('a list \<times> nat) option" where
  "decodeListField name f z old kv =
     (if equalFold (fst kv) name then decodeSlice (decodeStruct f) z old (snd kv) else Some old)"

definition decodeUploaded :: "json option \<Rightarrow> string list option" where
  "decodeUploaded data = map_option sliceElements
     (Option.bind data (decodeSlice (decodeStruct decodeUploadField) '''' ([], 0)))"

definition decodeStatus :: "json option \<Rightarrow> remoteDocument list option" where
  "decodeStatus data = map_option sliceElements
     (Option.bind data (decodeStruct (decodeListField ''docs'' decodeRemoteField emptyRemoteDocument) ([], 0)))"

definition decodeChunks :: "(string \<Rightarrow> float64 option) \<Rightarrow> json option \<Rightarrow> RetrievedChunk list option" where
  "decodeChunks parse data = map_option sliceElements
     (Option.bind data (decodeStruct (decodeListField ''chunks'' (decodeChunkField parse) emptyChunk) ([], 0)))"

definition clientUpload :: "environment \<Rightarrow> httpService \<Rightarrow> Client \<Rightarrow> engineCall list \<Rightarrow> UploadRequest \<Rightarrow> error + string" where
  "clientUpload e http c h upload =
     (if \<not> safeFileName (ur_FileName upload) \<or> ur_Size upload \<le> 0 \<or> cl_maxUploadBytes c < ur_Size upload
      then Inl (ErrorsNew ''upload: invalid masked artifact'')
      else
        let written = take (nat (ur_Size upload + 1)) (ur_Content upload) in
        if int (length written) \<noteq> ur_Size upload then Inl (ErrorsNew ''upload: masked artifact size mismatch'')
        else
        case doRequest e http c h ''POST'' (datasetPath c [''documents''])
               (Some (MultipartFile ''file'' (ur_FileName upload) written)) ''upload'' of
          Inl err \<Rightarrow> Inl err
        | Inr envelope \<Rightarrow>
          (case decodeUploaded (env_Data envelope) of
             None \<Rightarrow> Inl (ErrorsNew ''upload: invalid RAGFlow response'')
           | Some uploadedDocs \<Rightarrow>
             (case uploadedDocs of
                [i] \<Rightarrow> if \<not> validIdentifier i then Inl (ErrorsNew ''upload: invalid RAGFlow response'') else Inr i
              | _ \<Rightarrow> Inl (ErrorsNew ''upload: invalid RAGFlow response''))))"

definition clientSetMetadata ::
  "environment \<Rightarrow> httpService \<Rightarrow> Client \<Rightarrow> engineCall list \<Rightarrow> string \<Rightarrow> GovernanceMetadata \<Rightarrow> error option" where
  "clientSetMetadata e http c h documentID metadata =
     (if \<not> validIdentifier documentID then Some (ErrorsNew ''metadata: invalid document identifier'')
      else if \<not> validGovernanceMetadata metadata then Some (ErrorsNew ''metadata: invalid governance values'')
      else case doRequest e http c h ''PUT'' (datasetPath c [''documents'', documentID])
                  (Some (JSONBody (metadataBody metadata))) ''metadata'' of
             Inl err \<Rightarrow> Some err | Inr _ \<Rightarrow> None)"

definition clientStartParsing ::
  "environment \<Rightarrow> httpService \<Rightarrow> Client \<Rightarrow> engineCall list \<Rightarrow> string list \<Rightarrow> error option" where
  "clientStartParsing e http c h documentIDs =
     (if \<not> validIdentifiers documentIDs then Some (ErrorsNew ''parse: invalid document identifiers'')
      else case doRequest e http c h ''POST'' (datasetPath c [''chunks''])
                  (Some (JSONBody (jsonMap [(''document_ids'', jsonStrings documentIDs)]))) ''parse'' of
             Inl err \<Rightarrow> Some err | Inr _ \<Rightarrow> None)"

definition clientGetDocumentStatus ::
  "environment \<Rightarrow> httpService \<Rightarrow> Client \<Rightarrow> engineCall list \<Rightarrow> string \<Rightarrow> error + DocumentState" where
  "clientGetDocumentStatus e http c h documentID =
     (if \<not> validIdentifier documentID then Inl (ErrorsNew ''status: invalid document identifier'')
      else case doRequest e http c h ''GET'' (datasetPath c [''documents''] @ ''?id='' @ queryEscape documentID) None ''status'' of
        Inl err \<Rightarrow> Inl err
      | Inr envelope \<Rightarrow>
        (case decodeStatus (env_Data envelope) of
           None \<Rightarrow> Inl (ErrorsNew ''status: invalid RAGFlow response'')
         | Some docs \<Rightarrow>
           (case docs of
              [doc] \<Rightarrow>
                if rd_ID doc \<noteq> documentID \<or> rd_ChunkCount doc < 0
                then Inl (ErrorsNew ''status: invalid RAGFlow response'')
                else (case mapDocumentState (rd_Run doc) of
                        None \<Rightarrow> Inl (ErrorsNew ''status: unknown RAGFlow document state'')
                      | Some state \<Rightarrow> Inr state)
            | _ \<Rightarrow> Inl (ErrorsNew ''status: invalid RAGFlow response''))))"

definition clientDeleteDocuments ::
  "environment \<Rightarrow> httpService \<Rightarrow> Client \<Rightarrow> engineCall list \<Rightarrow> string list \<Rightarrow> error option" where
  "clientDeleteDocuments e http c h documentIDs =
     (if \<not> validIdentifiers documentIDs then Some (ErrorsNew ''delete: invalid document identifiers'')
      else case doRequest e http c h ''DELETE'' (datasetPath c [''documents''])
                  (Some (JSONBody (jsonMap [(''ids'', jsonStrings documentIDs)]))) ''delete'' of
             Inl err \<Rightarrow> Some err | Inr _ \<Rightarrow> None)"

definition invalidChunk :: "RetrievedChunk \<Rightarrow> bool" where
  "invalidChunk chunk \<longleftrightarrow>
     \<not> validIdentifier (rk_ID chunk) \<or> \<not> validIdentifier (rk_DocumentID chunk) \<or> length (rk_Content chunk) = 0 \<or>
     64 * 1024 < length (rk_Content chunk)"

definition clientRetrievePublication ::
  "environment \<Rightarrow> httpService \<Rightarrow> Client \<Rightarrow> engineCall list \<Rightarrow> RetrievalRequest \<Rightarrow> error + RetrievedChunk list" where
  "clientRetrievePublication e http c h request =
     (let question = trimSpace (rr_Question request) in
      if question = '''' \<or> 16 * 1024 < length question \<or> rr_PublicationID request \<le> 0 \<or>
         rr_PublicationGeneration request \<le> 0 then Inl (ErrorsNew ''retrieve: invalid request'')
      else
        let topK = retrievalTopK (rr_TopK request) in
        case doRequest e http c h ''POST'' ''/api/v1/retrieval''
               (Some (JSONBody (jsonMap [(''question'', jsonQuote question), (''dataset_ids'', jsonStrings [cl_datasetID c]),
                                          (''page_size'', itoa topK)]))) ''retrieve'' of
          Inl err \<Rightarrow> Inl err
        | Inr envelope \<Rightarrow>
          (case decodeChunks (parseFloat e) (env_Data envelope) of
             None \<Rightarrow> Inl (ErrorsNew ''retrieve: invalid RAGFlow response'')
           | Some chunks \<Rightarrow>
             if topK < int (length chunks) then Inl (ErrorsNew ''retrieve: RAGFlow response exceeds limit'')
             else if list_ex invalidChunk chunks then Inl (ErrorsNew ''retrieve: invalid RAGFlow chunk'')
             else Inr chunks))"


section \<open>The client as the index engine\<close>

definition requestOf :: "engineCall list \<Rightarrow> (engineCall \<Rightarrow> error + 'a) \<Rightarrow> error + 'a" where
  "requestOf h respond = (if h = [] then Inl (ErrorsNew ''no request'') else respond (last h))"

definition errorOf :: "error + unit \<Rightarrow> error option" where
  "errorOf r = (case r of Inl e \<Rightarrow> Some e | Inr _ \<Rightarrow> None)"

definition unexpectedCall :: error where
  "unexpectedCall = ErrorsNew ''unexpected call''"

definition withRagflow :: "httpService \<Rightarrow> Client \<Rightarrow> environment \<Rightarrow> environment" where
  "withRagflow http c e = e\<lparr>
     engUpload := (\<lambda>h. requestOf h (\<lambda>call. case call of
       CallUpload r \<Rightarrow> map_sum id Some (clientUpload e http c h r) | _ \<Rightarrow> Inl unexpectedCall)),
     engSetMetadata := (\<lambda>h. errorOf (requestOf h (\<lambda>call. case call of
       CallSetMetadata i m \<Rightarrow> optionError (clientSetMetadata e http c h i m) | _ \<Rightarrow> Inl unexpectedCall))),
     engStartParsing := (\<lambda>h. errorOf (requestOf h (\<lambda>call. case call of
       CallStartParsing is \<Rightarrow> optionError (clientStartParsing e http c h is) | _ \<Rightarrow> Inl unexpectedCall))),
     engGetDocumentStatus := (\<lambda>h. requestOf h (\<lambda>call. case call of
       CallGetDocumentStatus i \<Rightarrow> clientGetDocumentStatus e http c h i | _ \<Rightarrow> Inl unexpectedCall)),
     engDeleteDocuments := (\<lambda>h. errorOf (requestOf h (\<lambda>call. case call of
       CallDeleteDocuments is \<Rightarrow> optionError (clientDeleteDocuments e http c h is) | _ \<Rightarrow> Inl unexpectedCall))),
     engRetrieve := (\<lambda>h. requestOf h (\<lambda>call. case call of
       CallRetrieve r \<Rightarrow> clientRetrievePublication e http c h r | _ \<Rightarrow> Inl unexpectedCall))\<rparr>"

text \<open>The client that indexing and retrieval make from the settings.\<close>

definition knowledgeConfig :: "KnowledgeSetting \<Rightarrow> Config" where
  "knowledgeConfig k =
     \<lparr>cfg_BaseURL = ks_RAGFlowBaseURL k, cfg_APIKey = ks_RAGFlowAPIKey k, cfg_DatasetID = ks_RAGFlowDatasetID k,
      cfg_AllowLoopbackHTTP = ks_AllowLoopbackHTTP k, cfg_AllowInternalHTTP = ks_AllowInternalHTTP k,
      cfg_InternalHTTPHost = ks_InternalHTTPHost k, cfg_Timeout = ks_HTTPTimeout k,
      cfg_MaxUploadBytes = ks_MaxFileSize k\<rparr>"

lemmas ragflow_eval [eval_simps] =
  isLoopbackHost_def isInternalDockerHost_def validIdentifier_def validIdentifiers_def newClient_def Let_def
  safeFileName_def mapDocumentState_def validGovernanceMetadata_def datasetPath_def upperHexDigit_def
  queryEscapeChar_def queryEscape_def jsonStrings_def metadataBody_def retrievalTopK_def decodeStruct_def
  decodeSlice_def sliceElements_def decodeText_def decodeFloat_def decodeEnvelopeField_def decodeEnvelope_def
  doRequest_def decodeUploadField_def decodeRemoteField_def decodeChunkField_def decodeListField_def
  decodeUploaded_def decodeStatus_def decodeChunks_def

section \<open>What the client guarantees\<close>

text \<open>A chain of refusals, without splitting it.\<close>

lemma refused_iff: "(if c then Inl e else x) = Inr r \<longleftrightarrow> \<not> c \<and> x = Inr r"
  by simp

lemma found_iff: "(case x of None \<Rightarrow> Inl e | Some a \<Rightarrow> k a) = Inr r \<longleftrightarrow> (\<exists>a. x = Some a \<and> k a = Inr r)"
  by (cases x) simp_all

lemma answered_iff: "(case x of Inl e \<Rightarrow> Inl (f e) | Inr a \<Rightarrow> k a) = Inr r \<longleftrightarrow> (\<exists>a. x = Inr a \<and> k a = Inr r)"
  by (cases x) simp_all

lemma single_iff:
  "(case xs of [] \<Rightarrow> Inl e | a # as \<Rightarrow> (case as of [] \<Rightarrow> k a | _ # _ \<Rightarrow> Inl e)) = Inr r \<longleftrightarrow> (\<exists>a. xs = [a] \<and> k a = Inr r)"
  by (auto split: list.splits)

lemmas refusals = refused_iff found_iff answered_iff single_iff

lemma newClient_accepts:
  assumes "newClient e config = Inr c"
  obtains u where "urlParse e (trimSpace (cfg_BaseURL config)) = Some u" "\<not> url_HasUser u" "url_RawQuery u = ''''"
    "url_Scheme u = ''https'' \<or>
     url_Scheme u = ''http'' \<and>
       (cfg_AllowLoopbackHTTP config \<and> isLoopbackHost (isLoopbackIP e) (url_Hostname u) \<or>
        cfg_AllowInternalHTTP config \<and> isInternalDockerHost (url_Hostname u) (cfg_InternalHTTPHost config))"
    "cl_baseURL c = trimRight (\<lambda>c. c = CHR ''/'') (url_String u)" "cl_apiKey c = cfg_APIKey config"
    "cl_datasetID c = cfg_DatasetID config" "validIdentifier (cl_datasetID c)"
    "0 < cl_timeout c" "0 < cl_maxUploadBytes c" "cl_maxUploadBytes c \<le> 33554432"
  using assms
  by (auto simp: newClient_def Let_def refusals defaultUploadBytes_def DefaultHTTPTimeout_def second_def intro!: that)

text \<open>
  The settings' validation and the client's agree on the transport; what is left to the client is
  the form of the dataset's identifier and its own limit of an upload.
\<close>

lemma newClient_of_settings:
  assumes "validateKnowledgeSettings (urlParse e) (isLoopbackIP e) production testing k = None" "ks_Enabled k"
  shows "(\<exists>c. newClient e (knowledgeConfig k) = Inr c) \<longleftrightarrow>
    validIdentifier (ks_RAGFlowDatasetID k) \<and> ks_MaxFileSize k \<le> 33554432"
proof -
  have host: "isKnowledgeInternalDockerHost = isInternalDockerHost" "isKnowledgeLoopbackHost = isLoopbackHost"
    by (intro ext, simp add: isKnowledgeInternalDockerHost_def isInternalDockerHost_def
        isKnowledgeLoopbackHost_def isLoopbackHost_def)+
  obtain u where u: "urlParse e (trimSpace (ks_RAGFlowBaseURL k)) = Some u" "url_Scheme u \<noteq> ''''" "url_Host u \<noteq> ''''"
    "\<not> url_HasUser u" "url_RawQuery u = ''''" "url_Fragment u = ''''" "url_Path u = '''' \<or> url_Path u = ''/''"
    "url_Scheme u = ''https'' \<or>
      url_Scheme u = ''http'' \<and>
      (ks_AllowLoopbackHTTP k \<and> isLoopbackHost (isLoopbackIP e) (url_Hostname u) \<or>
       ks_AllowInternalHTTP k \<and> isInternalDockerHost (url_Hostname u) (ks_InternalHTTPHost k))"
    using validateKnowledgeSettings_url [OF assms] by (auto simp: host)
  moreover have "trimSpace (ks_RAGFlowAPIKey k) \<noteq> ''''" "0 < ks_MaxFileSize k"
    using validateKnowledgeSettings_None [OF assms] by simp_all
  ultimately show ?thesis
    by (auto simp: newClient_def knowledgeConfig_def Let_def refusals defaultUploadBytes_def)
qed

lemma clientUpload_accepts:
  assumes "clientUpload e http c h u = Inr i"
  shows "validIdentifier i \<and> safeFileName (ur_FileName u) \<and> 0 < ur_Size u \<and> ur_Size u \<le> cl_maxUploadBytes c \<and>
    int (length (ur_Content u)) = ur_Size u"
  using assms
  by (auto simp: clientUpload_def Let_def min_def refusals split: list.splits if_splits)

lemma clientRetrieve_accepts:
  assumes "clientRetrievePublication e http c h r = Inr chunks"
  shows "length chunks \<le> 50"
    and "chunk \<in> set chunks \<Longrightarrow> validIdentifier (rk_DocumentID chunk) \<and> 0 < length (rk_Content chunk) \<and>
      length (rk_Content chunk) \<le> 65536"
  using assms
  by (auto simp: clientRetrievePublication_def Let_def retrievalTopK_def list_ex_iff invalidChunk_def refusals
      split: if_splits)

text \<open>
  The client looks at the service only through requests to its own base address that carry its
  key and, but for retrieval, name its dataset.
\<close>

definition ownRequest :: "Client \<Rightarrow> httpRequest \<Rightarrow> bool" where
  "ownRequest c r \<longleftrightarrow>
     (\<exists>path. hq_URL r = cl_baseURL c @ path \<and>
        (hasPrefix path (''/api/v1/datasets/'' @ cl_datasetID c) \<or> path = ''/api/v1/retrieval'')) \<and>
     hq_Authorization r = ''Bearer '' @ cl_apiKey c"

definition sameService :: "Client \<Rightarrow> httpService \<Rightarrow> httpService \<Rightarrow> bool" where
  "sameService c http http' \<longleftrightarrow> (\<forall>h r. ownRequest c r \<longrightarrow> http h r = http' h r)"

lemma datasetPath_prefix: "\<exists>rest. datasetPath c segments = ''/api/v1/datasets/'' @ cl_datasetID c @ rest"
proof -
  have "\<exists>rest. foldl (\<lambda>path segment. path @ ''/'' @ segment) p segments = p @ rest" for p
    by (induction segments arbitrary: p) (auto, metis append.assoc append_Cons)
  from this [of "''/api/v1/datasets/'' @ cl_datasetID c"] show ?thesis
    unfolding datasetPath_def by (simp only: append_assoc)
qed

lemma doRequest_confined:
  assumes "sameService c http http'"
  shows "doRequest e http c h m (datasetPath c segs @ arguments) b op = doRequest e http' c h m (datasetPath c segs @ arguments) b op"
    and "doRequest e http c h m (datasetPath c segs) b op = doRequest e http' c h m (datasetPath c segs) b op"
    and "doRequest e http c h m ''/api/v1/retrieval'' b op = doRequest e http' c h m ''/api/v1/retrieval'' b op"
proof -
  obtain rest where path: "datasetPath c segs = ''/api/v1/datasets/'' @ cl_datasetID c @ rest"
    using datasetPath_prefix by blast
  have own: "ownRequest c \<lparr>hq_Method = m, hq_URL = cl_baseURL c @ p, hq_Authorization = ''Bearer '' @ cl_apiKey c, hq_Body = b\<rparr>"
    if "hasPrefix p (''/api/v1/datasets/'' @ cl_datasetID c) \<or> p = ''/api/v1/retrieval''" for p
    using that by (auto simp only: ownRequest_def httpRequest.simps append_same_eq)
  show "doRequest e http c h m (datasetPath c segs @ arguments) b op = doRequest e http' c h m (datasetPath c segs @ arguments) b op"
    "doRequest e http c h m (datasetPath c segs) b op = doRequest e http' c h m (datasetPath c segs) b op"
    "doRequest e http c h m ''/api/v1/retrieval'' b op = doRequest e http' c h m ''/api/v1/retrieval'' b op"
    using assms own unfolding sameService_def doRequest_def
    by (simp_all only: path hasPrefix_iff append_assoc prefix_def simp_thms) auto
qed

lemma client_confined:
  assumes "sameService c http http'"
  shows "withRagflow http c e = withRagflow http' c e"
proof -
  note same = doRequest_confined [OF assms]
  have "clientUpload e http c h r = clientUpload e http' c h r"
    "clientSetMetadata e http c h i m = clientSetMetadata e http' c h i m"
    "clientStartParsing e http c h is = clientStartParsing e http' c h is"
    "clientGetDocumentStatus e http c h i = clientGetDocumentStatus e http' c h i"
    "clientDeleteDocuments e http c h is = clientDeleteDocuments e http' c h is"
    "clientRetrievePublication e http c h q = clientRetrievePublication e http' c h q" for h r i m "is" q
    unfolding clientUpload_def clientSetMetadata_def clientStartParsing_def clientGetDocumentStatus_def
      clientDeleteDocuments_def clientRetrievePublication_def same
    by (rule refl)+
  then show ?thesis unfolding withRagflow_def by presburger
qed

end
