(* ===== verification/Operations.thy ===== *)
theory Operations
  imports DataSources Indexer Ragflow
begin

text \<open>
  The operations of \<^verbatim>\<open>services/knowledge/catalog/catalog.go\<close> on publications and their index: running
  and retrying index jobs, activation, unpublication, expiry of data sources, and the
  reconciliation of bindings. The two that have the name of an operation of the model are
  \<open>catalogActivate\<close> and \<open>catalogUnpublish\<close>.
\<close>

section \<open>Index jobs\<close>

definition ValidateKnowledgeSettings :: "unit prog" where
  "ValidateKnowledgeSettings =
     andThen (askEnv (\<lambda>e. validateKnowledgeSettings (urlParse e) (isLoopbackIP e) (isProd e) (isInTesting e) (setting e)))
     (\<lambda>r. case r of None \<Rightarrow> ret () | Some problem \<Rightarrow> raise (ErrSetting problem))"

definition orRaise :: "error + 'a \<Rightarrow> 'a prog" where
  "orRaise r = (case r of Inl e \<Rightarrow> raise e | Inr a \<Rightarrow> ret a)"

text \<open>The processor talks to the engine of the environment: the client that was just made.\<close>

definition ProcessIndexJobSystem :: "int \<Rightarrow> unit prog" where
  "ProcessIndexJobSystem jobID =
     andThen ValidateKnowledgeSettings (\<lambda>_.
     andThen (askEnv (\<lambda>e. newClient e (knowledgeConfig (setting e)))) (\<lambda>engine.
     andThen (orRaise engine) (\<lambda>_.
     andThen (askEnv (\<lambda>e. newProcessor ''ragflow'' (ks_RAGFlowDatasetID (setting e)))) (\<lambda>created.
     andThen (orRaise created) (\<lambda>processor.
     processJob processor jobID)))))"

definition ProcessIndexJob :: "int \<Rightarrow> int \<Rightarrow> unit prog" where
  "ProcessIndexJob jobID actorID =
     andThen (onErr (Errorf ''load knowledge job actor'') (getUserByID actorID)) (\<lambda>actor.
     if \<not> user_IsAdmin actor then raise (ErrorsNew ''knowledge index job processing requires an administrator'')
     else ProcessIndexJobSystem jobID)"

definition requeueJob :: "unit \<Rightarrow> IndexJob \<Rightarrow> unit prog" where
  "requeueJob u job =
     andThen (onErr (Errorf ''requeue knowledge index job'')
       (updateRows indexJobs indexJobs_update (\<lambda>j. job_ID j = job_ID job)
         (\<lambda>t j. job_touch t (j\<lparr>job_Status := IndexJobStatusRetry, job_Attempt := 0, job_LastError := ''''\<rparr>)))) (\<lambda>_. ret ())"

definition requeueJobs :: "int \<Rightarrow> Publication \<Rightarrow> unit prog" where
  "requeueJobs publicationID publication =
     andThen (onErr (Errorf ''list retryable knowledge index jobs'')
       (findRows indexJobs (\<lambda>j. job_PublicationID j = publicationID \<and>
          (job_JobType j = IndexJobTypeUpsert \<or> job_JobType j = IndexJobTypePoll)))) (\<lambda>jobs.
     if length jobs = 0 then raise (ErrorsNew ''no retryable knowledge index jobs found'')
     else
     andThen (foldM requeueJob () jobs) (\<lambda>_.
     andThen (onErr (Errorf ''requeue knowledge publication'')
       (updateRows publications publications_update (\<lambda>p. pub_ID p = pub_ID publication)
         (\<lambda>t p. pub_touch t (p\<lparr>pub_IndexStatus := IndexStatusQueued\<rparr>)))) (\<lambda>_. ret ())))"

definition RetryPublicationIndex :: "int \<Rightarrow> int \<Rightarrow> unit prog" where
  "RetryPublicationIndex publicationID actorID =
     andThen (adminOr (ErrorsNew ''knowledge index retry requires an administrator'') actorID) (\<lambda>_.
     andThen (foundOr (ErrorsNew ''knowledge publication not found'') (getByID pub_ID publications publicationID)) (\<lambda>publication.
     if pub_GovernanceStatus publication \<noteq> GovernanceStatusApproved \<or>
        pub_ValidityStatus publication \<noteq> ValidityStatusScheduled \<or> pub_IndexStatus publication \<noteq> IndexStatusFailed
     then raise (ErrorsNew ''knowledge publication is not eligible for reindex'')
     else withTx (requeueJobs publicationID publication)))"

section \<open>Activation and unpublication\<close>

text \<open>\<open>source.ExpiresUnix > 0 && timeutil.TimeStampNow() >= source.ExpiresUnix\<close>; the clock is read only
  for a source that expires.\<close>

definition sourceExpired :: "DataSource \<Rightarrow> bool prog" where
  "sourceExpired source =
     (if 0 < ds_ExpiresUnix source then andThen timeStampNow (\<lambda>now. ret (ds_ExpiresUnix source \<le> now)) else ret False)"

definition ineligibleSource :: "DataSource \<Rightarrow> bool" where
  "ineligibleSource source \<longleftrightarrow>
     ds_Status source \<noteq> DataSourceStatusEnabled \<or> ds_SecurityLevel source = SecurityLevelProhibited"

definition catalogActivate :: "int \<Rightarrow> int \<Rightarrow> unit prog" where
  "catalogActivate publicationID actorID =
     andThen (adminOr (ErrorsNew ''knowledge publication activation requires an administrator'') actorID) (\<lambda>_.
     andThen (foundOr (ErrorsNew ''knowledge publication not found'') (getByID pub_ID publications publicationID)) (\<lambda>publication.
     andThen (foundOr (ErrorsNew ''knowledge document not found'') (getByID doc_ID documents (pub_DocumentID publication))) (\<lambda>document.
     andThen (foundOr (ErrorsNew ''knowledge data source is not eligible for publication'')
       (getByID ds_ID dataSources (doc_DataSourceID document))) (\<lambda>source.
     if ineligibleSource source then raise (ErrorsNew ''knowledge data source is not eligible for publication'')
     else
     andThen (sourceExpired source) (\<lambda>expired.
     if expired then raise (ErrorsNew ''knowledge data source is not eligible for publication'')
     else
     andThen (askEnv setting) (\<lambda>k.
     andThen timeNow (\<lambda>nanos.
     ActivatePublication
       \<lparr>apo_PublicationID = pub_ID publication, apo_ActorID = actorID,
        apo_ExpectedPublicationGeneration = pub_Generation publication,
        apo_ExpectedRevocationGeneration = pub_RevocationGeneration publication,
        apo_EngineProfileVersion = ks_EngineProfileVersion k,
        apo_TraceID = ''web-activate-'' @ itoa (pub_ID publication) @ ''-'' @ itoa nanos\<rparr>)))))))"

definition catalogUnpublish :: "int \<Rightarrow> int \<Rightarrow> string \<Rightarrow> unit prog" where
  "catalogUnpublish publicationID actorID reason =
     andThen (adminOr (ErrorsNew ''knowledge unpublish requires an administrator'') actorID) (\<lambda>_.
     andThen (foundOr (ErrorsNew ''knowledge publication not found'') (getByID pub_ID publications publicationID)) (\<lambda>publication.
     andThen (askEnv setting) (\<lambda>k.
     andThen timeNow (\<lambda>nanos.
     UnpublishPublication
       \<lparr>upo_PublicationID = pub_ID publication, upo_ActorID = actorID,
        upo_ExpectedPublicationGeneration = pub_Generation publication,
        upo_ExpectedRevocationGeneration = pub_RevocationGeneration publication,
        upo_EngineProfileVersion = ks_EngineProfileVersion k,
        upo_TraceID = ''web-unpublish-'' @ itoa (pub_ID publication) @ ''-'' @ itoa nanos,
        upo_Reason = trimSpace reason\<rparr>))))"


section \<open>Reconciliation\<close>

definition bindingReconciliationBatchSize :: nat where
  "bindingReconciliationBatchSize = 20"

definition contextCanceled :: error where
  "contextCanceled = ExternalError ''context canceled''"

text \<open>\<open>Asc(id).Limit(n).Find\<close>\<close>

definition findFirstByID :: "(database \<Rightarrow> 'r table) \<Rightarrow> ('r \<Rightarrow> int) \<Rightarrow> ('r \<Rightarrow> bool) \<Rightarrow> nat \<Rightarrow> 'r list prog" where
  "findFirstByID sel idf P n = query (\<lambda>d. take n (sort_key idf (tblFind P (sel d))))"

text \<open>The binding of an eligible publication that stayed at evaluation, once it was found.\<close>

definition promoteBinding :: "Publication \<Rightarrow> TimeStamp \<Rightarrow> IndexBinding \<Rightarrow> bool prog" where
  "promoteBinding publication now binding =
     andThen (onErr (Errorf ''reconcile legacy knowledge index binding'')
       (updateRows indexBindings indexBindings_update
         (\<lambda>b. ib_ID b = ib_ID binding \<and> ib_Status b = IndexStatusEvaluation)
         (\<lambda>_ b. b\<lparr>ib_Status := IndexStatusSearchable, ib_LastSuccessUnix := now\<rparr>))) (\<lambda>count.
     if count \<noteq> 1 then ret False
     else
     andThen timeNow (\<lambda>nanos.
     andThen (insertRow auditEvents auditEvents_update (\<lambda>i r. r\<lparr>ae_ID := i\<rparr>) ae_stamp ae_clash
       \<lparr>ae_ID = 0, ae_ActorID = 0, ae_Action = ''knowledge.index_binding.reconciled'',
        ae_EntityType = ''knowledge_publication'', ae_EntityID = pub_ID publication, ae_SpaceID = pub_SpaceID publication,
        ae_Result = ''succeeded'', ae_ReasonCode = ''legacy_activation_drift'',
        ae_TraceID = ''system-binding-reconcile-'' @ itoa (pub_ID publication) @ ''-'' @ itoa nanos,
        ae_MetadataJSON = ''{}'', ae_CreatedUnix = 0\<rparr>) (\<lambda>_. ret True)))"

definition reconcilable :: "TimeStamp \<Rightarrow> Publication \<Rightarrow> Document \<Rightarrow> Space \<Rightarrow> DataSource \<Rightarrow> bool" where
  "reconcilable now publication document space source \<longleftrightarrow>
     \<not> (\<not> isPublished (Some publication) now (doc_CurrentPublicationID document) (sp_RevocationGeneration space) \<or>
        ds_Status source \<noteq> DataSourceStatusEnabled \<or> ds_SecurityLevel source = SecurityLevelProhibited \<or>
        (0 < ds_ExpiresUnix source \<and> ds_ExpiresUnix source \<le> now))"

definition legacyBinding :: "KnowledgeSetting \<Rightarrow> Publication \<Rightarrow> IndexBinding \<Rightarrow> bool" where
  "legacyBinding k publication b \<longleftrightarrow>
     ib_PublicationID b = pub_ID publication \<and> ib_EngineProfileVersion b = ks_EngineProfileVersion k \<and>
     ib_Status b = IndexStatusEvaluation"

definition reconcileOne :: "int \<Rightarrow> bool prog" where
  "reconcileOne publicationID =
     andThen (onErr (Errorf ''load knowledge publication for binding reconciliation'')
       (getByID pub_ID publications publicationID)) (\<lambda>po.
     case po of None \<Rightarrow> ret False | Some publication \<Rightarrow>
     andThen (getByID doc_ID documents (pub_DocumentID publication)) (\<lambda>xo.
     case xo of None \<Rightarrow> ret False | Some document \<Rightarrow>
     andThen (getByID sp_ID spaces (pub_SpaceID publication)) (\<lambda>so.
     case so of None \<Rightarrow> ret False | Some space \<Rightarrow>
     andThen (getByID ds_ID dataSources (doc_DataSourceID document)) (\<lambda>dso.
     case dso of None \<Rightarrow> ret False | Some source \<Rightarrow>
     andThen timeStampNow (\<lambda>now.
     if \<not> reconcilable now publication document space source then ret False
     else
     andThen (askEnv setting) (\<lambda>k.
     andThen (onErr (Errorf ''load legacy knowledge index binding'')
       (getFirst indexBindings (legacyBinding k publication))) (\<lambda>bo.
     case bo of None \<Rightarrow> ret False | Some binding \<Rightarrow>
     if ib_DatasetID binding \<noteq> ks_RAGFlowDatasetID k \<or> trimSpace (ib_EngineDocumentID binding) = '''' then ret False
     else promoteBinding publication now binding)))))))"

definition reconcileSearchableBinding :: "int \<Rightarrow> bool prog" where
  "reconcileSearchableBinding publicationID = withTx (reconcileOne publicationID)"

definition reconcileStep :: "int \<Rightarrow> Publication \<Rightarrow> int prog" where
  "reconcileStep reconciled publication =
     andThen ctxDone (\<lambda>stop.
     if stop then raise contextCanceled
     else
     andThen (reconcileSearchableBinding (pub_ID publication)) (\<lambda>updated.
     ret (if updated then reconciled + 1 else reconciled)))"

definition ReconcileSearchableBindingsSystem :: "int prog" where
  "ReconcileSearchableBindingsSystem =
     andThen ValidateKnowledgeSettings (\<lambda>_.
     andThen (onErr (Errorf ''list searchable knowledge publications for binding reconciliation'')
       (findFirstByID publications pub_ID
         (\<lambda>p. pub_IsCurrent p \<and> pub_ValidityStatus p = ValidityStatusCurrent \<and> pub_IndexStatus p = IndexStatusSearchable)
         bindingReconciliationBatchSize)) (\<lambda>found.
     foldM reconcileStep 0 found))"

section \<open>Expiry\<close>

definition unpublishExpired :: "int \<Rightarrow> unit \<Rightarrow> Document \<Rightarrow> unit prog" where
  "unpublishExpired actorID u document =
     onErr (Errorf ''revoke expired knowledge publication'')
       (catalogUnpublish (doc_CurrentPublicationID document) actorID ''source expired'')"

definition auditExpiry :: "int \<Rightarrow> DataSource \<Rightarrow> unit prog" where
  "auditExpiry actorID source =
     andThen timeNow (\<lambda>nanos.
     andThen (attempt (insertRow auditEvents auditEvents_update (\<lambda>i r. r\<lparr>ae_ID := i\<rparr>) ae_stamp ae_clash
       \<lparr>ae_ID = 0, ae_ActorID = actorID, ae_Action = ''knowledge.data_source.expired'',
        ae_EntityType = ''knowledge_data_source'', ae_EntityID = ds_ID source, ae_SpaceID = ds_SpaceID source,
        ae_Result = ''succeeded'', ae_ReasonCode = ''expired'',
        ae_TraceID = ''expire-source-'' @ itoa (ds_ID source) @ ''-'' @ itoa nanos,
        ae_MetadataJSON = ''{}'', ae_CreatedUnix = 0\<rparr>)) (\<lambda>_. ret ()))"

definition expireSource :: "int \<Rightarrow> int \<Rightarrow> DataSource \<Rightarrow> int prog" where
  "expireSource actorID expired source =
     andThen (onErr (Errorf ''expire knowledge data source'')
       (updateRows dataSources dataSources_update (\<lambda>s. ds_ID s = ds_ID source \<and> ds_Status s = DataSourceStatusEnabled)
         (\<lambda>t s. ds_touch t (s\<lparr>ds_Status := DataSourceStatusExpired\<rparr>)))) (\<lambda>updated.
     if updated \<noteq> 1 then ret expired
     else
     andThen (onErr (Errorf ''load expired knowledge documents'')
       (findRows documents (\<lambda>x. doc_DataSourceID x = ds_ID source \<and> 0 < doc_CurrentPublicationID x))) (\<lambda>docs.
     andThen (foldM (unpublishExpired actorID) () docs) (\<lambda>_.
     andThen (auditExpiry actorID source) (\<lambda>_. ret (expired + 1)))))"

definition dueSource :: "TimeStamp \<Rightarrow> DataSource \<Rightarrow> bool" where
  "dueSource now s \<longleftrightarrow>
     ds_Status s = DataSourceStatusEnabled \<and> 0 < ds_ExpiresUnix s \<and> ds_ExpiresUnix s \<le> now"

definition ExpireDueDataSources :: "int \<Rightarrow> int prog" where
  "ExpireDueDataSources actorID =
     andThen (adminOr (ErrorsNew ''knowledge expiry check requires an administrator'') actorID) (\<lambda>_.
     andThen timeStampNow (\<lambda>now.
     andThen (onErr (Errorf ''load expired knowledge sources'') (findRows dataSources (dueSource now))) (\<lambda>sources.
     foldM (expireSource actorID) 0 sources)))"

section \<open>Governance\<close>

lemmas operation_intros = gov.access_intros gov.within_foldM gov.within_withTx_body

lemma governed_requeue: "governed d (d\<lparr>indexJobs := tblUpdate P (\<lambda>j. job_touch t (j\<lparr>job_Status := s, job_Attempt := a, job_LastError := l\<rparr>)) (indexJobs d)\<rparr>)"
  by (rule gov_idx.D_jobs) (simp add: tblWf_update job_touch_def)

lemma governed_ProcessIndexJobSystem: "gov.within (ProcessIndexJobSystem jobID)"
  unfolding ProcessIndexJobSystem_def ValidateKnowledgeSettings_def orRaise_def
  by (intro operation_intros gov_idx.within_processJob)

lemma governed_ProcessIndexJob: "gov.within (ProcessIndexJob jobID actorID)"
  unfolding ProcessIndexJob_def by (intro operation_intros governed_ProcessIndexJobSystem)

lemma governed_RetryPublicationIndex: "gov.within (RetryPublicationIndex publicationID actorID)"
  unfolding RetryPublicationIndex_def requeueJobs_def requeueJob_def
  by (intro operation_intros gov.within_updateRows governed_requeue gov_idx.D_status)

lemma governed_catalogActivate: "gov.within (catalogActivate publicationID actorID)"
  unfolding catalogActivate_def sourceExpired_def timeStampNow_def by (intro operation_intros governed_ActivatePublication)

lemma governed_catalogUnpublish: "gov.within (catalogUnpublish publicationID actorID reason)"
  unfolding catalogUnpublish_def by (intro operation_intros governed_UnpublishPublication)

lemma governed_reconcileSearchableBinding: "gov.within (reconcileSearchableBinding publicationID)"
  unfolding reconcileSearchableBinding_def reconcileOne_def promoteBinding_def timeStampNow_def
  by (intro operation_intros gov.within_updateRows governed_insertAudit gov_idx.D_bindings) (simp add: tblWf_update)

lemma governed_ReconcileSearchableBindingsSystem: "gov.within ReconcileSearchableBindingsSystem"
  unfolding ReconcileSearchableBindingsSystem_def reconcileStep_def findFirstByID_def ValidateKnowledgeSettings_def
  by (intro operation_intros governed_reconcileSearchableBinding)

lemma governed_expireSource: "gov.within (expireSource actorID n source)"
  unfolding expireSource_def unpublishExpired_def auditExpiry_def
  by (intro operation_intros gov.within_updateRows governed_catalogUnpublish governed_insertAudit governed_dataSources)
    (simp add: ds_touch_def)

lemma governed_ExpireDueDataSources: "gov.within (ExpireDueDataSources actorID)"
  unfolding ExpireDueDataSources_def timeStampNow_def by (intro operation_intros governed_expireSource)


section \<open>Inversion\<close>

lemma catalogActivate_run:
  assumes "catalogActivate publicationID actorID w = (Inr u, w')"
  obtains opts w1 actor publication document source where
    "ActivatePublication opts w1 = (Inr u, w')" "db w1 = db w"
    "tblGet user_ID actorID (users (db w)) = Some actor" "user_IsAdmin actor"
    "tblGet pub_ID publicationID (publications (db w)) = Some publication"
    "tblGet doc_ID (pub_DocumentID publication) (documents (db w)) = Some document"
    "tblGet ds_ID (doc_DataSourceID document) (dataSources (db w)) = Some source"
    "ds_Status source = DataSourceStatusEnabled" "ds_SecurityLevel source \<noteq> SecurityLevelProhibited"
    "0 < ds_ExpiresUnix source \<Longrightarrow> currentUnix w < ds_ExpiresUnix source"
    "apo_PublicationID opts = publicationID" "apo_EngineProfileVersion opts = ks_EngineProfileVersion (setting (env w))"
proof -
  have id: "tblGet pub_ID publicationID (publications (db w)) = Some p \<Longrightarrow> pub_ID p = publicationID" for p
    by (rule tblGet_id)
  show thesis
    using assms unfolding catalogActivate_def sourceExpired_def ineligibleSource_def
    by (auto simp: run_simps id intro!: that split: if_splits)
qed

text \<open>Requeuing resets every upsert and poll job of the publication, whatever its state, and nothing else.\<close>

definition requeued :: "IndexJob \<Rightarrow> IndexJob \<Rightarrow> bool" where
  "requeued j j' \<longleftrightarrow> (\<exists>t. j' = job_touch t (j\<lparr>job_Status := IndexJobStatusRetry, job_Attempt := 0, job_LastError := ''''\<rparr>))"

definition requeuedJobs :: "int set \<Rightarrow> IndexJob table \<Rightarrow> IndexJob table \<Rightarrow> bool" where
  "requeuedJobs S t t' \<longleftrightarrow>
     (\<forall>i. rel_option (\<lambda>j j'. if i \<in> S then requeued j j' else j' = j) (tblGet job_ID i t) (tblGet job_ID i t'))"

lemma requeued_twice: "requeued a b \<Longrightarrow> requeued b c \<Longrightarrow> requeued a c"
  unfolding requeued_def job_touch_def by (elim exE, hypsubst) (rule exI, simp)

lemma requeuedJobs_trans:
  assumes "requeuedJobs S a b" "requeuedJobs T b c"
  shows "requeuedJobs (S \<union> T) a c"
  unfolding requeuedJobs_def
proof
  fix i
  from assms have "rel_option (\<lambda>j j'. if i \<in> S then requeued j j' else j' = j) (tblGet job_ID i a) (tblGet job_ID i b)"
    "rel_option (\<lambda>j j'. if i \<in> T then requeued j j' else j' = j) (tblGet job_ID i b) (tblGet job_ID i c)"
    unfolding requeuedJobs_def by blast+
  then show "rel_option (\<lambda>j j'. if i \<in> S \<union> T then requeued j j' else j' = j) (tblGet job_ID i a) (tblGet job_ID i c)"
    by (cases "tblGet job_ID i a"; cases "tblGet job_ID i b"; cases "tblGet job_ID i c")
      (auto intro: requeued_twice split: if_splits)
qed

lemma requeueJob_run:
  assumes "requeueJob u job w = (Inr v, w')"
  shows "\<exists>t. db w' = (db w)\<lparr>indexJobs := t\<rparr> \<and> requeuedJobs {job_ID job} (indexJobs (db w)) t"
proof -
  have "requeuedJobs {i} jobs (tblUpdate (\<lambda>j. job_ID j = i)
      (\<lambda>j. job_touch now (j\<lparr>job_Status := IndexJobStatusRetry, job_Attempt := 0, job_LastError := ''''\<rparr>)) jobs)" for i jobs now
    unfolding requeuedJobs_def
  proof
    fix k
    show "rel_option (\<lambda>j j'. if k \<in> {i} then requeued j j' else j' = j) (tblGet job_ID k jobs)
        (tblGet job_ID k (tblUpdate (\<lambda>j. job_ID j = i)
          (\<lambda>j. job_touch now (j\<lparr>job_Status := IndexJobStatusRetry, job_Attempt := 0, job_LastError := ''''\<rparr>)) jobs))"
      using tblGet_id [of job_ID k jobs]
      by (cases "tblGet job_ID k jobs") (auto simp: tblGet_update job_touch_def requeued_def)
  qed
  with assms show ?thesis by (auto simp: requeueJob_def run_simps)
qed

lemma requeueAll_run:
  "foldM requeueJob () jobs w = (Inr u, w') \<Longrightarrow>
     \<exists>t. db w' = (db w)\<lparr>indexJobs := t\<rparr> \<and> requeuedJobs (job_ID ` set jobs) (indexJobs (db w)) t"
proof (induction jobs arbitrary: w)
  case Nil
  then show ?case
    by (auto simp: run_simps requeuedJobs_def option.rel_refl intro!: exI [of _ "indexJobs (db w)"])
next
  case (Cons j jobs)
  then obtain v w1 where first: "requeueJob () j w = (Inr v, w1)" and rest: "foldM requeueJob () jobs w1 = (Inr u, w')"
    by (auto simp: run_simps)
  from requeueJob_run [OF first] Cons.IH [OF rest] show ?case
    using requeuedJobs_trans [of "{job_ID j}" "indexJobs (db w)" _ "job_ID ` set jobs"] by auto
qed

definition retryableJob :: "int \<Rightarrow> IndexJob \<Rightarrow> bool" where
  "retryableJob publicationID j \<longleftrightarrow>
     job_PublicationID j = publicationID \<and> (job_JobType j = IndexJobTypeUpsert \<or> job_JobType j = IndexJobTypePoll)"

lemma RetryPublicationIndex_run:
  assumes "RetryPublicationIndex publicationID actorID w = (Inr u, w')"
  obtains tj now actor publication job where
    "db w' = (db w)\<lparr>indexJobs := tj, publications := tblUpdate (\<lambda>p. pub_ID p = publicationID)
       (\<lambda>p. pub_touch now (p\<lparr>pub_IndexStatus := IndexStatusQueued\<rparr>)) (publications (db w))\<rparr>"
    "requeuedJobs {job_ID j |j. j \<in> set (rows (indexJobs (db w))) \<and> retryableJob publicationID j} (indexJobs (db w)) tj"
    "tblGet user_ID actorID (users (db w)) = Some actor" "user_IsAdmin actor"
    "tblGet pub_ID publicationID (publications (db w)) = Some publication"
    "pub_ValidityStatus publication = ValidityStatusScheduled" "pub_IndexStatus publication = IndexStatusFailed"
    "job \<in> set (rows (indexJobs (db w)))" "retryableJob publicationID job"
proof -
  have retryable: "retryableJob publicationID = (\<lambda>j. job_PublicationID j = publicationID \<and>
      (job_JobType j = IndexJobTypeUpsert \<or> job_JobType j = IndexJobTypePoll))"
    by (intro ext) (simp add: retryableJob_def)
  let ?jobs = "tblFind (retryableJob publicationID) (indexJobs (db w))"
  obtain v w1 w2 now actor publication where loop: "foldM requeueJob () ?jobs w1 = (Inr v, w2)"
    and w1: "db w1 = db w" and ne: "?jobs \<noteq> []"
    and w': "db w' = (db w2)\<lparr>publications := tblUpdate (\<lambda>p. pub_ID p = pub_ID publication)
       (\<lambda>p. pub_touch now (p\<lparr>pub_IndexStatus := IndexStatusQueued\<rparr>)) (publications (db w2))\<rparr>"
    and rest: "tblGet user_ID actorID (users (db w)) = Some actor" "user_IsAdmin actor"
      "tblGet pub_ID publicationID (publications (db w)) = Some publication"
      "pub_ValidityStatus publication = ValidityStatusScheduled" "pub_IndexStatus publication = IndexStatusFailed"
    using assms unfolding RetryPublicationIndex_def requeueJobs_def retryable
    by (auto simp: run_simps split: if_splits)
  obtain tj where tj: "db w2 = (db w)\<lparr>indexJobs := tj\<rparr>" "requeuedJobs (job_ID ` set ?jobs) (indexJobs (db w)) tj"
    using requeueAll_run [OF loop] w1 by auto
  have "job_ID ` set ?jobs = {job_ID j |j. j \<in> set (rows (indexJobs (db w))) \<and> retryableJob publicationID j}"
    by (auto simp: tblFind_set image_iff)
  moreover obtain job where "job \<in> set ?jobs"
    using ne by (cases ?jobs) auto
  ultimately show thesis
    using w' rest tj tblGet_id [OF rest(3)]
      that [where tj = tj and now = now and publication = publication and actor = actor and job = job]
    by (auto simp: tblFind_set)
qed

lemma promoteBinding_run:
  assumes "promoteBinding publication now binding w = (Inr b, w')" "tblWf ib_ID (indexBindings (db w))"
  shows "if b then \<exists>te. db w' = (db w)\<lparr>indexBindings :=
       tblUpdate (\<lambda>b. ib_ID b = ib_ID binding \<and> ib_Status b = IndexStatusEvaluation)
         (\<lambda>b. b\<lparr>ib_Status := IndexStatusSearchable, ib_LastSuccessUnix := now\<rparr>) (indexBindings (db w)), auditEvents := te\<rparr>
     else db w' = db w"
proof (cases "tblCount (\<lambda>b. ib_ID b = ib_ID binding \<and> ib_Status b = IndexStatusEvaluation) (indexBindings (db w)) = 1")
  case True
  with assms(1) show ?thesis by (auto simp: promoteBinding_def run_simps)
next
  case False
  then have "tblCount (\<lambda>b. ib_ID b = ib_ID binding \<and> ib_Status b = IndexStatusEvaluation) (indexBindings (db w)) = 0"
    by (auto simp: tblUpdate_count [OF assms(2)] split: option.splits if_splits)
  then have "tblUpdate (\<lambda>b. ib_ID b = ib_ID binding \<and> ib_Status b = IndexStatusEvaluation) f (indexBindings (db w)) = indexBindings (db w)" for f
    by (intro tblUpdate_none) (auto simp: tblCount_def filter_empty_conv)
  with assms(1) False show ?thesis by (auto simp: promoteBinding_def run_simps)
qed

lemma reconcileSearchableBinding_run:
  assumes "reconcileSearchableBinding publicationID w = (Inr b, w')" "tblWf ib_ID (indexBindings (db w))"
  obtains (unchanged) "\<not> b" "db w' = db w"
  | (promoted) te publication document space source binding now where "b"
    "tblGet pub_ID publicationID (publications (db w)) = Some publication"
    "tblGet doc_ID (pub_DocumentID publication) (documents (db w)) = Some document"
    "tblGet sp_ID (pub_SpaceID publication) (spaces (db w)) = Some space"
    "tblGet ds_ID (doc_DataSourceID document) (dataSources (db w)) = Some source"
    "reconcilable now publication document space source"
    "tblFirst (legacyBinding (setting (env w)) publication) (indexBindings (db w)) = Some binding"
    "ib_DatasetID binding = ks_RAGFlowDatasetID (setting (env w))"
    "db w' = (db w)\<lparr>indexBindings :=
       tblUpdate (\<lambda>b. ib_ID b = ib_ID binding \<and> ib_Status b = IndexStatusEvaluation)
         (\<lambda>b. b\<lparr>ib_Status := IndexStatusSearchable, ib_LastSuccessUnix := now\<rparr>) (indexBindings (db w)), auditEvents := te\<rparr>"
proof -
  obtain w1 w2 where body: "reconcileOne publicationID w1 = (Inr b, w2)" "db w1 = db w" "db w2 = db w'" "env w1 = env w"
    using assms(1) by (auto simp: reconcileSearchableBinding_def run_simps)
  show thesis
  proof (cases "\<not> b \<and> db w' = db w")
    case True
    then show thesis by (auto intro: unchanged)
  next
    case False
    let ?w3 = "w1\<lparr>ticks := Suc (ticks w1), calls := Suc (Suc (Suc (Suc (Suc (calls w1)))))\<rparr>"
    obtain publication document space source binding where
      "promoteBinding publication (currentUnix w1) binding ?w3 = (Inr b, w2)"
      "tblGet pub_ID publicationID (publications (db w)) = Some publication"
      "tblGet doc_ID (pub_DocumentID publication) (documents (db w)) = Some document"
      "tblGet sp_ID (pub_SpaceID publication) (spaces (db w)) = Some space"
      "tblGet ds_ID (doc_DataSourceID document) (dataSources (db w)) = Some source"
      "reconcilable (currentUnix w1) publication document space source"
      "tblFirst (legacyBinding (setting (env w)) publication) (indexBindings (db w)) = Some binding"
      "ib_DatasetID binding = ks_RAGFlowDatasetID (setting (env w))"
      using body(1) body(3) False unfolding reconcileOne_def
      by (auto simp: run_simps body(2,4) split: if_splits; blast)
    with promoteBinding_run [OF this(1)] assms(2) body(2,3) False show thesis
      by (auto intro: promoted split: if_splits)
  qed
qed

end
