(* ===== verification/Worker.thy ===== *)
theory Worker
  imports Operations
begin

text \<open>
  The background worker, \<^verbatim>\<open>services/knowledge/worker.go\<close>: it starts only for an enabled and valid
  configuration; one round reconciles bindings and then processes the first twenty waiting jobs,
  dropping every error. The outcomes of the \<open>select\<close> between the ticker and the shutdown are the
  argument of \<open>runIndexWorker\<close>.
\<close>

definition indexWorkerBatchSize :: nat where
  "indexWorkerBatchSize = 20"

text \<open>Whether the worker is started.\<close>

definition Init :: "bool prog" where
  "Init =
     andThen (askEnv setting) (\<lambda>k.
     if \<not> ks_Enabled k then ret False
     else andThen ValidateKnowledgeSettings (\<lambda>_. ret True))"

definition waiting :: "IndexJob \<Rightarrow> bool" where
  "waiting j \<longleftrightarrow> job_Status j = IndexJobStatusQueued \<or> job_Status j = IndexJobStatusRetry"

primrec processWaiting :: "IndexJob list \<Rightarrow> unit prog" where
  "processWaiting [] = ret ()"
| "processWaiting (job # jobs) =
     andThen ctxDone (\<lambda>stop.
     if stop then ret ()
     else
     andThen (attempt (ProcessIndexJobSystem (job_ID job))) (\<lambda>_. processWaiting jobs))"

definition processIndexJobs :: "unit prog" where
  "processIndexJobs =
     andThen (attempt ReconcileSearchableBindingsSystem) (\<lambda>_.
     andThen (attempt (findFirstByID indexJobs job_ID waiting indexWorkerBatchSize)) (\<lambda>listed.
     case listed of Inl _ \<Rightarrow> ret () | Inr jobs \<Rightarrow> processWaiting jobs))"

datatype workerEvent = Tick | Shutdown

primrec workerLoop :: "workerEvent list \<Rightarrow> unit prog" where
  "workerLoop [] = ret ()"
| "workerLoop (event # events) =
     (case event of Shutdown \<Rightarrow> ret () | Tick \<Rightarrow> andThen processIndexJobs (\<lambda>_. workerLoop events))"

definition runIndexWorker :: "workerEvent list \<Rightarrow> unit prog" where
  "runIndexWorker events = andThen processIndexJobs (\<lambda>_. workerLoop events)"

section \<open>Facts\<close>

lemma Init_run:
  "Init w = (Inr started, w') \<longleftrightarrow> w' = w \<and> started = ks_Enabled (setting (env w)) \<and>
     (started \<longrightarrow> validateKnowledgeSettings (urlParse (env w)) (isLoopbackIP (env w)) (isProd (env w)) (isInTesting (env w))
        (setting (env w)) = None)"
  by (auto simp: Init_def ValidateKnowledgeSettings_def run_simps split: if_splits option.splits)

lemma processWaiting_total: "\<exists>w'. processWaiting jobs w = (Inr (), w')"
proof (induction jobs arbitrary: w)
  case (Cons job jobs)
  obtain r w1 where "ProcessIndexJobSystem (job_ID job) w = (r, w1)" by (cases "ProcessIndexJobSystem (job_ID job) w")
  with Cons.IH [of w1] show ?case
    by (simp add: andThen_def ctxDone_def attempt_def ret_def)
qed (simp add: ret_def)

text \<open>No failure of the database, the engine or the configuration stops the worker.\<close>

lemma processIndexJobs_total: "\<exists>w'. processIndexJobs w = (Inr (), w')"
proof -
  obtain r w1 where 1: "ReconcileSearchableBindingsSystem w = (r, w1)" by (cases "ReconcileSearchableBindingsSystem w")
  obtain listed w2 where 2: "findFirstByID indexJobs job_ID waiting indexWorkerBatchSize w1 = (listed, w2)"
    by (cases "findFirstByID indexJobs job_ID waiting indexWorkerBatchSize w1")
  show ?thesis
    using 1 2 processWaiting_total [of _ w2]
    by (cases listed) (simp_all add: processIndexJobs_def andThen_def attempt_def ret_def)
qed

lemma workerLoop_total: "\<exists>w'. workerLoop events w = (Inr (), w')"
proof (induction events arbitrary: w)
  case (Cons event events)
  obtain w1 where "processIndexJobs w = (Inr (), w1)" using processIndexJobs_total by blast
  with Cons.IH [of w1] show ?case by (cases event) (simp_all add: andThen_def ret_def)
qed (simp add: ret_def)

lemma runIndexWorker_total: "\<exists>w'. runIndexWorker events w = (Inr (), w')"
proof -
  obtain w1 where "processIndexJobs w = (Inr (), w1)" using processIndexJobs_total by blast
  with workerLoop_total [of events w1] show ?thesis by (simp add: runIndexWorker_def andThen_def)
qed

section \<open>Governance\<close>

lemma governed_processWaiting: "gov.within (processWaiting jobs)"
  by (induction jobs) (simp_all only: processWaiting.simps, (intro operation_intros governed_ProcessIndexJobSystem | assumption)+)

lemma governed_processIndexJobs: "gov.within processIndexJobs"
  unfolding processIndexJobs_def findFirstByID_def
  by (intro operation_intros governed_ReconcileSearchableBindingsSystem governed_processWaiting)

lemma governed_workerLoop: "gov.within (workerLoop events)"
proof (induction events)
  case (Cons event events)
  then show ?case
    by (cases event) (simp_all add: gov.within_ret gov.within_andThen governed_processIndexJobs)
qed (simp add: gov.within_ret)

lemma governed_runIndexWorker: "gov.within (runIndexWorker events)"
  unfolding runIndexWorker_def by (intro operation_intros governed_processIndexJobs governed_workerLoop)

section \<open>Reach of the worker\<close>

text \<open>Index work and the audit log; the approvals, documents, revisions, spaces and sources stay as they are.\<close>

definition workerReach :: "database \<Rightarrow> database \<Rightarrow> bool" where
  "workerReach d d' \<longleftrightarrow>
     map withoutIndex (rows (publications d')) = map withoutIndex (rows (publications d)) \<and>
     d' = d\<lparr>publications := publications d', indexJobs := indexJobs d', outboxes := outboxes d',
            indexBindings := indexBindings d', auditEvents := auditEvents d'\<rparr>"

interpretation wrk: index_frame workerReach
proof unfold_locales
  show "workerReach d d" for d by (simp add: workerReach_def)
  show "workerReach d f" if "workerReach d e" "workerReach e f" for d e f
    using that by (cases d; cases e; cases f) (simp add: workerReach_def)
  show "workerReach d (d\<lparr>publications := tblUpdate P (\<lambda>p. pub_touch t (p\<lparr>pub_IndexStatus := status\<rparr>)) (publications d)\<rparr>)" for d P t status
    by (cases d) (simp add: workerReach_def rows_tblUpdate withoutIndex_status)
qed (simp_all add: workerReach_def)

lemmas worker_intros = wrk.access_intros wrk.within_foldM wrk.within_withTx_body

lemma worker_insertAudit: "wrk.within (insertRow auditEvents auditEvents_update (\<lambda>i r. r\<lparr>ae_ID := i\<rparr>) ae_stamp ae_clash event)"
  by (rule wrk.within_insertRow) (simp add: workerReach_def)

lemma worker_ProcessIndexJobSystem: "wrk.within (ProcessIndexJobSystem jobID)"
  unfolding ProcessIndexJobSystem_def ValidateKnowledgeSettings_def orRaise_def
  by (intro worker_intros wrk.within_processJob)

lemma worker_ReconcileSearchableBindingsSystem: "wrk.within ReconcileSearchableBindingsSystem"
  unfolding ReconcileSearchableBindingsSystem_def reconcileStep_def findFirstByID_def ValidateKnowledgeSettings_def
    reconcileSearchableBinding_def reconcileOne_def promoteBinding_def
  by (intro worker_intros wrk.within_updateRows wrk.D_bindings worker_insertAudit) (simp add: tblWf_update)

lemma worker_processWaiting: "wrk.within (processWaiting jobs)"
  by (induction jobs) (simp_all only: processWaiting.simps, (intro worker_intros worker_ProcessIndexJobSystem | assumption)+)

lemma worker_processIndexJobs: "wrk.within processIndexJobs"
  unfolding processIndexJobs_def findFirstByID_def
  by (intro worker_intros worker_ReconcileSearchableBindingsSystem worker_processWaiting)

lemma worker_workerLoop: "wrk.within (workerLoop events)"
proof (induction events)
  case (Cons event events)
  then show ?case
    by (cases event) (simp_all add: wrk.within_ret wrk.within_andThen worker_processIndexJobs)
qed (simp add: wrk.within_ret)

lemma worker_runIndexWorker: "wrk.within (runIndexWorker events)"
  unfolding runIndexWorker_def by (intro worker_intros worker_processIndexJobs worker_workerLoop)

end
