(* ===== verification/Expiry.thy ===== *)
theory Expiry
  imports Operations
begin

text \<open>
  What \<open>ExpireDueDataSources\<close> of \<^verbatim>\<open>services/knowledge/catalog/catalog.go\<close> achieves when it
  succeeds: every due source is expired and none of its documents has a current publication.
\<close>

section \<open>Unpublication\<close>

lemma catalogUnpublish_run:
  assumes "catalogUnpublish publicationID actorID reason w = (Inr u, w')"
  obtains opts w1 actor publication where "UnpublishPublication opts w1 = (Inr u, w')" "db w1 = db w"
    "tblGet user_ID actorID (users (db w)) = Some actor" "user_IsAdmin actor"
    "tblGet pub_ID publicationID (publications (db w)) = Some publication"
    "upo_PublicationID opts = publicationID" "upo_ActorID opts = actorID" "upo_Reason opts = trimSpace reason"
proof -
  have id: "tblGet pub_ID publicationID (publications (db w)) = Some p \<Longrightarrow> pub_ID p = publicationID" for p
    by (rule tblGet_id)
  show thesis
    using assms unfolding catalogUnpublish_def
    by (auto simp: run_simps id intro!: that split: if_splits)
qed

text \<open>Documents whose keys are in \<open>S\<close> lost their pointer, the others are as they were.\<close>

definition docsRevoked :: "int set \<Rightarrow> database \<Rightarrow> database \<Rightarrow> bool" where
  "docsRevoked S d d' \<longleftrightarrow>
     (\<forall>j. rel_option (\<lambda>x y. if j \<in> S then doc_DataSourceID y = doc_DataSourceID x \<and> doc_CurrentPublicationID y = 0 else y = x)
       (tblGet doc_ID j (documents d)) (tblGet doc_ID j (documents d')))"

lemma docsRevoked_same: "documents d' = documents d \<Longrightarrow> docsRevoked {} d d'"
  by (simp add: docsRevoked_def option.rel_refl)

lemma docsRevoked_trans:
  assumes "docsRevoked S d e" "docsRevoked T e f"
  shows "docsRevoked (S \<union> T) d f"
  unfolding docsRevoked_def
proof
  fix j
  have "rel_option (\<lambda>x y. if j \<in> S then doc_DataSourceID y = doc_DataSourceID x \<and> doc_CurrentPublicationID y = 0 else y = x)
       (tblGet doc_ID j (documents d)) (tblGet doc_ID j (documents e))"
    "rel_option (\<lambda>x y. if j \<in> T then doc_DataSourceID y = doc_DataSourceID x \<and> doc_CurrentPublicationID y = 0 else y = x)
       (tblGet doc_ID j (documents e)) (tblGet doc_ID j (documents f))"
    using assms unfolding docsRevoked_def by blast+
  then show "rel_option (\<lambda>x y. if j \<in> S \<union> T then doc_DataSourceID y = doc_DataSourceID x \<and> doc_CurrentPublicationID y = 0 else y = x)
       (tblGet doc_ID j (documents d)) (tblGet doc_ID j (documents f))"
    by (cases "tblGet doc_ID j (documents d)"; cases "tblGet doc_ID j (documents e)"; cases "tblGet doc_ID j (documents f)")
      (auto split: if_splits)
qed

lemma pointer_current:
  assumes "governance d" "tblGet doc_ID i (documents d) = Some x" "0 < doc_CurrentPublicationID x"
  obtains p where "tblGet pub_ID (doc_CurrentPublicationID x) (publications d) = Some p" "pub_IsCurrent p"
    "pub_DocumentID p = i"
proof -
  have "x \<in> set (rows (documents d))" "doc_ID x = i"
    using assms(2) by (auto dest: tblGetD)
  then have "\<exists>p. tblGet pub_ID (doc_CurrentPublicationID x) (publications d) = Some p \<and> pub_IsCurrent p \<and> pub_DocumentID p = i"
    using assms(1,3) unfolding governance_def pointersAgree_def case_get by fastforce
  then show thesis using that by blast
qed

lemma catalogUnpublish_revokes:
  assumes run: "catalogUnpublish (doc_CurrentPublicationID x) actorID reason w = (Inr u, w')"
    and inv: "governance (db w)"
    and x: "tblGet doc_ID (doc_ID x) (documents (db w)) = Some x" "0 < doc_CurrentPublicationID x"
  shows "docsRevoked {doc_ID x} (db w) (db w') \<and> dataSources (db w') = dataSources (db w)"
proof -
  obtain opts w1 where model: "UnpublishPublication opts w1 = (Inr u, w')" "db w1 = db w"
    "upo_PublicationID opts = doc_CurrentPublicationID x"
    using run by (rule catalogUnpublish_run)
  obtain w2 w3 where body: "unpublishCurrent opts w2 = (Inr u, w3)" "db w2 = db w" "db w3 = db w'"
    using UnpublishPublication_run [OF model(1)] model(2) by metis
  obtain p where p: "tblGet pub_ID (doc_CurrentPublicationID x) (publications (db w)) = Some p" "pub_IsCurrent p"
    "pub_DocumentID p = doc_ID x"
    using pointer_current [OF inv x] by blast
  from body(1) show ?thesis
  proof (cases rule: unpublishCurrent_run)
    case (replay tombstone)
    then have "tombstone \<in> set (rows (tombstones (db w)))" "tomb_PublicationID tombstone = doc_CurrentPublicationID x"
      using body(2) model(3) by (auto dest: tblFirstD)
    with inv p show ?thesis unfolding governance_def revoked_def case_get by fastforce
  next
    case (revoked publication document space revision w4)
    have same: "publication = p" "document = x"
      using revoked(2) p x(1) body(2) model(3) by (auto simp: unpublishable_def)
    note get = revokedDatabase_get [OF revoked(2)]
    from revoked(1) obtain t tt where
      "documents (db w') = documents (revokedDatabase t publication document tt (db w))" "dataSources (db w') = dataSources (db w)"
    proof (rule revokePublication_run)
      fix t tt tob tj tae
      assume "db w3 = (db w4)\<lparr>
         documents := tblUpdate (\<lambda>x. doc_ID x = doc_ID document \<and> doc_CurrentPublicationID x = pub_ID publication)
           (\<lambda>x. doc_touch t (x\<lparr>doc_CurrentPublicationID := 0\<rparr>)) (documents (db w4)),
         publications := tblUpdate (\<lambda>p. pub_ID p = pub_ID publication \<and> pub_IsCurrent p \<and> pub_ValidityStatus p = ValidityStatusCurrent)
           (\<lambda>p. pub_touch t (p\<lparr>pub_IsCurrent := False, pub_ValidityStatus := ValidityStatusUnpublished\<rparr>)) (publications (db w4)),
         tombstones := tt, outboxes := tob, indexJobs := tj, auditEvents := tae\<rparr>"
      then show thesis
        using that [of t tt] body(2,3) revoked(3) by (simp add: revokedDatabase_def)
    qed
    then show ?thesis
      unfolding docsRevoked_def using get(2) x(1) body(2)
      by (auto simp: same doc_touch_def option.rel_refl)
  qed
qed


section \<open>The documents of one source\<close>

lemma distinct_map_other: "distinct (map f (x # xs)) \<Longrightarrow> y \<in> set xs \<Longrightarrow> f y \<noteq> f x"
  by (metis distinct.simps(2) image_eqI list.simps(9) set_map)

lemma unpublishExpired_run:
  "unpublishExpired actorID u x w = (Inr v, w') \<longleftrightarrow>
     catalogUnpublish (doc_CurrentPublicationID x) actorID ''source expired'' w = (Inr v, w')"
  by (simp add: unpublishExpired_def run_simps)

lemma unpublishAll_revokes:
  assumes "foldM (unpublishExpired actorID) () docs w = (Inr u, w')" "governance (db w)"
    "distinct (map doc_ID docs)"
    "\<And>x. x \<in> set docs \<Longrightarrow> tblGet doc_ID (doc_ID x) (documents (db w)) = Some x \<and> 0 < doc_CurrentPublicationID x"
  shows "docsRevoked (doc_ID ` set docs) (db w) (db w') \<and> dataSources (db w') = dataSources (db w) \<and> governance (db w')"
  using assms
proof (induction docs arbitrary: w)
  case Nil
  then show ?case by (auto simp: run_simps docsRevoked_same)
next
  case (Cons x docs)
  obtain v w1 where first: "catalogUnpublish (doc_CurrentPublicationID x) actorID ''source expired'' w = (Inr v, w1)"
    and rest: "foldM (unpublishExpired actorID) () docs w1 = (Inr u, w')"
    using Cons.prems(1) by (auto simp: run_simps unpublishExpired_run)
  have x: "docsRevoked {doc_ID x} (db w) (db w1)" "dataSources (db w1) = dataSources (db w)"
    using catalogUnpublish_revokes [OF first Cons.prems(2)] Cons.prems(4) by auto
  have inv: "governance (db w1)"
    using gov.withinD [OF governed_catalogUnpublish first] Cons.prems(2) by (simp add: governed_def)
  have "tblGet doc_ID (doc_ID y) (documents (db w1)) = Some y \<and> 0 < doc_CurrentPublicationID y" if "y \<in> set docs" for y
  proof -
    have "doc_ID y \<noteq> doc_ID x" "tblGet doc_ID (doc_ID y) (documents (db w)) = Some y" "0 < doc_CurrentPublicationID y"
      using that distinct_map_other [OF Cons.prems(3)] Cons.prems(4) [of y] by auto
    with x(1) show ?thesis unfolding docsRevoked_def by (auto dest: spec [of _ "doc_ID y"] simp: option_rel_Some1)
  qed
  with Cons.IH [OF rest inv] Cons.prems(3)
  have "docsRevoked (doc_ID ` set docs) (db w1) (db w')" "dataSources (db w') = dataSources (db w1)" "governance (db w')"
    by auto
  then show ?case using x docsRevoked_trans [OF x(1)] by fastforce
qed

definition liveDocument :: "database \<Rightarrow> int \<Rightarrow> Document \<Rightarrow> bool" where
  "liveDocument d sourceID x \<longleftrightarrow>
     x \<in> set (rows (documents d)) \<and> doc_DataSourceID x = sourceID \<and> 0 < doc_CurrentPublicationID x"

definition expiredSources :: "int \<Rightarrow> TimeStamp \<Rightarrow> database \<Rightarrow> DataSource table" where
  "expiredSources sourceID t d =
     tblUpdate (\<lambda>s. ds_ID s = sourceID \<and> ds_Status s = DataSourceStatusEnabled)
       (\<lambda>s. ds_touch t (s\<lparr>ds_Status := DataSourceStatusExpired\<rparr>)) (dataSources d)"

lemma docsRevoked_live:
  assumes "docsRevoked S d d'" "tblWf doc_ID (documents d)" "tblWf doc_ID (documents d')" "liveDocument d' i y"
  shows "liveDocument d i y \<and> doc_ID y \<notin> S"
proof -
  have "tblGet doc_ID (doc_ID y) (documents d') = Some y" "0 < doc_CurrentPublicationID y" "doc_DataSourceID y = i"
    using assms(3,4) by (auto simp: liveDocument_def tblWf_get)
  with assms(1) have "tblGet doc_ID (doc_ID y) (documents d) = Some y \<and> doc_ID y \<notin> S"
    unfolding docsRevoked_def by (auto dest!: spec [of _ "doc_ID y"] simp: option_rel_Some2 split: if_splits)
  with \<open>0 < _\<close> \<open>_ = i\<close> show ?thesis by (auto simp: liveDocument_def dest: tblGetD)
qed

lemma expireSource_effect:
  assumes run: "expireSource actorID n s w = (Inr m, w')" and inv: "governance (db w)"
    and s: "tblGet ds_ID (ds_ID s) (dataSources (db w)) = Some s" "ds_Status s = DataSourceStatusEnabled"
  shows "m = n + 1" "governance (db w')"
    "\<exists>t. dataSources (db w') = expiredSources (ds_ID s) t (db w)"
    "liveDocument (db w') i y \<Longrightarrow> liveDocument (db w) i y \<and> i \<noteq> ds_ID s"
proof -
  let ?c = "\<lambda>s'. ds_ID s' = ds_ID s \<and> ds_Status s' = DataSourceStatusEnabled"
  let ?docs = "tblFind (\<lambda>x. doc_DataSourceID x = ds_ID s \<and> 0 < doc_CurrentPublicationID x) (documents (db w))"
  have wf: "tblWf ds_ID (dataSources (db w))" "tblWf doc_ID (documents (db w))"
    using inv by (simp_all add: governance_def dbWf_def)
  have count: "tblCount ?c (dataSources (db w)) = 1"
    using s by (simp add: tblUpdate_count [OF wf(1)])
  obtain t v w1 w2 a where loop: "foldM (unpublishExpired actorID) () ?docs w1 = (Inr v, w2)"
    and audit: "auditExpiry actorID s w2 = (Inr a, w')"
    and d1: "db w1 = (db w)\<lparr>dataSources := expiredSources (ds_ID s) t (db w)\<rparr>" and m: "m = n + 1"
    using run count by (auto simp: expireSource_def run_simps expiredSources_def)
  have within: "audits.within (auditExpiry actorID s)"
    unfolding auditExpiry_def by (intro audits.access_intros audits_insert)
  obtain te where d2: "db w' = (db w2)\<lparr>auditEvents := te\<rparr>"
    using audits.withinD [OF within audit] by blast
  have inv1: "governance (db w1)"
    using inv governed_dataSources [of "\<lambda>s. ds_touch t (s\<lparr>ds_Status := DataSourceStatusExpired\<rparr>)" "db w"]
    by (simp add: d1 expiredSources_def governed_def ds_touch_def)
  have docs: "distinct (map doc_ID ?docs)"
    "x \<in> set ?docs \<Longrightarrow> tblGet doc_ID (doc_ID x) (documents (db w1)) = Some x \<and> 0 < doc_CurrentPublicationID x" for x
    using wf(2) by (auto simp: d1 tblFind_set tblWf_get) (simp add: tblFind_def tblWf_def distinct_map_filter)
  have revoked: "docsRevoked (doc_ID ` set ?docs) (db w1) (db w2)" "dataSources (db w2) = dataSources (db w1)"
    "governance (db w2)"
    using unpublishAll_revokes [OF loop inv1 docs] by auto
  show "m = n + 1" by (rule m)
  show "governance (db w')"
    using gov.withinD [OF governed_expireSource run] inv by (simp add: governed_def)
  then have wf': "tblWf doc_ID (documents (db w'))"
    by (simp add: governance_def dbWf_def)
  show "\<exists>t. dataSources (db w') = expiredSources (ds_ID s) t (db w)"
    using revoked(2) by (auto simp: d1 d2)
  assume live: "liveDocument (db w') i y"
  have "docsRevoked (doc_ID ` set ?docs) (db w) (db w')"
    using revoked(1) by (simp add: docsRevoked_def d1 d2)
  from docsRevoked_live [OF this wf(2) wf' live]
  have "liveDocument (db w) i y" "doc_ID y \<notin> doc_ID ` set ?docs" by auto
  then show "liveDocument (db w) i y \<and> i \<noteq> ds_ID s"
    by (auto simp: liveDocument_def tblFind_set)
qed

section \<open>All due sources\<close>

lemma expireSources_effect:
  assumes "foldM (expireSource actorID) n sources w = (Inr m, w')" "governance (db w)" "distinct (map ds_ID sources)"
    "\<And>s. s \<in> set sources \<Longrightarrow> tblGet ds_ID (ds_ID s) (dataSources (db w)) = Some s \<and> ds_Status s = DataSourceStatusEnabled"
  shows "m = n + int (length sources) \<and>
    (\<forall>s \<in> set sources. \<exists>s'. tblGet ds_ID (ds_ID s) (dataSources (db w')) = Some s' \<and> ds_Status s' = DataSourceStatusExpired) \<and>
    (\<forall>i y. liveDocument (db w') i y \<longrightarrow> liveDocument (db w) i y \<and> i \<notin> ds_ID ` set sources) \<and>
    (\<forall>i. i \<notin> ds_ID ` set sources \<longrightarrow> tblGet ds_ID i (dataSources (db w')) = tblGet ds_ID i (dataSources (db w)))"
  using assms
proof (induction sources arbitrary: n w)
  case Nil
  then show ?case by (auto simp: run_simps)
next
  case (Cons s sources)
  obtain k w1 where first: "expireSource actorID n s w = (Inr k, w1)"
    and rest: "foldM (expireSource actorID) k sources w1 = (Inr m, w')"
    using Cons.prems(1) by (auto simp: run_simps)
  have s: "tblGet ds_ID (ds_ID s) (dataSources (db w)) = Some s" "ds_Status s = DataSourceStatusEnabled"
    using Cons.prems(4) by auto
  note eff = expireSource_effect [OF first Cons.prems(2) s]
  obtain t where t: "dataSources (db w1) = expiredSources (ds_ID s) t (db w)"
    using eff(3) by blast
  have other: "tblGet ds_ID i (dataSources (db w1)) = tblGet ds_ID i (dataSources (db w))" if "i \<noteq> ds_ID s" for i
    using that by (cases "tblGet ds_ID i (dataSources (db w))")
      (auto simp: t expiredSources_def tblGet_update ds_touch_def dest: tblGet_id)
  have this_one: "\<exists>s'. tblGet ds_ID (ds_ID s) (dataSources (db w1)) = Some s' \<and> ds_Status s' = DataSourceStatusExpired"
    using s by (simp add: t expiredSources_def tblGet_update ds_touch_def)
  have "s' \<in> set sources \<Longrightarrow> tblGet ds_ID (ds_ID s') (dataSources (db w1)) = Some s' \<and> ds_Status s' = DataSourceStatusEnabled" for s'
  proof -
    assume s': "s' \<in> set sources"
    then have "ds_ID s' \<noteq> ds_ID s" by (rule distinct_map_other [OF Cons.prems(3)])
    with other [of "ds_ID s'"] Cons.prems(4) [of s'] s' show ?thesis by simp
  qed
  moreover have "\<forall>i y. liveDocument (db w1) i y \<longrightarrow> liveDocument (db w) i y \<and> i \<noteq> ds_ID s"
    using eff(4) by blast
  ultimately show ?case
    using Cons.IH [OF rest eff(2)] Cons.prems(3) eff(1) this_one other by auto blast+
qed


lemma ExpireDueDataSources_effect:
  assumes "ExpireDueDataSources actorID w = (Inr n, w')" "governance (db w)"
  shows "\<exists>actor. tblGet user_ID actorID (users (db w)) = Some actor \<and> user_IsAdmin actor"
    "n = tblCount (dueSource (currentUnix w)) (dataSources (db w))"
    "s \<in> set (rows (dataSources (db w))) \<Longrightarrow> dueSource (currentUnix w) s \<Longrightarrow>
      \<exists>s'. tblGet ds_ID (ds_ID s) (dataSources (db w')) = Some s' \<and> ds_Status s' = DataSourceStatusExpired"
    "s \<in> set (rows (dataSources (db w))) \<Longrightarrow> dueSource (currentUnix w) s \<Longrightarrow> x \<in> set (rows (documents (db w'))) \<Longrightarrow>
      doc_DataSourceID x = ds_ID s \<Longrightarrow> doc_CurrentPublicationID x \<le> 0"
proof -
  let ?due = "tblFind (dueSource (currentUnix w)) (dataSources (db w))"
  have now: "currentUnix (w\<lparr>calls := k\<rparr>) = currentUnix w" for k by simp
  obtain w1 actor where loop: "foldM (expireSource actorID) 0 ?due w1 = (Inr n, w')" and d1: "db w1 = db w"
    and actor: "tblGet user_ID actorID (users (db w)) = Some actor" "user_IsAdmin actor"
    using assms(1) by (auto simp: ExpireDueDataSources_def run_simps)
  have wf: "tblWf ds_ID (dataSources (db w))"
    using assms(2) by (simp add: governance_def dbWf_def)
  have "distinct (map ds_ID ?due)"
    using wf by (simp add: tblFind_def tblWf_def distinct_map_filter)
  moreover have "s \<in> set ?due \<Longrightarrow> tblGet ds_ID (ds_ID s) (dataSources (db w1)) = Some s \<and> ds_Status s = DataSourceStatusEnabled" for s
    using wf by (auto simp: d1 tblFind_set tblWf_get dueSource_def)
  ultimately have eff: "n = int (length ?due)"
    "\<forall>s \<in> set ?due. \<exists>s'. tblGet ds_ID (ds_ID s) (dataSources (db w')) = Some s' \<and> ds_Status s' = DataSourceStatusExpired"
    "\<forall>i y. liveDocument (db w') i y \<longrightarrow> liveDocument (db w) i y \<and> i \<notin> ds_ID ` set ?due"
    using expireSources_effect [OF loop] assms(2) by (simp_all add: d1)
  show "\<exists>actor. tblGet user_ID actorID (users (db w)) = Some actor \<and> user_IsAdmin actor"
    using actor by blast
  show "n = tblCount (dueSource (currentUnix w)) (dataSources (db w))"
    using eff(1) by (simp add: tblCount_def tblFind_def)
  assume s: "s \<in> set (rows (dataSources (db w)))" "dueSource (currentUnix w) s"
  then have "s \<in> set ?due" by (simp add: tblFind_set)
  then show "\<exists>s'. tblGet ds_ID (ds_ID s) (dataSources (db w')) = Some s' \<and> ds_Status s' = DataSourceStatusExpired"
    using eff(2) by blast
  assume "x \<in> set (rows (documents (db w')))" "doc_DataSourceID x = ds_ID s"
  then show "doc_CurrentPublicationID x \<le> 0"
    using eff(3) \<open>s \<in> set ?due\<close> unfolding liveDocument_def by force
qed

end
