(* ===== verification/Uploads.thy ===== *)
theory Uploads
  imports DataSources Ingest
begin

text \<open>
  \<open>UploadRevision\<close> of \<^verbatim>\<open>services/knowledge/catalog/catalog.go\<close>: an artifact is read within the size
  limit, checked against its declaration and the rules of its data source, committed to the space's
  repository, and recorded with its pending approval and six pending reviews.

  The steps follow the function: \<open>checkUpload\<close> are the guards on the caller, space and source,
  \<open>readUpload\<close> reads and checks the content, \<open>recordUpload\<close> is the transaction.
\<close>

definition RequiredReviewTypes :: "string list" where
  "RequiredReviewTypes = [''source'', ''content'', ''permission'', ''sensitive'', ''format'', ''release'']"

record UploadRevisionOptions =
  uro_DocumentID :: int
  uro_SpaceID :: int
  uro_DataSourceID :: int
  uro_ActorID :: int
  uro_Title :: string
  uro_VersionNo :: string
  uro_Relation :: string
  uro_FileName :: string
  uro_Content :: "(string \<times> error option) option"
  uro_Manifest :: UploadManifest

record UploadRevisionResult =
  urr_Document :: Document
  urr_Revision :: Revision
  urr_Approval :: Approval

section \<open>Guards\<close>

text \<open>The source must be an enabled, searchable, unexpired source of the space.\<close>

definition checkSource :: "UploadRevisionOptions \<Rightarrow> Space \<Rightarrow> DataSource prog" where
  "checkSource opts space =
     andThen (mustGet ''load knowledge data source'' (ErrorsNew ''knowledge data source is not enabled for upload'')
       ds_ID dataSources (uro_DataSourceID opts)) (\<lambda>source.
     if ds_SpaceID source \<noteq> sp_ID space \<or> ds_Status source \<noteq> DataSourceStatusEnabled \<or>
        ds_SecurityLevel source = SecurityLevelProhibited
     then raise (ErrorsNew ''knowledge data source is not enabled for upload'')
     else
     andThen (if 0 < ds_ExpiresUnix source then andThen timeStampNow (\<lambda>now. ret (ds_ExpiresUnix source \<le> now)) else ret False) (\<lambda>expired.
     if expired then raise (ErrorsNew ''knowledge data source has expired'')
     else if ds_SearchabilityStatus source \<noteq> SearchabilityStatusSearchable
     then raise (ErrorsNew ''knowledge data source must complete OCR or searchability review before upload'')
     else ret source))"

definition checkDocument :: "UploadRevisionOptions \<Rightarrow> Space \<Rightarrow> DataSource \<Rightarrow> Document option prog" where
  "checkDocument opts space source =
     (if 0 < uro_DocumentID opts then
        andThen (mustGet ''load knowledge document'' (ErrorsNew ''knowledge revision document is outside the selected data source'')
          doc_ID documents (uro_DocumentID opts)) (\<lambda>document.
        if doc_SpaceID document \<noteq> sp_ID space \<or> doc_DataSourceID document \<noteq> ds_ID source
        then raise (ErrorsNew ''knowledge revision document is outside the selected data source'')
        else ret (Some document))
      else ret None)"

record uploadContext =
  uc_space :: Space
  uc_source :: DataSource
  uc_actor :: User
  uc_repo :: Repository
  uc_existing :: "Document option"

definition checkUpload :: "UploadRevisionOptions \<Rightarrow> uploadContext prog" where
  "checkUpload opts =
     (if uro_DocumentID opts < 0 \<or> uro_SpaceID opts \<le> 0 \<or> uro_DataSourceID opts \<le> 0 \<or> uro_ActorID opts \<le> 0 \<or>
         uro_Content opts = None \<or> \<not> validDisplayText (uro_Title opts) False \<or>
         \<not> validDocumentVersion (uro_VersionNo opts) \<or> \<not> validRevisionRelation (uro_Relation opts)
      then raise (ErrorsNew ''invalid knowledge upload input'')
      else
      andThen (mustGet ''load knowledge space'' (ErrorsNew ''knowledge space is not active'') sp_ID spaces (uro_SpaceID opts)) (\<lambda>space.
      if sp_Status space \<noteq> SpaceStatusActive then raise (ErrorsNew ''knowledge space is not active'')
      else
      andThen (checkSource opts space) (\<lambda>source.
      andThen (onErr (Errorf ''load knowledge actor'') (getUserByID (uro_ActorID opts))) (\<lambda>actor.
      if user_ID actor \<noteq> sp_OwnerID space \<and> \<not> user_IsAdmin actor
      then raise (ErrorsNew ''knowledge upload is not authorized'')
      else
      andThen (onErr (Errorf ''load knowledge repository'') (getRepositoryByID (sp_RepoID space))) (\<lambda>repo.
      andThen (checkDocument opts space source) (\<lambda>existing.
      ret \<lparr>uc_space = space, uc_source = source, uc_actor = actor, uc_repo = repo, uc_existing = existing\<rparr>))))))"

section \<open>Content\<close>

definition emptyMaskManifest :: string where
  "emptyMaskManifest =
     ''{'' @ [CHR 0x22] @ ''schema_version'' @ [CHR 0x22] @ '':1,'' @ [CHR 0x22] @ ''masked'' @ [CHR 0x22] @ '':true,'' @
     [CHR 0x22] @ ''findings_count'' @ [CHR 0x22] @ '':0,'' @ [CHR 0x22] @ ''categories'' @ [CHR 0x22] @ '':[]}''"

definition effectiveMaxBytes :: "KnowledgeSetting \<Rightarrow> int" where
  "effectiveMaxBytes k = (if ks_MaxFileSize k \<le> 0 then up_MaxFileBytes defaultUploadPolicy else ks_MaxFileSize k)"

text \<open>The declaration with what the server fills in: defaults first, then what it knows itself.\<close>

definition defaultedManifest :: "UploadManifest \<Rightarrow> DataSource \<Rightarrow> string \<Rightarrow> UploadManifest" where
  "defaultedManifest m source detectedMIME =
     (let m1 = (if trimSpace (um_MIMEType m) = '''' then m\<lparr>um_MIMEType := detectedMIME\<rparr> else m);
          m2 = (if trimSpace (um_MaskPolicyVersion m1) = '''' then m1\<lparr>um_MaskPolicyVersion := ds_MaskPolicyVersion source\<rparr> else m1)
      in if trimSpace (um_MaskManifestJSON m2) = '''' then m2\<lparr>um_MaskManifestJSON := emptyMaskManifest\<rparr> else m2)"

definition completedManifest :: "UploadManifest \<Rightarrow> DataSource \<Rightarrow> string \<Rightarrow> string \<Rightarrow> int \<Rightarrow> UploadManifest" where
  "completedManifest m source fileName contentSHA nbytes =
     m\<lparr>um_FileName := fileName, um_SourceAuthorization := ds_SourceAuthorizationRef source,
       um_ContentSHA256 := contentSHA, um_Size := nbytes\<rparr>"

record checkedUpload =
  cu_content :: string
  cu_contentSHA :: string
  cu_detectedMIME :: string
  cu_manifest :: UploadManifest

definition readUpload :: "environment \<Rightarrow> UploadRevisionOptions \<Rightarrow> DataSource \<Rightarrow> error + checkedUpload" where
  "readUpload e opts source =
     (let maxBytes = effectiveMaxBytes (setting e) in
      case uro_Content opts of None \<Rightarrow> Inl (ErrorsNew ''invalid knowledge upload input'') | Some stream \<Rightarrow>
      case readLimited (wrap64 (maxBytes + 1)) stream of Inl err \<Rightarrow> Inl (Errorf ''read knowledge upload'' err) | Inr content \<Rightarrow>
      if maxBytes < int (length content) then Inl ErrFileSize
      else
      let contentSHA = hexEncode (sha256 e content) in
      case detectArtifactMIME e (uro_FileName opts) (Some content) (int (length content)) of Inl err \<Rightarrow> Inl err | Inr detectedMIME \<Rightarrow>
      let defaulted = defaultedManifest (uro_Manifest opts) source detectedMIME in
      if ds_MaskPolicyVersion source \<noteq> um_MaskPolicyVersion defaulted
      then Inl (ErrorsNew ''masked artifact policy does not match the governed data source'')
      else
      let manifest = completedManifest defaulted source (uro_FileName opts) contentSHA (int (length content));
          facts = \<lparr>uf_ContentSHA256 = contentSHA, uf_Size = int (length content), uf_DetectedMIMEType = detectedMIME\<rparr>;
          policy = defaultUploadPolicy\<lparr>up_MaxFileBytes := maxBytes\<rparr>
      in case validateUploadManifest manifest facts policy of Inl err \<Rightarrow> Inl err | Inr _ \<Rightarrow>
      Inr \<lparr>cu_content = content, cu_contentSHA = contentSHA, cu_detectedMIME = detectedMIME, cu_manifest = manifest\<rparr>)"

section \<open>Records\<close>

definition newDocument :: "UploadRevisionOptions \<Rightarrow> uploadContext \<Rightarrow> string \<Rightarrow> string \<Rightarrow> Document" where
  "newDocument opts c repoPath detectedMIME =
     \<lparr>doc_ID = 0, doc_SpaceID = sp_ID (uc_space c), doc_DataSourceID = ds_ID (uc_source c),
      doc_Title = trimSpace (uro_Title opts), doc_RepoPath = repoPath, doc_MIMEType = detectedMIME,
      doc_GovernanceStatus = GovernanceStatusPending, doc_CurrentRevisionID = 0, doc_CurrentPublicationID = 0,
      doc_CreatedBy = user_ID (uc_actor c), doc_CreatedUnix = 0, doc_UpdatedUnix = 0\<rparr>"

definition newRevision ::
  "UploadRevisionOptions \<Rightarrow> uploadContext \<Rightarrow> checkedUpload \<Rightarrow> int \<Rightarrow> int \<Rightarrow> string \<Rightarrow> string \<Rightarrow> Revision" where
  "newRevision opts c u documentID revisionNo repoPath commitSHA =
     \<lparr>rev_ID = 0, rev_DocumentID = documentID, rev_RevisionNo = revisionNo, rev_FileName = uro_FileName opts,
      rev_RepoPath = repoPath, rev_ContentSHA256 = cu_contentSHA u, rev_Size = int (length (cu_content u)),
      rev_GitCommitSHA = commitSHA, rev_MaskPolicyVersion = um_MaskPolicyVersion (cu_manifest u),
      rev_MaskManifestJSON = um_MaskManifestJSON (cu_manifest u),
      rev_SourceAuthorization = um_SourceAuthorization (cu_manifest u),
      rev_BusinessDomainCode = ds_BusinessDomainCode (uc_source c), rev_ContentTypeCode = ds_ContentTypeCode (uc_source c),
      rev_SecurityLevel = ds_SecurityLevel (uc_source c), rev_ApplicableScopeJSON = ds_ApplicableScopeJSON (uc_source c),
      rev_VersionNo = trimSpace (uro_VersionNo opts), rev_RevisionRelation = trimSpace (uro_Relation opts),
      rev_SourceDepartment = ds_SourceDepartment (uc_source c), rev_ContentOwnerID = ds_ContentOwnerID (uc_source c),
      rev_MaintenanceOwnerID = ds_MaintenanceOwnerID (uc_source c), rev_ApprovalBasisRef = ds_ApprovalBasisRef (uc_source c),
      rev_EffectiveUnix = ds_EffectiveUnix (uc_source c), rev_ExpiresUnix = ds_ExpiresUnix (uc_source c),
      rev_SearchabilityStatus = ds_SearchabilityStatus (uc_source c), rev_CreatedBy = user_ID (uc_actor c), rev_CreatedUnix = 0\<rparr>"

definition newApproval :: "int \<Rightarrow> int \<Rightarrow> Approval" where
  "newApproval revisionID requestedBy =
     \<lparr>appr_ID = 0, appr_RevisionID = revisionID, appr_Status = ApprovalStatusPending, appr_RequestedBy = requestedBy,
      appr_RequestedUnix = 0, appr_DecidedBy = 0, appr_DecidedUnix = 0, appr_Comment = ''''\<rparr>"

definition newReviewCheck :: "int \<Rightarrow> string \<Rightarrow> ReviewCheck" where
  "newReviewCheck revisionID reviewType =
     \<lparr>rc_ID = 0, rc_RevisionID = revisionID, rc_ReviewType = reviewType, rc_Status = ''pending'', rc_Comment = '''',
      rc_CheckedBy = 0, rc_CheckedUnix = 0, rc_CreatedUnix = 0, rc_UpdatedUnix = 0\<rparr>"

text \<open>\<open>Where("document_id = ?").Desc("revision_no").Get\<close>\<close>

definition latestRevision :: "int \<Rightarrow> database \<Rightarrow> Revision option" where
  "latestRevision documentID d =
     (case sort_key (\<lambda>r. - rev_RevisionNo r) (tblFind (\<lambda>r. rev_DocumentID r = documentID) (revisions d)) of
        [] \<Rightarrow> None | r # _ \<Rightarrow> Some r)"

text \<open>The document the revision belongs to: a new one, or the existing one set to pending again.\<close>

definition pendingDocument :: "UploadRevisionOptions \<Rightarrow> uploadContext \<Rightarrow> checkedUpload \<Rightarrow> string \<Rightarrow> Document prog" where
  "pendingDocument opts c u repoPath =
     (case uc_existing c of
        None \<Rightarrow>
          mustInsert ''create knowledge document'' documents documents_update (\<lambda>i r. r\<lparr>doc_ID := i\<rparr>) doc_stamp doc_clash
            (newDocument opts c repoPath (cu_detectedMIME u))
      | Some document \<Rightarrow>
          andThen (onErr (Errorf ''mark knowledge document pending revision'')
            (updateRows documents documents_update (\<lambda>x. doc_ID x = doc_ID document)
              (\<lambda>t x. doc_touch t (x\<lparr>doc_GovernanceStatus := GovernanceStatusPending\<rparr>)))) (\<lambda>_.
          ret (document\<lparr>doc_GovernanceStatus := GovernanceStatusPending\<rparr>)))"

definition nextRevisionNo :: "uploadContext \<Rightarrow> int \<Rightarrow> int prog" where
  "nextRevisionNo c documentID =
     (if uc_existing c = None then ret 1
      else
      andThen (onErr (Errorf ''load latest knowledge revision'') (query (latestRevision documentID))) (\<lambda>latest.
      ret (case latest of None \<Rightarrow> 1 | Some r \<Rightarrow> rev_RevisionNo r + 1)))"

definition insertReviewChecks :: "int \<Rightarrow> string list \<Rightarrow> unit prog" where
  "insertReviewChecks revisionID reviewTypes =
     foldM (\<lambda>_ reviewType.
       andThen (mustInsert ''create knowledge review check'' reviewChecks reviewChecks_update (\<lambda>i r. r\<lparr>rc_ID := i\<rparr>)
         rc_stamp rc_clash (newReviewCheck revisionID reviewType)) (\<lambda>_. ret ())) () reviewTypes"

definition recordUpload ::
  "UploadRevisionOptions \<Rightarrow> uploadContext \<Rightarrow> checkedUpload \<Rightarrow> string \<Rightarrow> string \<Rightarrow> UploadRevisionResult prog" where
  "recordUpload opts c u repoPath commitSHA =
     andThen (pendingDocument opts c u repoPath) (\<lambda>document.
     andThen (nextRevisionNo c (doc_ID document)) (\<lambda>revisionNo.
     andThen (mustInsert ''create knowledge revision'' revisions revisions_update (\<lambda>i r. r\<lparr>rev_ID := i\<rparr>) rev_stamp rev_clash
       (newRevision opts c u (doc_ID document) revisionNo repoPath commitSHA)) (\<lambda>revision.
     andThen (onErr (Errorf ''link knowledge current revision'')
       (updateRows documents documents_update (\<lambda>x. doc_ID x = doc_ID document)
         (\<lambda>t x. doc_touch t (x\<lparr>doc_CurrentRevisionID := rev_ID revision\<rparr>)))) (\<lambda>_.
     andThen (mustInsert ''create knowledge approval'' approvals approvals_update (\<lambda>i r. r\<lparr>appr_ID := i\<rparr>) appr_stamp appr_clash
       (newApproval (rev_ID revision) (user_ID (uc_actor c)))) (\<lambda>approval.
     andThen (insertReviewChecks (rev_ID revision) RequiredReviewTypes) (\<lambda>_.
     ret \<lparr>urr_Document = document\<lparr>doc_CurrentRevisionID := rev_ID revision\<rparr>, urr_Revision = revision,
          urr_Approval = approval\<rparr>))))))"

text \<open>
  The bean of the document in the result carries the timestamps it was loaded or inserted with.
  \<open>repo.Owner = actor\<close> is not a column the repository model has.
\<close>

definition commitUpload :: "UploadRevisionOptions \<Rightarrow> uploadContext \<Rightarrow> checkedUpload \<Rightarrow> (string \<times> string) prog" where
  "commitUpload opts c u =
     andThen timeNow (\<lambda>nanos.
     andThen (askEnv (\<lambda>e. buildRevisionRepoPath e nanos (cu_contentSHA u) (uro_FileName opts))) (\<lambda>repoPath.
     andThen (onErr (Errorf ''commit knowledge revision'')
       (repoChangeFile (uc_repo c) (uc_actor c) (''knowledge: upload masked artifact '' @ uro_FileName opts)
         repoPath (cu_content u))) (\<lambda>response.
     case response of None \<Rightarrow> raise (ErrorsNew ''knowledge revision commit missing'') | Some commitSHA \<Rightarrow>
     if trimSpace commitSHA = '''' then raise (ErrorsNew ''knowledge revision commit missing'')
     else ret (repoPath, commitSHA))))"

definition UploadRevision :: "UploadRevisionOptions \<Rightarrow> UploadRevisionResult prog" where
  "UploadRevision opts =
     andThen (checkUpload opts) (\<lambda>c.
     andThen (askEnv (\<lambda>e. readUpload e opts (uc_source c))) (\<lambda>readResult.
     case readResult of Inl err \<Rightarrow> raise err | Inr u \<Rightarrow>
     andThen (commitUpload opts c u) (\<lambda>(repoPath, commitSHA).
     withTx (recordUpload opts c u repoPath commitSHA))))"

section \<open>Inversion\<close>

lemma checkSource_run:
  "checkSource opts space w = (Inr source, w') \<Longrightarrow>
     tblGet ds_ID (uro_DataSourceID opts) (dataSources (db w)) = Some source \<and> ds_SpaceID source = sp_ID space \<and>
     ds_Status source = DataSourceStatusEnabled \<and> ds_SecurityLevel source \<noteq> SecurityLevelProhibited \<and>
     (0 < ds_ExpiresUnix source \<longrightarrow> currentUnix w < ds_ExpiresUnix source) \<and>
     ds_SearchabilityStatus source = SearchabilityStatusSearchable \<and> db w' = db w \<and> env w' = env w"
  by (auto simp: checkSource_def run_simps currentUnix_def)

text \<open>The existing document, if one is named, belongs to the space and the source.\<close>

definition fitsDocument :: "UploadRevisionOptions \<Rightarrow> Space \<Rightarrow> DataSource \<Rightarrow> Document table \<Rightarrow> Document option \<Rightarrow> bool" where
  "fitsDocument opts space source docs existing \<longleftrightarrow>
     (case existing of None \<Rightarrow> uro_DocumentID opts \<le> 0
      | Some document \<Rightarrow> tblGet doc_ID (uro_DocumentID opts) docs = Some document \<and>
          doc_SpaceID document = sp_ID space \<and> doc_DataSourceID document = ds_ID source)"

lemma checkDocument_run:
  "checkDocument opts space source w = (Inr existing, w') \<Longrightarrow>
     db w' = db w \<and> env w' = env w \<and> fitsDocument opts space source (documents (db w)) existing"
  by (auto simp: checkDocument_def run_simps fitsDocument_def split: if_splits)

text \<open>What the guards of an upload establish.\<close>

definition uploadable :: "UploadRevisionOptions \<Rightarrow> uploadContext \<Rightarrow> database \<Rightarrow> bool" where
  "uploadable opts c d \<longleftrightarrow>
     uro_Content opts \<noteq> None \<and>
     tblGet sp_ID (uro_SpaceID opts) (spaces d) = Some (uc_space c) \<and> sp_Status (uc_space c) = SpaceStatusActive \<and>
     tblGet ds_ID (uro_DataSourceID opts) (dataSources d) = Some (uc_source c) \<and>
     ds_SpaceID (uc_source c) = sp_ID (uc_space c) \<and> ds_Status (uc_source c) = DataSourceStatusEnabled \<and>
     ds_SecurityLevel (uc_source c) \<noteq> SecurityLevelProhibited \<and>
     ds_SearchabilityStatus (uc_source c) = SearchabilityStatusSearchable \<and>
     tblGet user_ID (uro_ActorID opts) (users d) = Some (uc_actor c) \<and>
     (user_ID (uc_actor c) = sp_OwnerID (uc_space c) \<or> user_IsAdmin (uc_actor c)) \<and>
     tblGet repo_ID (sp_RepoID (uc_space c)) (repositories d) = Some (uc_repo c) \<and>
     fitsDocument opts (uc_space c) (uc_source c) (documents d) (uc_existing c)"

lemma checkUpload_run:
  "checkUpload opts w = (Inr c, w') \<Longrightarrow> uploadable opts c (db w) \<and> db w' = db w \<and> env w' = env w"
  by (auto simp: checkUpload_def run_simps uploadable_def dest!: checkSource_run checkDocument_run)

lemma commitUpload_run:
  "commitUpload opts c u w = (Inr (repoPath, commitSHA), w') \<Longrightarrow>
     db w' = db w \<and> env w' = env w \<and>
     (\<exists>nanos n. repoPath = buildRevisionRepoPath (env w) nanos (cu_contentSHA u) (uro_FileName opts) \<and>
       changeRepoFiles (env w) n (uc_repo c) (uc_actor c) (''knowledge: upload masked artifact '' @ uro_FileName opts)
         repoPath (cu_content u) = Inr (Some commitSHA))"
  by (auto simp: commitUpload_def run_simps)

lemma pendingDocument_run:
  "pendingDocument opts c u repoPath w = (Inr document, w') \<Longrightarrow>
     db w' = (db w)\<lparr>documents := documents (db w')\<rparr> \<and> env w' = env w \<and>
     (case uc_existing c of
        None \<Rightarrow> \<exists>now. tblInsert (\<lambda>i r. r\<lparr>doc_ID := i\<rparr>) doc_clash (doc_stamp now (newDocument opts c repoPath (cu_detectedMIME u)))
                  (documents (db w)) = Some (document, documents (db w'))
      | Some existing \<Rightarrow> document = existing\<lparr>doc_GovernanceStatus := GovernanceStatusPending\<rparr> \<and>
          (\<exists>now. documents (db w') = tblUpdate (\<lambda>x. doc_ID x = doc_ID existing)
             (\<lambda>x. doc_touch now (x\<lparr>doc_GovernanceStatus := GovernanceStatusPending\<rparr>)) (documents (db w))))"
  by (cases "uc_existing c") (auto simp: pendingDocument_def run_simps)

lemma nextRevisionNo_run:
  "nextRevisionNo c i w = (Inr n, w') \<Longrightarrow>
     db w' = db w \<and> env w' = env w \<and>
     n = (if uc_existing c = None then 1 else case latestRevision i (db w) of None \<Rightarrow> 1 | Some r \<Rightarrow> rev_RevisionNo r + 1)"
  by (auto simp: nextRevisionNo_def run_simps split: if_splits)

lemma rc_insertD:
  assumes "tblInsert (\<lambda>i r. r\<lparr>rc_ID := i\<rparr>) rc_clash x t = Some (x', t')"
  shows "x' = x\<lparr>rc_ID := next_id t\<rparr> \<and> rows t' = rows t @ [x']"
  using rc_tbl.insert_row [OF assms] by simp

text \<open>One pending check per type, in order.\<close>

definition pendingChecks :: "int \<Rightarrow> string list \<Rightarrow> ReviewCheck list \<Rightarrow> bool" where
  "pendingChecks revisionID types checks \<longleftrightarrow>
     map (\<lambda>c. (rc_RevisionID c, rc_ReviewType c, rc_Status c, rc_CheckedBy c)) checks =
     map (\<lambda>t. (revisionID, t, ''pending'', 0)) types"

lemma insertReviewChecks_run:
  "insertReviewChecks i types w = (Inr u, w') \<Longrightarrow>
     \<exists>tc checks. db w' = (db w)\<lparr>reviewChecks := tc\<rparr> \<and> rows tc = rows (reviewChecks (db w)) @ checks \<and>
       pendingChecks i types checks"
proof (induction types arbitrary: w)
  case Nil
  then have "db w' = (db w)\<lparr>reviewChecks := reviewChecks (db w)\<rparr>" "pendingChecks i [] []"
    by (auto simp: insertReviewChecks_def run_simps pendingChecks_def)
  then show ?case by fastforce
next
  case (Cons t types)
  from Cons.prems obtain w1 x tc1 now where rest: "insertReviewChecks i types w1 = (Inr u, w')" and step:
    "tblInsert (\<lambda>i r. r\<lparr>rc_ID := i\<rparr>) rc_clash (rc_stamp now (newReviewCheck i t)) (reviewChecks (db w)) = Some (x, tc1)"
    "db w1 = (db w)\<lparr>reviewChecks := tc1\<rparr>"
    by (auto simp: insertReviewChecks_def run_simps)
  from Cons.IH [OF rest] obtain tc checks where ih:
    "db w' = (db w1)\<lparr>reviewChecks := tc\<rparr>" "rows tc = rows (reviewChecks (db w1)) @ checks" "pendingChecks i types checks"
    by blast
  with step rc_insertD [OF step(1)] have
    "db w' = (db w)\<lparr>reviewChecks := tc\<rparr>" "rows tc = rows (reviewChecks (db w)) @ (x # checks)" "pendingChecks i (t # types) (x # checks)"
    by (auto simp: pendingChecks_def rc_stamp_def newReviewCheck_def)
  then show ?case by blast
qed

text \<open>The records of an upload: the revision, its pending approval and its six pending reviews.\<close>

lemma recordUpload_run:
  assumes "recordUpload opts c u repoPath commitSHA w = (Inr res, w')"
  obtains document revisionNo now td tr ta tc checks where
    "urr_Document res = document\<lparr>doc_CurrentRevisionID := rev_ID (urr_Revision res)\<rparr>"
    "tblInsert (\<lambda>i r. r\<lparr>rev_ID := i\<rparr>) rev_clash (rev_stamp now (newRevision opts c u (doc_ID document) revisionNo repoPath commitSHA))
       (revisions (db w)) = Some (urr_Revision res, tr)"
    "tblInsert (\<lambda>i r. r\<lparr>appr_ID := i\<rparr>) appr_clash (appr_stamp now (newApproval (rev_ID (urr_Revision res)) (user_ID (uc_actor c))))
       (approvals (db w)) = Some (urr_Approval res, ta)"
    "rows tc = rows (reviewChecks (db w)) @ checks" "pendingChecks (rev_ID (urr_Revision res)) RequiredReviewTypes checks"
    "case uc_existing c of
       None \<Rightarrow> (\<exists>now. tblInsert (\<lambda>i r. r\<lparr>doc_ID := i\<rparr>) doc_clash (doc_stamp now (newDocument opts c repoPath (cu_detectedMIME u)))
                 (documents (db w)) = Some (document, td))
     | Some existing \<Rightarrow> document = existing\<lparr>doc_GovernanceStatus := GovernanceStatusPending\<rparr> \<and>
         (\<exists>now. td = tblUpdate (\<lambda>x. doc_ID x = doc_ID existing)
            (\<lambda>x. doc_touch now (x\<lparr>doc_GovernanceStatus := GovernanceStatusPending\<rparr>)) (documents (db w)))"
    "revisionNo = (if uc_existing c = None then 1
       else case latestRevision (doc_ID document) (db w) of None \<Rightarrow> 1 | Some r \<Rightarrow> rev_RevisionNo r + 1)"
    "db w' = (db w)\<lparr>documents := tblUpdate (\<lambda>x. doc_ID x = doc_ID document)
         (\<lambda>x. doc_touch now (x\<lparr>doc_CurrentRevisionID := rev_ID (urr_Revision res)\<rparr>)) td,
       revisions := tr, approvals := ta, reviewChecks := tc\<rparr>"
proof -
  from assms obtain document w1 revisionNo w2 where
    doc: "pendingDocument opts c u repoPath w = (Inr document, w1)"
    and no: "nextRevisionNo c (doc_ID document) w1 = (Inr revisionNo, w2)"
    and rest: "recordUpload opts c u repoPath commitSHA w = (Inr res, w')"
    by (auto simp: recordUpload_def andThen_run)
  define td where "td = documents (db w1)"
  have d1: "db w1 = (db w)\<lparr>documents := td\<rparr>" "db w2 = db w1"
    using pendingDocument_run [OF doc] nextRevisionNo_run [OF no] by (simp_all add: td_def)
  have latest: "latestRevision i (db w1) = latestRevision i (db w)" for i
    by (simp add: latestRevision_def d1)
  from rest doc no obtain revision approval tr ta w3 where
    r: "res = \<lparr>urr_Document = document\<lparr>doc_CurrentRevisionID := rev_ID revision\<rparr>, urr_Revision = revision, urr_Approval = approval\<rparr>"
      "tblInsert (\<lambda>i r. r\<lparr>rev_ID := i\<rparr>) rev_clash (rev_stamp (currentUnix w2) (newRevision opts c u (doc_ID document) revisionNo repoPath commitSHA))
         (revisions (db w2)) = Some (revision, tr)"
      "tblInsert (\<lambda>i r. r\<lparr>appr_ID := i\<rparr>) appr_clash (appr_stamp (currentUnix w2) (newApproval (rev_ID revision) (user_ID (uc_actor c))))
         (approvals (db w2)) = Some (approval, ta)"
      "insertReviewChecks (rev_ID revision) RequiredReviewTypes w3 = (Inr (), w')"
      "db w3 = (db w2)\<lparr>revisions := tr, documents := tblUpdate (\<lambda>x. doc_ID x = doc_ID document)
         (\<lambda>x. doc_touch (currentUnix w2) (x\<lparr>doc_CurrentRevisionID := rev_ID revision\<rparr>)) (documents (db w2)), approvals := ta\<rparr>"
    by (auto simp: recordUpload_def run_simps currentUnix_def)
  obtain tc checks where "db w' = (db w3)\<lparr>reviewChecks := tc\<rparr>" "rows tc = rows (reviewChecks (db w3)) @ checks"
    "pendingChecks (rev_ID revision) RequiredReviewTypes checks"
    using insertReviewChecks_run [OF r(4)] by blast
  note checks = this
  show thesis
  proof (rule that [of document "currentUnix w2" revisionNo tr ta tc checks td])
    show "case uc_existing c of
       None \<Rightarrow> (\<exists>now. tblInsert (\<lambda>i r. r\<lparr>doc_ID := i\<rparr>) doc_clash (doc_stamp now (newDocument opts c repoPath (cu_detectedMIME u)))
                 (documents (db w)) = Some (document, td))
     | Some existing \<Rightarrow> document = existing\<lparr>doc_GovernanceStatus := GovernanceStatusPending\<rparr> \<and>
         (\<exists>now. td = tblUpdate (\<lambda>x. doc_ID x = doc_ID existing)
            (\<lambda>x. doc_touch now (x\<lparr>doc_GovernanceStatus := GovernanceStatusPending\<rparr>)) (documents (db w)))"
      using pendingDocument_run [OF doc] unfolding td_def by (elim conjE) assumption
    show "revisionNo = (if uc_existing c = None then 1
       else case latestRevision (doc_ID document) (db w) of None \<Rightarrow> 1 | Some r \<Rightarrow> rev_RevisionNo r + 1)"
      using nextRevisionNo_run [OF no] by (simp only: latest)
  qed (use r d1 checks in simp_all)
qed

text \<open>What a checked upload is known to be.\<close>

definition sealedUpload :: "environment \<Rightarrow> UploadRevisionOptions \<Rightarrow> DataSource \<Rightarrow> checkedUpload \<Rightarrow> bool" where
  "sealedUpload e opts source u \<longleftrightarrow>
     (\<exists>stream. uro_Content opts = Some stream \<and> prefix (cu_content u) (fst stream)) \<and>
     0 < length (cu_content u) \<and> int (length (cu_content u)) \<le> effectiveMaxBytes (setting e) \<and>
     cu_contentSHA u = hexEncode (sha256 e (cu_content u)) \<and> length (sha256 e (cu_content u)) = 32 \<and>
     um_Masked (uro_Manifest opts) \<and> um_FileName (cu_manifest u) = uro_FileName opts \<and>
     um_MaskPolicyVersion (cu_manifest u) = ds_MaskPolicyVersion source \<and>
     um_SourceAuthorization (cu_manifest u) = ds_SourceAuthorizationRef source \<and>
     validSourceAuthorization (ds_SourceAuthorizationRef source) \<and> validMaskPolicyVersion (ds_MaskPolicyVersion source) \<and>
     isSafeBaseName (uro_FileName opts) \<and>
     up_AllowedTypes defaultUploadPolicy (toLower (fileExt (uro_FileName opts))) = Some (normalizeMIME (cu_detectedMIME u)) \<and>
     detectArtifactMIME e (uro_FileName opts) (Some (cu_content u)) (int (length (cu_content u))) = Inr (cu_detectedMIME u) \<and>
     validateManifestJSON (um_MaskManifestJSON (cu_manifest u)) = Inr ()"

lemma defaulted_Masked [simp]: "um_Masked (defaultedManifest m source mime) = um_Masked m"
  by (simp add: defaultedManifest_def Let_def)

lemma completed_fields [simp]:
  "um_Masked (completedManifest m source f sha n) = um_Masked m" "um_FileName (completedManifest m source f sha n) = f"
  "um_SourceAuthorization (completedManifest m source f sha n) = ds_SourceAuthorizationRef source"
  "um_MaskPolicyVersion (completedManifest m source f sha n) = um_MaskPolicyVersion m"
  "um_ContentSHA256 (completedManifest m source f sha n) = sha" "um_Size (completedManifest m source f sha n) = n"
  by (simp_all add: completedManifest_def)

lemma readUpload_sealed:
  assumes "readUpload e opts source = Inr u"
  shows "sealedUpload e opts source u"
proof -
  from assms obtain stream content mime where
    read: "uro_Content opts = Some stream" "readLimited (wrap64 (effectiveMaxBytes (setting e) + 1)) stream = Inr content"
      "\<not> effectiveMaxBytes (setting e) < int (length content)"
      "detectArtifactMIME e (uro_FileName opts) (Some content) (int (length content)) = Inr mime"
      "ds_MaskPolicyVersion source = um_MaskPolicyVersion (defaultedManifest (uro_Manifest opts) source mime)"
    and ok: "validateUploadManifest
        (completedManifest (defaultedManifest (uro_Manifest opts) source mime) source (uro_FileName opts)
          (hexEncode (sha256 e content)) (int (length content)))
        \<lparr>uf_ContentSHA256 = hexEncode (sha256 e content), uf_Size = int (length content), uf_DetectedMIMEType = mime\<rparr>
        (defaultUploadPolicy\<lparr>up_MaxFileBytes := effectiveMaxBytes (setting e)\<rparr>) = Inr ()"
    and u: "u = \<lparr>cu_content = content, cu_contentSHA = hexEncode (sha256 e content), cu_detectedMIME = mime,
        cu_manifest = completedManifest (defaultedManifest (uro_Manifest opts) source mime) source (uro_FileName opts)
          (hexEncode (sha256 e content)) (int (length content))\<rparr>"
    by (auto simp: readUpload_def Let_def split: option.splits sum.splits if_splits)
  note accepts = validateUploadManifest_accepts [OF ok]
  have "length (sha256 e content) = 32" using accepts(8) by (auto simp: hexDecode_hexEncode)
  moreover have "prefix content (fst stream)" using readLimited_value [OF read(2)] by (metis take_is_prefix)
  ultimately show ?thesis
    using accepts read u unfolding sealedUpload_def by (simp add: defaultUploadPolicy_def)
qed

lemma UploadRevision_run:
  assumes "UploadRevision opts w = (Inr res, w')"
  obtains c u repoPath commitSHA w1 w2 where
    "uploadable opts c (db w)" "sealedUpload (env w) opts (uc_source c) u"
    "\<exists>nanos n. repoPath = buildRevisionRepoPath (env w) nanos (cu_contentSHA u) (uro_FileName opts) \<and>
       changeRepoFiles (env w) n (uc_repo c) (uc_actor c) (''knowledge: upload masked artifact '' @ uro_FileName opts)
         repoPath (cu_content u) = Inr (Some commitSHA)"
    "recordUpload opts c u repoPath commitSHA w1 = (Inr res, w2)" "db w1 = db w" "db w2 = db w'"
proof -
  from assms obtain c w1 u w3 w2 repoPath commitSHA where
    run: "recordUpload opts c u repoPath commitSHA (w3\<lparr>calls := Suc (calls w3)\<rparr>) = (Inr res, w2)" "db w2 = db w'"
      "commitUpload opts c u w1 = (Inr (repoPath, commitSHA), w3)" "checkUpload opts w = (Inr c, w1)"
      "readUpload (env w1) opts (uc_source c) = Inr u"
    by (auto simp: UploadRevision_def run_simps split: prod.splits)
  note check = checkUpload_run [OF run(4)] and commit = commitUpload_run [OF run(3)]
  show thesis
  proof (rule that [of c u repoPath commitSHA "w3\<lparr>calls := Suc (calls w3)\<rparr>" w2])
    show "sealedUpload (env w) opts (uc_source c) u" using readUpload_sealed [OF run(5)] check by simp
    show "\<exists>nanos n. repoPath = buildRevisionRepoPath (env w) nanos (cu_contentSHA u) (uro_FileName opts) \<and>
       changeRepoFiles (env w) n (uc_repo c) (uc_actor c) (''knowledge: upload masked artifact '' @ uro_FileName opts)
         repoPath (cu_content u) = Inr (Some commitSHA)"
      using commit check by simp
  qed (use run check commit in simp_all)
qed

section \<open>Governance\<close>

lemma governed_insertReviewChecks: "gov.within (insertReviewChecks i types)"
  unfolding insertReviewChecks_def
  by (intro gov.call_intros gov.within_mustInsert governed_other) (rule rc_tbl.insert_wf)

lemma governed_pendingDocument: "gov.within (pendingDocument opts c u repoPath)"
  unfolding pendingDocument_def
  by (intro gov.call_intros gov.within_mustInsert gov.within_updateRows governed_new_document governed_documents)
    (auto simp: doc_stamp_def newDocument_def doc_touch_def)

lemma governed_recordUpload: "gov.within (recordUpload opts c u repoPath commitSHA)"
  unfolding recordUpload_def nextRevisionNo_def
  by (intro gov.call_intros governed_pendingDocument governed_insertReviewChecks gov.within_mustInsert
      gov.within_updateRows governed_documents; (rule governed_new_revision governed_new_approval)?)
    (auto simp: doc_touch_def)

lemma governed_UploadRevision: "gov.within (UploadRevision opts)"
proof -
  have "gov.within (checkUpload opts)"
    unfolding checkUpload_def checkSource_def checkDocument_def by (intro gov.access_intros)
  moreover have "gov.within (commitUpload opts c u)" for c u
    unfolding commitUpload_def by (intro gov.access_intros)
  ultimately show ?thesis
    unfolding UploadRevision_def
    by (intro gov.access_intros gov.within_withTx_body governed_recordUpload)
qed

end
