(* ===== verification/Reviews.thy ===== *)
theory Reviews
  imports Uploads
begin

text \<open>
  The decisions on a revision, \<^verbatim>\<open>services/knowledge/catalog/catalog.go\<close>: \<open>CompleteReview\<close> passes one of
  the six required checks, \<open>Approve\<close> and \<open>Reject\<close> decide it. An approval needs an administrator
  other than the submitter and all six checks.
\<close>

definition isRequiredReviewType :: "string \<Rightarrow> bool" where
  "isRequiredReviewType v \<longleftrightarrow> list_ex (\<lambda>t. v = t) RequiredReviewTypes"

definition defaultACLPolicyVersion :: int where
  "defaultACLPolicyVersion = 4"

definition requireAllReviewsPassed :: "int \<Rightarrow> unit prog" where
  "requireAllReviewsPassed revisionID =
     andThen (onErr (Errorf ''load knowledge reviews'') (findRows reviewChecks (\<lambda>c. rc_RevisionID c = revisionID))) (\<lambda>checks.
     if length checks \<noteq> length RequiredReviewTypes then raise (ErrorsNew ''knowledge review checklist is incomplete'')
     else
       let passed = (\<lambda>t. list_ex (\<lambda>c. rc_Status c = ''passed'' \<and> rc_ReviewType c = t) checks)
       in if list_all passed RequiredReviewTypes then ret ()
          else raise (ErrorsNew ''all six knowledge reviews must pass before approval''))"

definition Approve :: "int \<Rightarrow> int \<Rightarrow> string \<Rightarrow> ApproveRevisionResult prog" where
  "Approve approvalID actorID comment =
     andThen (onErr (Errorf ''load knowledge approver'') (getUserByID actorID)) (\<lambda>actor.
     if \<not> user_IsAdmin actor then raise (ErrorsNew ''knowledge approval requires an administrator'')
     else
     andThen (foundOr (ErrorsNew ''knowledge approval is not available'') (getByID appr_ID approvals approvalID)) (\<lambda>approval.
     if appr_RequestedBy approval = actorID then raise (ErrorsNew ''knowledge approval is not available'')
     else
     andThen (requireAllReviewsPassed (appr_RevisionID approval)) (\<lambda>_.
     andThen (askEnv setting) (\<lambda>k.
     andThen timeNow (\<lambda>nanos.
     ApproveRevision
       \<lparr>aro_ApprovalID = approvalID, aro_DecidedBy = actorID, aro_Comment = trimSpace comment,
        aro_EngineProfileVersion = ks_EngineProfileVersion k, aro_ACLPolicyVersion = defaultACLPolicyVersion,
        aro_TraceID = ''web-approve-'' @ itoa approvalID @ ''-'' @ itoa nanos\<rparr>)))))"

definition Reject :: "int \<Rightarrow> int \<Rightarrow> string \<Rightarrow> unit prog" where
  "Reject approvalID actorID comment =
     andThen (adminOr (ErrorsNew ''knowledge rejection requires an administrator'') actorID) (\<lambda>_.
     andThen (foundOr (ErrorsNew ''knowledge rejection is not available'') (getByID appr_ID approvals approvalID)) (\<lambda>approval.
     if appr_RequestedBy approval = actorID then raise (ErrorsNew ''knowledge rejection is not available'')
     else
     andThen timeNow (\<lambda>nanos.
     RejectRevision
       \<lparr>rro_ApprovalID = approvalID, rro_DecidedBy = actorID, rro_Comment = trimSpace comment,
        rro_TraceID = ''web-reject-'' @ itoa approvalID @ ''-'' @ itoa nanos\<rparr>)))"

text \<open>
  The audit event of a completed review: it is appended only when revision and document can be
  loaded, and its error is dropped.
\<close>

definition auditReview :: "int \<Rightarrow> int \<Rightarrow> string \<Rightarrow> unit prog" where
  "auditReview revisionID actorID reviewType =
     andThen (attempt (getByID rev_ID revisions revisionID)) (\<lambda>r1.
     case r1 of Inl _ \<Rightarrow> ret () | Inr None \<Rightarrow> ret () | Inr (Some revision) \<Rightarrow>
     andThen (attempt (getByID doc_ID documents (rev_DocumentID revision))) (\<lambda>r2.
     case r2 of Inl _ \<Rightarrow> ret () | Inr None \<Rightarrow> ret () | Inr (Some document) \<Rightarrow>
     andThen timeNow (\<lambda>nanos.
     andThen (attempt (insertRow auditEvents auditEvents_update (\<lambda>i r. r\<lparr>ae_ID := i\<rparr>) ae_stamp ae_clash
       \<lparr>ae_ID = 0, ae_ActorID = actorID, ae_Action = ''knowledge.review.passed'', ae_EntityType = ''knowledge_revision'',
        ae_EntityID = revisionID, ae_SpaceID = doc_SpaceID document, ae_Result = ''succeeded'', ae_ReasonCode = reviewType,
        ae_TraceID = ''review-'' @ itoa revisionID @ ''-'' @ reviewType @ ''-'' @ itoa nanos, ae_MetadataJSON = ''{}'',
        ae_CreatedUnix = 0\<rparr>)) (\<lambda>_. ret ()))))"

definition CompleteReview :: "int \<Rightarrow> int \<Rightarrow> string \<Rightarrow> string \<Rightarrow> unit prog" where
  "CompleteReview revisionID actorID reviewType comment =
     (if revisionID \<le> 0 \<or> \<not> isRequiredReviewType reviewType \<or> \<not> validDisplayText comment True
      then raise (ErrorsNew ''invalid knowledge review'')
      else
      andThen (adminOr (ErrorsNew ''knowledge review requires an administrator'') actorID) (\<lambda>_.
      andThen (foundOr (ErrorsNew ''knowledge review is not available'')
        (getFirst approvals (\<lambda>a. appr_RevisionID a = revisionID))) (\<lambda>approval.
      if appr_Status approval \<noteq> ApprovalStatusPending \<or> appr_RequestedBy approval = actorID
      then raise (ErrorsNew ''knowledge review is not available'')
      else
      andThen (foundOr (ErrorsNew ''knowledge review has already been completed'')
        (getFirst reviewChecks (\<lambda>c. rc_RevisionID c = revisionID \<and> rc_ReviewType c = reviewType))) (\<lambda>check.
      if rc_Status check \<noteq> ''pending'' then raise (ErrorsNew ''knowledge review has already been completed'')
      else
      andThen timeStampNow (\<lambda>now.
      andThen (attempt (updateRows reviewChecks reviewChecks_update (\<lambda>c. rc_ID c = rc_ID check \<and> rc_Status c = ''pending'')
        (\<lambda>t c. rc_touch t (c\<lparr>rc_Status := ''passed'', rc_Comment := trimSpace comment, rc_CheckedBy := actorID,
                              rc_CheckedUnix := now\<rparr>)))) (\<lambda>updated.
      if updated \<noteq> Inr 1 then raise (ErrorsNew ''knowledge review update conflict'')
      else auditReview revisionID actorID reviewType))))))"

section \<open>Inversion\<close>

text \<open>Every required type has a passed check of the revision, and there are no other checks.\<close>

definition allReviewsPassed :: "int \<Rightarrow> database \<Rightarrow> bool" where
  "allReviewsPassed revisionID d \<longleftrightarrow>
     length (tblFind (\<lambda>c. rc_RevisionID c = revisionID) (reviewChecks d)) = length RequiredReviewTypes \<and>
     (\<forall>t \<in> set RequiredReviewTypes. \<exists>c \<in> set (rows (reviewChecks d)).
        rc_RevisionID c = revisionID \<and> rc_ReviewType c = t \<and> rc_Status c = ''passed'')"

lemma allReviewsPassed_iff:
  fixes d revisionID defines "checks \<equiv> tblFind (\<lambda>c. rc_RevisionID c = revisionID) (reviewChecks d)"
  shows "allReviewsPassed revisionID d \<longleftrightarrow>
    length checks = length RequiredReviewTypes \<and>
    list_all (\<lambda>t. list_ex (\<lambda>c. rc_Status c = ''passed'' \<and> rc_ReviewType c = t) checks) RequiredReviewTypes"
  unfolding allReviewsPassed_def checks_def list_all_iff list_ex_iff Bex_def tblFind_set by (simp only: conj_ac)

lemma requireAllReviewsPassed_run [run_simps]:
  "requireAllReviewsPassed i w = (Inr u, w') \<longleftrightarrow>
     \<not> faults (env w) (calls w) \<and> allReviewsPassed i (db w) \<and> w' = w\<lparr>calls := Suc (calls w)\<rparr>"
  unfolding requireAllReviewsPassed_def Let_def
  by (cases "allReviewsPassed i (db w)") (auto simp: run_simps allReviewsPassed_iff split: if_splits)

lemma allReviewsPassed_all:
  assumes "allReviewsPassed i d" "c \<in> set (rows (reviewChecks d))" "rc_RevisionID c = i"
  shows "rc_Status c = ''passed'' \<and> rc_ReviewType c \<in> set RequiredReviewTypes"
proof -
  let ?cs = "tblFind (\<lambda>c. rc_RevisionID c = i) (reviewChecks d)"
  have len: "length ?cs = card (set RequiredReviewTypes)"
    using assms(1) by (simp add: allReviewsPassed_def RequiredReviewTypes_def)
  have sub: "set RequiredReviewTypes \<subseteq> rc_ReviewType ` {c \<in> set ?cs. rc_Status c = ''passed''}"
    using assms(1) by (auto simp: allReviewsPassed_def tblFind_set image_iff Bex_def)
  have "card (set RequiredReviewTypes) \<le> card {c \<in> set ?cs. rc_Status c = ''passed''}"
    using card_mono [OF _ sub] card_image_le [of "{c \<in> set ?cs. rc_Status c = ''passed''}" rc_ReviewType] by simp
  also have "\<dots> \<le> card (set ?cs)" by (intro card_mono) auto
  also have "\<dots> \<le> length ?cs" by (rule card_length)
  finally have eq: "card (set RequiredReviewTypes) = card {c \<in> set ?cs. rc_Status c = ''passed''}"
    "card {c \<in> set ?cs. rc_Status c = ''passed''} = card (set ?cs)"
    using len \<open>card (set RequiredReviewTypes) \<le> card {c \<in> set ?cs. rc_Status c = ''passed''}\<close> card_length [of ?cs]
      card_mono [of "set ?cs" "{c \<in> set ?cs. rc_Status c = ''passed''}"] by auto
  then have all: "{c \<in> set ?cs. rc_Status c = ''passed''} = set ?cs"
    by (intro card_subset_eq) auto
  have "set RequiredReviewTypes = rc_ReviewType ` set ?cs"
  proof (rule card_subset_eq)
    show "set RequiredReviewTypes \<subseteq> rc_ReviewType ` set ?cs" using sub all by simp
    have "card (rc_ReviewType ` set ?cs) \<le> card (set ?cs)" by (rule card_image_le) simp
    then show "card (set RequiredReviewTypes) = card (rc_ReviewType ` set ?cs)"
      using eq card_mono [OF _ \<open>set RequiredReviewTypes \<subseteq> rc_ReviewType ` set ?cs\<close>] by simp
  qed simp
  with all assms(2,3) show ?thesis by (auto simp: tblFind_set)
qed

lemma Approve_run:
  assumes "Approve approvalID actorID comment w = (Inr res, w')"
  obtains trace w1 actor approval where
    "ApproveRevision \<lparr>aro_ApprovalID = approvalID, aro_DecidedBy = actorID, aro_Comment = trimSpace comment,
        aro_EngineProfileVersion = ks_EngineProfileVersion (setting (env w)), aro_ACLPolicyVersion = defaultACLPolicyVersion,
        aro_TraceID = trace\<rparr> w1 = (Inr res, w')" "db w1 = db w"
    "tblGet user_ID actorID (users (db w)) = Some actor" "user_IsAdmin actor"
    "tblGet appr_ID approvalID (approvals (db w)) = Some approval" "appr_RequestedBy approval \<noteq> actorID"
    "allReviewsPassed (appr_RevisionID approval) (db w)"
  using assms unfolding Approve_def by (auto simp: run_simps intro!: that split: if_splits)

lemma Reject_run:
  assumes "Reject approvalID actorID comment w = (Inr u, w')"
  obtains trace w1 actor approval where
    "RejectRevision \<lparr>rro_ApprovalID = approvalID, rro_DecidedBy = actorID, rro_Comment = trimSpace comment,
        rro_TraceID = trace\<rparr> w1 = (Inr u, w')" "db w1 = db w"
    "tblGet user_ID actorID (users (db w)) = Some actor" "user_IsAdmin actor"
    "tblGet appr_ID approvalID (approvals (db w)) = Some approval" "appr_RequestedBy approval \<noteq> actorID"
  using assms unfolding Reject_def by (auto simp: run_simps intro!: that split: if_splits)

lemma audits_auditReview: "audits.within (auditReview revisionID actorID reviewType)"
  unfolding auditReview_def
  by (intro audits.access_intros audits_insert)

lemma auditReview_run:
  "auditReview revisionID actorID reviewType w = (Inr u, w') \<Longrightarrow> \<exists>t. db w' = (db w)\<lparr>auditEvents := t\<rparr>"
  by (rule audits.withinD [OF audits_auditReview])

text \<open>A completed review: one pending check of the revision passed by an administrator who did not submit it.\<close>

lemma CompleteReview_run:
  assumes "CompleteReview revisionID actorID reviewType comment w = (Inr u, w')"
  obtains actor approval check now t te where
    "tblGet user_ID actorID (users (db w)) = Some actor" "user_IsAdmin actor" "isRequiredReviewType reviewType"
    "tblFirst (\<lambda>a. appr_RevisionID a = revisionID) (approvals (db w)) = Some approval"
    "appr_Status approval = ApprovalStatusPending" "appr_RequestedBy approval \<noteq> actorID"
    "tblFirst (\<lambda>c. rc_RevisionID c = revisionID \<and> rc_ReviewType c = reviewType) (reviewChecks (db w)) = Some check"
    "rc_Status check = ''pending''"
    "db w' = (db w)\<lparr>reviewChecks := tblUpdate (\<lambda>c. rc_ID c = rc_ID check \<and> rc_Status c = ''pending'')
       (\<lambda>c. rc_touch t (c\<lparr>rc_Status := ''passed'', rc_Comment := trimSpace comment, rc_CheckedBy := actorID, rc_CheckedUnix := now\<rparr>))
       (reviewChecks (db w)), auditEvents := te\<rparr>"
  using assms
  by (auto simp: CompleteReview_def run_simps dest!: auditReview_run intro!: that split: if_splits)

section \<open>Governance\<close>

lemma governed_Approve: "gov.within (Approve approvalID actorID comment)"
  unfolding Approve_def requireAllReviewsPassed_def Let_def
  by (intro gov.access_intros governed_ApproveRevision)

lemma governed_Reject: "gov.within (Reject approvalID actorID comment)"
  unfolding Reject_def by (intro gov.access_intros governed_RejectRevision)

lemma governed_reviewChecks:
  "(\<And>c. rc_ID (f c) = rc_ID c) \<Longrightarrow> governed d (d\<lparr>reviewChecks := tblUpdate P f (reviewChecks d)\<rparr>)"
  by (rule governed_other) (simp add: tblWf_update)

lemma governed_CompleteReview: "gov.within (CompleteReview revisionID actorID reviewType comment)"
  unfolding CompleteReview_def auditReview_def
  by (intro gov.access_intros gov.within_updateRows governed_reviewChecks governed_insertAudit) (simp add: rc_touch_def)

end
