(* ===== verification/Retrieval.thy ===== *)
theory Retrieval
  imports Operations
begin

text \<open>
  The retrieval gateway, \<^verbatim>\<open>services/knowledge/retrieval/service.go\<close> and \<^verbatim>\<open>quality.go\<close>. The index
  engine is untrusted: a chunk becomes a citation only when it belongs to the engine document bound
  to a publication that is published, in a space and from a source that allow it, checked once when
  the candidates are loaded and once more for every chunk.
\<close>

section \<open>Limits and inputs\<close>

definition maxPublicationsPerRequest :: nat where
  "maxPublicationsPerRequest = 40"

definition maxCommentBytes :: nat where
  "maxCommentBytes = 1024"

definition clampTopK :: "KnowledgeSetting \<Rightarrow> int \<Rightarrow> int" where
  "clampTopK k requested =
     (let maxTopK = (if ks_RetrieveMaxTopK k \<le> 0 then 10 else ks_RetrieveMaxTopK k) in
      if requested \<le> 0 then maxTopK else if maxTopK < requested then maxTopK else requested)"

definition retrievalCandidateLimit :: "int \<Rightarrow> int" where
  "retrievalCandidateLimit resultLimit =
     (let limit = wrap64 (resultLimit * 4) in if limit < 20 then 20 else if 50 < limit then 50 else limit)"

definition validQuestion :: "KnowledgeSetting \<Rightarrow> string \<Rightarrow> bool" where
  "validQuestion k v \<longleftrightarrow>
     v \<noteq> '''' \<and> int (length v) \<le> (if ks_RetrieveQueryMaxByte k \<le> 0 then 2048 else ks_RetrieveQueryMaxByte k) \<and>
     \<not> hasControl v"

definition validBindingText :: "string \<Rightarrow> bool" where
  "validBindingText v \<longleftrightarrow> v = trimSpace v \<and> v \<noteq> '''' \<and> length v \<le> 255 \<and> \<not> hasControl v"

text \<open>A rune outside ASCII is none of the allowed characters, nor is any of its bytes.\<close>

definition validBindingIdentifier :: "string \<Rightarrow> bool" where
  "validBindingIdentifier v \<longleftrightarrow> (if \<not> validBindingText v \<or> 128 < length v then False else list_all isTokenChar v)"

definition validDifySecurityLevel :: "SecurityLevel \<Rightarrow> bool" where
  "validDifySecurityLevel l \<longleftrightarrow> l = SecurityLevelPublic \<or> l = SecurityLevelInternal \<or> l = SecurityLevelRestricted"

definition validFeedbackComment :: "string \<Rightarrow> bool" where
  "validFeedbackComment v0 \<longleftrightarrow>
     (let v = trimSpace v0 in
      length v \<le> maxCommentBytes \<and> \<not> hasControl v \<and> \<not> containsStr (toLower v) ''password'')"

definition securityRank :: "SecurityLevel \<Rightarrow> int" where
  "securityRank l =
     (case l of SecurityLevelPublic \<Rightarrow> 1 | SecurityLevelInternal \<Rightarrow> 2 | SecurityLevelRestricted \<Rightarrow> 3
      | SecurityLevelProhibited \<Rightarrow> 4 | SecurityLevelOther _ \<Rightarrow> 0)"

definition securityAllowed :: "SecurityLevel \<Rightarrow> SecurityLevel \<Rightarrow> bool" where
  "securityAllowed actual maximum \<longleftrightarrow>
     actual \<noteq> SecurityLevelProhibited \<and> securityRank actual > 0 \<and> securityRank actual \<le> securityRank maximum"

definition allRetrievalAttemptsFailed :: "int \<Rightarrow> int \<Rightarrow> bool" where
  "allRetrievalAttemptsFailed attempts failures \<longleftrightarrow> attempts > 0 \<and> attempts = failures"

definition allowedFeedbackCategories :: "string list" where
  "allowedFeedbackCategories =
     [utf8 [0x77e5, 0x8bc6, 0x6b63, 0x786e, 0x6027], utf8 [0x68c0, 0x7d22, 0x76f8, 0x5173, 0x6027],
      utf8 [0x6743, 0x9650, 0x95ee, 0x9898], utf8 [0x4f7f, 0x7528, 0x4f53, 0x9a8c]]"

section \<open>Records\<close>

record Citation =
  cit_PublicationID :: int
  cit_DocumentID :: int
  cit_RevisionID :: int
  cit_Title :: string
  cit_Content :: string
  cit_Score :: float64

record CreateDifyBindingOptions =
  cdb_ActorID :: int
  cdb_Name :: string
  cdb_DifyKnowledgeID :: string
  cdb_SpaceID :: int
  cdb_MaxSecurityLevel :: SecurityLevel

record retrievablePublication =
  rp_publication :: Publication
  rp_document :: Document
  rp_revision :: Revision
  rp_binding :: IndexBinding
  rp_source :: DataSource
  rp_space :: Space

definition recordRetrieval :: "int \<Rightarrow> int \<Rightarrow> int \<Rightarrow> string \<Rightarrow> int \<Rightarrow> string \<Rightarrow> string \<Rightarrow> unit prog" where
  "recordRetrieval actorID bindingID spaceID question count outcome reason =
     andThen (askEnv sha256) (\<lambda>hash.
     andThen (insertRow retrievalEvents retrievalEvents_update (\<lambda>i r. r\<lparr>re_ID := i\<rparr>) re_stamp re_clash
       \<lparr>re_ID = 0, re_ActorID = actorID, re_BindingID = bindingID, re_SpaceID = spaceID,
        re_QuerySHA256 = hexEncode (hash question), re_ResultCount = count, re_Outcome = outcome,
        re_ReasonCode = reason, re_CreatedUnix = 0\<rparr>) (\<lambda>_. ret ()))"

definition appendAudit :: "int \<Rightarrow> int \<Rightarrow> string \<Rightarrow> string \<Rightarrow> int \<Rightarrow> string \<Rightarrow> string \<Rightarrow> unit prog" where
  "appendAudit actorID spaceID action entityType entityID result reason =
     andThen timeNow (\<lambda>nanos.
     andThen (insertRow auditEvents auditEvents_update (\<lambda>i r. r\<lparr>ae_ID := i\<rparr>) ae_stamp ae_clash
       \<lparr>ae_ID = 0, ae_ActorID = actorID, ae_Action = action, ae_EntityType = entityType, ae_EntityID = entityID,
        ae_SpaceID = spaceID, ae_Result = result, ae_ReasonCode = reason,
        ae_TraceID = ''retrieval-'' @ itoa entityID @ ''-'' @ itoa nanos, ae_MetadataJSON = ''{}'',
        ae_CreatedUnix = 0\<rparr>) (\<lambda>_. ret ()))"

section \<open>Dify bindings\<close>

text \<open>The random part is what \<open>util.CryptoRandomString(48)\<close> gives at this point of the run.\<close>

definition cryptoRandomString :: "string prog" where
  "cryptoRandomString w = (randomString (env w) (calls w), w)"

definition newDifyBinding :: "CreateDifyBindingOptions \<Rightarrow> Space \<Rightarrow> User \<Rightarrow> (string \<Rightarrow> string) \<Rightarrow> string \<Rightarrow> DifyBinding" where
  "newDifyBinding opts space actor hash token =
     \<lparr>dify_ID = 0, dify_Name = trimSpace (cdb_Name opts), dify_DifyKnowledgeID = trimSpace (cdb_DifyKnowledgeID opts),
      dify_SpaceID = sp_ID space, dify_MaxSecurityLevel = cdb_MaxSecurityLevel opts,
      dify_TokenSHA256 = hexEncode (hash token), dify_TokenHint = drop (length token - 6) token,
      dify_Enabled = True, dify_CreatedBy = user_ID actor, dify_CreatedUnix = 0, dify_UpdatedUnix = 0\<rparr>"

definition CreateDifyBinding :: "CreateDifyBindingOptions \<Rightarrow> (DifyBinding \<times> string) prog" where
  "CreateDifyBinding opts =
     andThen (adminOr (ErrorsNew ''Dify binding requires a site administrator'') (cdb_ActorID opts)) (\<lambda>actor.
     if \<not> validBindingText (cdb_Name opts) \<or> \<not> validBindingIdentifier (cdb_DifyKnowledgeID opts) \<or>
        \<not> validDifySecurityLevel (cdb_MaxSecurityLevel opts)
     then raise (ErrorsNew ''invalid Dify binding input'')
     else
     andThen (foundOr (ErrorsNew ''knowledge space is not active'') (getByID sp_ID spaces (cdb_SpaceID opts))) (\<lambda>space.
     if sp_Status space \<noteq> SpaceStatusActive then raise (ErrorsNew ''knowledge space is not active'')
     else
     andThen (onErr (Errorf ''generate Dify binding token'') cryptoRandomString) (\<lambda>randomPart.
     andThen (askEnv sha256) (\<lambda>hash.
     let token = ''dify_kb_'' @ randomPart in
     andThen (mustInsert ''create Dify binding'' difyBindings difyBindings_update (\<lambda>i r. r\<lparr>dify_ID := i\<rparr>)
       dify_stamp dify_clash (newDifyBinding opts space actor hash token)) (\<lambda>binding.
     andThen (appendAudit (user_ID actor) (dify_SpaceID binding) ''knowledge.dify_binding.created'' ''dify_binding''
       (dify_ID binding) ''succeeded'' ''binding_created'') (\<lambda>_.
     ret (binding, token)))))))"

definition LookupDifyBinding :: "string \<Rightarrow> string \<Rightarrow> DifyBinding prog" where
  "LookupDifyBinding token knowledgeID =
     (if \<not> validBindingIdentifier knowledgeID \<or> length token < 24 \<or> 128 < length token
      then raise (ErrorsNew ''invalid external knowledge credential'')
      else
      andThen (askEnv sha256) (\<lambda>hash.
      andThen (foundOr (ErrorsNew ''external knowledge credential rejected'')
        (getFirst difyBindings (\<lambda>b. dify_DifyKnowledgeID b = knowledgeID \<and> dify_Enabled b))) (\<lambda>binding.
      if dify_TokenSHA256 binding \<noteq> hexEncode (hash token)
      then raise (ErrorsNew ''external knowledge credential rejected'')
      else ret binding)))"


section \<open>Candidates\<close>

text \<open>A lookup whose failure and absence both mean "skip".\<close>

definition orSkip :: "'a option prog \<Rightarrow> 'b \<Rightarrow> ('a \<Rightarrow> 'b prog) \<Rightarrow> 'b prog" where
  "orSkip m skip k =
     andThen (attempt m) (\<lambda>r. case r of Inl _ \<Rightarrow> ret skip | Inr found \<Rightarrow>
     (case found of None \<Rightarrow> ret skip | Some a \<Rightarrow> k a))"

definition findLimited :: "(database \<Rightarrow> 'r table) \<Rightarrow> ('r \<Rightarrow> bool) \<Rightarrow> nat \<Rightarrow> 'r list prog" where
  "findLimited sel P n = query (\<lambda>d. take n (tblFind P (sel d)))"

definition eligibleSource :: "TimeStamp \<Rightarrow> DataSource \<Rightarrow> bool" where
  "eligibleSource now source \<longleftrightarrow>
     \<not> (ds_Status source \<noteq> DataSourceStatusEnabled \<or> ds_SecurityLevel source = SecurityLevelProhibited \<or>
        (0 < ds_ExpiresUnix source \<and> ds_ExpiresUnix source \<le> now))"

definition searchableBinding :: "KnowledgeSetting \<Rightarrow> Publication \<Rightarrow> IndexBinding \<Rightarrow> bool" where
  "searchableBinding k publication b \<longleftrightarrow>
     ib_PublicationID b = pub_ID publication \<and> ib_EngineProfileVersion b = ks_EngineProfileVersion k \<and>
     ib_Status b = IndexStatusSearchable"

definition loadCandidate ::
  "Space \<Rightarrow> SecurityLevel \<Rightarrow> TimeStamp \<Rightarrow> Publication \<Rightarrow> retrievablePublication option prog" where
  "loadCandidate space maxSecurity now publication =
     orSkip (getByID doc_ID documents (pub_DocumentID publication)) None (\<lambda>document.
     if \<not> isPublished (Some publication) now (doc_CurrentPublicationID document) (sp_RevocationGeneration space) then ret None
     else
     orSkip (getByID rev_ID revisions (pub_RevisionID publication)) None (\<lambda>revision.
     if rev_DocumentID revision \<noteq> doc_ID document \<or> \<not> securityAllowed (rev_SecurityLevel revision) maxSecurity then ret None
     else
     orSkip (getByID ds_ID dataSources (doc_DataSourceID document)) None (\<lambda>source.
     if \<not> eligibleSource now source then ret None
     else
     andThen (askEnv setting) (\<lambda>k.
     orSkip (getFirst indexBindings (searchableBinding k publication)) None (\<lambda>binding.
     if ib_DatasetID binding \<noteq> ks_RAGFlowDatasetID k then ret None
     else ret (Some \<lparr>rp_publication = publication, rp_document = document, rp_revision = revision,
                     rp_binding = binding, rp_source = source, rp_space = space\<rparr>))))))"

definition collectCandidate ::
  "Space \<Rightarrow> SecurityLevel \<Rightarrow> TimeStamp \<Rightarrow> retrievablePublication list \<Rightarrow> Publication \<Rightarrow> retrievablePublication list prog" where
  "collectCandidate space maxSecurity now items publication =
     andThen (loadCandidate space maxSecurity now publication) (\<lambda>found.
     case found of None \<Rightarrow> ret items | Some candidate \<Rightarrow> ret (items @ [candidate]))"

definition loadRetrievablePublications :: "Space \<Rightarrow> SecurityLevel \<Rightarrow> retrievablePublication list prog" where
  "loadRetrievablePublications space maxSecurity =
     andThen (onErr (Errorf ''load knowledge publications'')
       (findLimited publications (\<lambda>p. pub_SpaceID p = sp_ID space \<and> pub_IsCurrent p) maxPublicationsPerRequest)) (\<lambda>found.
     andThen timeStampNow (\<lambda>now.
     foldM (collectCandidate space maxSecurity now) [] found))"

definition candidateStillPublished :: "retrievablePublication \<Rightarrow> bool prog" where
  "candidateStillPublished candidate =
     orSkip (getByID pub_ID publications (pub_ID (rp_publication candidate))) False (\<lambda>publication.
     orSkip (getByID doc_ID documents (doc_ID (rp_document candidate))) False (\<lambda>document.
     orSkip (getByID sp_ID spaces (sp_ID (rp_space candidate))) False (\<lambda>space.
     orSkip (getByID ds_ID dataSources (ds_ID (rp_source candidate))) False (\<lambda>source.
     if ineligibleSource source then ret False
     else
     andThen (sourceExpired source) (\<lambda>expired.
     if expired then ret False
     else
     andThen timeStampNow (\<lambda>now.
     ret (isPublished (Some publication) now (doc_CurrentPublicationID document) (sp_RevocationGeneration space))))))))"

section \<open>Search\<close>

definition citation :: "retrievablePublication \<Rightarrow> RetrievedChunk \<Rightarrow> Citation" where
  "citation candidate chunk =
     \<lparr>cit_PublicationID = pub_ID (rp_publication candidate), cit_DocumentID = doc_ID (rp_document candidate),
      cit_RevisionID = rev_ID (rp_revision candidate), cit_Title = doc_Title (rp_document candidate),
      cit_Content = rk_Content chunk, cit_Score = rk_Similarity chunk\<rparr>"

text \<open>The chunks of one candidate; the loop is left when the limit is reached.\<close>

primrec citeChunks ::
  "int \<Rightarrow> retrievablePublication \<Rightarrow> Citation list \<Rightarrow> RetrievedChunk list \<Rightarrow> Citation list prog" where
  "citeChunks limit candidate citations [] = ret citations"
| "citeChunks limit candidate citations (chunk # chunks) =
     (if rk_DocumentID chunk \<noteq> ib_EngineDocumentID (rp_binding candidate) then citeChunks limit candidate citations chunks
      else
      andThen (candidateStillPublished candidate) (\<lambda>published.
      if \<not> published then citeChunks limit candidate citations chunks
      else
        let cited = citations @ [citation candidate chunk] in
        if int (length cited) = limit then ret cited
        else citeChunks limit candidate cited chunks))"

record searchState =
  ss_citations :: "Citation list"
  ss_attempts :: int
  ss_failures :: int

primrec searchCandidates :: "int \<Rightarrow> string \<Rightarrow> searchState \<Rightarrow> retrievablePublication list \<Rightarrow> searchState prog" where
  "searchCandidates limit question s [] = ret s"
| "searchCandidates limit question s (candidate # candidates) =
     (let s = s\<lparr>ss_attempts := ss_attempts s + 1\<rparr> in
      andThen (attempt (engineRetrieve
        \<lparr>rr_Question = question, rr_PublicationID = pub_ID (rp_publication candidate),
         rr_PublicationGeneration = pub_Generation (rp_publication candidate),
         rr_TopK = retrievalCandidateLimit limit\<rparr>)) (\<lambda>answer.
      case answer of
        Inl _ \<Rightarrow> searchCandidates limit question (s\<lparr>ss_failures := ss_failures s + 1\<rparr>) candidates
      | Inr chunks \<Rightarrow>
          andThen (citeChunks limit candidate (ss_citations s) chunks) (\<lambda>cited.
          let s = s\<lparr>ss_citations := cited\<rparr> in
          if int (length cited) = limit then ret s
          else searchCandidates limit question s candidates)))"

definition finishRetrieval :: "int \<Rightarrow> int \<Rightarrow> int \<Rightarrow> string \<Rightarrow> searchState \<Rightarrow> Citation list prog" where
  "finishRetrieval actorID bindingID spaceID question s =
     (if allRetrievalAttemptsFailed (ss_attempts s) (ss_failures s) then
        andThen (attempt (recordRetrieval actorID bindingID spaceID question 0 ''failed'' ''model_unavailable'')) (\<lambda>_.
        raise ErrRetrievalModelUnavailable)
      else
        let outcome = (if length (ss_citations s) = 0 then ''empty'' else ''succeeded'');
            reason = (if length (ss_citations s) = 0 then ''no_authorized_citation'' else ''results'')
        in andThen (attempt (recordRetrieval actorID bindingID spaceID question (int (length (ss_citations s))) outcome reason))
             (\<lambda>_. ret (ss_citations s)))"

definition retrieveSpace :: "int \<Rightarrow> SecurityLevel \<Rightarrow> string \<Rightarrow> int \<Rightarrow> int \<Rightarrow> int \<Rightarrow> Citation list prog" where
  "retrieveSpace spaceID maxSecurity question0 topK actorID bindingID =
     (let question = trimSpace question0 in
      andThen (askEnv setting) (\<lambda>k.
      if \<not> validQuestion k question then raise (ErrorsNew ''invalid retrieval question'')
      else
      andThen ValidateKnowledgeSettings (\<lambda>_.
      andThen (foundOr (ErrorsNew ''knowledge space not found'') (getByID sp_ID spaces spaceID)) (\<lambda>space.
      if sp_Status space \<noteq> SpaceStatusActive then raise (ErrorsNew ''knowledge space not found'')
      else
      andThen (askEnv (\<lambda>e. newClient e (knowledgeConfig (setting e)))) (\<lambda>client.
      andThen (orRaise client) (\<lambda>_.
      andThen (loadRetrievablePublications space maxSecurity) (\<lambda>candidates.
      andThen (searchCandidates (clampTopK k topK) question \<lparr>ss_citations = [], ss_attempts = 0, ss_failures = 0\<rparr> candidates)
        (finishRetrieval actorID bindingID spaceID question))))))))"

definition RetrieveForDify :: "DifyBinding option \<Rightarrow> string \<Rightarrow> int \<Rightarrow> Citation list prog" where
  "RetrieveForDify bindingOrNil question topK =
     (case bindingOrNil of None \<Rightarrow> raise (ErrorsNew ''Dify binding is disabled'')
      | Some binding \<Rightarrow>
        if \<not> dify_Enabled binding \<or> dify_ID binding \<le> 0 then raise (ErrorsNew ''Dify binding is disabled'')
        else retrieveSpace (dify_SpaceID binding) (dify_MaxSecurityLevel binding) question topK 0 (dify_ID binding))"

text \<open>Whether a user may read a space: its owner, an administrator, or a reader of its repository's code.\<close>

definition canReadSpace :: "User \<Rightarrow> int \<Rightarrow> bool prog" where
  "canReadSpace user spaceID =
     andThen (getByID sp_ID spaces spaceID) (\<lambda>found.
     case found of None \<Rightarrow> ret False | Some space \<Rightarrow>
     if sp_Status space \<noteq> SpaceStatusActive then ret False
     else if user_IsAdmin user \<or> user_ID user = sp_OwnerID space then ret True
     else
     andThen (getRepositoryByID (sp_RepoID space)) (\<lambda>repo.
     andThen (askEnv (\<lambda>e. codeReadable e user repo)) orRaise))"

text \<open>One space of a search over all of them; the flag tells that the model was unavailable.\<close>

definition searchSpace :: "User \<Rightarrow> string \<Rightarrow> int \<Rightarrow> Citation list \<times> bool \<Rightarrow> Space \<Rightarrow> (Citation list \<times> bool) prog" where
  "searchSpace user question topK acc space =
     andThen (attempt (canReadSpace user (sp_ID space))) (\<lambda>allowed.
     if allowed \<noteq> Inr True then ret acc
     else
     andThen (attempt (retrieveSpace (sp_ID space) SecurityLevelRestricted question topK (user_ID user) 0)) (\<lambda>partial.
     case partial of
       Inl e \<Rightarrow> ret (fst acc, snd acc \<or> errorIs e ErrRetrievalModelUnavailable)
     | Inr citations \<Rightarrow> ret (fst acc @ citations, snd acc)))"

definition RetrieveForUser :: "User option \<Rightarrow> int \<Rightarrow> string \<Rightarrow> int \<Rightarrow> Citation list prog" where
  "RetrieveForUser userOrNil spaceID question topK =
     (case userOrNil of None \<Rightarrow> raise (ErrorsNew ''knowledge retrieval requires a signed-in user'')
      | Some user \<Rightarrow>
        if user_ID user \<le> 0 then raise (ErrorsNew ''knowledge retrieval requires a signed-in user'')
        else if 0 < spaceID then
          andThen (canReadSpace user spaceID) (\<lambda>allowed.
          if \<not> allowed then
            andThen (attempt (recordRetrieval (user_ID user) 0 spaceID question 0 ''denied'' ''space_access'')) (\<lambda>_.
            raise (ErrorsNew ''knowledge space not found''))
          else retrieveSpace spaceID SecurityLevelRestricted question topK (user_ID user) 0)
        else
          andThen (onErr (Errorf ''list knowledge spaces'')
            (findLimited spaces (\<lambda>s. sp_Status s = SpaceStatusActive) maxPublicationsPerRequest)) (\<lambda>active.
          andThen (foldM (searchSpace user question topK) ([], False) active) (\<lambda>acc.
          andThen (askEnv setting) (\<lambda>k.
          let citations = (if clampTopK k topK < int (length (fst acc)) then take (nat (clampTopK k topK)) (fst acc) else fst acc)
          in if length citations = 0 \<and> snd acc then raise ErrRetrievalModelUnavailable else ret citations))))"

section \<open>Feedback and quality tasks\<close>

definition RecordFeedback :: "int \<Rightarrow> int \<Rightarrow> int \<Rightarrow> string \<Rightarrow> int \<Rightarrow> string \<Rightarrow> unit prog" where
  "RecordFeedback actorID spaceID publicationID category rating comment =
     (if actorID \<le> 0 \<or> spaceID \<le> 0 \<or> rating < 1 \<or> 5 < rating \<or> \<not> validFeedbackComment comment
      then raise (ErrorsNew ''invalid knowledge feedback'')
      else if trimSpace category \<notin> set allowedFeedbackCategories
      then raise (ErrorsNew ''invalid knowledge feedback category'')
      else
      andThen (insertRow feedbacks feedbacks_update (\<lambda>i r. r\<lparr>fb_ID := i\<rparr>) fb_stamp fb_clash
        \<lparr>fb_ID = 0, fb_ActorID = actorID, fb_SpaceID = spaceID, fb_PublicationID = publicationID,
         fb_Category = category, fb_Rating = rating, fb_Comment = trimSpace comment, fb_CreatedUnix = 0\<rparr>) (\<lambda>_. ret ()))"

definition qualityTaskNoAnswer :: string where
  "qualityTaskNoAnswer = ''no_answer''"

definition qualityTaskLowFeedback :: string where
  "qualityTaskLowFeedback = ''low_feedback''"

definition qualityTaskResolved :: string where
  "qualityTaskResolved = ''knowledge.quality_task.resolved''"

definition loadQualityTask :: "string \<Rightarrow> int \<Rightarrow> (string \<times> int) prog" where
  "loadQualityTask taskType entityID =
     (if taskType = qualityTaskNoAnswer then
        andThen (onErr (Errorf ''load no-answer retrieval event'') (getByID re_ID retrievalEvents entityID)) (\<lambda>found.
        case found of None \<Rightarrow> raise (ErrorsNew ''knowledge no-answer task not found'') | Some event \<Rightarrow>
        if re_Outcome event \<noteq> ''empty'' then raise (ErrorsNew ''knowledge no-answer task not found'')
        else ret (''retrieval_event'', re_SpaceID event))
      else if taskType = qualityTaskLowFeedback then
        andThen (onErr (Errorf ''load low-quality feedback'') (getByID fb_ID feedbacks entityID)) (\<lambda>found.
        case found of None \<Rightarrow> raise (ErrorsNew ''knowledge low-quality feedback task not found'') | Some feedback \<Rightarrow>
        if 2 < fb_Rating feedback then raise (ErrorsNew ''knowledge low-quality feedback task not found'')
        else ret (''feedback'', fb_SpaceID feedback))
      else raise (ErrorsNew ''invalid knowledge quality task''))"

definition resolvedTask :: "string \<Rightarrow> int \<Rightarrow> AuditEvent \<Rightarrow> bool" where
  "resolvedTask entityType entityID a \<longleftrightarrow>
     ae_Action a = qualityTaskResolved \<and> ae_EntityType a = entityType \<and> ae_EntityID a = entityID \<and> ae_Result a = ''succeeded''"

definition resolveTask :: "User \<Rightarrow> string \<Rightarrow> int \<Rightarrow> unit prog" where
  "resolveTask actor taskType entityID =
     andThen (loadQualityTask taskType entityID) (\<lambda>(entityType, spaceID).
     andThen (onErr (Errorf ''check knowledge quality task resolution'')
       (getFirst auditEvents (resolvedTask entityType entityID))) (\<lambda>resolved.
     if resolved \<noteq> None then ret ()
     else appendAudit (user_ID actor) spaceID qualityTaskResolved entityType entityID ''succeeded'' taskType))"

definition ResolveQualityTask :: "int \<Rightarrow> string \<Rightarrow> int \<Rightarrow> unit prog" where
  "ResolveQualityTask actorID taskType entityID =
     andThen (adminOr (ErrorsNew ''knowledge quality task resolution requires an administrator'') actorID) (\<lambda>actor.
     if entityID \<le> 0 \<or> (taskType \<noteq> qualityTaskNoAnswer \<and> taskType \<noteq> qualityTaskLowFeedback)
     then raise (ErrorsNew ''invalid knowledge quality task'')
     else withTx (resolveTask actor taskType entityID))"


section \<open>Runs that only read\<close>

text \<open>Database and environment stay, the clock does not go back to earlier readings.\<close>

definition steady :: "world \<Rightarrow> world \<Rightarrow> bool" where
  "steady w w' \<longleftrightarrow> db w' = db w \<and> env w' = env w \<and> ticks w \<le> ticks w'"

interpretation quiet: frame steady
  by unfold_locales (auto simp: steady_def)

lemma quiet_engineRequest: "quiet.within (engineRequest c respond)"
  by (rule quiet.withinI) (auto simp: engineRequest_def Let_def steady_def)

lemma quiet_calls:
  "quiet.within (query q)" "quiet.within (getByID idf sel i)" "quiet.within (getFirst sel2 P2)"
  "quiet.within (findLimited sel3 P3 n)" "quiet.within timeNow" "quiet.within timeStampNow" "quiet.within (askEnv f)"
  "quiet.within (engineRetrieve request)"
proof -
  show reads: "quiet.within (query q)" for q :: "database \<Rightarrow> 'z"
    by (rule quiet.withinI) (auto simp: query_def dbCall_def Let_def steady_def split: if_splits)
  show time: "quiet.within timeNow"
    by (rule quiet.withinI) (auto simp: timeNow_def steady_def)
  show "quiet.within (getByID idf sel i)" "quiet.within (getFirst sel2 P2)" "quiet.within (findLimited sel3 P3 n)"
    unfolding getByID_def getFirst_def findLimited_def by (rule reads)+
  show "quiet.within timeStampNow" unfolding timeStampNow_def by (intro quiet.within_intros time)
  show "quiet.within (askEnv f)" by (rule quiet.withinI) (auto simp: askEnv_def steady_def)
  show "quiet.within (engineRetrieve request)" unfolding engineRetrieve_def by (rule quiet_engineRequest)
qed

lemma quiet_orSkip: "quiet.within m \<Longrightarrow> (\<And>a. quiet.within (k a)) \<Longrightarrow> quiet.within (orSkip m skip k)"
  unfolding orSkip_def by (intro quiet.within_intros)

lemmas quiet_intros = quiet.within_intros quiet_calls quiet_orSkip

lemma quiet_sourceExpired: "quiet.within (sourceExpired source)"
  unfolding sourceExpired_def by (intro quiet_intros)

lemma quiet_candidateStillPublished: "quiet.within (candidateStillPublished c)"
  unfolding candidateStillPublished_def by (intro quiet_intros quiet_sourceExpired)

lemma quiet_loadCandidate: "quiet.within (loadCandidate space m now p)"
  unfolding loadCandidate_def by (intro quiet_intros)

lemma quiet_loadRetrievablePublications: "quiet.within (loadRetrievablePublications space m)"
  unfolding loadRetrievablePublications_def collectCandidate_def by (intro quiet_intros quiet_loadCandidate)

lemma quiet_citeChunks: "quiet.within (citeChunks limit c acc chunks)"
  by (induction chunks arbitrary: acc)
    (simp_all only: citeChunks.simps Let_def, (intro quiet_intros quiet_candidateStillPublished | assumption)+)

lemma quiet_searchCandidates: "quiet.within (searchCandidates limit q s cs)"
  by (induction cs arbitrary: s)
    (simp_all only: searchCandidates.simps Let_def, (intro quiet_intros quiet_citeChunks | assumption)+)

section \<open>What a citation is\<close>

lemma orSkip_run:
  "orSkip m skip k w = (Inr b, w') \<longleftrightarrow>
     (\<exists>e w1. m w = (Inl e, w1) \<and> b = skip \<and> w' = w1) \<or> (m w = (Inr None, w') \<and> b = skip) \<or>
     (\<exists>a w1. m w = (Inr (Some a), w1) \<and> k a w1 = (Inr b, w'))"
  unfolding orSkip_def attempt_then_run by (auto simp: run_simps split: option.splits)

text \<open>A reading of the clock that this run can still make.\<close>

definition reading :: "world \<Rightarrow> TimeStamp \<Rightarrow> bool" where
  "reading w t \<longleftrightarrow> (\<exists>n \<ge> ticks w. t = clock (env w) n div second)"

lemma reading_now: "reading w (currentUnix w)"
  by (auto simp: reading_def currentUnix_def)

lemma reading_later: "steady w w1 \<Longrightarrow> reading w1 t \<Longrightarrow> reading w t"
  unfolding reading_def steady_def by (metis le_trans)

definition loadedCandidate ::
  "KnowledgeSetting \<Rightarrow> database \<Rightarrow> Space \<Rightarrow> SecurityLevel \<Rightarrow> TimeStamp \<Rightarrow> retrievablePublication \<Rightarrow> bool" where
  "loadedCandidate k d space maxSecurity t c \<longleftrightarrow>
     rp_space c = space \<and> rp_publication c \<in> set (rows (publications d)) \<and>
     pub_SpaceID (rp_publication c) = sp_ID space \<and>
     tblGet doc_ID (pub_DocumentID (rp_publication c)) (documents d) = Some (rp_document c) \<and>
     isPublished (Some (rp_publication c)) t (doc_CurrentPublicationID (rp_document c)) (sp_RevocationGeneration space) \<and>
     tblGet rev_ID (pub_RevisionID (rp_publication c)) (revisions d) = Some (rp_revision c) \<and>
     rev_DocumentID (rp_revision c) = doc_ID (rp_document c) \<and>
     securityAllowed (rev_SecurityLevel (rp_revision c)) maxSecurity \<and>
     tblGet ds_ID (doc_DataSourceID (rp_document c)) (dataSources d) = Some (rp_source c) \<and>
     eligibleSource t (rp_source c) \<and>
     tblFirst (searchableBinding k (rp_publication c)) (indexBindings d) = Some (rp_binding c) \<and>
     ib_DatasetID (rp_binding c) = ks_RAGFlowDatasetID k"

definition stillPublished :: "database \<Rightarrow> TimeStamp \<Rightarrow> TimeStamp \<Rightarrow> retrievablePublication \<Rightarrow> bool" where
  "stillPublished d t1 t2 c \<longleftrightarrow>
     (\<exists>publication document space source.
        tblGet pub_ID (pub_ID (rp_publication c)) (publications d) = Some publication \<and>
        tblGet doc_ID (doc_ID (rp_document c)) (documents d) = Some document \<and>
        tblGet sp_ID (sp_ID (rp_space c)) (spaces d) = Some space \<and>
        tblGet ds_ID (ds_ID (rp_source c)) (dataSources d) = Some source \<and> eligibleSource t1 source \<and>
        isPublished (Some publication) t2 (doc_CurrentPublicationID document) (sp_RevocationGeneration space))"

text \<open>What every citation comes from.\<close>

definition authorized :: "world \<Rightarrow> Space \<Rightarrow> SecurityLevel \<Rightarrow> Citation \<Rightarrow> bool" where
  "authorized w space maxSecurity cit \<longleftrightarrow>
     (\<exists>c chunk h chunks t t1 t2.
        reading w t \<and> reading w t1 \<and> reading w t2 \<and>
        loadedCandidate (setting (env w)) (db w) space maxSecurity t c \<and> stillPublished (db w) t1 t2 c \<and>
        engRetrieve (env w) h = Inr chunks \<and> chunk \<in> set chunks \<and>
        rk_DocumentID chunk = ib_EngineDocumentID (rp_binding c) \<and> cit = citation c chunk)"

lemma steadyD: "quiet.within m \<Longrightarrow> m w = (r, w') \<Longrightarrow> steady w w'"
  by (rule quiet.withinD)

lemma candidateStillPublished_true:
  assumes "candidateStillPublished c w = (Inr True, w')"
  shows "\<exists>t1 t2. reading w t1 \<and> reading w t2 \<and> stillPublished (db w) t1 t2 c"
proof -
  obtain publication document space source w1 w2 where
    got: "tblGet pub_ID (pub_ID (rp_publication c)) (publications (db w)) = Some publication"
      "tblGet doc_ID (doc_ID (rp_document c)) (documents (db w)) = Some document"
      "tblGet sp_ID (sp_ID (rp_space c)) (spaces (db w)) = Some space"
      "tblGet ds_ID (ds_ID (rp_source c)) (dataSources (db w)) = Some source"
    and ok: "\<not> ineligibleSource source" "sourceExpired source w1 = (Inr False, w2)" "w1 = w\<lparr>calls := Suc (Suc (Suc (Suc (calls w))))\<rparr>"
    and pub: "isPublished (Some publication) (currentUnix w2) (doc_CurrentPublicationID document) (sp_RevocationGeneration space)"
    using assms unfolding candidateStillPublished_def orSkip_run
    by (auto simp: run_simps split: if_splits)
  have st: "steady w w1" "steady w1 w2"
    using ok(3) steadyD [OF quiet_sourceExpired ok(2)] by (simp_all add: steady_def)
  have "eligibleSource (currentUnix w1) source"
    using ok(1,2) by (auto simp: eligibleSource_def ineligibleSource_def sourceExpired_def run_simps split: if_splits)
  then have "stillPublished (db w) (currentUnix w1) (currentUnix w2) c"
    using got pub unfolding stillPublished_def by blast
  moreover have "reading w (currentUnix w1)" "reading w (currentUnix w2)"
    using st reading_now reading_later by blast+
  ultimately show ?thesis by blast
qed


lemma loadCandidate_some:
  assumes "loadCandidate space m t p w = (Inr (Some c), w')" "p \<in> set (rows (publications (db w)))"
    "pub_SpaceID p = sp_ID space"
  shows "loadedCandidate (setting (env w)) (db w) space m t c"
  using assms unfolding loadCandidate_def orSkip_run
  by (auto simp: run_simps orSkip_run loadedCandidate_def split: if_splits)

lemma collectCandidate_run:
  "collectCandidate space m t items p w = (Inr out, w') \<longleftrightarrow>
     (\<exists>found. loadCandidate space m t p w = (Inr found, w') \<and>
        out = (case found of None \<Rightarrow> items | Some c \<Rightarrow> items @ [c]))"
  by (auto simp: collectCandidate_def run_simps split: option.splits)

lemma collectCandidates_sound:
  assumes "foldM (collectCandidate space m t) items ps w = (Inr out, w')"
    "\<And>p. p \<in> set ps \<Longrightarrow> p \<in> set (rows (publications (db w))) \<and> pub_SpaceID p = sp_ID space"
    "\<And>c. c \<in> set items \<Longrightarrow> loadedCandidate (setting (env w)) (db w) space m t c"
  shows "\<forall>c \<in> set out. loadedCandidate (setting (env w)) (db w) space m t c"
  using assms
proof (induction ps arbitrary: items w)
  case Nil
  then show ?case by (auto simp: run_simps)
next
  case (Cons p ps)
  from Cons.prems(1) obtain found w1 where load: "loadCandidate space m t p w = (Inr found, w1)"
    and rest: "foldM (collectCandidate space m t) (case found of None \<Rightarrow> items | Some c \<Rightarrow> items @ [c]) ps w1 = (Inr out, w')"
    by (auto simp: run_simps collectCandidate_run)
  have st: "db w1 = db w" "env w1 = env w"
    using steadyD [OF quiet_loadCandidate load] by (simp_all add: steady_def)
  have "c \<in> set (case found of None \<Rightarrow> items | Some c \<Rightarrow> items @ [c]) \<Longrightarrow> loadedCandidate (setting (env w)) (db w) space m t c" for c
    using Cons.prems(2,3) load loadCandidate_some [of space m t p w c w1] by (auto split: option.splits)
  then show ?case
    using Cons.IH [OF rest] Cons.prems(2) by (simp add: st)
qed

lemma loadRetrievablePublications_sound:
  assumes "loadRetrievablePublications space m w = (Inr cs, w')"
  shows "\<exists>t. reading w t \<and> (\<forall>c \<in> set cs. loadedCandidate (setting (env w)) (db w) space m t c)"
proof -
  let ?ps = "take maxPublicationsPerRequest (tblFind (\<lambda>p. pub_SpaceID p = sp_ID space \<and> pub_IsCurrent p) (publications (db w)))"
  obtain w1 where loop: "foldM (collectCandidate space m (currentUnix w)) [] ?ps w1 = (Inr cs, w')"
    and w1: "db w1 = db w" "env w1 = env w"
    using assms unfolding loadRetrievablePublications_def findLimited_def by (auto simp: run_simps)
  have "p \<in> set ?ps \<Longrightarrow> p \<in> set (rows (publications (db w1))) \<and> pub_SpaceID p = sp_ID space" for p
    unfolding w1 by (drule in_set_takeD) (simp add: tblFind_set)
  from collectCandidates_sound [OF loop this]
  have "\<forall>c \<in> set cs. loadedCandidate (setting (env w)) (db w) space m (currentUnix w) c"
    unfolding w1 by simp
  then show ?thesis using reading_now by blast
qed

text \<open>A citation made from one of the chunks while the candidate was published.\<close>

definition cites :: "world \<Rightarrow> retrievablePublication \<Rightarrow> RetrievedChunk list \<Rightarrow> Citation \<Rightarrow> bool" where
  "cites w c chunks cit \<longleftrightarrow>
     (\<exists>chunk t1 t2. reading w t1 \<and> reading w t2 \<and> stillPublished (db w) t1 t2 c \<and> chunk \<in> set chunks \<and>
        rk_DocumentID chunk = ib_EngineDocumentID (rp_binding c) \<and> cit = citation c chunk)"

lemma cites_later: "steady w w1 \<Longrightarrow> cites w1 c chunks cit \<Longrightarrow> cites w c (chunk # chunks) cit"
proof -
  assume st: "steady w w1" and "cites w1 c chunks cit"
  then obtain k t1 t2 where "reading w1 t1" "reading w1 t2" "stillPublished (db w1) t1 t2 c" "k \<in> set chunks"
    "rk_DocumentID k = ib_EngineDocumentID (rp_binding c)" "cit = citation c k"
    unfolding cites_def by blast
  moreover have "db w1 = db w" using st by (simp add: steady_def)
  ultimately show ?thesis
    using reading_later [OF st] unfolding cites_def by (intro exI [of _ k] exI [of _ t1] exI [of _ t2]) simp
qed


lemma citeChunks_step:
  assumes "citeChunks limit c acc (chunk # chunks) w = (Inr out, w')"
  obtains (skipped) w1 where "citeChunks limit c acc chunks w1 = (Inr out, w')" "steady w w1"
  | (last) "out = acc @ [citation c chunk]" "int (length out) = limit" "cites w c (chunk # chunks) (citation c chunk)"
  | (more) w1 where "citeChunks limit c (acc @ [citation c chunk]) chunks w1 = (Inr out, w')" "steady w w1"
      "int (length (acc @ [citation c chunk])) \<noteq> limit" "cites w c (chunk # chunks) (citation c chunk)"
proof (cases "rk_DocumentID chunk = ib_EngineDocumentID (rp_binding c)")
  case False
  with assms show thesis by (intro skipped) (auto simp: steady_def)
next
  case True
  with assms obtain ok w1 where check: "candidateStillPublished c w = (Inr ok, w1)"
    and rest: "(if \<not> ok then citeChunks limit c acc chunks
      else let cited = acc @ [citation c chunk] in if int (length cited) = limit then ret cited
        else citeChunks limit c cited chunks) w1 = (Inr out, w')"
    by (auto simp: run_simps)
  have st: "steady w w1" by (rule steadyD [OF quiet_candidateStillPublished check])
  show thesis
  proof (cases ok)
    case False
    with rest st show thesis by (intro skipped) auto
  next
    case ok: True
    have "cites w c (chunk # chunks) (citation c chunk)"
      using candidateStillPublished_true check ok True unfolding cites_def by (metis list.set_intros(1))
    with rest ok st show thesis
      by (cases "int (length (acc @ [citation c chunk])) = limit")
        (auto simp: run_simps Let_def intro: last more)
  qed
qed

lemma citeChunks_sound:
  assumes "citeChunks limit c acc chunks w = (Inr out, w')" "int (length acc) < limit"
  shows "int (length out) \<le> limit \<and> (\<forall>cit \<in> set out. cit \<in> set acc \<or> cites w c chunks cit)"
  using assms
proof (induction chunks arbitrary: acc w)
  case Nil
  then show ?case by (auto simp: run_simps)
next
  case (Cons chunk chunks)
  from Cons.prems(1) show ?case
  proof (cases rule: citeChunks_step)
    case (skipped w1)
    from Cons.IH [OF skipped(1) Cons.prems(2)] show ?thesis
      using cites_later [OF skipped(2)] by blast
  next
    case last
    then show ?thesis by auto
  next
    case (more w1)
    have "int (length (acc @ [citation c chunk])) < limit" using more(3) Cons.prems(2) by simp
    from Cons.IH [OF more(1) this] show ?thesis
      using cites_later [OF more(2)] more(4) by auto
  qed
qed


lemma cites_authorized:
  assumes "steady w w1" "cites w1 c chunks cit" "reading w t"
    "loadedCandidate (setting (env w)) (db w) space m t c" "engRetrieve (env w) h = Inr chunks"
  shows "authorized w space m cit"
proof -
  obtain k t1 t2 where "reading w1 t1" "reading w1 t2" "stillPublished (db w1) t1 t2 c" "k \<in> set chunks"
    "rk_DocumentID k = ib_EngineDocumentID (rp_binding c)" "cit = citation c k"
    using assms(2) unfolding cites_def by blast
  moreover have "db w1 = db w" using assms(1) by (simp add: steady_def)
  ultimately show ?thesis
    using assms(3-5) reading_later [OF assms(1)] unfolding authorized_def
    by (intro exI [of _ c] exI [of _ k] exI [of _ h] exI [of _ chunks] exI [of _ t] exI [of _ t1] exI [of _ t2]) simp
qed

lemma engineRetrieve_run:
  "engineRetrieve q w = (r, w') \<longleftrightarrow>
     r = engRetrieve (env w) (sent w @ [CallRetrieve q]) \<and> w' = w\<lparr>sent := sent w @ [CallRetrieve q]\<rparr>"
  by (auto simp: engineRetrieve_def engineRequest_def Let_def)

lemma searchCandidates_step:
  assumes "searchCandidates limit question s (c # cs) w = (Inr out, w')"
  obtains (failed) w1 s1 where "searchCandidates limit question s1 cs w1 = (Inr out, w')" "steady w w1"
      "ss_citations s1 = ss_citations s"
  | (filled) h chunks w1 cited where "engRetrieve (env w) h = Inr chunks" "steady w w1"
      "citeChunks limit c (ss_citations s) chunks w1 = (Inr cited, w')" "ss_citations out = cited"
  | (more) h chunks w1 cited w2 s1 where "engRetrieve (env w) h = Inr chunks" "steady w w1"
      "citeChunks limit c (ss_citations s) chunks w1 = (Inr cited, w2)" "steady w w2"
      "searchCandidates limit question s1 cs w2 = (Inr out, w')" "ss_citations s1 = cited" "int (length cited) \<noteq> limit"
proof -
  obtain answer w1 where call: "engineRetrieve
        \<lparr>rr_Question = question, rr_PublicationID = pub_ID (rp_publication c),
         rr_PublicationGeneration = pub_Generation (rp_publication c), rr_TopK = retrievalCandidateLimit limit\<rparr> w = (answer, w1)"
    and rest: "(case answer of
        Inl _ \<Rightarrow> searchCandidates limit question (s\<lparr>ss_attempts := ss_attempts s + 1, ss_failures := ss_failures s + 1\<rparr>) cs
      | Inr chunks \<Rightarrow>
          andThen (citeChunks limit c (ss_citations s) chunks) (\<lambda>cited.
          if int (length cited) = limit then ret (s\<lparr>ss_attempts := ss_attempts s + 1, ss_citations := cited\<rparr>)
          else searchCandidates limit question (s\<lparr>ss_attempts := ss_attempts s + 1, ss_citations := cited\<rparr>) cs)) w1 = (Inr out, w')"
    using assms by (auto simp: andThen_run attempt_run Let_def)
  have st: "steady w w1" by (rule steadyD [OF quiet_calls(8) call])
  show thesis
  proof (cases answer)
    case (Inl e)
    with rest have "searchCandidates limit question
        (s\<lparr>ss_attempts := ss_attempts s + 1, ss_failures := ss_failures s + 1\<rparr>) cs w1 = (Inr out, w')" by simp
    then show thesis using st by (rule failed) simp
  next
    case (Inr chunks)
    with call have answered: "engRetrieve (env w) (sent w @ [CallRetrieve
        \<lparr>rr_Question = question, rr_PublicationID = pub_ID (rp_publication c),
         rr_PublicationGeneration = pub_Generation (rp_publication c), rr_TopK = retrievalCandidateLimit limit\<rparr>]) = Inr chunks"
      by (simp add: engineRetrieve_run)
    from rest Inr obtain cited w2 where cite: "citeChunks limit c (ss_citations s) chunks w1 = (Inr cited, w2)"
      and tail: "(if int (length cited) = limit then ret (s\<lparr>ss_attempts := ss_attempts s + 1, ss_citations := cited\<rparr>)
          else searchCandidates limit question (s\<lparr>ss_attempts := ss_attempts s + 1, ss_citations := cited\<rparr>) cs) w2 = (Inr out, w')"
      by (auto simp: andThen_run)
    have st2: "steady w w2" using st steadyD [OF quiet_citeChunks cite] by (rule quiet.R_trans)
    show thesis
    proof (cases "int (length cited) = limit")
      case True
      with tail cite show thesis by (intro filled [OF answered st]) (auto simp: ret_run)
    next
      case False
      with tail show thesis by (intro more [OF answered st cite st2]) auto
    qed
  qed
qed

lemma searchCandidates_sound:
  assumes "searchCandidates limit question s cs w = (Inr out, w')" "int (length (ss_citations s)) < limit"
    "\<And>c. c \<in> set cs \<Longrightarrow> loadedCandidate (setting (env w)) (db w) space m t c" "reading v t" "steady v w"
  shows "int (length (ss_citations out)) \<le> limit \<and>
    (\<forall>cit \<in> set (ss_citations out). cit \<in> set (ss_citations s) \<or> authorized v space m cit)"
  using assms
proof (induction cs arbitrary: s w)
  case Nil
  then show ?case by (auto simp: run_simps)
next
  case (Cons c cs)
  have same: "db w = db v" "env w = env v" using Cons.prems(5) by (simp_all add: steady_def)
  have this_one: "loadedCandidate (setting (env v)) (db v) space m t c"
    using Cons.prems(3) [of c] by (simp add: same)
  have later: "loadedCandidate (setting (env w1)) (db w1) space m t c'" if "steady w w1" "c' \<in> set cs" for w1 c'
    using that Cons.prems(3) [of c'] by (simp add: steady_def)
  from Cons.prems(1) show ?case
  proof (cases rule: searchCandidates_step)
    case (failed w1 s1)
    have "int (length (ss_citations s1)) < limit" using Cons.prems(2) failed(3) by simp
    from Cons.IH [OF failed(1) this later [OF failed(2)] Cons.prems(4) quiet.R_trans [OF Cons.prems(5) failed(2)]] failed(3)
    show ?thesis by simp
  next
    case (filled h chunks w1 cited)
    have "authorized v space m cit" if "cites w1 c chunks cit" for cit
      by (rule cites_authorized [OF quiet.R_trans [OF Cons.prems(5) filled(2)] that Cons.prems(4) this_one])
        (use filled(1) same in simp)
    with citeChunks_sound [OF filled(3) Cons.prems(2)] filled(4) show ?thesis by blast
  next
    case (more h chunks w1 cited w2 s1)
    have new: "authorized v space m cit" if "cites w1 c chunks cit" for cit
      by (rule cites_authorized [OF quiet.R_trans [OF Cons.prems(5) more(2)] that Cons.prems(4) this_one])
        (use more(1) same in simp)
    have cited: "int (length cited) \<le> limit" "\<forall>cit \<in> set cited. cit \<in> set (ss_citations s) \<or> cites w1 c chunks cit"
      using citeChunks_sound [OF more(3) Cons.prems(2)] by auto
    have "int (length (ss_citations s1)) < limit" using more(6,7) cited(1) by simp
    from Cons.IH [OF more(5) this later [OF more(4)] Cons.prems(4) quiet.R_trans [OF Cons.prems(5) more(4)]]
    show ?thesis using more(6) cited(2) new by blast
  qed
qed

lemma clampTopK_range: "0 < clampTopK k n \<and> (0 < ks_RetrieveMaxTopK k \<longrightarrow> clampTopK k n \<le> ks_RetrieveMaxTopK k)"
  by (auto simp: clampTopK_def Let_def)

lemma retrievalCandidateLimit_range: "20 \<le> retrievalCandidateLimit n \<and> retrievalCandidateLimit n \<le> 50"
  by (auto simp: retrievalCandidateLimit_def Let_def)

text \<open>The gateway: whatever the engine answers, only authorized citations, and no more than the limit.\<close>


text \<open>The gateway: whatever the engine answers, only authorized citations, and no more than the limit.\<close>

definition logged :: "world \<Rightarrow> world \<Rightarrow> bool" where
  "logged w w' \<longleftrightarrow> (\<exists>t. db w' = (db w)\<lparr>retrievalEvents := t\<rparr>) \<and> env w' = env w \<and> ticks w \<le> ticks w'"

lemma same_events: "\<exists>t. d = d\<lparr>retrievalEvents := t\<rparr>" for d :: database
  by (rule exI [of _ "retrievalEvents d"]) simp

lemma logged_steady: "steady w w' \<Longrightarrow> logged w w'"
  unfolding logged_def steady_def by (auto intro: exI [of _ "retrievalEvents (db w)"])

interpretation lg: frame logged
proof
  show "logged s s" for s by (rule logged_steady) (rule quiet.R_refl)
  show "logged s t \<Longrightarrow> logged t u \<Longrightarrow> logged s u" for s t u by (auto simp: logged_def)
qed

lemma logged_quiet: "quiet.within m \<Longrightarrow> lg.within m"
  by (rule lg.withinI) (auto dest: steadyD intro: logged_steady)

lemma logged_recordRetrieval: "lg.within (recordRetrieval a b s q n oc r)"
proof -
  have "lg.within (insertRow retrievalEvents retrievalEvents_update (\<lambda>i r. r\<lparr>re_ID := i\<rparr>) re_stamp re_clash x)" for x
    by (rule lg.withinI)
      (auto simp: insertRow_def dbCall_def Let_def logged_def split: if_splits option.splits
        intro: same_events)
  then show ?thesis
    unfolding recordRetrieval_def by (intro lg.within_intros logged_quiet [OF quiet_calls(7)])
qed

lemma logged_finishRetrieval: "lg.within (finishRetrieval a b s q st)"
  unfolding finishRetrieval_def Let_def by (intro lg.within_intros logged_recordRetrieval)

lemma logged_retrieveSpace: "lg.within (retrieveSpace i m q k a b)"
  unfolding retrieveSpace_def ValidateKnowledgeSettings_def orRaise_def foundOr_def Let_def
  by (intro lg.within_intros logged_finishRetrieval logged_quiet quiet_calls
      quiet_loadRetrievablePublications quiet_searchCandidates)

lemma finishRetrieval_value: "finishRetrieval a b i q s w = (Inr cits, w') \<Longrightarrow> cits = ss_citations s"
  by (auto simp: finishRetrieval_def run_simps Let_def split: if_splits)

lemma retrieveSpace_run:
  assumes "retrieveSpace spaceID m question topK actorID bindingID w = (Inr cits, w')"
  obtains space te where
    "tblGet sp_ID spaceID (spaces (db w)) = Some space" "sp_Status space = SpaceStatusActive"
    "validQuestion (setting (env w)) (trimSpace question)"
    "int (length cits) \<le> clampTopK (setting (env w)) topK" "\<forall>cit \<in> set cits. authorized w space m cit"
    "db w' = (db w)\<lparr>retrievalEvents := te\<rparr>"
proof -
  let ?w1 = "w\<lparr>calls := Suc (calls w)\<rparr>" and ?k = "setting (env w)"
  obtain space w2 w3 cs s where
    sp: "tblGet sp_ID spaceID (spaces (db w)) = Some space" "sp_Status space = SpaceStatusActive"
      "validQuestion ?k (trimSpace question)"
    and load: "loadRetrievablePublications space m ?w1 = (Inr cs, w2)"
    and search: "searchCandidates (clampTopK ?k topK) (trimSpace question)
        \<lparr>ss_citations = [], ss_attempts = 0, ss_failures = 0\<rparr> cs w2 = (Inr s, w3)"
    and finish: "finishRetrieval actorID bindingID spaceID (trimSpace question) s w3 = (Inr cits, w')"
    using assms unfolding retrieveSpace_def ValidateKnowledgeSettings_def orRaise_def
    by (auto simp: run_simps Let_def split: if_splits option.splits)
  obtain te where te: "db w' = (db w)\<lparr>retrievalEvents := te\<rparr>"
    using lg.withinD [OF logged_retrieveSpace assms] by (auto simp: logged_def)
  have st1: "steady w ?w1" by (simp add: steady_def)
  obtain t where t: "reading ?w1 t" "\<forall>c \<in> set cs. loadedCandidate (setting (env ?w1)) (db ?w1) space m t c"
    using loadRetrievablePublications_sound [OF load] by blast
  have st2: "steady w w2"
    using st1 steadyD [OF quiet_loadRetrievablePublications load] by (rule quiet.R_trans)
  have "int (length (ss_citations \<lparr>ss_citations = [], ss_attempts = 0, ss_failures = 0\<rparr>)) < clampTopK ?k topK"
    using clampTopK_range by simp
  moreover have "loadedCandidate (setting (env w2)) (db w2) space m t c" if "c \<in> set cs" for c
    using that t(2) st2 by (simp add: steady_def)
  ultimately have "int (length (ss_citations s)) \<le> clampTopK ?k topK" "\<forall>cit \<in> set (ss_citations s). authorized w space m cit"
    using searchCandidates_sound [OF search _ _ reading_later [OF st1 t(1)] st2] by auto
  then show thesis
    using that [OF sp _ _ te] finishRetrieval_value [OF finish] by simp
qed


lemma quiet_canReadSpace: "quiet.within (canReadSpace user i)"
  unfolding canReadSpace_def getRepositoryByID_def orRaise_def by (intro quiet_intros)

definition mayRead :: "world \<Rightarrow> User \<Rightarrow> Space \<Rightarrow> bool" where
  "mayRead w user space \<longleftrightarrow>
     user_IsAdmin user \<or> user_ID user = sp_OwnerID space \<or>
     (\<exists>repo. tblGet repo_ID (sp_RepoID space) (repositories (db w)) = Some repo \<and> codeReadable (env w) user repo = Inr True)"

lemma canReadSpace_true:
  assumes "canReadSpace user i w = (Inr True, w')"
  shows "\<exists>space. tblGet sp_ID i (spaces (db w)) = Some space \<and> sp_Status space = SpaceStatusActive \<and> mayRead w user space"
  using assms unfolding canReadSpace_def
  by (auto simp: run_simps orRaise_def mayRead_def split: if_splits sum.splits)

lemma authorized_later:
  assumes "logged w w1" "authorized w1 space m cit"
  shows "authorized w space m cit"
proof -
  obtain t where w1: "db w1 = (db w)\<lparr>retrievalEvents := t\<rparr>" "env w1 = env w" "ticks w \<le> ticks w1"
    using assms(1) by (auto simp: logged_def)
  have "reading w1 s \<Longrightarrow> reading w s" for s
    using w1(2,3) unfolding reading_def by (metis le_trans)
  then show ?thesis
    using assms(2) unfolding authorized_def loadedCandidate_def stillPublished_def by (simp add: w1(1,2)) blast
qed

text \<open>A citation a user may see: authorized in a space the user may read.\<close>

definition visible :: "world \<Rightarrow> User \<Rightarrow> Citation \<Rightarrow> bool" where
  "visible w user cit \<longleftrightarrow>
     (\<exists>space i. tblGet sp_ID i (spaces (db w)) = Some space \<and> sp_Status space = SpaceStatusActive \<and> mayRead w user space \<and>
        authorized w space SecurityLevelRestricted cit)"

lemma visible_later: "logged w w1 \<Longrightarrow> visible w1 user cit \<Longrightarrow> visible w user cit"
  unfolding visible_def mayRead_def using authorized_later by (fastforce simp: logged_def)

lemma readable_retrieval:
  assumes "canReadSpace user i w = (Inr True, w1)"
    "retrieveSpace i SecurityLevelRestricted question topK a b w1 = (Inr cits, w2)"
  shows "\<forall>cit \<in> set cits. visible w user cit" "int (length cits) \<le> clampTopK (setting (env w)) topK"
proof -
  have st: "steady w w1" by (rule steadyD [OF quiet_canReadSpace assms(1)])
  obtain space where sp: "tblGet sp_ID i (spaces (db w)) = Some space" "sp_Status space = SpaceStatusActive" "mayRead w user space"
    using canReadSpace_true [OF assms(1)] by blast
  obtain space' where run: "tblGet sp_ID i (spaces (db w1)) = Some space'" "int (length cits) \<le> clampTopK (setting (env w1)) topK"
    "\<forall>cit \<in> set cits. authorized w1 space' SecurityLevelRestricted cit"
    using assms(2) by (rule retrieveSpace_run)
  have "space' = space" using run(1) sp(1) st by (simp add: steady_def)
  then show "\<forall>cit \<in> set cits. visible w user cit" "int (length cits) \<le> clampTopK (setting (env w)) topK"
    using run sp authorized_later [OF logged_steady [OF st]] st unfolding visible_def steady_def by (blast, simp)
qed

lemma searchSpaces_visible:
  assumes "foldM (searchSpace user question topK) acc sps w = (Inr out, w')" "logged v w"
    "\<forall>cit \<in> set (fst acc). visible v user cit"
  shows "\<forall>cit \<in> set (fst out). visible v user cit"
  using assms
proof (induction sps arbitrary: acc w)
  case Nil
  then show ?case by (auto simp: run_simps)
next
  case (Cons sp sps)
  obtain acc1 w1 where one: "searchSpace user question topK acc sp w = (Inr acc1, w1)"
    and rest: "foldM (searchSpace user question topK) acc1 sps w1 = (Inr out, w')"
    using Cons.prems(1) by (auto simp: andThen_run)
  have "lg.within (searchSpace user question topK acc sp)"
    unfolding searchSpace_def by (intro lg.within_intros logged_quiet [OF quiet_canReadSpace] logged_retrieveSpace)
  from lg.withinD [OF this one] have w1: "logged v w1" by (rule lg.R_trans [OF Cons.prems(2)])
  have "\<forall>cit \<in> set (fst acc1). visible v user cit"
  proof -
    obtain allowed wa where can: "canReadSpace user (sp_ID sp) w = (allowed, wa)" by (cases "canReadSpace user (sp_ID sp) w")
    obtain part wb where ret: "retrieveSpace (sp_ID sp) SecurityLevelRestricted question topK (user_ID user) 0 wa = (part, wb)"
      by (cases "retrieveSpace (sp_ID sp) SecurityLevelRestricted question topK (user_ID user) 0 wa")
    show ?thesis
    proof (cases "allowed = Inr True \<and> (\<exists>cits. part = Inr cits)")
      case False
      with one can ret have "fst acc1 = fst acc"
        by (auto simp: searchSpace_def andThen_run attempt_run ret_run split: if_splits sum.splits)
      with Cons.prems(3) show ?thesis by simp
    next
      case True
      then obtain cits where ok: "allowed = Inr True" "part = Inr cits" by blast
      with one can ret have "fst acc1 = fst acc @ cits"
        by (auto simp: searchSpace_def andThen_run attempt_run ret_run split: if_splits sum.splits)
      moreover have "\<forall>cit \<in> set cits. visible w user cit"
        using readable_retrieval(1) can ret ok by blast
      ultimately show ?thesis using Cons.prems(3) visible_later [OF Cons.prems(2)] by auto
    qed
  qed
  from Cons.IH [OF rest w1 this] show ?case .
qed

lemma RetrieveForUser_run:
  assumes "RetrieveForUser (Some user) spaceID question topK w = (Inr cits, w')"
  shows "0 < user_ID user \<and> (\<forall>cit \<in> set cits. visible w user cit) \<and> int (length cits) \<le> clampTopK (setting (env w)) topK"
proof (cases "0 < spaceID")
  case True
  with assms obtain w1 where run: "canReadSpace user spaceID w = (Inr True, w1)"
    "retrieveSpace spaceID SecurityLevelRestricted question topK (user_ID user) 0 w1 = (Inr cits, w')" "0 < user_ID user"
    by (auto simp: RetrieveForUser_def andThen_run raise_run if_run split: if_splits)
  with readable_retrieval [OF run(1,2)] show ?thesis by blast
next
  case False
  let ?w1 = "w\<lparr>calls := Suc (calls w)\<rparr>"
  from assms False obtain acc w2 active where loop: "foldM (searchSpace user question topK) ([], False) active ?w1 = (Inr acc, w2)"
    and cits: "cits = (if clampTopK (setting (env w2)) topK < int (length (fst acc)) then take (nat (clampTopK (setting (env w2)) topK)) (fst acc) else fst acc)"
    and user: "0 < user_ID user"
    by (auto simp: RetrieveForUser_def findLimited_def run_simps Let_def split: if_splits)
  have st: "logged w ?w1" by (rule logged_steady) (simp add: steady_def)
  have "lg.within (foldM (searchSpace user question topK) ([], False) active)"
    unfolding searchSpace_def by (intro lg.within_intros logged_quiet [OF quiet_canReadSpace] logged_retrieveSpace)
  from lg.withinD [OF this loop] have "env w2 = env w" by (simp add: logged_def)
  moreover have "\<forall>cit \<in> set (fst acc). visible w user cit"
    by (rule searchSpaces_visible [OF loop st]) simp
  ultimately show ?thesis
    using user cits clampTopK_range [of "setting (env w)" topK] by (auto dest!: in_set_takeD)
qed


lemma RetrieveForDify_run:
  assumes "RetrieveForDify (Some binding) question topK w = (Inr cits, w')"
  obtains space where "tblGet sp_ID (dify_SpaceID binding) (spaces (db w)) = Some space" "sp_Status space = SpaceStatusActive"
    "dify_Enabled binding" "int (length cits) \<le> clampTopK (setting (env w)) topK"
    "\<forall>cit \<in> set cits. authorized w space (dify_MaxSecurityLevel binding) cit"
proof -
  from assms have "dify_Enabled binding"
    "retrieveSpace (dify_SpaceID binding) (dify_MaxSecurityLevel binding) question topK 0 (dify_ID binding) w = (Inr cits, w')"
    by (auto simp: RetrieveForDify_def run_simps split: if_splits)
  then show thesis by (rule_tac retrieveSpace_run [OF \<open>retrieveSpace _ _ _ _ _ _ w = _\<close>]) (rule that)
qed

section \<open>Revoked and restricted content\<close>

lemma securityAllowed_iff:
  "securityAllowed actual maximum \<longleftrightarrow>
     actual = SecurityLevelPublic \<and> maximum \<in> {SecurityLevelPublic, SecurityLevelInternal, SecurityLevelRestricted, SecurityLevelProhibited} \<or>
     actual = SecurityLevelInternal \<and> maximum \<in> {SecurityLevelInternal, SecurityLevelRestricted, SecurityLevelProhibited} \<or>
     actual = SecurityLevelRestricted \<and> maximum \<in> {SecurityLevelRestricted, SecurityLevelProhibited}"
  by (cases actual; cases maximum) (simp_all add: securityAllowed_def securityRank_def)

lemma securityAllowed_trans:
  "securityAllowed a b \<Longrightarrow> securityAllowed b c \<Longrightarrow> securityAllowed a c"
  by (cases a; cases b; cases c) (simp_all add: securityAllowed_def securityRank_def)

text \<open>The publication behind an authorized citation.\<close>

lemma authorized_publication:
  assumes "authorized w space m cit"
  obtains p x r t where "p \<in> set (rows (publications (db w)))" "pub_ID p = cit_PublicationID cit" "pub_IsCurrent p"
    "pub_SpaceID p = sp_ID space" "isPublished (Some p) t (doc_CurrentPublicationID x) (sp_RevocationGeneration space)"
    "reading w t" "x \<in> set (rows (documents (db w)))" "doc_ID x = cit_DocumentID cit" "doc_Title x = cit_Title cit"
    "r \<in> set (rows (revisions (db w)))" "rev_ID r = cit_RevisionID cit" "rev_DocumentID r = doc_ID x"
    "securityAllowed (rev_SecurityLevel r) m"
  using assms unfolding authorized_def loadedCandidate_def
  by (elim exE conjE) (rule that, auto simp: citation_def dest: tblGetD isPublishedD)

text \<open>A revoked publication is not cited.\<close>

lemma authorized_not_revoked:
  assumes "authorized w space m cit" "governance (db w)" "t \<in> set (rows (tombstones (db w)))"
  shows "tomb_PublicationID t \<noteq> cit_PublicationID cit"
proof
  assume eq: "tomb_PublicationID t = cit_PublicationID cit"
  obtain p where p: "p \<in> set (rows (publications (db w)))" "pub_ID p = cit_PublicationID cit" "pub_IsCurrent p"
    using assms(1) by (rule authorized_publication)
  then have "tblGet pub_ID (tomb_PublicationID t) (publications (db w)) = Some p"
    using assms(2) by (auto simp: eq governance_def dbWf_def dest: tblWf_get)
  with p(3) assms(2,3) show False
    unfolding governance_def revoked_def case_get by fastforce
qed

section \<open>Dify credentials\<close>

lemma LookupDifyBinding_run:
  "LookupDifyBinding token knowledgeID w = (Inr b, w') \<longleftrightarrow>
     validBindingIdentifier knowledgeID \<and> 24 \<le> length token \<and> length token \<le> 128 \<and> \<not> faults (env w) (calls w) \<and>
     tblFirst (\<lambda>b. dify_DifyKnowledgeID b = knowledgeID \<and> dify_Enabled b) (difyBindings (db w)) = Some b \<and>
     dify_TokenSHA256 b = hexEncode (sha256 (env w) token) \<and> w' = w\<lparr>calls := Suc (calls w)\<rparr>"
  unfolding LookupDifyBinding_def by (auto simp: run_simps split: if_splits)

lemma CreateDifyBinding_run:
  assumes "CreateDifyBinding opts w = (Inr (b, token), w')"
  obtains randomPart actor space t te tb where
    "token = ''dify_kb_'' @ randomPart"
    "tblInsert (\<lambda>i r. r\<lparr>dify_ID := i\<rparr>) dify_clash (dify_stamp t (newDifyBinding opts space actor (sha256 (env w)) token))
       (difyBindings (db w)) = Some (b, tb)"
    "db w' = (db w)\<lparr>difyBindings := tb, auditEvents := te\<rparr>"
    "tblGet user_ID (cdb_ActorID opts) (users (db w)) = Some actor" "user_IsAdmin actor"
    "tblGet sp_ID (cdb_SpaceID opts) (spaces (db w)) = Some space" "sp_Status space = SpaceStatusActive"
    "validBindingText (cdb_Name opts)" "validBindingIdentifier (cdb_DifyKnowledgeID opts)"
    "validDifySecurityLevel (cdb_MaxSecurityLevel opts)" "env w' = env w"
proof -
  have "\<exists>randomPart actor space t te tb.
    token = ''dify_kb_'' @ randomPart \<and>
    tblInsert (\<lambda>i r. r\<lparr>dify_ID := i\<rparr>) dify_clash (dify_stamp t (newDifyBinding opts space actor (sha256 (env w)) token))
       (difyBindings (db w)) = Some (b, tb) \<and>
    db w' = (db w)\<lparr>difyBindings := tb, auditEvents := te\<rparr> \<and>
    tblGet user_ID (cdb_ActorID opts) (users (db w)) = Some actor \<and> user_IsAdmin actor \<and>
    tblGet sp_ID (cdb_SpaceID opts) (spaces (db w)) = Some space \<and> sp_Status space = SpaceStatusActive \<and>
    validBindingText (cdb_Name opts) \<and> validBindingIdentifier (cdb_DifyKnowledgeID opts) \<and>
    validDifySecurityLevel (cdb_MaxSecurityLevel opts) \<and> env w' = env w"
    using assms unfolding CreateDifyBinding_def appendAudit_def cryptoRandomString_def Let_def
    by (auto simp: run_simps split: if_splits) blast
  then show thesis using that by blast
qed


text \<open>The created binding is the one its identifier finds, and it stores the digest of the credential.\<close>

lemma CreateDifyBinding_found:
  assumes create: "CreateDifyBinding opts w = (Inr (b, token), w')"
  shows "tblFirst (\<lambda>b. dify_DifyKnowledgeID b = cdb_DifyKnowledgeID opts \<and> dify_Enabled b) (difyBindings (db w')) = Some b"
    "dify_TokenSHA256 b = hexEncode (sha256 (env w) token)" "validBindingIdentifier (cdb_DifyKnowledgeID opts)"
    "env w' = env w"
proof -
  obtain actor space t tb te where ins: "tblInsert (\<lambda>i r. r\<lparr>dify_ID := i\<rparr>) dify_clash
       (dify_stamp t (newDifyBinding opts space actor (sha256 (env w)) token)) (difyBindings (db w)) = Some (b, tb)"
    and db: "db w' = (db w)\<lparr>difyBindings := tb, auditEvents := te\<rparr>"
    and id: "validBindingIdentifier (cdb_DifyKnowledgeID opts)" and env: "env w' = env w"
    using create by (rule CreateDifyBinding_run)
  have trim: "trimSpace (cdb_DifyKnowledgeID opts) = cdb_DifyKnowledgeID opts"
    using id by (auto simp: validBindingIdentifier_def validBindingText_def split: if_splits)
  from ins have b: "dify_DifyKnowledgeID b = cdb_DifyKnowledgeID opts" "dify_Enabled b"
      "dify_TokenSHA256 b = hexEncode (sha256 (env w) token)"
    and tb: "rows tb = rows (difyBindings (db w)) @ [b]"
    and fresh: "\<forall>old \<in> set (rows (difyBindings (db w))). dify_DifyKnowledgeID old \<noteq> cdb_DifyKnowledgeID opts"
    by (auto simp: tblInsert_def Let_def list_ex_iff dify_clash_def dify_stamp_def newDifyBinding_def trim split: if_splits)
  have "tblFirst (\<lambda>b. dify_DifyKnowledgeID b = cdb_DifyKnowledgeID opts \<and> dify_Enabled b) tb = Some b"
    using fresh b unfolding tblFirst_def tb find_append by (auto simp: List.find_None_iff split: option.splits dest!: find_SomeD)
  then show "tblFirst (\<lambda>b. dify_DifyKnowledgeID b = cdb_DifyKnowledgeID opts \<and> dify_Enabled b) (difyBindings (db w')) = Some b"
    by (simp add: db)
  show "dify_TokenSHA256 b = hexEncode (sha256 (env w) token)" by (rule b)
  show "validBindingIdentifier (cdb_DifyKnowledgeID opts)" "env w' = env w" by (rule id env)+
qed

text \<open>
  Right after its creation the binding is found with exactly the credentials that have the digest
  of the one handed out.
\<close>

lemma CreateDifyBinding_lookup:
  assumes "CreateDifyBinding opts w = (Inr (b, token), w')" "\<not> faults (env w') (calls w')"
  shows "fst (LookupDifyBinding t (cdb_DifyKnowledgeID opts) w') = Inr b' \<longleftrightarrow>
    24 \<le> length t \<and> length t \<le> 128 \<and> sha256 (env w) t = sha256 (env w) token \<and> b' = b"
proof -
  have "fst (LookupDifyBinding t (cdb_DifyKnowledgeID opts) w') = Inr b' \<longleftrightarrow>
      LookupDifyBinding t (cdb_DifyKnowledgeID opts) w' = (Inr b', w'\<lparr>calls := Suc (calls w')\<rparr>)"
    by (cases "LookupDifyBinding t (cdb_DifyKnowledgeID opts) w'") (auto simp: LookupDifyBinding_run)
  with CreateDifyBinding_found [OF assms(1)] assms(2) show ?thesis
    by (auto simp: LookupDifyBinding_run)
qed


section \<open>Feedback and quality tasks\<close>

lemma RecordFeedback_run:
  assumes "RecordFeedback actorID spaceID publicationID category rating comment w = (Inr u, w')"
  shows "\<exists>f t. 1 \<le> fb_Rating f \<and> fb_Rating f \<le> 5 \<and> trimSpace (fb_Category f) \<in> set allowedFeedbackCategories \<and>
    length (fb_Comment f) \<le> 1024 \<and> fb_ActorID f = actorID \<and> 0 < actorID \<and>
    rows t = rows (feedbacks (db w)) @ [f] \<and> db w' = (db w)\<lparr>feedbacks := t\<rparr>"
proof -
  let ?f = "\<lparr>fb_ID = next_id (feedbacks (db w)), fb_ActorID = actorID, fb_SpaceID = spaceID, fb_PublicationID = publicationID,
         fb_Category = category, fb_Rating = rating, fb_Comment = trimSpace comment, fb_CreatedUnix = currentUnix w\<rparr>"
  let ?t = "(feedbacks (db w))\<lparr>rows := rows (feedbacks (db w)) @ [?f], next_id := next_id (feedbacks (db w)) + 1\<rparr>"
  have ok: "0 < actorID" "1 \<le> rating" "rating \<le> 5" "validFeedbackComment comment" "trimSpace category \<in> set allowedFeedbackCategories"
    using assms by (auto simp: RecordFeedback_def run_simps split: if_splits)
  have "db w' = (db w)\<lparr>feedbacks := ?t\<rparr>"
    using assms by (auto simp: RecordFeedback_def run_simps fb_stamp_def tblInsert_def Let_def split: if_splits)
  with ok show ?thesis
    by (intro exI [of _ ?f] exI [of _ ?t]) (simp add: validFeedbackComment_def maxCommentBytes_def Let_def)
qed

definition taskEntity :: "string \<Rightarrow> string" where
  "taskEntity taskType = (if taskType = qualityTaskNoAnswer then ''retrieval_event'' else ''feedback'')"

definition openTask :: "string \<Rightarrow> int \<Rightarrow> database \<Rightarrow> bool" where
  "openTask taskType entityID d \<longleftrightarrow>
     (if taskType = qualityTaskNoAnswer
      then (\<exists>e. tblGet re_ID entityID (retrievalEvents d) = Some e \<and> re_Outcome e = ''empty'')
      else (\<exists>f. tblGet fb_ID entityID (feedbacks d) = Some f \<and> fb_Rating f \<le> 2))"


lemma loadQualityTask_run:
  assumes "loadQualityTask taskType entityID w = (Inr r, w')"
  shows "fst r = taskEntity taskType \<and> openTask taskType entityID (db w) \<and> db w' = db w"
  using assms unfolding loadQualityTask_def
  by (cases "taskType = qualityTaskNoAnswer"; cases "taskType = qualityTaskLowFeedback")
    (auto simp: run_simps taskEntity_def openTask_def)

lemma appendAudit_run:
  assumes "appendAudit actorID spaceID action entityType entityID outcome reason w = (Inr u, w')"
  shows "\<exists>a te. rows te = rows (auditEvents (db w)) @ [a] \<and> db w' = (db w)\<lparr>auditEvents := te\<rparr> \<and>
    ae_ActorID a = actorID \<and> ae_Action a = action \<and> ae_EntityType a = entityType \<and> ae_EntityID a = entityID \<and>
    ae_SpaceID a = spaceID \<and> ae_Result a = outcome \<and> ae_ReasonCode a = reason"
proof -
  obtain te e where "db w' = (db w)\<lparr>auditEvents := te\<rparr>" "rows te = rows (auditEvents (db w)) @ [e]"
    "ae_ActorID e = actorID" "ae_Action e = action" "ae_EntityType e = entityType" "ae_EntityID e = entityID"
    "ae_SpaceID e = spaceID" "ae_Result e = outcome" "ae_ReasonCode e = reason"
    using assms unfolding appendAudit_def
    by (auto simp: run_simps ae_stamp_def dest!: audit_insertD)
  then show ?thesis by blast
qed

text \<open>A resolution is recorded once: a second one finds it and writes nothing.\<close>

definition resolution :: "int \<Rightarrow> string \<Rightarrow> int \<Rightarrow> database \<Rightarrow> database \<Rightarrow> bool" where
  "resolution actorID taskType entityID d d' \<longleftrightarrow>
     (if list_ex (resolvedTask (taskEntity taskType) entityID) (rows (auditEvents d)) then d' = d
      else \<exists>a te. rows te = rows (auditEvents d) @ [a] \<and> d' = d\<lparr>auditEvents := te\<rparr> \<and>
             resolvedTask (taskEntity taskType) entityID a \<and> ae_ActorID a = actorID)"

lemma resolveTask_run:
  assumes "resolveTask actor taskType entityID w = (Inr u, w')"
  shows "openTask taskType entityID (db w) \<and> resolution (user_ID actor) taskType entityID (db w) (db w')"
proof -
  obtain kind sp w1 where load: "loadQualityTask taskType entityID w = (Inr (kind, sp), w1)"
    and tail: "(if tblFirst (resolvedTask kind entityID) (auditEvents (db w1)) \<noteq> None then ret ()
        else appendAudit (user_ID actor) sp qualityTaskResolved kind entityID ''succeeded'' taskType)
        (w1\<lparr>calls := Suc (calls w1)\<rparr>) = (Inr u, w')"
    using assms by (auto simp: resolveTask_def andThen_run onErr_run getFirst_run split: prod.splits)
  define found where "found = tblFirst (resolvedTask kind entityID) (auditEvents (db w1))"
  note rest = tail [folded found_def]
  have r: "kind = taskEntity taskType" "openTask taskType entityID (db w)" "db w1 = db w"
    using loadQualityTask_run [OF load] by auto
  have ex: "found = None \<longleftrightarrow> \<not> list_ex (resolvedTask (taskEntity taskType) entityID) (rows (auditEvents (db w)))"
    unfolding found_def r by (simp add: tblFirst_None list_ex_iff)
  show ?thesis
  proof (cases found)
    case None
    with rest have "appendAudit (user_ID actor) sp qualityTaskResolved kind entityID ''succeeded'' taskType
        (w1\<lparr>calls := Suc (calls w1)\<rparr>) = (Inr u, w')" by simp
    from appendAudit_run [OF this] None ex r show ?thesis
      by (auto simp: resolution_def resolvedTask_def)
  next
    case (Some a)
    with rest ex r show ?thesis by (auto simp: resolution_def ret_def)
  qed
qed

lemma ResolveQualityTask_run:
  assumes "ResolveQualityTask actorID taskType entityID w = (Inr u, w')"
  shows "\<exists>actor. tblGet user_ID actorID (users (db w)) = Some actor \<and> user_IsAdmin actor \<and> 0 < entityID \<and>
    openTask taskType entityID (db w) \<and> resolution actorID taskType entityID (db w) (db w')"
proof -
  obtain actor w1 w3 where run: "resolveTask actor taskType entityID w1 = (Inr u, w3)" and w: "db w1 = db w" "db w' = db w3"
    and actor: "tblGet user_ID actorID (users (db w)) = Some actor" "user_IsAdmin actor" "0 < entityID"
    using assms by (auto simp: ResolveQualityTask_def run_simps split: if_splits)
  from resolveTask_run [OF run] actor tblGet_id [OF actor(1)] show ?thesis by (auto simp: w)
qed

lemma resolution_twice:
  assumes "resolution i taskType entityID d e" "resolution j taskType entityID e f"
  shows "f = e"
proof -
  have "list_ex (resolvedTask (taskEntity taskType) entityID) (rows (auditEvents e))"
    using assms(1) by (auto simp: resolution_def split: if_splits)
  with assms(2) show ?thesis by (simp add: resolution_def)
qed

section \<open>Governance\<close>

lemma governed_quiet: "quiet.within m \<Longrightarrow> gov.within m"
  by (rule gov.within_same) (auto dest: steadyD simp: steady_def)

lemma governed_recordRetrieval: "gov.within (recordRetrieval a b s q n oc r)"
  unfolding recordRetrieval_def by (intro operation_intros gov.within_insertRow governed_other) (rule re_tbl.insert_wf)

lemma governed_retrieveSpace: "gov.within (retrieveSpace i m q k a b)"
  unfolding retrieveSpace_def finishRetrieval_def ValidateKnowledgeSettings_def orRaise_def Let_def
  by (intro operation_intros governed_recordRetrieval
      governed_quiet [OF quiet_loadRetrievablePublications] governed_quiet [OF quiet_searchCandidates])

lemma governed_RetrieveForDify: "gov.within (RetrieveForDify b q k)"
  unfolding RetrieveForDify_def by (intro operation_intros governed_retrieveSpace)

lemma governed_RetrieveForUser: "gov.within (RetrieveForUser u i q k)"
  unfolding RetrieveForUser_def searchSpace_def findLimited_def Let_def
  by (intro operation_intros governed_retrieveSpace governed_recordRetrieval governed_quiet [OF quiet_canReadSpace])

lemma governed_appendAudit: "gov.within (appendAudit a s c t e oc r)"
  unfolding appendAudit_def by (intro operation_intros governed_insertAudit)

lemma governed_CreateDifyBinding: "gov.within (CreateDifyBinding opts)"
  unfolding CreateDifyBinding_def Let_def
  by (intro operation_intros governed_appendAudit gov.within_mustInsert governed_other gov.within_same)
    (auto simp: cryptoRandomString_def intro: dify_tbl.insert_wf)

lemma governed_LookupDifyBinding: "gov.within (LookupDifyBinding token i)"
  unfolding LookupDifyBinding_def by (intro operation_intros)

lemma governed_RecordFeedback: "gov.within (RecordFeedback a s p c r t)"
  unfolding RecordFeedback_def by (intro operation_intros gov.within_insertRow governed_other) (rule fb_tbl.insert_wf)

lemma governed_ResolveQualityTask: "gov.within (ResolveQualityTask a t e)"
  unfolding ResolveQualityTask_def resolveTask_def loadQualityTask_def
  by (intro operation_intros governed_appendAudit)

end
