(* ===== verification/Spaces.thy ===== *)
theory Spaces
  imports DataSources
begin

text \<open>
  Knowledge spaces, \<open>CreateSpace\<close> and \<open>DeleteEmptySpace\<close> of
  \<^verbatim>\<open>services/knowledge/catalog/catalog.go\<close>. A space owns a private repository, which Gitea's
  repository service creates and deletes.

  The lemmas invert successful runs and show that a space with any record is never deleted.
\<close>

record CreateSpaceOptions =
  cso_OwnerID :: int
  cso_ActorID :: int
  cso_Name :: string
  cso_Description :: string

text \<open>The description of the repository: a fixed Chinese prefix and the name.\<close>

definition repoDescription :: "string \<Rightarrow> string" where
  "repoDescription name =
     utf8 [0x7531, 0x4F01, 0x4E1A, 0x77E5, 0x8BC6, 0x5E93, 0x7BA1, 0x7406, 0xFF1A] @ name"

definition newSpace :: "User \<Rightarrow> User \<Rightarrow> Repository \<Rightarrow> string \<Rightarrow> string \<Rightarrow> string \<Rightarrow> Space" where
  "newSpace owner actor repo name slug description =
     \<lparr>sp_ID = 0, sp_OwnerID = user_ID owner, sp_RepoID = repo_ID repo, sp_Name = name, sp_Slug = slug,
      sp_Description = trimSpace description, sp_Status = SpaceStatusActive, sp_PublicationGeneration = 0,
      sp_RevocationGeneration = 1, sp_CreatedBy = user_ID actor, sp_CreatedUnix = 0, sp_UpdatedUnix = 0\<rparr>"

definition CreateSpace :: "CreateSpaceOptions \<Rightarrow> Space prog" where
  "CreateSpace opts =
     (let name = trimSpace (cso_Name opts) in
      if cso_OwnerID opts \<le> 0 \<or> cso_ActorID opts \<le> 0 \<or> \<not> validDisplayText name False \<or>
         \<not> validDisplayText (cso_Description opts) True
      then raise (ErrorsNew ''invalid knowledge space input'')
      else
      andThen (onErr (Errorf ''load knowledge owner'') (getUserByID (cso_OwnerID opts))) (\<lambda>owner.
      andThen (onErr (Errorf ''load knowledge actor'') (getUserByID (cso_ActorID opts))) (\<lambda>actor.
      andThen (askEnv (\<lambda>e. makeSlug e name)) (\<lambda>slug.
      andThen (onErr (Errorf ''find existing knowledge space'')
        (getFirst spaces (\<lambda>s. sp_OwnerID s = user_ID owner \<and> (sp_Name s = name \<or> sp_Slug s = slug)))) (\<lambda>existing.
      if existing \<noteq> None then raise ErrSpaceAlreadyExists
      else
      case isUsableRepoName (''kb-'' @ slug) of
        Some err \<Rightarrow> raise (Errorf ''invalid knowledge repository name'' err)
      | None \<Rightarrow>
      andThen (onErr (Errorf ''create knowledge repository'')
        (repoCreate actor owner (''kb-'' @ slug) (repoDescription name))) (\<lambda>repo.
      mustInsert ''create knowledge space'' spaces spaces_update (\<lambda>i r. r\<lparr>sp_ID := i\<rparr>) sp_stamp sp_clash
        (newSpace owner actor repo name slug (cso_Description opts))))))))"

text \<open>The number of records of a space in each table that refers to it.\<close>

definition spaceRecords :: "int \<Rightarrow> (database \<Rightarrow> int) list" where
  "spaceRecords i =
     [\<lambda>d. tblCount (\<lambda>r. ds_SpaceID r = i) (dataSources d),
      \<lambda>d. tblCount (\<lambda>r. doc_SpaceID r = i) (documents d),
      \<lambda>d. tblCount (\<lambda>r. acl_SpaceID r = i) (acls d),
      \<lambda>d. tblCount (\<lambda>r. pub_SpaceID r = i) (publications d),
      \<lambda>d. tblCount (\<lambda>r. dify_SpaceID r = i) (difyBindings d),
      \<lambda>d. tblCount (\<lambda>r. re_SpaceID r = i) (retrievalEvents d),
      \<lambda>d. tblCount (\<lambda>r. fb_SpaceID r = i) (feedbacks d),
      \<lambda>d. tblCount (\<lambda>r. ae_SpaceID r = i) (auditEvents d),
      \<lambda>d. tblCount (\<lambda>r. ib_SpaceID r = i) (indexBindings d),
      \<lambda>d. tblCount (\<lambda>r. tomb_SpaceID r = i) (tombstones d)]"

definition requireNone :: "(database \<Rightarrow> int) \<Rightarrow> unit prog" where
  "requireNone count =
     andThen (onErr (Errorf ''check knowledge space deletion state'') (query count)) (\<lambda>n.
     if n > 0 then raise (ErrorsNew ''only an empty knowledge space can be deleted'') else ret ())"

definition requireEmpty :: "int \<Rightarrow> unit prog" where
  "requireEmpty i = foldM (\<lambda>_. requireNone) () (spaceRecords i)"

definition removeSpace :: "Space \<Rightarrow> User \<Rightarrow> unit prog" where
  "removeSpace space actor =
     andThen (onErr (Errorf ''load knowledge repository for deletion'') (getRepositoryByID (sp_RepoID space))) (\<lambda>repo.
     andThen (onErr (Errorf ''delete empty knowledge repository'') (repoDelete actor repo)) (\<lambda>_.
     andThen (onErr (Errorf ''delete empty knowledge space'')
       (deleteRows spaces spaces_update (\<lambda>s. sp_ID s = sp_ID space))) (\<lambda>_. ret ())))"

definition DeleteEmptySpace :: "int \<Rightarrow> int \<Rightarrow> unit prog" where
  "DeleteEmptySpace spaceID actorID =
     (if spaceID \<le> 0 \<or> actorID \<le> 0 then raise (ErrorsNew ''invalid knowledge space deletion request'')
      else
      andThen (foundOr (ErrorsNew ''knowledge space is not available'') (getByID sp_ID spaces spaceID)) (\<lambda>space.
      andThen (onErr (Errorf ''load knowledge deletion actor'') (getUserByID actorID)) (\<lambda>actor.
      if \<not> user_IsAdmin actor \<and> user_ID actor \<noteq> sp_OwnerID space
      then raise (ErrorsNew ''knowledge space deletion is not authorized'')
      else
      andThen (requireEmpty (sp_ID space)) (\<lambda>_. removeSpace space actor))))"

section \<open>Inversion\<close>

lemma CreateSpace_run:
  assumes "CreateSpace opts w = (Inr space, w')"
  obtains owner actor repo slug tr now t where
    "tblGet user_ID (cso_OwnerID opts) (users (db w)) = Some owner"
    "tblGet user_ID (cso_ActorID opts) (users (db w)) = Some actor"
    "slug = makeSlug (env w) (trimSpace (cso_Name opts))" "isUsableRepoName (''kb-'' @ slug) = None"
    "\<forall>s \<in> set (rows (spaces (db w))). sp_OwnerID s = user_ID owner \<longrightarrow> sp_Name s \<noteq> trimSpace (cso_Name opts) \<and> sp_Slug s \<noteq> slug"
    "\<exists>n. createRepo (env w) n actor owner (''kb-'' @ slug) (repoDescription (trimSpace (cso_Name opts)))
       (repositories (db w)) = (Inr repo, tr)"
    "tblInsert (\<lambda>i r. r\<lparr>sp_ID := i\<rparr>) sp_clash (sp_stamp now
       (newSpace owner actor repo (trimSpace (cso_Name opts)) slug (cso_Description opts))) (spaces (db w)) = Some (space, t)"
    "db w' = (db w)\<lparr>repositories := tr, spaces := t\<rparr>"
  using assms
  by (auto simp: CreateSpace_def Let_def run_simps tblFirst_None intro!: that)

lemma requireNone_run [run_simps]:
  "requireNone count w = (Inr u, w') \<longleftrightarrow>
     \<not> faults (env w) (calls w) \<and> count (db w) \<le> 0 \<and> w' = w\<lparr>calls := Suc (calls w)\<rparr>"
  by (auto simp: requireNone_def run_simps)

lemma requireEmpty_run:
  assumes "requireEmpty i w = (Inr u, w')"
  shows "list_all (\<lambda>count. count (db w) \<le> 0) (spaceRecords i) \<and> db w' = db w \<and> env w' = env w"
proof -
  have "foldM (\<lambda>_. requireNone) v counts x = (Inr u', x') \<Longrightarrow>
     list_all (\<lambda>count. count (db x) \<le> 0) counts \<and> db x' = db x \<and> env x' = env x" for counts v x u' x'
    by (induction counts arbitrary: v x) (simp add: ret_run, fastforce simp: run_simps)
  with assms show ?thesis unfolding requireEmpty_def by blast
qed

text \<open>No record of the space in any table that refers to spaces.\<close>

definition spaceUnused :: "int \<Rightarrow> database \<Rightarrow> bool" where
  "spaceUnused i d \<longleftrightarrow>
     (\<forall>r \<in> set (rows (dataSources d)). ds_SpaceID r \<noteq> i) \<and> (\<forall>r \<in> set (rows (documents d)). doc_SpaceID r \<noteq> i) \<and>
     (\<forall>r \<in> set (rows (acls d)). acl_SpaceID r \<noteq> i) \<and> (\<forall>r \<in> set (rows (publications d)). pub_SpaceID r \<noteq> i) \<and>
     (\<forall>r \<in> set (rows (difyBindings d)). dify_SpaceID r \<noteq> i) \<and> (\<forall>r \<in> set (rows (retrievalEvents d)). re_SpaceID r \<noteq> i) \<and>
     (\<forall>r \<in> set (rows (feedbacks d)). fb_SpaceID r \<noteq> i) \<and> (\<forall>r \<in> set (rows (auditEvents d)). ae_SpaceID r \<noteq> i) \<and>
     (\<forall>r \<in> set (rows (indexBindings d)). ib_SpaceID r \<noteq> i) \<and> (\<forall>r \<in> set (rows (tombstones d)). tomb_SpaceID r \<noteq> i)"

lemma tblCount_none: "tblCount P t \<le> 0 \<longleftrightarrow> (\<forall>r \<in> set (rows t). \<not> P r)"
  by (auto simp: tblCount_def filter_empty_conv)

lemma spaceRecords_unused: "list_all (\<lambda>count. count d \<le> 0) (spaceRecords i) \<longleftrightarrow> spaceUnused i d"
  by (simp add: spaceRecords_def spaceUnused_def tblCount_none)

lemma removeSpace_run:
  "removeSpace space actor w = (Inr u, w') \<Longrightarrow>
   \<exists>tr. db w' = (db w)\<lparr>repositories := tr, spaces := tblDelete (\<lambda>s. sp_ID s = sp_ID space) (spaces (db w))\<rparr>"
  by (auto simp: removeSpace_def run_simps)

lemma DeleteEmptySpace_run:
  assumes "DeleteEmptySpace spaceID actorID w = (Inr u, w')"
  obtains space actor tr where
    "tblGet sp_ID spaceID (spaces (db w)) = Some space" "tblGet user_ID actorID (users (db w)) = Some actor"
    "user_IsAdmin actor \<or> user_ID actor = sp_OwnerID space" "spaceUnused spaceID (db w)"
    "db w' = (db w)\<lparr>repositories := tr, spaces := tblDelete (\<lambda>s. sp_ID s = spaceID) (spaces (db w))\<rparr>"
proof -
  from assms obtain space actor w1 w2 where
    gone: "removeSpace space actor w2 = (Inr u, w')" and empty: "requireEmpty (sp_ID space) w1 = (Inr (), w2)" "db w1 = db w"
    and found: "tblGet sp_ID spaceID (spaces (db w)) = Some space" "tblGet user_ID actorID (users (db w)) = Some actor"
      "user_IsAdmin actor \<or> user_ID actor = sp_OwnerID space"
    by (auto simp: DeleteEmptySpace_def run_simps)
  have "sp_ID space = spaceID" using found(1) by (rule tblGet_id)
  with found removeSpace_run [OF gone] requireEmpty_run [OF empty(1)] empty(2) show thesis
    by (auto simp: spaceRecords_unused intro: that)
qed

section \<open>Governance\<close>

lemma governed_CreateSpace: "gov.within (CreateSpace opts)"
  unfolding CreateSpace_def Let_def
  by (intro gov.access_intros gov.within_repoCreate gov.within_mustInsert governed_repositories) (rule governed_new_space)

text \<open>
  The deletion of a space is governed although the statement alone is not: the run establishes
  that no publication refers to the space.
\<close>

lemma governed_DeleteEmptySpace:
  assumes "DeleteEmptySpace i a w = (r, w')"
  shows "governed (db w) (db w')"
proof (cases r)
  case (Inr u)
  from assms [unfolded Inr] show ?thesis
  proof (rule DeleteEmptySpace_run)
    fix space actor tr
    assume unused: "spaceUnused i (db w)"
      and d: "db w' = (db w)\<lparr>repositories := tr, spaces := tblDelete (\<lambda>s. sp_ID s = i) (spaces (db w))\<rparr>"
    let ?d = "(db w)\<lparr>repositories := tr\<rparr>"
    have "governed ?d (?d\<lparr>spaces := tblDelete (\<lambda>s. sp_ID s = i) (spaces ?d)\<rparr>)"
      using unused by (intro governed_deleted_space) (simp add: spaceUnused_def)
    with governed_repositories [of "db w" tr]
    have "governed (db w) (?d\<lparr>spaces := tblDelete (\<lambda>s. sp_ID s = i) (spaces ?d)\<rparr>)"
      by (rule gov.D_trans)
    with d show ?thesis by simp
  qed
next
  case (Inl err)
  have "gov.fails_within (DeleteEmptySpace i a)"
    unfolding DeleteEmptySpace_def removeSpace_def requireEmpty_def requireNone_def
    by (intro gov.fails_intros gov.access_intros gov.within_repoDelete governed_repositories)
  with assms Inl show ?thesis by (auto simp: gov.fails_within_def)
qed

end
