(* ===== verification/Connector.thy ===== *)
theory Connector
  imports Uploads Ragflow
begin

text \<open>
  The MySQL connector, \<^verbatim>\<open>services/knowledge/connector/mysql.go\<close>: one approved, de-identified view is
  read after the last cursor, and every record becomes an upload that waits for approval. The
  database driver and the process environment are functions of the environment.

  The lemmas show that the query is built from identifiers only, that a preview touches nothing
  but its run record, and that the declaration the connector fixes for its uploads is one the
  manifest check refuses.
\<close>

definition maxSyncRecords :: int where
  "maxSyncRecords = 50"

text \<open>\<^verbatim>\<open>^[A-Za-z_][A-Za-z0-9_]{0,63}$\<close>\<close>

definition sqlIdentifier :: "string \<Rightarrow> bool" where
  "sqlIdentifier s =
     (case s of [] \<Rightarrow> False
      | c # cs \<Rightarrow> (isAlnum c \<and> \<not> isDigit c \<or> c = CHR ''_'') \<and> length cs \<le> 63 \<and>
          list_all (\<lambda>c. isAlnum c \<or> c = CHR ''_'') cs)"

record MySQLReadScope =
  scope_View :: string

record MySQLFieldMapping =
  map_ID :: string
  map_Title :: string
  map_Content :: string
  map_Cursor :: string

record RunResult =
  run_RunID :: int
  run_RecordsRead :: int
  run_DocumentsQueued :: int
  run_LastCursor :: string

definition emptyRunResult :: RunResult where
  "emptyRunResult = \<lparr>run_RunID = 0, run_RecordsRead = 0, run_DocumentsQueued = 0, run_LastCursor = ''''\<rparr>"

section \<open>Configuration\<close>

definition validDeidentifiedView :: "string \<Rightarrow> bool" where
  "validDeidentifiedView s \<longleftrightarrow> hasPrefix s ''v_kb_masked_'' \<and> sqlIdentifier s"

definition decodeScopeField :: "MySQLReadScope \<Rightarrow> string \<times> json \<Rightarrow> MySQLReadScope option" where
  "decodeScopeField r kv =
     (if equalFold (fst kv) ''view'' then map_option (\<lambda>s. r\<lparr>scope_View := s\<rparr>) (decodeText (scope_View r) (snd kv))
      else Some r)"

definition decodeMappingField :: "MySQLFieldMapping \<Rightarrow> string \<times> json \<Rightarrow> MySQLFieldMapping option" where
  "decodeMappingField r kv =
     (if equalFold (fst kv) ''id'' then map_option (\<lambda>s. r\<lparr>map_ID := s\<rparr>) (decodeText (map_ID r) (snd kv))
      else if equalFold (fst kv) ''title'' then map_option (\<lambda>s. r\<lparr>map_Title := s\<rparr>) (decodeText (map_Title r) (snd kv))
      else if equalFold (fst kv) ''content'' then map_option (\<lambda>s. r\<lparr>map_Content := s\<rparr>) (decodeText (map_Content r) (snd kv))
      else if equalFold (fst kv) ''cursor'' then map_option (\<lambda>s. r\<lparr>map_Cursor := s\<rparr>) (decodeText (map_Cursor r) (snd kv))
      else Some r)"

definition decodeScope :: "string \<Rightarrow> MySQLReadScope option" where
  "decodeScope s = Option.bind (jsonParse s) (decodeStruct decodeScopeField \<lparr>scope_View = ''''\<rparr>)"

definition decodeMapping :: "string \<Rightarrow> MySQLFieldMapping option" where
  "decodeMapping s = Option.bind (jsonParse s)
     (decodeStruct decodeMappingField \<lparr>map_ID = '''', map_Title = '''', map_Content = '''', map_Cursor = ''''\<rparr>)"

definition invalidConnector :: error where
  "invalidConnector = ErrorsNew (''MySQL '' @ utf8 [0x8FDE, 0x63A5, 0x5668, 0x914D, 0x7F6E, 0x4E0D, 0x5408, 0x89C4])"

definition invalidSecret :: error where
  "invalidSecret = ErrorsNew (''MySQL '' @ utf8 [0x5BC6, 0x94A5, 0x5F15, 0x7528, 0x4E0D, 0x5408, 0x89C4])"

definition invalidMapping :: error where
  "invalidMapping = ErrorsNew (''MySQL '' @
     utf8 [0x53EA, 0x8BFB, 0x89C6, 0x56FE, 0x6216, 0x5B57, 0x6BB5, 0x6620, 0x5C04, 0x4E0D, 0x5408, 0x89C4])"

definition parseMySQLConfiguration :: "DataSource \<Rightarrow> error + (MySQLReadScope \<times> MySQLFieldMapping \<times> string)" where
  "parseMySQLConfiguration source =
     (if ds_ConnectorType source \<noteq> ''mysql'' \<or> \<not> hasPrefix (ds_SecretRef source) ''secret-ref:env/''
      then Inl invalidConnector
      else
      let envName = trimPrefix (ds_SecretRef source) ''secret-ref:env/'' in
      if \<not> sqlIdentifier envName \<or> containsStr (toLower envName) ''password'' then Inl invalidSecret
      else
      case decodeScope (ds_ReadScope source) of None \<Rightarrow> Inl invalidMapping | Some scope \<Rightarrow>
      case decodeMapping (ds_FieldMappingJSON source) of None \<Rightarrow> Inl invalidMapping | Some mapping \<Rightarrow>
      if \<not> validDeidentifiedView (scope_View scope) \<or> \<not> sqlIdentifier (map_ID mapping) \<or>
         \<not> sqlIdentifier (map_Title mapping) \<or> \<not> sqlIdentifier (map_Content mapping) \<or>
         \<not> sqlIdentifier (map_Cursor mapping) \<or> map_Cursor mapping \<noteq> ds_IncrementalCursorField source
      then Inl invalidMapping
      else Inr (scope, mapping, envName))"

text \<open>The query; the last cursor is its one parameter.\<close>

definition quoteName :: "string \<Rightarrow> string" where
  "quoteName s = CHR 0x60 # s @ [CHR 0x60]"

definition syncQuery :: "MySQLReadScope \<Rightarrow> MySQLFieldMapping \<Rightarrow> string" where
  "syncQuery scope mapping =
     ''SELECT '' @ quoteName (map_ID mapping) @ '', '' @ quoteName (map_Title mapping) @ '', '' @
     quoteName (map_Content mapping) @ '', '' @ quoteName (map_Cursor mapping) @ '' FROM '' @
     quoteName (scope_View scope) @ '' WHERE '' @ quoteName (map_Cursor mapping) @ '' > ? ORDER BY '' @
     quoteName (map_Cursor mapping) @ '' ASC LIMIT '' @ itoa maxSyncRecords"

section \<open>Records\<close>

text \<open>The mask declaration every synchronised record is uploaded with.\<close>

definition syncMaskManifest :: string where
  "syncMaskManifest =
     ''{'' @ [CHR 0x22] @ ''schema_version'' @ [CHR 0x22] @ '':1,'' @ [CHR 0x22] @ ''masked'' @ [CHR 0x22] @ '':true,'' @
     [CHR 0x22] @ ''findings_count'' @ [CHR 0x22] @ '':0,'' @ [CHR 0x22] @ ''categories'' @ [CHR 0x22] @ '':['' @
     [CHR 0x22] @ ''upstream_deidentified_view'' @ [CHR 0x22] @ '']}''"

definition nullString :: "string option \<Rightarrow> string" where
  "nullString v = (case v of None \<Rightarrow> '''' | Some s \<Rightarrow> s)"

definition compliantRecord :: "mysqlRow \<Rightarrow> bool" where
  "compliantRecord row \<longleftrightarrow>
     \<not> (my_ID row = None \<or> \<not> sqlIdentifier (nullString (my_ID row)) \<or> my_Content row = None \<or>
        length (nullString (my_Content row)) = 0 \<or> 2 ^ 20 < length (nullString (my_Content row)))"

definition recordTitle :: "mysqlRow \<Rightarrow> string" where
  "recordTitle row =
     (let documentTitle = trimSpace (nullString (my_Title row))
      in if documentTitle = ''''
         then utf8 [0x6570, 0x636E, 0x5E93, 0x77E5, 0x8BC6, 0x8BB0, 0x5F55] @ '' '' @ nullString (my_ID row)
         else documentTitle)"

definition recordUploadOptions :: "DataSource \<Rightarrow> int \<Rightarrow> mysqlRow \<Rightarrow> UploadRevisionOptions" where
  "recordUploadOptions source actorID row =
     (let fileName = ''mysql-'' @ nullString (my_ID row) @ ''.md''
      in \<lparr>uro_DocumentID = 0, uro_SpaceID = ds_SpaceID source, uro_DataSourceID = ds_ID source, uro_ActorID = actorID,
          uro_Title = recordTitle row, uro_VersionNo = ''V1.0'', uro_Relation = ''new'', uro_FileName = fileName,
          uro_Content = Some (nullString (my_Content row), None),
          uro_Manifest = \<lparr>um_Masked = True, um_FileName = fileName, um_ContentSHA256 = '''', um_Size = 0, um_MIMEType = '''',
            um_MaskPolicyVersion = ds_MaskPolicyVersion source, um_MaskManifestJSON = syncMaskManifest,
            um_SourceAuthorization = ''''\<rparr>\<rparr>)"

definition scanFailed :: error where
  "scanFailed = ErrorsNew (utf8 [0x8BFB, 0x53D6] @ '' MySQL '' @ utf8 [0x8131, 0x654F, 0x8BB0, 0x5F55, 0x5931, 0x8D25])"

definition recordRefused :: error where
  "recordRefused = ErrorsNew (''MySQL '' @
     utf8 [0x8131, 0x654F, 0x89C6, 0x56FE, 0x8FD4, 0x56DE, 0x4E86, 0x4E0D, 0x5408, 0x89C4, 0x8BB0, 0x5F55])"

definition recordUploadFailed :: error where
  "recordUploadFailed = ErrorsNew
     (utf8 [0x521B, 0x5EFA, 0x5F85, 0x5BA1, 0x6838, 0x6570, 0x636E, 0x5E93, 0x77E5, 0x8BC6, 0x5931, 0x8D25])"

text \<open>One turn of \<open>for rows.Next()\<close>; \<open>None\<close> is a row that does not scan.\<close>

definition syncRow :: "DataSource \<Rightarrow> int \<Rightarrow> bool \<Rightarrow> RunResult \<Rightarrow> mysqlRow option \<Rightarrow> RunResult prog" where
  "syncRow source actorID preview result scanned =
     (case scanned of None \<Rightarrow> raise scanFailed | Some row \<Rightarrow>
      if \<not> compliantRecord row then raise recordRefused
      else
      (let result1 = result\<lparr>run_RecordsRead := run_RecordsRead result + 1, run_LastCursor := nullString (my_Cursor row)\<rparr> in
       if preview then ret result1
       else
       andThen (onErr (\<lambda>_. recordUploadFailed) (UploadRevision (recordUploadOptions source actorID row))) (\<lambda>_.
       ret (result1\<lparr>run_DocumentsQueued := run_DocumentsQueued result1 + 1\<rparr>))))"

definition openFailed :: error where
  "openFailed = ErrorsNew (utf8 [0x65E0, 0x6CD5, 0x6253, 0x5F00] @ '' MySQL '' @ utf8 [0x53EA, 0x8BFB, 0x8FDE, 0x63A5])"

definition pingFailed :: error where
  "pingFailed = ErrorsNew (''MySQL '' @ utf8 [0x53EA, 0x8BFB, 0x8FDE, 0x63A5, 0x4E0D, 0x53EF, 0x7528])"

definition queryFailed :: error where
  "queryFailed = ErrorsNew (utf8 [0x8BFB, 0x53D6] @ '' MySQL '' @ utf8 [0x8131, 0x654F, 0x89C6, 0x56FE, 0x5931, 0x8D25])"

definition iterationFailed :: error where
  "iterationFailed = ErrorsNew (utf8 [0x904D, 0x5386] @ '' MySQL '' @ utf8 [0x8131, 0x654F, 0x89C6, 0x56FE, 0x5931, 0x8D25])"

definition runMySQLSync ::
  "DataSource \<Rightarrow> int \<Rightarrow> string \<Rightarrow> MySQLReadScope \<Rightarrow> MySQLFieldMapping \<Rightarrow> bool \<Rightarrow> RunResult prog" where
  "runMySQLSync source actorID dsn scope mapping preview =
     andThen (askEnv (\<lambda>e. mysqlOpen e dsn)) (\<lambda>opened.
     if \<not> opened then raise openFailed
     else
     andThen (askEnv (\<lambda>e. mysqlPing e dsn)) (\<lambda>alive.
     if \<not> alive then raise pingFailed
     else
     andThen (askEnv (\<lambda>e. mysqlQuery e dsn (syncQuery scope mapping) (ds_LastSuccessCursor source))) (\<lambda>answer.
     case answer of None \<Rightarrow> raise queryFailed | Some found \<Rightarrow>
     andThen (foldM (syncRow source actorID preview) emptyRunResult (fst found)) (\<lambda>result.
     if \<not> snd found then raise iterationFailed else ret result))))"

section \<open>A synchronisation\<close>

definition finishRun :: "SyncRun \<Rightarrow> string \<Rightarrow> RunResult \<Rightarrow> string \<Rightarrow> unit prog" where
  "finishRun run status result errorCode =
     andThen timeStampNow (\<lambda>now.
     andThen (updateRows syncRuns syncRuns_update (\<lambda>r. sr_ID r = sr_ID run)
       (\<lambda>t r. sr_touch t (r\<lparr>sr_Status := status, sr_FinishedUnix := now, sr_RecordsRead := run_RecordsRead result,
          sr_DocumentsQueued := run_DocumentsQueued result, sr_LastCursor := run_LastCursor result,
          sr_ErrorCode := errorCode\<rparr>))) (\<lambda>_. ret ()))"

definition newSyncRun :: "DataSource \<Rightarrow> User \<Rightarrow> bool \<Rightarrow> TimeStamp \<Rightarrow> SyncRun" where
  "newSyncRun source actor preview now =
     \<lparr>sr_ID = 0, sr_DataSourceID = ds_ID source, sr_Status = ''running'',
      sr_Mode = (if preview then ''preview'' else ''sync''), sr_StartedBy = user_ID actor, sr_StartedUnix = now,
      sr_FinishedUnix = 0, sr_RecordsRead = 0, sr_DocumentsQueued = 0, sr_LastCursor = '''', sr_ErrorCode = '''',
      sr_CreatedUnix = 0, sr_UpdatedUnix = 0\<rparr>"

definition advanceCursor :: "DataSource \<Rightarrow> string \<Rightarrow> unit prog" where
  "advanceCursor source cursor =
     andThen timeStampNow (\<lambda>now.
     andThen (onErr (Errorf (utf8 [0x66F4, 0x65B0, 0x540C, 0x6B65, 0x6E38, 0x6807, 0x5931, 0x8D25]))
       (updateRows dataSources dataSources_update (\<lambda>s. ds_ID s = ds_ID source)
         (\<lambda>t s. ds_touch t (s\<lparr>ds_LastSuccessCursor := cursor, ds_LastSyncUnix := now\<rparr>)))) (\<lambda>_. ret ()))"

definition syncSource ::
  "DataSource \<Rightarrow> User \<Rightarrow> string \<Rightarrow> MySQLReadScope \<Rightarrow> MySQLFieldMapping \<Rightarrow> bool \<Rightarrow> RunResult prog" where
  "syncSource source actor dsn scope mapping preview =
     andThen timeStampNow (\<lambda>now.
     andThen (mustInsert (utf8 [0x521B, 0x5EFA, 0x540C, 0x6B65, 0x8BB0, 0x5F55, 0x5931, 0x8D25]) syncRuns syncRuns_update
       (\<lambda>i r. r\<lparr>sr_ID := i\<rparr>) sr_stamp sr_clash (newSyncRun source actor preview now)) (\<lambda>run.
     andThen (attempt (runMySQLSync source (user_ID actor) dsn scope mapping preview)) (\<lambda>synced.
     case synced of
       Inl syncErr \<Rightarrow>
         andThen (attempt (finishRun run ''failed'' emptyRunResult ''mysql_sync_failed'')) (\<lambda>_. raise syncErr)
     | Inr result \<Rightarrow>
         andThen (finishRun run ''succeeded'' result '''') (\<lambda>_.
         andThen (if \<not> preview \<and> run_LastCursor result \<noteq> '''' then advanceCursor source (run_LastCursor result) else ret ()) (\<lambda>_.
         ret (result\<lparr>run_RunID := sr_ID run\<rparr>))))))"

definition syncRequiresAdmin :: error where
  "syncRequiresAdmin = ErrorsNew (''MySQL '' @
     utf8 [0x540C, 0x6B65, 0x9700, 0x8981, 0x7AD9, 0x70B9, 0x7BA1, 0x7406, 0x5458, 0x6743, 0x9650])"

definition sourceNotEnabled :: error where
  "sourceNotEnabled = ErrorsNew (utf8 [0x6570, 0x636E, 0x6E90, 0x4E0D, 0x662F, 0x5DF2, 0x542F, 0x7528, 0x7684] @
     '' MySQL '' @ utf8 [0x8131, 0x654F, 0x89C6, 0x56FE])"

definition secretUnavailable :: error where
  "secretUnavailable = ErrorsNew (''MySQL '' @ utf8 [0x5BC6, 0x94A5, 0x5F15, 0x7528, 0x5F53, 0x524D, 0x4E0D, 0x53EF, 0x7528])"

definition SyncMySQL :: "int \<Rightarrow> int \<Rightarrow> bool \<Rightarrow> RunResult prog" where
  "SyncMySQL sourceID actorID preview =
     andThen (adminOr syncRequiresAdmin actorID) (\<lambda>actor.
     andThen (foundOr sourceNotEnabled (getByID ds_ID dataSources sourceID)) (\<lambda>source.
     if ds_SourceType source \<noteq> DataSourceTypeDatabase \<or> ds_Status source \<noteq> DataSourceStatusEnabled \<or>
        ds_ConnectorType source \<noteq> ''mysql'' then raise sourceNotEnabled
     else
     case parseMySQLConfiguration source of Inl err \<Rightarrow> raise err | Inr (scope, mapping, envName) \<Rightarrow>
     andThen (askEnv (\<lambda>e. getenv e envName)) (\<lambda>dsn.
     if trimSpace dsn = '''' then raise secretUnavailable
     else syncSource source actor dsn scope mapping preview)))"

section \<open>The query\<close>

lemma sqlIdentifier_chars: "sqlIdentifier s \<Longrightarrow> c \<in> set s \<Longrightarrow> isAlnum c \<or> c = CHR ''_''"
  by (auto simp: sqlIdentifier_def list_all_iff split: list.splits)

lemma sqlIdentifier_no_quote: "sqlIdentifier s \<Longrightarrow> CHR 0x60 \<notin> set s"
  using sqlIdentifier_chars [of s "CHR 0x60"] by (auto simp: isAlnum_def isDigit_def)

lemma trimPrefix_append: "hasPrefix s p \<Longrightarrow> p @ trimPrefix s p = s"
  by (simp add: hasPrefix_def trimPrefix_def) (metis append_take_drop_id)

lemma parseMySQLConfiguration_accepts:
  assumes "parseMySQLConfiguration source = Inr (scope, mapping, envName)"
  shows "hasPrefix (scope_View scope) ''v_kb_masked_''" "sqlIdentifier (scope_View scope)" "sqlIdentifier (map_ID mapping)"
    "sqlIdentifier (map_Title mapping)" "sqlIdentifier (map_Content mapping)" "sqlIdentifier (map_Cursor mapping)"
    "map_Cursor mapping = ds_IncrementalCursorField source" "sqlIdentifier envName"
    "ds_SecretRef source = ''secret-ref:env/'' @ envName"
  using assms trimPrefix_append [of "ds_SecretRef source" "''secret-ref:env/''"]
  by (auto simp: parseMySQLConfiguration_def Let_def validDeidentifiedView_def
      split: if_splits option.splits simp del: append_Cons)

section \<open>Governance\<close>

lemma governed_SyncMySQL: "gov.within (SyncMySQL sourceID actorID preview)"
proof -
  have "gov.within (finishRun run status result errorCode)" for run status result errorCode
    unfolding finishRun_def
    by (intro gov.access_intros gov.within_updateRows governed_other) (simp add: tblWf_update sr_touch_def)
  moreover have "gov.within (runMySQLSync source i dsn scope mapping p)" for source i dsn scope mapping p
    unfolding runMySQLSync_def syncRow_def Let_def
    by (intro gov.access_intros gov.within_foldM governed_UploadRevision)
  moreover have "gov.within (advanceCursor source cursor)" for source cursor
    unfolding advanceCursor_def
    by (intro gov.access_intros gov.within_updateRows governed_dataSources) (simp add: ds_touch_def)
  ultimately show ?thesis
    unfolding SyncMySQL_def syncSource_def
    by (intro gov.access_intros gov.within_mustInsert governed_other) (rule sr_tbl.insert_wf)
qed

section \<open>The fixed declaration\<close>

text \<open>A declaration with a category and no findings contradicts itself, whatever the category is.\<close>

lemma syncMaskManifest_refused: "validateManifestJSON syncMaskManifest = Inl ErrInvalidManifest"
  by (simp add: validateManifestJSON_def syncMaskManifest_def eval_simps)

lemma recordUpload_manifest:
  "um_MaskManifestJSON (completedManifest (defaultedManifest (uro_Manifest (recordUploadOptions source actorID row)) s mime) s f sha n) =
     syncMaskManifest"
proof -
  have "trimSpace syncMaskManifest \<noteq> ''''"
    by (simp add: syncMaskManifest_def eval_simps)
  then show ?thesis by (simp add: completedManifest_def defaultedManifest_def recordUploadOptions_def Let_def)
qed

lemma readUpload_refused: "readUpload e (recordUploadOptions source actorID row) s \<noteq> Inr u"
proof
  assume "readUpload e (recordUploadOptions source actorID row) s = Inr u"
  then obtain f sha n mime facts policy where
    "validateUploadManifest (completedManifest (defaultedManifest (uro_Manifest (recordUploadOptions source actorID row)) s mime)
       s f sha n) facts policy = Inr ()"
    by (auto simp: readUpload_def Let_def split: option.splits sum.splits if_splits)
  from validateUploadManifest_accepts(11) [OF this] show False
    by (simp only: recordUpload_manifest syncMaskManifest_refused) simp
qed

lemma recordUpload_refused: "UploadRevision (recordUploadOptions source actorID row) w \<noteq> (Inr res, w')"
  by (auto simp: UploadRevision_def run_simps readUpload_refused)

text \<open>A run that returns has read nothing unless it is a preview; a preview read compliant records only.\<close>

lemma syncRow_run:
  "syncRow source actorID preview result scanned w = (Inr result', w') \<longleftrightarrow>
     preview \<and> w' = w \<and> (\<exists>row. scanned = Some row \<and> compliantRecord row \<and>
       result' = result\<lparr>run_RecordsRead := run_RecordsRead result + 1, run_LastCursor := nullString (my_Cursor row)\<rparr>)"
  by (cases preview) (auto simp: syncRow_def run_simps recordUpload_refused)

lemma syncRows_run:
  assumes "foldM (syncRow source actorID preview) result found w = (Inr result', w')"
  shows "w' = w \<and> run_RecordsRead result' = run_RecordsRead result + int (length found) \<and>
    run_DocumentsQueued result' = run_DocumentsQueued result \<and> (found \<noteq> [] \<longrightarrow> preview) \<and>
    (\<forall>r \<in> set found. \<exists>row. r = Some row \<and> compliantRecord row) \<and> (found = [] \<longrightarrow> result' = result)"
  using assms
proof (induction found arbitrary: result w)
  case Nil
  then show ?case by (simp add: ret_run)
next
  case (Cons r found)
  then obtain result1 w1 where step: "syncRow source actorID preview result r w = (Inr result1, w1)"
    "foldM (syncRow source actorID preview) result1 found w1 = (Inr result', w')"
    by (auto simp: run_simps)
  from step(1) Cons.IH [OF step(2)] show ?case by (auto simp: syncRow_run)
qed

lemma runMySQLSync_run:
  assumes "runMySQLSync source actorID dsn scope mapping preview w = (Inr result, w')"
  obtains found where
    "mysqlQuery (env w) dsn (syncQuery scope mapping) (ds_LastSuccessCursor source) = Some (found, True)" "w' = w"
    "run_RecordsRead result = int (length found)" "run_DocumentsQueued result = 0" "found \<noteq> [] \<longrightarrow> preview"
    "\<forall>r \<in> set found. \<exists>row. r = Some row \<and> compliantRecord row" "found = [] \<longrightarrow> result = emptyRunResult"
proof -
  from assms obtain found where
    q: "mysqlQuery (env w) dsn (syncQuery scope mapping) (ds_LastSuccessCursor source) = Some (found, True)"
    and loop: "foldM (syncRow source actorID preview) emptyRunResult found w = (Inr result, w')"
    by (auto simp: runMySQLSync_def run_simps)
  from syncRows_run [OF loop] show thesis
    by (intro that [OF q]) (auto simp: emptyRunResult_def)
qed

section \<open>What a synchronisation changes\<close>

text \<open>The table of runs only. An upload of a record fails before its first write.\<close>

interpretation runs: db_frame "\<lambda>d d'. \<exists>t. d' = d\<lparr>syncRuns := t\<rparr>"
proof
  show "\<exists>t. d = d\<lparr>syncRuns := t\<rparr>" for d :: database by (rule exI [of _ "syncRuns d"]) simp
qed auto

lemma checkUpload_reads: "unchanged.within (checkUpload opts)"
  unfolding checkUpload_def checkSource_def checkDocument_def by (intro unchanged.access_intros)

lemma recordUpload_unchanged: "unchanged.within (UploadRevision (recordUploadOptions source actorID row))"
  unfolding UploadRevision_def
proof (rule unchanged.within_andThen [OF checkUpload_reads], rule unchanged.within_andThen_value [OF unchanged.within_askEnv],
    rule unchanged.within_sum)
  fix c :: uploadContext and result s s' u
  assume "askEnv (\<lambda>e. readUpload e (recordUploadOptions source actorID row) (uc_source c)) s = (Inr result, s')" "result = Inr u"
  then show "unchanged.within (andThen (commitUpload (recordUploadOptions source actorID row) c u)
       (\<lambda>(repoPath, commitSHA). withTx (recordUpload (recordUploadOptions source actorID row) c u repoPath commitSHA)))"
    by (auto simp: askEnv_run readUpload_refused readUpload_refused [symmetric])
qed (rule unchanged.within_raise)

lemma runs_unchanged: "unchanged.within m \<Longrightarrow> runs.within m"
  by (rule runs.within_same) (rule unchanged.withinD)

lemma runs_finishRun: "runs.within (finishRun run status result errorCode)"
  unfolding finishRun_def by (intro runs.access_intros runs.within_updateRows) auto

lemma runs_runMySQLSync: "runs.within (runMySQLSync source actorID dsn scope mapping preview)"
  unfolding runMySQLSync_def syncRow_def Let_def
  by (intro runs.access_intros runs_unchanged [OF recordUpload_unchanged])

lemma runMySQLSync_no_cursor:
  "runMySQLSync source actorID dsn scope mapping False w = (Inr result, w') \<Longrightarrow> run_LastCursor result = ''''"
  by (auto elim!: runMySQLSync_run simp: emptyRunResult_def)

lemma runs_syncSource: "runs.within (syncSource source actor dsn scope mapping preview)"
  unfolding syncSource_def
proof (intro runs.within_andThen_value [OF runs.within_attempt [OF runs_runMySQLSync]] runs.access_intros
    runs.within_mustInsert runs_finishRun)
  fix now run synced s s' result
  assume "attempt (runMySQLSync source (user_ID actor) dsn scope mapping preview) s = (Inr synced, s')"
    "synced = Inr result" "\<not> preview \<and> run_LastCursor result \<noteq> ''''"
  then show "runs.within (advanceCursor source (run_LastCursor result))"
    using runMySQLSync_no_cursor by (auto simp: attempt_run)
qed auto

lemma runs_SyncMySQL: "runs.within (SyncMySQL sourceID actorID preview)"
  unfolding SyncMySQL_def by (intro runs.access_intros runs_syncSource)

lemma SyncMySQL_run:
  assumes "SyncMySQL sourceID actorID preview w = (Inr result, w')"
  obtains actor source scope mapping envName found where
    "tblGet user_ID actorID (users (db w)) = Some actor" "user_IsAdmin actor"
    "tblGet ds_ID sourceID (dataSources (db w)) = Some source" "ds_Status source = DataSourceStatusEnabled"
    "ds_SourceType source = DataSourceTypeDatabase" "parseMySQLConfiguration source = Inr (scope, mapping, envName)"
    "mysqlQuery (env w) (getenv (env w) envName) (syncQuery scope mapping) (ds_LastSuccessCursor source) = Some (found, True)"
    "run_RecordsRead result = int (length found)" "run_DocumentsQueued result = 0" "found \<noteq> [] \<longrightarrow> preview"
    "\<forall>r \<in> set found. \<exists>row. r = Some row \<and> compliantRecord row"
proof -
  from assms obtain actor source scope mapping envName w0 where
    guards: "tblGet user_ID actorID (users (db w)) = Some actor" "user_IsAdmin actor"
      "tblGet ds_ID sourceID (dataSources (db w)) = Some source" "ds_Status source = DataSourceStatusEnabled"
      "ds_SourceType source = DataSourceTypeDatabase" "parseMySQLConfiguration source = Inr (scope, mapping, envName)"
    and body: "syncSource source actor (getenv (env w) envName) scope mapping preview w0 = (Inr result, w')" "env w0 = env w"
    by (auto simp: SyncMySQL_def run_simps split: prod.splits)
  from body(1) have "\<exists>t w2 result1. runMySQLSync source (user_ID actor) (getenv (env w) envName) scope mapping preview
        (w0\<lparr>ticks := Suc (ticks w0), calls := Suc (calls w0), db := (db w0)\<lparr>syncRuns := t\<rparr>\<rparr>) = (Inr result1, w2) \<and>
      run_RecordsRead result = run_RecordsRead result1 \<and> run_DocumentsQueued result = run_DocumentsQueued result1"
    unfolding syncSource_def attempt_then_run andThen_run
    by (elim exE conjE disjE) (fastforce simp: run_simps)+
  with body(2) obtain w1 w2 result1 where
    r: "runMySQLSync source (user_ID actor) (getenv (env w) envName) scope mapping preview w1 = (Inr result1, w2)"
      "run_RecordsRead result = run_RecordsRead result1" "run_DocumentsQueued result = run_DocumentsQueued result1" "env w1 = env w"
    by fastforce
  from r(1) show thesis
  proof (rule runMySQLSync_run)
    fix found
    assume "mysqlQuery (env w1) (getenv (env w) envName) (syncQuery scope mapping) (ds_LastSuccessCursor source) = Some (found, True)"
      "run_RecordsRead result1 = int (length found)" "run_DocumentsQueued result1 = 0" "found \<noteq> [] \<longrightarrow> preview"
      "\<forall>r \<in> set found. \<exists>row. r = Some row \<and> compliantRecord row"
    then show thesis using guards r by (intro that [of actor source scope mapping envName found]) simp_all
  qed
qed

end
