(* ===== verification/System.thy ===== *)
theory System
  imports Worker Expiry Reviews Retrieval Spaces Connector
begin

text \<open>
  The subsystem as a whole: the operations its callers have (the web routes, the Dify endpoint,
  the background worker) as requests, and the runs they make one after another. Between two
  requests the environment may change in any way, and Gitea may change its accounts and
  repositories.

  A request is one step: operations that run at the same time are not interleaved here. The
  invariants hold after every step, whatever the request returned, and with every schedule of
  database failures, because failures are part of the environment.
\<close>

section \<open>Requests\<close>

datatype request =
    RCreateSpace CreateSpaceOptions
  | RDeleteEmptySpace int int
  | RCreateDataSource CreateDataSourceOptions
  | REnableDataSource int int
  | RConfirmDataSourceReview int int
  | RSyncMySQL int int bool
  | RUploadRevision UploadRevisionOptions
  | RCompleteReview int int string string
  | RApprove int int string
  | RReject int int string
  | RActivatePublication int int
  | RUnpublishPublication int int string
  | RExpireDueDataSources int
  | RRetryPublicationIndex int int
  | RProcessIndexJob int int
  | RWorker "workerEvent list"
  | RRetrieveForUser "User option" int string int
  | RRetrieveForDify string string string int
  | RRecordFeedback int int int string int string
  | RResolveQualityTask int string int
  | RCreateDifyBinding CreateDifyBindingOptions

definition after :: "'a prog \<Rightarrow> world \<Rightarrow> world" where
  "after m w = snd (m w)"

primrec perform :: "request \<Rightarrow> world \<Rightarrow> world" where
  "perform (RCreateSpace opts) = after (CreateSpace opts)"
| "perform (RDeleteEmptySpace spaceID actorID) = after (DeleteEmptySpace spaceID actorID)"
| "perform (RCreateDataSource opts) = after (CreateDataSource opts)"
| "perform (REnableDataSource sourceID actorID) = after (EnableDataSource sourceID actorID)"
| "perform (RConfirmDataSourceReview sourceID actorID) = after (ConfirmDataSourceReview sourceID actorID)"
| "perform (RSyncMySQL sourceID actorID preview) = after (SyncMySQL sourceID actorID preview)"
| "perform (RUploadRevision opts) = after (UploadRevision opts)"
| "perform (RCompleteReview revisionID actorID reviewType comment) = after (CompleteReview revisionID actorID reviewType comment)"
| "perform (RApprove approvalID actorID comment) = after (Approve approvalID actorID comment)"
| "perform (RReject approvalID actorID comment) = after (Reject approvalID actorID comment)"
| "perform (RActivatePublication publicationID actorID) = after (catalogActivate publicationID actorID)"
| "perform (RUnpublishPublication publicationID actorID reason) = after (catalogUnpublish publicationID actorID reason)"
| "perform (RExpireDueDataSources actorID) = after (ExpireDueDataSources actorID)"
| "perform (RRetryPublicationIndex publicationID actorID) = after (RetryPublicationIndex publicationID actorID)"
| "perform (RProcessIndexJob jobID actorID) = after (ProcessIndexJob jobID actorID)"
| "perform (RWorker events) = after (runIndexWorker events)"
| "perform (RRetrieveForUser user spaceID question topK) = after (RetrieveForUser user spaceID question topK)"
| "perform (RRetrieveForDify token knowledgeID question topK) =
     after (andThen (LookupDifyBinding token knowledgeID) (\<lambda>binding. RetrieveForDify (Some binding) question topK))"
| "perform (RRecordFeedback actorID spaceID publicationID category rating comment) =
     after (RecordFeedback actorID spaceID publicationID category rating comment)"
| "perform (RResolveQualityTask actorID taskType entityID) = after (ResolveQualityTask actorID taskType entityID)"
| "perform (RCreateDifyBinding opts) = after (CreateDifyBinding opts)"

section \<open>Steps\<close>

inductive step :: "world \<Rightarrow> world \<Rightarrow> bool" where
  request: "step w (perform r w)"
| environment: "step w (w\<lparr>env := e\<rparr>)"
| accounts: "step w (w\<lparr>db := (db w)\<lparr>users := u, repositories := r\<rparr>\<rparr>)"

inductive_cases stepE: "step w w'"

inductive reachable :: "world \<Rightarrow> bool" where
  start: "db w = emptyDatabase \<Longrightarrow> reachable w"
| next_step: "reachable w \<Longrightarrow> step w w' \<Longrightarrow> reachable w'"

inductive_simps step_simps: "step w w'"

section \<open>Governance of every step\<close>

lemma governed_after: "gov.within m \<Longrightarrow> governed (db w) (db (after m w))"
  unfolding after_def by (rule gov.withinD [OF _ prod.collapse [symmetric]])

lemma governed_deletion: "governed (db w) (db (after (DeleteEmptySpace i a) w))"
  unfolding after_def by (rule governed_DeleteEmptySpace [OF prod.collapse [symmetric]])

lemma governed_perform: "governed (db w) (db (perform r w))"
  by (cases r; simp only: perform.simps)
    (intro governed_deletion governed_after governed_CreateSpace governed_CreateDataSource governed_EnableDataSource
      governed_ConfirmDataSourceReview governed_SyncMySQL governed_UploadRevision governed_CompleteReview governed_Approve
      governed_Reject governed_catalogActivate governed_catalogUnpublish governed_ExpireDueDataSources
      governed_RetryPublicationIndex governed_ProcessIndexJob governed_runIndexWorker governed_RetrieveForUser
      governed_RecordFeedback governed_ResolveQualityTask governed_CreateDifyBinding
      gov.within_andThen governed_LookupDifyBinding governed_RetrieveForDify)+

lemma governed_step:
  assumes "step w w'"
  shows "governed (db w) (db w')"
  using assms
proof cases
  case (accounts u r)
  then show ?thesis by (simp add: governed_def governance_def dbWf_def history_def)
qed (simp_all add: governed_perform gov.D_refl)

lemma reachable_governance: "reachable w \<Longrightarrow> governance (db w)"
proof (induction rule: reachable.induct)
  case (start w)
  then show ?case by (simp add: governance_empty)
next
  case (next_step w w')
  then show ?case using governed_step by (auto simp: governed_def)
qed

lemma steps_governed: "step\<^sup>*\<^sup>* w w' \<Longrightarrow> governed (db w) (db w')"
proof (induction rule: rtranclp_induct)
  case (step y z)
  then show ?case using governed_step gov.D_trans by blast
qed (rule gov.D_refl)

lemma reachable_steps: "reachable w \<Longrightarrow> step\<^sup>*\<^sup>* w w' \<Longrightarrow> reachable w' \<and> history (db w) (db w')"
proof (rule conjI)
  assume r: "reachable w" and s: "step\<^sup>*\<^sup>* w w'"
  show "reachable w'" using s r by (induction rule: rtranclp_induct) (auto intro: next_step)
  show "history (db w) (db w')" using steps_governed [OF s] reachable_governance [OF r] by (simp add: governed_def)
qed

end
