(* ===== verification/Frames.thy ===== *)
theory Frames
  imports System
begin

text \<open>
  The requests that neither approve, activate, revoke nor review: what they do to publications
  and reviews. A relation on databases that allows index work (\<open>pub_IndexStatus\<close> and the update
  time of a publication, nothing in \<open>reviewChecks\<close>) is kept by all of them, so that an
  invariant of the whole system has to be shown only for the few requests that remain.
\<close>

locale publication_frame = db_frame +
  assumes D_index: "map withoutIndex (rows (publications d')) = map withoutIndex (rows (publications d)) \<Longrightarrow>
    reviewChecks d' = reviewChecks d \<Longrightarrow> D d d'"

sublocale publication_frame \<subseteq> index_frame D
  by unfold_locales (auto intro!: D_index simp: rows_tblUpdate withoutIndex_status)

context publication_frame
begin

lemma D_same: "publications d' = publications d \<Longrightarrow> reviewChecks d' = reviewChecks d \<Longrightarrow> D d d'"
  by (rule D_index) simp_all

lemma keeps_writes:
  "within (insertRow auditEvents auditEvents_update (\<lambda>i r. r\<lparr>ae_ID := i\<rparr>) ae_stamp ae_clash event)"
  "within (updateRows documents documents_update P f)" "within (updateRows spaces spaces_update P1 f1)"
  "within (updateRows dataSources dataSources_update P2 f2)" "within (updateRows approvals approvals_update P3 f3)"
  "within (updateRows indexBindings indexBindings_update P4 f4)" "within (updateRows indexJobs indexJobs_update P5 f5)"
  "within (deleteRows spaces spaces_update P6)"
  by (rule within_insertRow within_updateRows within_deleteRows; simp add: D_same)+

lemma keeps_musts:
  "within (mustUpdate m1 c1 documents documents_update P f)" "within (mustUpdate m2 c2 spaces spaces_update P1 f1)"
  "within (mustUpdate m3 c3 dataSources dataSources_update P2 f2)" "within (mustUpdate m4 c4 approvals approvals_update P3 f3)"
  "within (mustUpdate m5 c5 indexBindings indexBindings_update P4 f4)"
  "within (mustInsert m6 spaces spaces_update setId stamp clash s)"
  "within (mustInsert m7 dataSources dataSources_update setId1 stamp1 clash1 s1)"
  "within (mustInsert m8 tombstones tombstones_update setId2 stamp2 clash2 s2)"
  "within (mustInsert m9 indexJobs indexJobs_update setId3 stamp3 clash3 s3)"
  "within (mustInsert m10 outboxes outboxes_update setId4 stamp4 clash4 s4)"
  "within (mustInsert m11 auditEvents auditEvents_update setId5 stamp5 clash5 s5)"
  "within (mustInsert m12 difyBindings difyBindings_update setId6 stamp6 clash6 s6)"
  by (rule within_mustUpdate within_mustInsert; simp add: D_same)+

lemma keeps_index_status:
  "within (updateRows publications publications_update P (\<lambda>t p. pub_touch t (p\<lparr>pub_IndexStatus := status\<rparr>)))"
  "within (mustUpdate m c publications publications_update P (\<lambda>t p. pub_touch t (p\<lparr>pub_IndexStatus := status\<rparr>)))"
  by (rule within_mustUpdate within_updateRows; rule D_status)+

lemmas keeps_intros = access_intros within_withTx_body keeps_writes keeps_musts keeps_index_status

lemma keeps_data_sources:
  "within (CreateDataSource opts)" "within (EnableDataSource i a)" "within (ConfirmDataSourceReview i a)"
  unfolding CreateDataSource_def loadManagedSpace_def insertDataSourceAudit_def EnableDataSource_def approveSource_def
    ConfirmDataSourceReview_def confirmReview_def
  by (intro keeps_intros)+

lemma keeps_spaces:
  "within (CreateSpace opts)" "within (DeleteEmptySpace i a)"
  unfolding CreateSpace_def Let_def DeleteEmptySpace_def removeSpace_def requireEmpty_def requireNone_def
  by (intro keeps_intros within_repoCreate within_repoDelete; simp add: D_same)+

lemma keeps_SyncMySQL: "within (SyncMySQL i a p)"
  by (rule withinI) (drule runs.withinD [OF runs_SyncMySQL], auto simp: D_same)

lemma keeps_Reject: "within (Reject i a c)"
  unfolding Reject_def RejectRevision_def decideRejection_def restoreDocument_def Let_def appendPublicationAudit_def
  by (intro keeps_intros)

lemma keeps_index:
  "within (RetryPublicationIndex i a)" "within (ProcessIndexJob j b)"
  unfolding RetryPublicationIndex_def requeueJobs_def requeueJob_def ProcessIndexJob_def ProcessIndexJobSystem_def
    ValidateKnowledgeSettings_def orRaise_def
  by (intro keeps_intros within_processJob; simp add: pub_touch_def)+

lemma keeps_runIndexWorker: "within (runIndexWorker events)"
proof (rule withinI)
  fix w r w'
  assume "runIndexWorker events w = (r, w')"
  then have "workerReach (db w) (db w')" by (rule wrk.withinD [OF worker_runIndexWorker])
  then show "D (db w) (db w')"
    unfolding workerReach_def by (intro D_index) (cases "db w'"; cases "db w"; simp)+
qed

lemma keeps_retrieveSpace: "within (retrieveSpace i m q k a b)"
proof (rule withinI)
  fix w r w'
  assume "retrieveSpace i m q k a b w = (r, w')"
  from lg.withinD [OF logged_retrieveSpace this] show "D (db w) (db w')"
    by (auto simp: logged_def D_same)
qed

lemma keeps_quiet: "quiet.within m \<Longrightarrow> within m"
  by (rule within_same) (auto dest: steadyD simp: steady_def)

lemma keeps_recordRetrieval: "within (recordRetrieval a b s q n oc r)"
  unfolding recordRetrieval_def by (intro keeps_intros within_insertRow) (simp add: D_same)

lemma keeps_retrieval:
  "within (RetrieveForUser u i q k)" "within (RetrieveForDify bo q k)" "within (LookupDifyBinding token kid)"
  unfolding RetrieveForUser_def searchSpace_def findLimited_def Let_def RetrieveForDify_def LookupDifyBinding_def
  by (intro keeps_intros keeps_retrieveSpace keeps_recordRetrieval keeps_quiet [OF quiet_canReadSpace])+

lemma keeps_quality:
  "within (RecordFeedback a s p c r t)" "within (ResolveQualityTask a2 t2 e2)" "within (CreateDifyBinding opts)"
  unfolding RecordFeedback_def ResolveQualityTask_def resolveTask_def loadQualityTask_def appendAudit_def CreateDifyBinding_def Let_def
  by (intro keeps_intros within_insertRow within_same;
      auto simp: D_same cryptoRandomString_def)+

lemmas keeps_requests = keeps_data_sources keeps_spaces keeps_SyncMySQL keeps_Reject keeps_index keeps_runIndexWorker
  keeps_retrieval keeps_quality

end

end
