(* ===== verification/Ledger.thy ===== *)
theory Ledger
  imports Frames
begin

text \<open>
  An abstract specification of publishing, and its refinement by the whole system.

  A ledger knows for every document which publication is served, and which publications are
  spent. It moves in two ways only: a publication that is neither served nor spent is put in
  the place of the one its document served so far, which is spent from then on; or the
  publication of a document is withdrawn and spent. Every request of the system, whatever it
  returns, is such a sequence of moves, mostly the empty one.
\<close>

section \<open>The abstract ledger\<close>

record ledger =
  served :: "int \<Rightarrow> int option"
  spent :: "int set"

definition publishMove :: "int \<Rightarrow> int \<Rightarrow> ledger \<Rightarrow> ledger" where
  "publishMove i p l = l\<lparr>served := (served l)(i := Some p), spent := spent l \<union> set_option (served l i)\<rparr>"

definition withdrawMove :: "int \<Rightarrow> ledger \<Rightarrow> ledger" where
  "withdrawMove i l = l\<lparr>served := (served l)(i := None), spent := spent l \<union> set_option (served l i)\<rparr>"

inductive move :: "ledger \<Rightarrow> ledger \<Rightarrow> bool" where
  publish: "p \<notin> spent l \<Longrightarrow> p \<notin> ran (served l) \<Longrightarrow> move l (publishMove i p l)"
| withdraw: "served l i \<noteq> None \<Longrightarrow> move l (withdrawMove i l)"

text \<open>What is served is not spent, and no publication is served for two documents.\<close>

definition ledgerOk :: "ledger \<Rightarrow> bool" where
  "ledgerOk l \<longleftrightarrow> ran (served l) \<inter> spent l = {} \<and> inj_on (served l) (dom (served l))"

lemma move_ok:
  assumes "move l l'" "ledgerOk l"
  shows "ledgerOk l' \<and> spent l \<subseteq> spent l'"
  using assms(1)
proof cases
  case (publish p i)
  have "inj_on (served l') (dom (served l'))"
    using assms(2) publish unfolding ledgerOk_def inj_on_def publishMove_def by (auto simp: ran_def)
  moreover have "ran (served l') \<inter> spent l' = {}"
    using assms(2) publish unfolding ledgerOk_def publishMove_def inj_on_def
    by (auto simp: ran_def dom_def split: if_splits)
  ultimately show ?thesis by (simp add: ledgerOk_def publish publishMove_def)
next
  case (withdraw i)
  have "inj_on (served l') (dom (served l'))"
    using assms(2) withdraw unfolding ledgerOk_def inj_on_def withdrawMove_def by auto
  moreover have "ran (served l') \<inter> spent l' = {}"
    using assms(2) withdraw unfolding ledgerOk_def withdrawMove_def inj_on_def
    by (auto simp: ran_def dom_def split: if_splits)
  ultimately show ?thesis by (simp add: ledgerOk_def withdraw withdrawMove_def)
qed

lemma moves_ok: "move\<^sup>*\<^sup>* l l' \<Longrightarrow> ledgerOk l \<Longrightarrow> ledgerOk l' \<and> spent l \<subseteq> spent l'"
  by (induction rule: rtranclp_induct) (use move_ok in blast)+

text \<open>A spent publication is never served again.\<close>

lemma moves_spent: "move\<^sup>*\<^sup>* l l' \<Longrightarrow> ledgerOk l \<Longrightarrow> p \<in> spent l \<Longrightarrow> served l' i \<noteq> Some p"
  using moves_ok [of l l'] unfolding ledgerOk_def by (auto dest: ranI)

section \<open>The ledger of a database\<close>

lemma governance_wf: "governance d \<Longrightarrow> tblWf pub_ID (publications d)" "governance d \<Longrightarrow> tblWf doc_ID (documents d)"
  by (simp_all add: governance_def dbWf_def)

definition ledgerOf :: "database \<Rightarrow> ledger" where
  "ledgerOf d =
     \<lparr>served = (\<lambda>i. map_option pub_ID (tblFirst (\<lambda>p. pub_IsCurrent p \<and> pub_DocumentID p = i) (publications d))),
      spent = {pub_ID p |p. p \<in> set (rows (publications d)) \<and> \<not> pub_IsCurrent p \<and> pub_ValidityStatus p \<noteq> ValidityStatusScheduled}\<rparr>"

lemma ledgerOf_empty: "ledgerOf emptyDatabase = \<lparr>served = (\<lambda>_. None), spent = {}\<rparr>"
  by (simp add: ledgerOf_def emptyDatabase_def emptyTable_def tblFirst_def)

lemma served_iff:
  assumes "governance d"
  shows "served (ledgerOf d) i = Some j \<longleftrightarrow>
    (\<exists>p. tblGet pub_ID j (publications d) = Some p \<and> pub_IsCurrent p \<and> pub_DocumentID p = i)"
proof
  have wf: "tblWf pub_ID (publications d)" using assms by (simp add: governance_def dbWf_def)
  assume "served (ledgerOf d) i = Some j"
  then show "\<exists>p. tblGet pub_ID j (publications d) = Some p \<and> pub_IsCurrent p \<and> pub_DocumentID p = i"
    using tblFirst_get [OF wf] by (fastforce simp: ledgerOf_def)
next
  assume "\<exists>p. tblGet pub_ID j (publications d) = Some p \<and> pub_IsCurrent p \<and> pub_DocumentID p = i"
  then obtain p where p: "tblGet pub_ID j (publications d) = Some p" "pub_IsCurrent p" "pub_DocumentID p = i" by blast
  from p have mem: "p \<in> set (rows (publications d))" "pub_ID p = j" by (auto dest: tblGetD)
  have agree: "q \<in> set (rows (publications d)) \<Longrightarrow> pub_IsCurrent q \<Longrightarrow>
      \<exists>x. tblGet doc_ID (pub_DocumentID q) (documents d) = Some x \<and> doc_CurrentPublicationID x = pub_ID q" for q
    using assms by (auto simp: governance_def pointersAgree_def case_get)
  obtain q where q: "tblFirst (\<lambda>p. pub_IsCurrent p \<and> pub_DocumentID p = i) (publications d) = Some q"
    using mem p by (metis (mono_tags, lifting) tblFirst_None option.exhaust)
  then have "q \<in> set (rows (publications d))" "pub_IsCurrent q" "pub_DocumentID q = i" using tblFirstD by fastforce+
  with agree agree [OF mem(1) p(2)] p(3) mem(2) have "pub_ID q = j" by fastforce
  with q show "served (ledgerOf d) i = Some j" by (simp add: ledgerOf_def)
qed

lemma spent_iff:
  assumes "governance d"
  shows "j \<in> spent (ledgerOf d) \<longleftrightarrow>
    (\<exists>p. tblGet pub_ID j (publications d) = Some p \<and> \<not> pub_IsCurrent p \<and> pub_ValidityStatus p \<noteq> ValidityStatusScheduled)"
  using assms tblWf_mem [of pub_ID "publications d"] tblGetD [of pub_ID j "publications d"]
  by (auto simp: ledgerOf_def governance_def dbWf_def)

lemma ledgerOf_ok:
  assumes "governance d"
  shows "ledgerOk (ledgerOf d)"
proof -
  have "p \<notin> spent (ledgerOf d)" if "served (ledgerOf d) i = Some p" for i p
    using that served_iff [OF assms] spent_iff [OF assms] by auto
  moreover have "i = i'" if "served (ledgerOf d) i = Some p" "served (ledgerOf d) i' = Some p" for i i' p
    using that served_iff [OF assms] by auto
  ultimately show ?thesis
    unfolding ledgerOk_def inj_on_def ran_def dom_def by fastforce
qed

section \<open>The moves of the requests\<close>

text \<open>The columns the ledger depends on.\<close>

definition ledgerColumns :: "Publication \<Rightarrow> int \<times> int \<times> bool \<times> bool" where
  "ledgerColumns p = (pub_ID p, pub_DocumentID p, pub_IsCurrent p, pub_ValidityStatus p = ValidityStatusScheduled)"

lemma ledgerOf_columns:
  assumes "map ledgerColumns (rows (publications d')) = map ledgerColumns (rows (publications d))"
  shows "ledgerOf d' = ledgerOf d"
proof -
  have first: "map_option pub_ID (List.find (\<lambda>p. pub_IsCurrent p \<and> pub_DocumentID p = i) ps) =
      map_option fst (List.find (\<lambda>(j, x, c, s). c \<and> x = i) (map ledgerColumns ps))" for i ps
    by (induction ps) (auto simp: ledgerColumns_def)
  have used: "{pub_ID p |p. p \<in> set ps \<and> \<not> pub_IsCurrent p \<and> pub_ValidityStatus p \<noteq> ValidityStatusScheduled} =
      {j. \<exists>x. (j, x, False, False) \<in> set (map ledgerColumns ps)}" for ps
    by (auto simp: ledgerColumns_def image_iff)
  show ?thesis
    unfolding ledgerOf_def tblFirst_def first used assms ..
qed

definition stutters :: "database \<Rightarrow> database \<Rightarrow> bool" where
  "stutters d d' \<longleftrightarrow> ledgerOf d' = ledgerOf d"

lemma stutters_same: "publications d' = publications d \<Longrightarrow> stutters d d'"
  by (simp add: stutters_def ledgerOf_def)

interpretation calm: publication_frame stutters
proof unfold_locales
  show "stutters d d'" if "map withoutIndex (rows (publications d')) = map withoutIndex (rows (publications d))" for d d'
  proof -
    have "ledgerColumns = ledgerColumns \<circ> withoutIndex" by (simp add: fun_eq_iff withoutIndex_def ledgerColumns_def)
    with that have "map ledgerColumns (rows (publications d')) = map ledgerColumns (rows (publications d))"
      by (metis map_map)
    then show ?thesis unfolding stutters_def by (rule ledgerOf_columns)
  qed
qed (simp_all add: stutters_def)

text \<open>A new publication is scheduled and not current.\<close>

lemma stutters_new_publication:
  assumes "tblInsert (\<lambda>i r. r\<lparr>pub_ID := i\<rparr>) pub_clash p (publications d) = Some (p', t)"
    "\<not> pub_IsCurrent p" "pub_ValidityStatus p = ValidityStatusScheduled"
  shows "stutters d (d\<lparr>publications := t\<rparr>)"
  using pub_tbl.insert_row [OF assms(1)] assms(2,3)
  by (auto simp: stutters_def ledgerOf_def tblFirst_def find_append split: option.splits)

text \<open>The requests of a run that keeps the invariant and moves the ledger.\<close>

definition refines :: "database \<Rightarrow> database \<Rightarrow> bool" where
  "refines d d' \<longleftrightarrow> governed d d' \<and> (governance d \<longrightarrow> move\<^sup>*\<^sup>* (ledgerOf d) (ledgerOf d'))"

interpretation sim: db_frame refines
proof unfold_locales
  show "refines d d" for d by (simp add: refines_def gov.D_refl)
  show "refines d f" if "refines d e" "refines e f" for d e f
    using that gov.D_trans unfolding refines_def by (auto simp: governed_def)
qed

lemma refines_stutters: "governed d d' \<Longrightarrow> stutters d d' \<Longrightarrow> refines d d'"
  by (simp add: refines_def stutters_def)

lemma sim_calm: "gov.within m \<Longrightarrow> calm.within m \<Longrightarrow> sim.within m"
  by (rule sim.withinI) (auto intro: refines_stutters dest: gov.withinD calm.withinD)

subsection \<open>Requests that leave the ledger as it is\<close>

lemma calm_uploads: "calm.within (UploadRevision opts)" "calm.within (CompleteReview i a t c)"
  unfolding UploadRevision_def checkUpload_def checkSource_def checkDocument_def commitUpload_def recordUpload_def nextRevisionNo_def
    pendingDocument_def insertReviewChecks_def CompleteReview_def auditReview_def
  by (intro calm.access_intros calm.within_withTx_body calm.within_mustInsert calm.within_mustUpdate calm.within_insertRow
      calm.within_updateRows stutters_same; simp)+

lemma calm_publication:
  "\<not> pub_IsCurrent p \<Longrightarrow> pub_ValidityStatus p = ValidityStatusScheduled \<Longrightarrow> calm.within (insertPublication m p)"
  by (rule calm.within_mustInsert, erule stutters_new_publication) (simp_all add: pub_stamp_def)

lemma calm_Approve: "calm.within (Approve i a c)"
  unfolding Approve_def requireAllReviewsPassed_def Let_def ApproveRevision_def decideApproval_def recordApproval_def
    loadApprovalResult_def
  by (intro calm.access_intros calm.within_withTx_body calm_publication calm.within_mustInsert calm.within_mustUpdate
      stutters_same; simp add: newPublication_def)

subsection \<open>Activation and revocation\<close>

lemma ledger_activate:
  assumes ok: "activatable opts candidate document space d" and inv: "governance d" "governance d'"
    and pubs: "publications d' = activatedPublications opts now t2 (supersededPublications t1 document (publications d))"
  shows "ledgerOf d' = publishMove (pub_DocumentID candidate) (apo_PublicationID opts) (ledgerOf d)"
    "apo_PublicationID opts \<notin> spent (ledgerOf d)" "apo_PublicationID opts \<notin> ran (served (ledgerOf d))"
proof -
  let ?p = "apo_PublicationID opts" and ?i = "pub_DocumentID candidate"
  have cand: "tblGet pub_ID ?p (publications d) = Some candidate" "tblGet doc_ID ?i (documents d) = Some document"
    "\<not> pub_IsCurrent candidate" "pub_ValidityStatus candidate = ValidityStatusScheduled" "pub_ID candidate = ?p"
    using ok by (auto simp: activatable_def dest: tblGet_id)
  have agree: "doc_CurrentPublicationID document = j" "0 < j"
    if "tblGet pub_ID j (publications d) = Some q" "pub_IsCurrent q" "pub_DocumentID q = ?i" for j q
  proof -
    have "q \<in> set (rows (publications d))" "pub_ID q = j" using that(1) by (auto dest: tblGetD)
    with that inv(1) cand(2) show "doc_CurrentPublicationID document = j" by (auto simp: governance_def pointersAgree_def case_get)
    show "0 < j" using inv(1) tblGet_pos [OF _ that(1)] by (simp add: governance_def dbWf_def)
  qed
  have other: "pub_DocumentID q = ?i"
    if "0 < doc_CurrentPublicationID document" "tblGet pub_ID (doc_CurrentPublicationID document) (publications d) = Some q" for q
    using that inv(1) cand(2) tblGet_id [OF cand(2)] tblGetD [OF cand(2)] by (fastforce simp: governance_def pointersAgree_def case_get)
  have get: "tblGet pub_ID j (publications d') = (if j = ?p then
        Some (pub_touch t2 (candidate\<lparr>pub_IsCurrent := True, pub_ValidityStatus := ValidityStatusCurrent,
                pub_IndexStatus := IndexStatusSearchable, pub_EffectiveUnix := now\<rparr>))
      else map_option (\<lambda>p. if 0 < doc_CurrentPublicationID document \<and> j = doc_CurrentPublicationID document \<and> pub_IsCurrent p
       then pub_touch t1 (p\<lparr>pub_IsCurrent := False, pub_IndexStatus := IndexStatusSuperseded\<rparr>) else p)
     (tblGet pub_ID j (publications d)))" for j
    unfolding pubs activated_get [OF ok] superseded_get ..
  have old: "served (ledgerOf d) ?i = Some j \<longleftrightarrow> 0 < doc_CurrentPublicationID document \<and> j = doc_CurrentPublicationID document \<and>
      (\<exists>q. tblGet pub_ID j (publications d) = Some q \<and> pub_IsCurrent q)" for j
    unfolding served_iff [OF inv(1)] using agree other by blast
  have current: "pub_ValidityStatus q = ValidityStatusCurrent" if "tblGet pub_ID j (publications d) = Some q" "pub_IsCurrent q" for j q
    using inv(1) that tblGetD [OF that(1)] by (simp add: governance_def approvedValid_def)
  have "served (ledgerOf d') i = Some j \<longleftrightarrow> ((served (ledgerOf d))(?i := Some ?p)) i = Some j" for i j
  proof (cases "i = ?i")
    case True
    have "served (ledgerOf d') ?i = Some ?p" by (simp add: served_iff [OF inv(2)] get pub_touch_def)
    with True show ?thesis by simp
  next
    case False
    then show ?thesis
      using cand other by (auto simp: served_iff [OF inv(1)] served_iff [OF inv(2)] get pub_touch_def split: if_splits)
  qed
  then have served: "served (ledgerOf d') = (served (ledgerOf d))(?i := Some ?p)"
    by (intro ext) (metis option.exhaust)
  have "j \<in> spent (ledgerOf d') \<longleftrightarrow> j \<in> spent (ledgerOf d) \<or> served (ledgerOf d) ?i = Some j" for j
    using cand current unfolding spent_iff [OF inv(1)] spent_iff [OF inv(2)] old get
    by (auto simp: pub_touch_def split: if_splits)
  then show "ledgerOf d' = publishMove ?i ?p (ledgerOf d)"
    using served by (simp add: publishMove_def set_eq_iff ledger.equality)
  show "?p \<notin> spent (ledgerOf d)" "?p \<notin> ran (served (ledgerOf d))"
    using cand by (auto simp: spent_iff [OF inv(1)] served_iff [OF inv(1)] ran_def)
qed

lemma ledger_revoke:
  assumes ok: "unpublishable opts publication document space revision d" and inv: "governance d" "governance d'"
    and pubs: "publications d' = publications (revokedDatabase t publication document tt d)"
  shows "ledgerOf d' = withdrawMove (pub_DocumentID publication) (ledgerOf d)"
    "served (ledgerOf d) (pub_DocumentID publication) = Some (pub_ID publication)"
proof -
  let ?p = "pub_ID publication" and ?i = "pub_DocumentID publication"
  have p: "tblGet pub_ID ?p (publications d) = Some publication" "pub_IsCurrent publication"
    using ok tblGet_id [of pub_ID "upo_PublicationID opts" "publications d" publication] by (simp_all add: unpublishable_def)
  have get: "tblGet pub_ID j (publications d') =
      (if j = ?p then Some (pub_touch t (publication\<lparr>pub_IsCurrent := False, pub_ValidityStatus := ValidityStatusUnpublished\<rparr>))
       else tblGet pub_ID j (publications d))" for j
    unfolding pubs revokedDatabase_get [OF ok] ..
  have mine: "served (ledgerOf d) ?i = Some j \<longleftrightarrow> j = ?p" for j
  proof -
    have "served (ledgerOf d) ?i = Some ?p" using p by (simp add: served_iff [OF inv(1)])
    then show ?thesis by auto
  qed
  have "served (ledgerOf d') i = Some j \<longleftrightarrow> ((served (ledgerOf d))(?i := None)) i = Some j" for i j
    using mine p by (auto simp: served_iff [OF inv(1)] served_iff [OF inv(2)] get pub_touch_def split: if_splits)
  then have served: "served (ledgerOf d') = (served (ledgerOf d))(?i := None)"
    by (intro ext) (metis option.exhaust)
  have "j \<in> spent (ledgerOf d') \<longleftrightarrow> j \<in> spent (ledgerOf d) \<or> served (ledgerOf d) ?i = Some j" for j
    using p unfolding spent_iff [OF inv(1)] spent_iff [OF inv(2)] mine get by (auto simp: pub_touch_def)
  then show "ledgerOf d' = withdrawMove ?i (ledgerOf d)"
    using served by (simp add: withdrawMove_def set_eq_iff ledger.equality)
  show "served (ledgerOf d) ?i = Some ?p" using mine by simp
qed

lemma sim_ActivatePublication: "sim.within (ActivatePublication opts)"
  unfolding ActivatePublication_def
proof (intro sim.call_intros sim.within_withTx)
  fix w u w'
  assume run: "activateCandidate opts w = (Inr u, w')"
  have gov: "governed (db w) (db w')"
    using run by (rule governed_activateCandidate)
  obtain candidate document space w1 where
    switch: "switchPointer opts candidate document space w1 = (Inr u, w')" and
    ok: "activatable opts candidate document space (db w)" and w1: "db w1 = db w"
    using run by (rule activateCandidate_run)
  have "pub_ID candidate = apo_PublicationID opts"
    using ok by (auto simp: activatable_def dest: tblGet_id)
  with switch obtain now t1 t2 where "publications (db w') =
      activatedPublications opts now t2 (supersededPublications t1 document (publications (db w)))"
    by (rule switchPointer_run) (simp add: w1)
  with gov show "refines (db w) (db w')"
    using ledger_activate [OF ok] by (auto simp: refines_def governed_def intro!: publish r_into_rtranclp)
qed

lemma sim_UnpublishPublication: "sim.within (UnpublishPublication opts)"
  unfolding UnpublishPublication_def
proof (intro sim.call_intros sim.within_withTx)
  fix w u w'
  assume run: "unpublishCurrent opts w = (Inr u, w')"
  have gov: "governed (db w) (db w')"
    using run by (rule governed_unpublishCurrent)
  from run show "refines (db w) (db w')"
  proof (cases rule: unpublishCurrent_run)
    case replay
    then show ?thesis by (simp add: sim.D_refl)
  next
    case (revoked publication document space revision w1)
    obtain t tt where "publications (db w') = publications (revokedDatabase t publication document tt (db w))"
      using revoked(1) by (rule revokePublication_run) (simp add: revoked(3) revokedDatabase_def)
    with gov show ?thesis
      using ledger_revoke [OF revoked(2)] by (auto simp: refines_def governed_def intro!: withdraw r_into_rtranclp)
  qed
qed

lemma sim_catalogActivate: "sim.within (catalogActivate i a)"
  unfolding catalogActivate_def sourceExpired_def by (intro sim.access_intros sim_ActivatePublication)

lemma sim_catalogUnpublish: "sim.within (catalogUnpublish i a r)"
  unfolding catalogUnpublish_def by (intro sim.access_intros sim_UnpublishPublication)

lemma sim_ExpireDueDataSources: "sim.within (ExpireDueDataSources a)"
  unfolding ExpireDueDataSources_def expireSource_def unpublishExpired_def auditExpiry_def
  by (intro sim.access_intros sim.within_foldM sim_catalogUnpublish sim.within_updateRows sim.within_insertRow refines_stutters
      stutters_same governed_audit governed_dataSources) (simp_all add: ds_touch_def)

section \<open>Refinement\<close>

lemma sim_after: "sim.within m \<Longrightarrow> refines (db w) (db (after m w))"
  unfolding after_def by (rule sim.withinD [OF _ prod.collapse [symmetric]])

lemma stutters_after: "calm.within m \<Longrightarrow> stutters (db w) (db (after m w))"
  unfolding after_def by (rule calm.withinD [OF _ prod.collapse [symmetric]])

lemma refines_perform: "refines (db w) (db (perform r w))"
proof (cases "(\<exists>i a. r = RActivatePublication i a) \<or> (\<exists>i a s. r = RUnpublishPublication i a s) \<or> (\<exists>a. r = RExpireDueDataSources a)")
  case True
  then show ?thesis
    by (elim disjE exE; simp only: perform.simps)
      (rule sim_after sim_catalogActivate sim_catalogUnpublish sim_ExpireDueDataSources)+
next
  case False
  then have "stutters (db w) (db (perform r w))"
    by (cases r; simp only: perform.simps request.distinct simp_thms)
      (intro stutters_after calm.keeps_requests calm_uploads calm_Approve calm.within_andThen | simp)+
  with governed_perform show ?thesis by (rule refines_stutters)
qed

lemma refines_step:
  assumes "step w w'"
  shows "refines (db w) (db w')"
  using assms
proof cases
  case (accounts u r)
  then show ?thesis
    using refines_stutters [OF governed_step [OF assms]] by (simp add: stutters_same)
qed (simp_all add: refines_perform sim.D_refl)

lemma refines_steps: "step\<^sup>*\<^sup>* w w' \<Longrightarrow> refines (db w) (db w')"
proof (induction rule: rtranclp_induct)
  case (step y z)
  then show ?case using refines_step sim.D_trans by blast
qed (rule sim.D_refl)

end
