(* ===== verification/Reviewed.thy ===== *)
theory Reviewed
  imports Frames
begin

text \<open>
  Nothing is published without its six reviews: in every reachable state, the reviews of the
  revision of every publication have all passed. Three requests can bear on that: an approval,
  which makes a publication; a completed review and an upload, which write reviews. All others
  stay in the frame \<open>npub\<close>, most of them because they stay in every such frame.
\<close>

section \<open>Requests that publish nothing\<close>

definition publishesNothing :: "database \<Rightarrow> database \<Rightarrow> bool" where
  "publishesNothing d d' \<longleftrightarrow>
     reviewChecks d' = reviewChecks d \<and>
     pub_RevisionID ` set (rows (publications d')) \<subseteq> pub_RevisionID ` set (rows (publications d))"

lemma publishesNothing_same:
  "reviewChecks d' = reviewChecks d \<Longrightarrow> publications d' = publications d \<Longrightarrow> publishesNothing d d'"
  by (simp add: publishesNothing_def)

lemma publishesNothing_update:
  "(\<And>p. pub_RevisionID (f p) = pub_RevisionID p) \<Longrightarrow>
   publishesNothing d (d\<lparr>publications := tblUpdate P f (publications d)\<rparr>)"
  by (auto simp: publishesNothing_def rows_tblUpdate)

interpretation npub: publication_frame publishesNothing
proof unfold_locales
  show "publishesNothing d d" for d by (simp add: publishesNothing_same)
  show "publishesNothing d f" if "publishesNothing d e" "publishesNothing e f" for d e f
    using that unfolding publishesNothing_def by (metis order_trans)
  show "publishesNothing d d'"
    if same: "map withoutIndex (rows (publications d')) = map withoutIndex (rows (publications d))" "reviewChecks d' = reviewChecks d" for d d'
  proof -
    have "pub_RevisionID = pub_RevisionID \<circ> withoutIndex" by (simp add: fun_eq_iff withoutIndex_def)
    then have "pub_RevisionID ` set (rows (publications d')) = pub_RevisionID ` set (rows (publications d))"
      using same(1) by (metis image_comp set_map)
    with same(2) show ?thesis by (simp add: publishesNothing_def)
  qed
qed

lemma npub_publications:
  "(\<And>t p. pub_RevisionID (f t p) = pub_RevisionID p) \<Longrightarrow> npub.within (updateRows publications publications_update P f)"
  "(\<And>t p. pub_RevisionID (f t p) = pub_RevisionID p) \<Longrightarrow> npub.within (mustUpdate m c publications publications_update P f)"
  by (rule npub.within_mustUpdate npub.within_updateRows; rule publishesNothing_update; simp)+

lemmas npub_switch_intros = npub.keeps_intros npub_publications

lemma npub_catalogActivate: "npub.within (catalogActivate i a)"
  unfolding catalogActivate_def sourceExpired_def ActivatePublication_def activateCandidate_def switchPointer_def
    supersedeCurrent_def activateBinding_def loadPublicationParents_def appendPublicationAudit_def  Let_def
  by (intro npub_switch_intros; simp add: pub_touch_def)

lemma npub_catalogUnpublish: "npub.within (catalogUnpublish i a r)"
  unfolding catalogUnpublish_def UnpublishPublication_def unpublishCurrent_def revokePublication_def loadPublicationParents_def
    appendPublicationAudit_def  Let_def
  by (intro npub_switch_intros; simp add: pub_touch_def)

lemma npub_ExpireDueDataSources: "npub.within (ExpireDueDataSources a)"
  unfolding ExpireDueDataSources_def expireSource_def unpublishExpired_def auditExpiry_def
  by (intro npub_switch_intros npub_catalogUnpublish)

section \<open>The invariant\<close>

definition reviewed :: "database \<Rightarrow> bool" where
  "reviewed d \<longleftrightarrow> (\<forall>p \<in> set (rows (publications d)). allReviewsPassed (pub_RevisionID p) d)"

lemma allReviewsPassed_cong: "reviewChecks d' = reviewChecks d \<Longrightarrow> allReviewsPassed i d' = allReviewsPassed i d"
  by (simp add: allReviewsPassed_def)

lemma reviewed_npub: "publishesNothing d d' \<Longrightarrow> reviewed d \<Longrightarrow> reviewed d'"
  unfolding publishesNothing_def reviewed_def using allReviewsPassed_cong by (metis image_iff subset_iff)

text \<open>Passing one more pending review keeps what has passed.\<close>

definition reviewsKept :: "database \<Rightarrow> database \<Rightarrow> bool" where
  "reviewsKept d d' \<longleftrightarrow> publications d' = publications d \<and> (\<forall>i. allReviewsPassed i d \<longrightarrow> allReviewsPassed i d')"

interpretation kept: db_frame reviewsKept
  by unfold_locales (auto simp: reviewsKept_def)

lemma allReviewsPassed_pass:
  assumes "allReviewsPassed i d" "\<And>c. P c \<Longrightarrow> rc_Status (f c) = ''passed''"
    "\<And>c. rc_RevisionID (f c) = rc_RevisionID c" "\<And>c. rc_ReviewType (f c) = rc_ReviewType c"
  shows "allReviewsPassed i (d\<lparr>reviewChecks := tblUpdate P f (reviewChecks d)\<rparr>)"
proof -
  let ?g = "\<lambda>c. if P c then f c else c"
  have g: "rc_RevisionID (?g c) = rc_RevisionID c" "rc_ReviewType (?g c) = rc_ReviewType c" for c
    using assms(3,4) by simp_all
  have "filter (\<lambda>c. rc_RevisionID c = i) (map ?g cs) = map ?g (filter (\<lambda>c. rc_RevisionID c = i) cs)" for cs
    by (induction cs) (simp_all add: g(1) del: if_split)
  then have len: "length (tblFind (\<lambda>c. rc_RevisionID c = i) (tblUpdate P f (reviewChecks d))) =
      length (tblFind (\<lambda>c. rc_RevisionID c = i) (reviewChecks d))"
    by (simp add: tblFind_def rows_tblUpdate)
  have "\<exists>c' \<in> set (rows (tblUpdate P f (reviewChecks d))). rc_RevisionID c' = i \<and> rc_ReviewType c' = t \<and> rc_Status c' = ''passed''"
    if "c \<in> set (rows (reviewChecks d))" "rc_RevisionID c = i" "rc_ReviewType c = t" "rc_Status c = ''passed''" for c t
    using that assms(2) g [of c] by (intro bexI [of _ "?g c"]) (auto simp: rows_tblUpdate)
  with assms(1) len show ?thesis unfolding allReviewsPassed_def by simp blast
qed

lemma reviewsKept_pass:
  "reviewsKept d (d\<lparr>reviewChecks := tblUpdate P (\<lambda>c. rc_touch t (c\<lparr>rc_Status := ''passed'', rc_Comment := s, rc_CheckedBy := a, rc_CheckedUnix := now\<rparr>))
     (reviewChecks d)\<rparr>)"
  unfolding reviewsKept_def by (auto intro: allReviewsPassed_pass simp: rc_touch_def)

lemma reviewsKept_audit: "reviewsKept d (d\<lparr>auditEvents := t\<rparr>)"
  by (simp add: reviewsKept_def allReviewsPassed_def)

lemma kept_CompleteReview: "kept.within (CompleteReview i a t c)"
  unfolding CompleteReview_def auditReview_def
  by (intro kept.access_intros kept.within_updateRows kept.within_insertRow reviewsKept_pass reviewsKept_audit)

text \<open>An approval publishes a revision whose reviews have passed.\<close>

lemma Approve_unchanged: "unchanged.fails_within (Approve i a c)"
  unfolding Approve_def requireAllReviewsPassed_def Let_def
  by (intro unchanged.fails_intros unchanged.access_intros)
    (auto simp: unchanged.fails_within_def dest: ApproveRevision_error)

lemma reviewed_Approve:
  assumes "Approve i a c w = (r, w')" "reviewed (db w)"
  shows "reviewed (db w')"
proof (cases r)
  case (Inl e)
  with assms Approve_unchanged have "db w' = db w" by (auto simp: unchanged.fails_within_def)
  with assms(2) show ?thesis by simp
next
  case (Inr res)
  from assms(1) [unfolded Inr] show ?thesis
  proof (rule Approve_run)
    fix trace w1 actor approval
    assume run: "ApproveRevision \<lparr>aro_ApprovalID = i, aro_DecidedBy = a, aro_Comment = trimSpace c,
        aro_EngineProfileVersion = ks_EngineProfileVersion (setting (env w)), aro_ACLPolicyVersion = defaultACLPolicyVersion,
        aro_TraceID = trace\<rparr> w1 = (Inr res, w')" (is "ApproveRevision ?opts _ = _")
      and d1: "db w1 = db w" and approval: "tblGet appr_ID i (approvals (db w)) = Some approval"
      and passed: "allReviewsPassed (appr_RevisionID approval) (db w)"
    obtain w2 w3 where d: "decideApproval ?opts w2 = (Inr res, w3)" "db w2 = db w1" "db w3 = db w'"
      using run by (rule ApproveRevision_run)
    from d(1) show ?thesis
    proof (cases rule: decideApproval_run)
      case replay
      with d d1 assms(2) show ?thesis by simp
    next
      case (decided approval' revision document space w4)
      then have same: "approval' = approval" "db w4 = db w" "rev_ID revision = appr_RevisionID approval"
        using approval d d1 by (auto simp: approvable_def dest: tblGet_id)
      from decided(1) show ?thesis
      proof (rule recordApproval_run)
        fix now t tp tob tj tae audit
        assume p: "tblInsert (\<lambda>i r. r\<lparr>pub_ID := i\<rparr>) pub_clash (pub_stamp t (newPublication ?opts approval' revision document space))
            (publications (db w4)) = Some (arr_Publication res, tp)"
          and result: "db w3 = approvedDatabase ?opts now t approval' revision document space tp tob tj tae (db w4)"
        have "publications (db w') = tp" "reviewChecks (db w') = reviewChecks (db w)"
          using result [unfolded d(3)] same by (simp_all add: approvedDatabase_def)
        moreover have "pub_RevisionID (arr_Publication res) = appr_RevisionID approval"
          using pub_tbl.insert_row [OF p] same by (simp add: pub_stamp_def newPublication_def)
        ultimately show ?thesis
          using pub_tbl.insert_row(2) [OF p] assms(2) passed same(2)
          by (auto simp: reviewed_def allReviewsPassed_cong [of "db w'" "db w"])
      qed
    qed
  qed
qed

text \<open>An upload writes reviews of a revision that did not exist, so that nothing can have published it.\<close>

lemma UploadRevision_unchanged: "unchanged.fails_within (UploadRevision opts)"
  unfolding UploadRevision_def
proof (intro unchanged.fails_within_andThen checkUpload_reads unchanged.within_askEnv)
  fix c :: uploadContext and result
  have commit: "unchanged.within (commitUpload opts c u)" for u
    unfolding commitUpload_def by (intro unchanged.access_intros)
  have tx: "unchanged.fails_within (withTx (recordUpload opts c u repoPath commitSHA))" for u repoPath commitSHA
    by (auto simp: unchanged.fails_within_def dest: withTx_error)
  show "unchanged.fails_within (case result of Inl err \<Rightarrow> raise err | Inr u \<Rightarrow>
      andThen (commitUpload opts c u) (\<lambda>(repoPath, commitSHA). withTx (recordUpload opts c u repoPath commitSHA)))"
    by (cases result) (auto intro!: unchanged.fails_within_raise unchanged.fails_within_andThen commit tx)
qed

lemma allReviewsPassed_other:
  assumes "rows (reviewChecks d') = rows (reviewChecks d) @ checks" "\<forall>c \<in> set checks. rc_RevisionID c \<noteq> i" "allReviewsPassed i d"
  shows "allReviewsPassed i d'"
proof -
  have "filter (\<lambda>c. rc_RevisionID c = i) checks = []" using assms(2) by (simp add: filter_empty_conv)
  with assms(1,3) show ?thesis by (auto simp: allReviewsPassed_def tblFind_def)
qed

lemma pendingChecks_revision: "pendingChecks i types checks \<Longrightarrow> c \<in> set checks \<Longrightarrow> rc_RevisionID c = i"
proof -
  assume "pendingChecks i types checks" "c \<in> set checks"
  then have "(rc_RevisionID c, rc_ReviewType c, rc_Status c, rc_CheckedBy c) \<in> set (map (\<lambda>t. (i, t, ''pending'', 0)) types)"
    unfolding pendingChecks_def by (metis (no_types, lifting) image_eqI set_map)
  then show ?thesis by auto
qed

lemma reviewed_UploadRevision:
  assumes "UploadRevision opts w = (r, w')" "reviewed (db w)" "governance (db w)"
  shows "reviewed (db w')"
proof (cases r)
  case (Inl e)
  with assms UploadRevision_unchanged have "db w' = db w" by (auto simp: unchanged.fails_within_def)
  with assms(2) show ?thesis by simp
next
  case (Inr res)
  from assms(1) [unfolded Inr] show ?thesis
  proof (rule UploadRevision_run)
    fix c u repoPath commitSHA w1 w2
    assume run: "recordUpload opts c u repoPath commitSHA w1 = (Inr res, w2)" and d: "db w1 = db w" "db w2 = db w'"
    from run show ?thesis
    proof (rule recordUpload_run)
      fix document revisionNo now td tr ta tc checks
      assume rev: "tblInsert (\<lambda>i r. r\<lparr>rev_ID := i\<rparr>) rev_clash (rev_stamp now (newRevision opts c u (doc_ID document) revisionNo repoPath commitSHA))
           (revisions (db w1)) = Some (urr_Revision res, tr)"
        and checks: "rows tc = rows (reviewChecks (db w1)) @ checks" "pendingChecks (rev_ID (urr_Revision res)) RequiredReviewTypes checks"
        and result: "db w2 = (db w1)\<lparr>documents := tblUpdate (\<lambda>x. doc_ID x = doc_ID document)
           (\<lambda>x. doc_touch now (x\<lparr>doc_CurrentRevisionID := rev_ID (urr_Revision res)\<rparr>)) td,
         revisions := tr, approvals := ta, reviewChecks := tc\<rparr>"
      have same: "publications (db w') = publications (db w)" "rows (reviewChecks (db w')) = rows (reviewChecks (db w)) @ checks"
        using result checks(1) d by simp_all
      have new: "rev_ID (urr_Revision res) = next_id (revisions (db w))" using rev_tbl.insert_row(4) [OF rev] d by simp
      show ?thesis
        unfolding reviewed_def same(1)
      proof
        fix p assume p: "p \<in> set (rows (publications (db w)))"
        with assms(3) obtain r where "tblGet rev_ID (pub_RevisionID p) (revisions (db w)) = Some r"
          by (auto simp: governance_def provenance_def case_get)
        moreover have "tblWf rev_ID (revisions (db w))" using assms(3) by (simp add: governance_def dbWf_def)
        ultimately have "pub_RevisionID p < next_id (revisions (db w))" by (blast dest: tblGet_pos)
        with new pendingChecks_revision [OF checks(2)] have "\<forall>c \<in> set checks. rc_RevisionID c \<noteq> pub_RevisionID p" by auto
        with allReviewsPassed_other [OF same(2)] p assms(2) show "allReviewsPassed (pub_RevisionID p) (db w')"
          by (auto simp: reviewed_def)
      qed
    qed
  qed
qed

lemma reviewed_after: "npub.within m \<Longrightarrow> reviewed (db w) \<Longrightarrow> reviewed (db (after m w))"
  unfolding after_def by (rule reviewed_npub [OF npub.withinD [OF _ prod.collapse [symmetric]]])

lemma reviewed_after_CompleteReview: "reviewed (db w) \<Longrightarrow> reviewed (db (after (CompleteReview i a t c) w))"
  using kept.withinD [OF kept_CompleteReview prod.collapse [symmetric], of w i a t c]
  by (simp add: after_def reviewsKept_def reviewed_def)

lemma reviewed_perform:
  assumes "reviewed (db w)" "governance (db w)"
  shows "reviewed (db (perform r w))"
  by (cases r; simp only: perform.simps)
    (intro reviewed_after_CompleteReview [OF assms(1)]
      reviewed_Approve [OF prod.collapse [symmetric] assms(1), folded after_def]
      reviewed_UploadRevision [OF prod.collapse [symmetric] assms, folded after_def]
      reviewed_after [OF _ assms(1)] npub.keeps_requests npub_catalogActivate npub_catalogUnpublish npub_ExpireDueDataSources
      npub.within_andThen)+

lemma reachable_reviewed: "reachable w \<Longrightarrow> reviewed (db w)"
proof (induction rule: reachable.induct)
  case (start w)
  then show ?case by (simp add: reviewed_def emptyDatabase_def emptyTable_def)
next
  case (next_step w w')
  from next_step(2) show ?case
  proof cases
    case (request r)
    then show ?thesis using next_step reviewed_perform reachable_governance by simp
  next
    case (environment e)
    then show ?thesis using next_step by simp
  next
    case (accounts u r)
    then show ?thesis using next_step by (simp add: reviewed_def allReviewsPassed_def)
  qed
qed

end
