(* ===== verification/Stages.thy ===== *)
theory Stages
  imports Sample System
begin

text \<open>
  Concrete states along the life of the sample document: its publication waits for activation
  (\<open>stagedDatabase\<close>), is live (\<open>liveDatabase\<close>), and the environment that has an index engine
  which holds the document. They are the inputs of the evaluated examples.
\<close>

definition stageSetting :: KnowledgeSetting where
  "stageSetting = defaultKnowledgeSetting\<lparr>ks_Enabled := True, ks_RAGFlowBaseURL := ''https://rag'', ks_RAGFlowAPIKey := ''key'',
     ks_RAGFlowDatasetID := ''ds1'', ks_engineProfileConfigured := True\<rparr>"

definition stageURL :: ParsedURL where
  "stageURL = \<lparr>url_Scheme = ''https'', url_Host = ''rag'', url_Hostname = ''rag'', url_HasUser = False, url_RawQuery = '''',
     url_Fragment = '''', url_Path = '''', url_String = ''https://rag''\<rparr>"

definition stageChunk :: RetrievedChunk where
  "stageChunk = \<lparr>rk_ID = ''c1'', rk_DocumentID = ''doc-1'', rk_Content = ''text'', rk_Similarity = 0\<rparr>"

definition stageEnv :: environment where
  "stageEnv = sampleEnv\<lparr>setting := stageSetting, urlParse := \<lambda>_. Some stageURL, engRetrieve := \<lambda>_. Inr [stageChunk]\<rparr>"

definition stageAuthor :: User where
  "stageAuthor = \<lparr>user_ID = 7, user_Name = ''alice'', user_LowerName = ''alice'', user_IsAdmin = False\<rparr>"

definition stageAdmin :: User where
  "stageAdmin = \<lparr>user_ID = 8, user_Name = ''bob'', user_LowerName = ''bob'', user_IsAdmin = True\<rparr>"

definition stageSource :: DataSource where
  "stageSource =
     \<lparr>ds_ID = 1, ds_SpaceID = 1, ds_SourceCode = ''S1'', ds_Name = ''Handbook'', ds_SourceType = DataSourceTypePolicy,
      ds_BusinessDomainCode = ''hr'', ds_ContentTypeCode = ''policy'', ds_SourceDepartment = ''hr'', ds_ContentOwnerID = 7,
      ds_MaintenanceOwnerID = 7, ds_EffectiveUnix = 0, ds_ExpiresUnix = 0, ds_ReviewFrequency = ReviewFrequencyMonthly,
      ds_SecurityLevel = SecurityLevelInternal, ds_ApprovalBasisRef = ''basis'', ds_ApplicableScopeJSON = ''{}'',
      ds_SourceAuthorizationRef = ''grant-id:1'', ds_SourceFormat = ''text'', ds_SearchabilityStatus = SearchabilityStatusSearchable,
      ds_Status = DataSourceStatusEnabled, ds_ConnectorType = '''', ds_SecretRef = '''', ds_ReadScope = '''',
      ds_QueryTemplateRef = '''', ds_SchemaVersion = '''', ds_FieldMappingJSON = '''', ds_IncrementalCursorField = '''',
      ds_DataRetentionRule = '''', ds_MaskPolicyVersion = ''mask-policy-1'', ds_LastSyncUnix = 0, ds_LastSuccessCursor = '''',
      ds_CreatedBy = 7, ds_CreatedUnix = 10, ds_UpdatedUnix = 10\<rparr>"

definition stagePublication :: Publication where
  "stagePublication =
     \<lparr>pub_ID = 1, pub_SpaceID = 1, pub_DocumentID = 1, pub_RevisionID = 1, pub_ApprovalID = 1, pub_Generation = 1,
      pub_GovernanceStatus = GovernanceStatusApproved, pub_ValidityStatus = ValidityStatusScheduled,
      pub_IndexStatus = IndexStatusEvaluation, pub_ACLPolicyVersion = 1, pub_RevocationGeneration = 1, pub_IsCurrent = False,
      pub_EffectiveUnix = 0, pub_ExpiresUnix = 0, pub_CreatedUnix = 30, pub_UpdatedUnix = 30\<rparr>"

definition stageBinding :: IndexBinding where
  "stageBinding =
     \<lparr>ib_ID = 1, ib_SpaceID = 1, ib_DocumentID = 1, ib_RevisionID = 1, ib_PublicationID = 1, ib_Engine = ''ragflow'',
      ib_EngineProfileVersion = ks_EngineProfileVersion stageSetting, ib_DatasetID = ''ds1'', ib_EngineDocumentID = ''doc-1'',
      ib_ContentSHA256 = rev_ContentSHA256 sampleRevision, ib_Status = IndexStatusEvaluation, ib_LastSuccessUnix = 0\<rparr>"

definition stageSpace :: Space where
  "stageSpace = sampleSpace\<lparr>sp_PublicationGeneration := 1\<rparr>"

definition stageRepo :: Repository where
  "stageRepo = \<lparr>repo_ID = 9, repo_OwnerID = 5, repo_Name = ''kb-policies'', repo_DefaultBranch = ''main''\<rparr>"

definition stageDocument :: Document where
  "stageDocument = sampleDocument\<lparr>doc_GovernanceStatus := GovernanceStatusApproved\<rparr>"

definition stageApproval :: Approval where
  "stageApproval = sampleApproval\<lparr>appr_Status := ApprovalStatusApproved, appr_DecidedBy := 8, appr_DecidedUnix := 30\<rparr>"

definition stagedDatabase :: database where
  "stagedDatabase = sampleDatabase\<lparr>
     users := \<lparr>rows = [stageAuthor, stageAdmin], next_id = 9\<rparr>,
     repositories := \<lparr>rows = [stageRepo], next_id = 10\<rparr>,
     spaces := \<lparr>rows = [stageSpace], next_id = 2\<rparr>,
     dataSources := \<lparr>rows = [stageSource], next_id = 2\<rparr>,
     documents := \<lparr>rows = [stageDocument], next_id = 2\<rparr>,
     approvals := \<lparr>rows = [stageApproval], next_id = 2\<rparr>,
     publications := \<lparr>rows = [stagePublication], next_id = 2\<rparr>,
     indexBindings := \<lparr>rows = [stageBinding], next_id = 2\<rparr>\<rparr>"

definition livePublication :: Publication where
  "livePublication = stagePublication\<lparr>pub_ValidityStatus := ValidityStatusCurrent, pub_IndexStatus := IndexStatusSearchable,
     pub_IsCurrent := True, pub_EffectiveUnix := 40\<rparr>"

definition livePolicy :: Document where
  "livePolicy = stageDocument\<lparr>doc_CurrentPublicationID := 1\<rparr>"

definition liveBinding :: IndexBinding where
  "liveBinding = stageBinding\<lparr>ib_Status := IndexStatusSearchable, ib_LastSuccessUnix := 40\<rparr>"

definition liveDatabase :: database where
  "liveDatabase = stagedDatabase\<lparr>
     documents := \<lparr>rows = [livePolicy], next_id = 2\<rparr>,
     publications := \<lparr>rows = [livePublication], next_id = 2\<rparr>,
     indexBindings := \<lparr>rows = [liveBinding], next_id = 2\<rparr>\<rparr>"

definition stageWorld :: "database \<Rightarrow> world" where
  "stageWorld d = \<lparr>db = d, env = stageEnv, calls = 0, ticks = 0, sent = []\<rparr>"

lemmas stage_rows = livePublication_def stagePublication_def stageBinding_def liveBinding_def stageSource_def stageAuthor_def
  stageAdmin_def stageSpace_def stageRepo_def stageDocument_def livePolicy_def stageApproval_def sampleApproval_def
  sampleRevision_def sampleDocument_def sampleSpace_def

lemmas stage_eval = stageWorld_def stagedDatabase_def liveDatabase_def stageEnv_def stageSetting_def stageURL_def stageChunk_def
  stage_rows sample_eval

section \<open>Fields\<close>

text \<open>The columns of the rows, so that an evaluation never unfolds a whole state.\<close>

named_theorems stage_simps

lemma staged_tables [stage_simps]:
  "spaces stagedDatabase = \<lparr>rows = [stageSpace], next_id = 2\<rparr>"
  "dataSources stagedDatabase = \<lparr>rows = [stageSource], next_id = 2\<rparr>"
  "reviewChecks stagedDatabase = emptyTable" "syncRuns stagedDatabase = emptyTable"
  "difyBindings stagedDatabase = emptyTable" "retrievalEvents stagedDatabase = emptyTable"
  "feedbacks stagedDatabase = emptyTable"
  "documents stagedDatabase = \<lparr>rows = [stageDocument], next_id = 2\<rparr>"
  "revisions stagedDatabase = \<lparr>rows = [sampleRevision], next_id = 2\<rparr>" "acls stagedDatabase = emptyTable"
  "approvals stagedDatabase = \<lparr>rows = [stageApproval], next_id = 2\<rparr>"
  "publications stagedDatabase = \<lparr>rows = [stagePublication], next_id = 2\<rparr>"
  "tombstones stagedDatabase = emptyTable"
  "indexBindings stagedDatabase = \<lparr>rows = [stageBinding], next_id = 2\<rparr>"
  "indexJobs stagedDatabase = emptyTable" "outboxes stagedDatabase = emptyTable"
  "auditEvents stagedDatabase = emptyTable"
  "users stagedDatabase = \<lparr>rows = [stageAuthor, stageAdmin], next_id = 9\<rparr>"
  "repositories stagedDatabase = \<lparr>rows = [stageRepo], next_id = 10\<rparr>"
  by (simp_all add: stagedDatabase_def sampleDatabase_def emptyDatabase_def)

lemma live_tables [stage_simps]:
  "spaces liveDatabase = \<lparr>rows = [stageSpace], next_id = 2\<rparr>"
  "dataSources liveDatabase = \<lparr>rows = [stageSource], next_id = 2\<rparr>"
  "reviewChecks liveDatabase = emptyTable" "syncRuns liveDatabase = emptyTable" "difyBindings liveDatabase = emptyTable"
  "retrievalEvents liveDatabase = emptyTable" "feedbacks liveDatabase = emptyTable"
  "documents liveDatabase = \<lparr>rows = [livePolicy], next_id = 2\<rparr>"
  "revisions liveDatabase = \<lparr>rows = [sampleRevision], next_id = 2\<rparr>" "acls liveDatabase = emptyTable"
  "approvals liveDatabase = \<lparr>rows = [stageApproval], next_id = 2\<rparr>"
  "publications liveDatabase = \<lparr>rows = [livePublication], next_id = 2\<rparr>"
  "tombstones liveDatabase = emptyTable"
  "indexBindings liveDatabase = \<lparr>rows = [liveBinding], next_id = 2\<rparr>" "indexJobs liveDatabase = emptyTable"
  "outboxes liveDatabase = emptyTable" "auditEvents liveDatabase = emptyTable"
  "users liveDatabase = \<lparr>rows = [stageAuthor, stageAdmin], next_id = 9\<rparr>"
  "repositories liveDatabase = \<lparr>rows = [stageRepo], next_id = 10\<rparr>"
  by (simp_all add: liveDatabase_def stagedDatabase_def sampleDatabase_def emptyDatabase_def)

lemma stage_environment [stage_simps]:
  "faults stageEnv = (\<lambda>_. False)" "clock stageEnv = (\<lambda>_. 1000 * second)"
  "sha256 stageEnv = sampleDigest" "randomString stageEnv = (\<lambda>_. Inr ''token'')"
  "setting stageEnv = stageSetting" "urlParse stageEnv = (\<lambda>_. Some stageURL)"
  "isLoopbackIP stageEnv = (\<lambda>_. False)" "isProd stageEnv = False" "isInTesting stageEnv = True"
  "engUpload stageEnv = (\<lambda>_. Inr (Some ''doc-1''))" "engSetMetadata stageEnv = (\<lambda>_. None)"
  "engStartParsing stageEnv = (\<lambda>_. None)" "engGetDocumentStatus stageEnv = (\<lambda>_. Inr DocumentStateDone)"
  "engDeleteDocuments stageEnv = (\<lambda>_. None)" "engRetrieve stageEnv = (\<lambda>_. Inr [stageChunk])"
  "gitOpen stageEnv = (\<lambda>_ _ _. Inr (''data'', None))" "codeReadable stageEnv = (\<lambda>_ _. Inr True)"
  "cancelled stageEnv = (\<lambda>_. False)"
  by (simp_all add: stageEnv_def sampleEnv_def)

lemma stage_setting [stage_simps]:
  "ks_Enabled stageSetting = True" "ks_RAGFlowBaseURL stageSetting = ''https://rag''"
  "ks_RAGFlowAPIKey stageSetting = ''key''" "ks_RAGFlowDatasetID stageSetting = ''ds1''"
  "ks_EngineProfileVersion stageSetting = ''ragflow-v0.26.4-profile-1''" "ks_AllowLoopbackHTTP stageSetting = False"
  "ks_AllowInternalHTTP stageSetting = False" "ks_InternalHTTPHost stageSetting = ''''"
  "ks_AllowedExtensions stageSetting = ''.pdf,.docx,.pptx,.xlsx,.md,.txt''" "ks_MaxFileSize stageSetting = 33554432"
  "ks_HTTPTimeout stageSetting = 10 * second" "ks_PollInterval stageSetting = 5 * second"
  "ks_MaxAttempts stageSetting = 5" "ks_RetrieveMaxTopK stageSetting = 10" "ks_RetrieveQueryMaxByte stageSetting = 2048"
  "ks_engineProfileConfigured stageSetting = True" "ks_invalidConfiguration stageSetting = False"
  by (simp_all add: stageSetting_def defaultKnowledgeSetting_def)

lemma stage_world [stage_simps]: "db (stageWorld d) = d" "env (stageWorld d) = stageEnv" "calls (stageWorld d) = 0"
  "ticks (stageWorld d) = 0" "sent (stageWorld d) = []"
  by (simp_all add: stageWorld_def)

declare stage_rows [stage_simps]
lemma governance_staged: "governance stagedDatabase"
  by (simp add: governance_def dbWf_def pointersAgree_def provenance_def generations_def unambiguous_def
      approvedValid_def revoked_def tblWf_def stage_eval eval_simps)

lemma governance_live: "governance liveDatabase"
  by (simp add: governance_def dbWf_def pointersAgree_def provenance_def generations_def unambiguous_def
      approvedValid_def revoked_def tblWf_def stage_eval eval_simps)

text \<open>The source of the live document was due at 500 s.\<close>

definition dueDatabase :: database where
  "dueDatabase = liveDatabase\<lparr>dataSources := \<lparr>rows = [stageSource\<lparr>ds_ExpiresUnix := 500\<rparr>], next_id = 2\<rparr>\<rparr>"

lemma due_tables [stage_simps]:
  "dataSources dueDatabase = \<lparr>rows = [stageSource\<lparr>ds_ExpiresUnix := 500\<rparr>], next_id = 2\<rparr>"
  "users dueDatabase = users liveDatabase" "documents dueDatabase = documents liveDatabase"
  "publications dueDatabase = publications liveDatabase" "spaces dueDatabase = spaces liveDatabase"
  "revisions dueDatabase = revisions liveDatabase" "tombstones dueDatabase = emptyTable" "outboxes dueDatabase = emptyTable"
  "indexJobs dueDatabase = emptyTable" "auditEvents dueDatabase = emptyTable"
  by (simp_all add: dueDatabase_def live_tables)

lemma governance_due: "governance dueDatabase"
  using governance_live by (simp add: dueDatabase_def governance_def dbWf_def tblWf_def stage_simps)

definition stageActivate :: ActivatePublicationOptions where
  "stageActivate = \<lparr>apo_PublicationID = 1, apo_ActorID = 8, apo_ExpectedPublicationGeneration = 1,
     apo_ExpectedRevocationGeneration = 1, apo_EngineProfileVersion = ks_EngineProfileVersion stageSetting, apo_TraceID = ''trace-1''\<rparr>"

definition stageUnpublish :: UnpublishPublicationOptions where
  "stageUnpublish = \<lparr>upo_PublicationID = 1, upo_ActorID = 8, upo_ExpectedPublicationGeneration = 1,
     upo_ExpectedRevocationGeneration = 1, upo_EngineProfileVersion = ''p1'', upo_TraceID = ''trace-1'', upo_Reason = ''ok''\<rparr>"

section \<open>Evaluated operations\<close>

lemma stage_text [stage_simps]: "validGovernanceText ''source expired'' False" "trimSpace ''source expired'' = ''source expired''"
  "trimSpace ''ragflow-v0.26.4-profile-1'' = ''ragflow-v0.26.4-profile-1''" "trimSpace ''doc-1'' = ''doc-1''"
  "validGovernanceText ''ok'' False"
  by (simp_all add: validGovernanceText_def sensitiveMarkers_def maxGovernanceTextBytes_def eval_simps)

lemma stage_clock [stage_simps]: "1000 * second div second = 1000"
  by (simp add: second_def)

lemma stage_trace [simplified, stage_simps]: "validTraceID (''web-unpublish-'' @ itoa 1 @ ''-'' @ itoa (1000 * second))"
  "validTraceID (''web-activate-'' @ itoa 1 @ ''-'' @ itoa (1000 * second))"
  by (simp_all add: validTraceID_token second_def eval_simps)

lemma stage_valid [stage_simps]:
  "validateKnowledgeSettings (\<lambda>_. Some stageURL) (\<lambda>_. False) False True stageSetting = None"
  by (simp add: validateKnowledgeSettings_def stage_simps stageURL_def Let_def eval_simps second_def)

lemmas unpublish_defs = UnpublishPublication_def unpublishCurrent_def revokePublication_def loadPublicationParents_def
  appendPublicationAudit_def newOutbox_def newIndexJob_def ob_clash_def

lemma stageActivate_runs: "\<exists>w'. ActivatePublication stageActivate (stageWorld stagedDatabase) = (Inr (), w')"
  by (simp add: ActivatePublication_def activateCandidate_def switchPointer_def supersedeCurrent_def activateBinding_def
      loadPublicationParents_def appendPublicationAudit_def exec_simps stage_simps stageActivate_def table_eval Let_def eval_simps)

lemma stageUnpublish_runs: "\<exists>w'. UnpublishPublication stageUnpublish (stageWorld liveDatabase) = (Inr (), w')"
  by (simp add: unpublish_defs exec_simps stage_simps stageUnpublish_def table_eval Let_def)

lemma catalogActivate_runs: "\<exists>w'. catalogActivate 1 8 (stageWorld stagedDatabase) = (Inr (), w')"
  by (simp add: catalogActivate_def sourceExpired_def exec_simps getByID_def stage_simps Let_def table_eval timeStampNow_def
      currentUnix_def ActivatePublication_def activateCandidate_def switchPointer_def supersedeCurrent_def activateBinding_def
      loadPublicationParents_def appendPublicationAudit_def ineligibleSource_def)

lemma unpublish_due:
  assumes [simp]: "env v = stageEnv" "db v = dueDatabase\<lparr>dataSources := t\<rparr>"
  shows "\<exists>w'. unpublishExpired 8 () livePolicy v = (Inr (), w')"
  by (simp add: unpublishExpired_def catalogUnpublish_def unpublish_defs exec_simps stage_simps table_eval Let_def)

lemma auditExpiry_total: "\<exists>w'. auditExpiry actorID s v = (Inr (), w')"
  unfolding auditExpiry_def timeNow_def andThen_def attempt_def ret_def by (auto split: prod.splits)

lemma stageExpire_runs: "\<exists>w'. ExpireDueDataSources 8 (stageWorld dueDatabase) = (Inr 1, w')"
proof -
  let ?s = "stageSource\<lparr>ds_ExpiresUnix := 500\<rparr>"
  define v where "v = (stageWorld dueDatabase)\<lparr>ticks := Suc 0, calls := Suc (Suc 0), db := dueDatabase\<rparr>"
  have v: "env v = stageEnv" "db v = dueDatabase" by (simp_all add: v_def stage_simps)
  have start: "ExpireDueDataSources 8 (stageWorld dueDatabase) = foldM (expireSource 8) 0 [?s] v"
    by (simp add: ExpireDueDataSources_def exec_simps stage_simps table_eval dueSource_def currentUnix_def v_def)
  define v1 where "v1 = v\<lparr>calls := Suc (Suc (calls v)), db := dueDatabase\<lparr>dataSources := tblUpdate
    (\<lambda>s. ds_ID s = 1 \<and> ds_Status s = DataSourceStatusEnabled)
    (\<lambda>s. ds_touch (currentUnix v) (s\<lparr>ds_Status := DataSourceStatusExpired\<rparr>)) (dataSources dueDatabase)\<rparr>\<rparr>"
  obtain w2 where w2: "unpublishExpired 8 () livePolicy v1 = (Inr (), w2)"
    using unpublish_due [of v1] v by (auto simp: v1_def)
  obtain w3 where w3: "auditExpiry 8 ?s w2 = (Inr (), w3)"
    using auditExpiry_total by blast
  have "expireSource 8 0 ?s v = (Inr 1, w3)"
    using w2 [unfolded v1_def] w3 v
    by (simp add: expireSource_def exec_simps stage_simps table_eval)
  then show ?thesis by (simp add: start exec_simps)
qed

section \<open>An evaluated retrieval\<close>

lemma stage_client [stage_simps]: "newClient stageEnv (knowledgeConfig stageSetting) =
   Inr \<lparr>cl_baseURL = ''https://rag'', cl_apiKey = ''key'', cl_datasetID = ''ds1'', cl_timeout = 10 * second, cl_maxUploadBytes = 33554432\<rparr>"
  by (simp add: newClient_def knowledgeConfig_def stage_simps stageURL_def Let_def eval_simps second_def defaultUploadBytes_def)

lemma stage_question [stage_simps]: "trimSpace ''what'' = ''what''" "validQuestion stageSetting ''what''" "clampTopK stageSetting 3 = 3"
  by (simp_all add: validQuestion_def clampTopK_def stage_simps eval_simps)

definition stageCandidate :: retrievablePublication where
  "stageCandidate = \<lparr>rp_publication = livePublication, rp_document = livePolicy, rp_revision = sampleRevision,
     rp_binding = liveBinding, rp_source = stageSource, rp_space = stageSpace\<rparr>"

text \<open>The connections of Dify are not looked at here.\<close>

lemma live_unbound: "liveDatabase\<lparr>difyBindings := emptyTable\<rparr> = liveDatabase"
  using live_tables by (cases liveDatabase) simp

lemma stageCandidate_loaded:
  assumes [simp]: "env v = stageEnv" "db v = liveDatabase\<lparr>difyBindings := t\<rparr>"
  shows "\<exists>w'. loadRetrievablePublications stageSpace SecurityLevelRestricted v = (Inr [stageCandidate], w') \<and>
    env w' = stageEnv \<and> db w' = db v"
  by (simp add: loadRetrievablePublications_def exec_simps stage_simps Let_def table_eval collectCandidate_def loadCandidate_def
      findLimited_def maxPublicationsPerRequest_def currentUnix_def orSkip_def isPublished_def securityAllowed_iff
      eligibleSource_def searchableBinding_def stageCandidate_def)

lemma stageCandidate_searched:
  assumes [simp]: "env v = stageEnv" "db v = liveDatabase\<lparr>difyBindings := t\<rparr>"
  shows "\<exists>w'. searchCandidates 3 ''what'' \<lparr>ss_citations = [], ss_attempts = 0, ss_failures = 0\<rparr> [stageCandidate] v =
    (Inr \<lparr>ss_citations = [citation stageCandidate stageChunk], ss_attempts = 1, ss_failures = 0\<rparr>, w')"
  by (simp add: exec_simps stage_simps Let_def table_eval stageCandidate_def candidateStillPublished_def currentUnix_def
      orSkip_def isPublished_def ineligibleSource_def sourceExpired_def stageChunk_def)

lemma finishRetrieval_cites:
  "\<exists>w'. finishRetrieval a b i q \<lparr>ss_citations = [cit], ss_attempts = 1, ss_failures = 0\<rparr> v = (Inr [cit], w')"
  unfolding finishRetrieval_def andThen_def attempt_def ret_def
  by (auto simp: allRetrievalAttemptsFailed_def Let_def split: prod.splits)

lemma stageRetrieve_runs:
  assumes v [simp]: "env v = stageEnv" "db v = liveDatabase\<lparr>difyBindings := t\<rparr>"
  shows "\<exists>w'. retrieveSpace 1 SecurityLevelRestricted ''what'' 3 a b v = (Inr [citation stageCandidate stageChunk], w')"
proof -
  define v1 where "v1 = v\<lparr>calls := Suc (calls v), db := db v\<rparr>"
  have v1: "env v1 = stageEnv" "db v1 = liveDatabase\<lparr>difyBindings := t\<rparr>" by (simp_all add: v1_def)
  obtain w1 where w1: "loadRetrievablePublications stageSpace SecurityLevelRestricted v1 = (Inr [stageCandidate], w1)"
    "env w1 = stageEnv" "db w1 = liveDatabase\<lparr>difyBindings := t\<rparr>" using stageCandidate_loaded [OF v1] v1 by auto
  obtain w2 where w2: "searchCandidates 3 ''what'' \<lparr>ss_citations = [], ss_attempts = 0, ss_failures = 0\<rparr> [stageCandidate] w1 =
      (Inr \<lparr>ss_citations = [citation stageCandidate stageChunk], ss_attempts = 1, ss_failures = 0\<rparr>, w2)"
    using stageCandidate_searched [OF w1(2,3)] by blast
  obtain w3 where w3: "finishRetrieval a b 1 ''what'' \<lparr>ss_citations = [citation stageCandidate stageChunk], ss_attempts = 1, ss_failures = 0\<rparr> w2 =
      (Inr [citation stageCandidate stageChunk], w3)" using finishRetrieval_cites by blast
  have "retrieveSpace 1 SecurityLevelRestricted ''what'' 3 a b v = (Inr [citation stageCandidate stageChunk], w3)"
    using w1(1) w2 w3 unfolding v1_def
    by (simp add: retrieveSpace_def ValidateKnowledgeSettings_def orRaise_def exec_simps table_eval stage_simps Let_def
        del: searchCandidates.simps)
  then show ?thesis by blast
qed

lemma stageRetrieveForUser_runs:
  "\<exists>w'. RetrieveForUser (Some stageAdmin) 1 ''what'' 3 (stageWorld liveDatabase) = (Inr [citation stageCandidate stageChunk], w')"
  using stageRetrieve_runs [of "stageWorld liveDatabase\<lparr>calls := Suc 0, db := liveDatabase\<rparr>" emptyTable]
  by (simp add: live_unbound RetrieveForUser_def canReadSpace_def exec_simps table_eval stage_simps)

definition stageDify :: DifyBinding where
  "stageDify = \<lparr>dify_ID = 1, dify_Name = ''dify'', dify_DifyKnowledgeID = ''k1'', dify_SpaceID = 1,
     dify_MaxSecurityLevel = SecurityLevelRestricted, dify_TokenSHA256 = '''', dify_TokenHint = '''', dify_Enabled = True,
     dify_CreatedBy = 8, dify_CreatedUnix = 0, dify_UpdatedUnix = 0\<rparr>"

lemma stageRetrieveForDify_runs:
  "\<exists>w'. RetrieveForDify (Some stageDify) ''what'' 3 (stageWorld liveDatabase) = (Inr [citation stageCandidate stageChunk], w')"
  using stageRetrieve_runs [of "stageWorld liveDatabase" emptyTable]
  by (simp add: live_unbound RetrieveForDify_def exec_simps stage_simps stageDify_def)

end
