(* ===== verification/Scenario.thy ===== *)
theory Scenario
  imports Stages
begin

text \<open>
  A run of the whole life of a document from an empty database: a space, a data source approved
  by a second administrator, an upload, the six reviews, the approval, one round of the worker
  and the activation. It is the reachable state that the examples of system properties use.
\<close>

definition lifeOwner :: User where
  "lifeOwner = \<lparr>user_ID = 1, user_Name = ''alice'', user_LowerName = ''alice'', user_IsAdmin = True\<rparr>"

definition lifeReviewer :: User where
  "lifeReviewer = \<lparr>user_ID = 2, user_Name = ''bob'', user_LowerName = ''bob'', user_IsAdmin = True\<rparr>"

definition lifeAccounts :: world where
  "lifeAccounts = stageWorld (emptyDatabase\<lparr>users := \<lparr>rows = [lifeOwner, lifeReviewer], next_id = 3\<rparr>, repositories := emptyTable\<rparr>)"

definition lifeSpace :: CreateSpaceOptions where
  "lifeSpace = \<lparr>cso_OwnerID = 1, cso_ActorID = 1, cso_Name = ''Policies'', cso_Description = ''x''\<rparr>"

definition lifeSource :: CreateDataSourceOptions where
  "lifeSource = \<lparr>cds_SpaceID = 1, cds_ActorID = 1, cds_SourceCode = ''S1'', cds_Name = ''Handbook'',
     cds_SourceType = DataSourceTypePolicy, cds_BusinessDomainCode = ''hr'', cds_ContentTypeCode = ''policy'',
     cds_SourceDepartment = ''hr'', cds_ContentOwnerUsername = ''alice'', cds_MaintenanceUsername = ''bob'',
     cds_EffectiveUnix = 1, cds_ExpiresUnix = 0, cds_ReviewFrequency = ReviewFrequencyMonthly,
     cds_SecurityLevel = SecurityLevelInternal, cds_ApprovalBasisRef = ''basis-1'',
     cds_ApplicableScopeJSON = ''{'' @ [CHR 0x22] @ ''a'' @ [CHR 0x22] @ '':1}'',
     cds_SourceAuthorizationRef = ''grant-id:1'', cds_SourceFormat = ''text'',
     cds_SearchabilityStatus = SearchabilityStatusSearchable, cds_ConnectorType = '''', cds_SecretRef = '''',
     cds_ReadScope = '''', cds_QueryTemplateRef = '''', cds_SchemaVersion = '''', cds_FieldMappingJSON = '''',
     cds_IncrementalCursorField = '''', cds_DataRetentionRule = '''', cds_MaskPolicyVersion = ''mask-policy-1''\<rparr>"

definition lifeUpload :: UploadRevisionOptions where
  "lifeUpload = \<lparr>uro_DocumentID = 0, uro_SpaceID = 1, uro_DataSourceID = 1, uro_ActorID = 1, uro_Title = ''Guide'',
     uro_VersionNo = ''V1'', uro_Relation = ''new'', uro_FileName = ''guide.txt'', uro_Content = Some (''data'', None),
     uro_Manifest = \<lparr>um_Masked = True, um_FileName = '''', um_ContentSHA256 = '''', um_Size = 0, um_MIMEType = '''',
       um_MaskPolicyVersion = '''', um_MaskManifestJSON = '''', um_SourceAuthorization = ''''\<rparr>\<rparr>"

definition lifeRequests :: "request list" where
  "lifeRequests = [RCreateSpace lifeSpace, RCreateDataSource lifeSource, REnableDataSource 1 2, RUploadRevision lifeUpload] @
     map (\<lambda>t. RCompleteReview 1 2 t '''') RequiredReviewTypes @ [RApprove 1 2 '''', RWorker [Tick], RActivatePublication 1 2]"

definition life :: world where
  "life = fold perform lifeRequests lifeAccounts"

lemma reachable_requests: "reachable w \<Longrightarrow> reachable (fold perform rs w)"
  by (induction rs arbitrary: w) (simp_all add: next_step step.request)

lemma reachable_lifeAccounts: "reachable lifeAccounts"
proof -
  have "reachable (stageWorld emptyDatabase)" by (rule start) (simp add: stage_simps)
  then have "reachable (stageWorld emptyDatabase\<lparr>db := (db (stageWorld emptyDatabase))\<lparr>users := u, repositories := r\<rparr>\<rparr>)" for u r
    by (rule next_step) (rule step.accounts)
  then show ?thesis by (simp add: lifeAccounts_def stageWorld_def)
qed

lemma reachable_life: "reachable life"
  unfolding life_def by (rule reachable_requests [OF reachable_lifeAccounts])

lemma steps_requests: "step\<^sup>*\<^sup>* w (fold perform rs w)"
proof (induction rs arbitrary: w)
  case (Cons r rs)
  have "step w (perform r w)" by (rule step.request)
  with Cons show ?case by (simp add: converse_rtranclp_into_rtranclp)
qed simp

lemma steps_life: "step\<^sup>*\<^sup>* lifeAccounts life"
  unfolding life_def by (rule steps_requests)

end
