(* ===== verification/Properties_System.thy ===== *)
theory Properties_System
  imports Ledger Reviewed Scenario
begin

text \<open>
  The properties of the system as a whole: what holds in every state that any sequence of
  requests, with any failures, leads to from an empty database, and what holds between two such
  states. The examples use the state at the end of the scenario.
\<close>

section \<open>Helpers\<close>

lemma served_current:
  assumes "governance d" "p \<in> set (rows (publications d))" "pub_IsCurrent p"
  shows "served (ledgerOf d) (pub_DocumentID p) = Some (pub_ID p)"
  using assms tblWf_get [OF governance_wf(1) [OF assms(1)] assms(2)] by (auto simp: served_iff [OF assms(1)])

lemma filter_singleton:
  assumes "distinct xs" "p \<in> set xs" "P p" "\<And>x. x \<in> set xs \<Longrightarrow> P x \<Longrightarrow> x = p"
  shows "filter P xs = [p]"
proof -
  have set: "set (filter P xs) = {p}" unfolding set_filter using assms(2-4) by blast
  then have "length (filter P xs) = 1"
    using distinct_card [OF distinct_filter [OF assms(1)], of P] by simp
  then obtain y where "filter P xs = [y]" unfolding One_nat_def length_Suc_conv by blast
  with set show ?thesis by simp
qed

lemma current_publications:
  assumes "governance d"
  shows "map pub_ID (filter (\<lambda>p. pub_IsCurrent p \<and> pub_DocumentID p = i) (rows (publications d))) =
    (case served (ledgerOf d) i of None \<Rightarrow> [] | Some j \<Rightarrow> [j])"
proof (cases "served (ledgerOf d) i")
  case None
  then have "filter (\<lambda>p. pub_IsCurrent p \<and> pub_DocumentID p = i) (rows (publications d)) = []"
    using served_current [OF assms] by (fastforce simp: filter_empty_conv)
  with None show ?thesis by simp
next
  case (Some j)
  then obtain p where p: "tblGet pub_ID j (publications d) = Some p" "pub_IsCurrent p" "pub_DocumentID p = i"
    by (auto simp: served_iff [OF assms])
  have wf: "tblWf pub_ID (publications d)" by (rule governance_wf [OF assms])
  have "filter (\<lambda>p. pub_IsCurrent p \<and> pub_DocumentID p = i) (rows (publications d)) = [p]"
  proof (rule filter_singleton)
    show "distinct (rows (publications d))" using wf by (simp add: tblWf_def distinct_map)
    show "p \<in> set (rows (publications d))" using tblGetD [OF p(1)] by simp
    fix q assume q: "q \<in> set (rows (publications d))" "pub_IsCurrent q \<and> pub_DocumentID q = i"
    then have "pub_ID q = j" using served_current [OF assms, of q] Some by simp
    with tblWf_get [OF wf q(1)] p(1) show "q = p" by simp
  qed (use p in simp)
  with Some tblGet_id [OF p(1)] show ?thesis by simp
qed

lemma served_pointer:
  assumes "governance d"
  shows "served (ledgerOf d) i =
    (case tblGet doc_ID i (documents d) of None \<Rightarrow> None
     | Some x \<Rightarrow> if doc_CurrentPublicationID x = 0 then None else Some (doc_CurrentPublicationID x))"
proof -
  have agree: "pointersAgree (documents d) (publications d)" using assms by (simp add: governance_def)
  note get = agree [unfolded pointersAgree_get [OF governance_wf(2) [OF assms] governance_wf(1) [OF assms]]]
  have pos: "tblGet pub_ID j (publications d) = Some p \<Longrightarrow> j \<noteq> 0" for j p
    using tblGet_pos [OF governance_wf(1) [OF assms]] by fastforce
  have iff: "served (ledgerOf d) i = Some j \<longleftrightarrow>
      (\<exists>x. tblGet doc_ID i (documents d) = Some x \<and> doc_CurrentPublicationID x = j \<and> j \<noteq> 0)" for j
    unfolding served_iff [OF assms] using get pos by blast
  show ?thesis
  proof (cases "served (ledgerOf d) i")
    case None
    with iff show ?thesis by (auto split: option.split)
  next
    case (Some j)
    with iff [of j] show ?thesis by auto
  qed
qed

section \<open>Invariants\<close>



text \<open>
  C1: In every reachable state, the current publications of a document are exactly what its
  pointer says: none if the pointer is zero (or the document does not exist), otherwise the one
  publication it names.
\<close>

theorem one_current_publication:
  assumes "reachable w"
  shows "map pub_ID (filter (\<lambda>p. pub_IsCurrent p \<and> pub_DocumentID p = i) (rows (publications (db w)))) =
    (case tblGet doc_ID i (documents (db w)) of None \<Rightarrow> []
     | Some x \<Rightarrow> if doc_CurrentPublicationID x = 0 then [] else [doc_CurrentPublicationID x])"
  using reachable_governance [OF assms]
  by (simp add: current_publications served_pointer split: option.split)

theorem one_current_publication_witness:
  "length (filter (\<lambda>p. pub_IsCurrent p \<and> pub_DocumentID p = 1) (rows (publications (db life)))) \<le> 1"
  using arg_cong [OF one_current_publication [OF reachable_life, of 1], of length] by (simp split: option.splits if_splits)

definition approvedByOthers :: "database \<Rightarrow> Publication \<Rightarrow> bool" where
  "approvedByOthers d p \<longleftrightarrow>
     (\<exists>a r. tblGet appr_ID (pub_ApprovalID p) (approvals d) = Some a \<and>
        appr_Status a = ApprovalStatusApproved \<and> appr_DecidedBy a \<noteq> appr_RequestedBy a \<and>
        appr_RevisionID a = pub_RevisionID p \<and>
        tblGet rev_ID (pub_RevisionID p) (revisions d) = Some r \<and> rev_DocumentID r = pub_DocumentID p) \<and>
     list_all (\<lambda>t. list_ex (\<lambda>c. rc_RevisionID c = pub_RevisionID p \<and> rc_ReviewType c = t \<and> rc_Status c = ''passed'')
       (rows (reviewChecks d))) RequiredReviewTypes"

text \<open>
  C2: Nobody publishes alone. In every reachable state, every publication stems from an approval
  of its revision which somebody other than the requester granted, its revision belongs to its
  document, and each of the six reviews of the revision has passed.
\<close>

theorem published_was_approved:
  assumes "reachable w"
  shows "list_all (approvedByOthers (db w)) (rows (publications (db w)))"
  using reachable_governance [OF assms] reachable_reviewed [OF assms]
  unfolding list_all_iff approvedByOthers_def governance_def provenance_def reviewed_def allReviewsPassed_def list_ex_iff
  by (fastforce simp: case_get)

theorem published_was_approved_witness: "list_all (approvedByOthers (db life)) (rows (publications (db life)))"
  by (rule published_was_approved [OF reachable_life])

text \<open>
  C19: In every reachable state no two publications share an approval, or a generation of the
  same space, and no publication is ahead of the generation counter of its space.
\<close>

theorem generations_unambiguous:
  assumes "reachable w"
  shows "distinct (map (\<lambda>p. (pub_SpaceID p, pub_Generation p)) (rows (publications (db w)))) \<and>
    distinct (map pub_ApprovalID (rows (publications (db w)))) \<and>
    list_all (\<lambda>p. case tblGet sp_ID (pub_SpaceID p) (spaces (db w)) of None \<Rightarrow> False
                  | Some s \<Rightarrow> pub_Generation p \<le> sp_PublicationGeneration s) (rows (publications (db w)))"
proof -
  have inv: "unambiguous (publications (db w))" "generations (spaces (db w)) (documents (db w)) (publications (db w))"
    and wf: "tblWf pub_ID (publications (db w))"
    using reachable_governance [OF assms] by (simp_all add: governance_def dbWf_def)
  have same: "p = q" if "p \<in> set (rows (publications (db w)))" "q \<in> set (rows (publications (db w)))" "pub_ID p = pub_ID q" for p q
    using that wf distinct_map_unique by (fastforce simp: tblWf_def)
  have d: "distinct (rows (publications (db w)))" using wf by (simp add: tblWf_def distinct_map)
  have "inj_on (\<lambda>p. (pub_SpaceID p, pub_Generation p)) (set (rows (publications (db w))))"
    using inv(1) unfolding unambiguous_def by (intro inj_onI same) blast+
  moreover have "inj_on pub_ApprovalID (set (rows (publications (db w))))"
    using inv(1) unfolding unambiguous_def by (intro inj_onI same) blast+
  ultimately show ?thesis
    using d inv(2) by (auto simp: distinct_map generations_def list_all_iff)
qed

theorem generations_unambiguous_witness: "distinct (map pub_ApprovalID (rows (publications (db life))))"
  using generations_unambiguous [OF reachable_life] by simp

section \<open>Histories\<close>



text \<open>
  C3: The system refines the abstract ledger: whatever a reachable state does next, the
  publications its documents serve change by moves of the ledger, which never serve a spent
  publication and spend what they replace or withdraw.
\<close>

theorem refines_ledger:
  assumes "reachable w" "step\<^sup>*\<^sup>* w w'"
  shows "move\<^sup>*\<^sup>* (ledgerOf (db w)) (ledgerOf (db w'))"
  using refines_steps [OF assms(2)] reachable_governance [OF assms(1)] by (simp add: refines_def)

theorem refines_ledger_witness: "move\<^sup>*\<^sup>* \<lparr>served = (\<lambda>_. None), spent = {}\<rparr> (ledgerOf (db life))"
  using refines_ledger [OF reachable_lifeAccounts steps_life]
  by (simp add: lifeAccounts_def stage_simps ledgerOf_def tblFirst_def emptyDatabase_def emptyTable_def)



text \<open>
  C4: Once a publication has a tombstone, no later retrieval by a user cites it, even one whose
  index engine still returns its passages.
\<close>

theorem revoked_never_cited:
  assumes "reachable w" "step\<^sup>*\<^sup>* w w'"
  shows "case RetrieveForUser (Some user) spaceID question topK w' of (Inl e, w'') \<Rightarrow> True
    | (Inr cits, w'') \<Rightarrow> list_all (\<lambda>cit. list_all (\<lambda>t. tomb_PublicationID t \<noteq> cit_PublicationID cit) (rows (tombstones (db w)))) cits"
proof (cases "RetrieveForUser (Some user) spaceID question topK w'")
  case (Pair r w'')
  have later: "set (rows (tombstones (db w))) \<subseteq> set (rows (tombstones (db w')))"
    using reachable_steps [OF assms] by (auto simp: history_def appended_def dest: set_mono_prefix)
  have inv: "governance (db w')" using reachable_steps [OF assms] reachable_governance by blast
  show ?thesis
  proof (cases r)
    case (Inr cits)
    with Pair have "\<forall>cit \<in> set cits. visible w' user cit" using RetrieveForUser_run by blast
    with inv later have "tomb_PublicationID t \<noteq> cit_PublicationID cit"
      if "cit \<in> set cits" "t \<in> set (rows (tombstones (db w)))" for cit t
      using that authorized_not_revoked unfolding visible_def by blast
    with Pair Inr show ?thesis by (simp add: list_all_iff)
  qed (simp add: Pair)
qed

theorem revoked_never_cited_witness:
  "case RetrieveForUser (Some lifeOwner) 1 ''what'' 3 (perform (RUnpublishPublication 1 2 ''done'') life) of (Inl e, w'') \<Rightarrow> True
    | (Inr cits, w'') \<Rightarrow> list_all (\<lambda>cit. list_all (\<lambda>t. tomb_PublicationID t \<noteq> cit_PublicationID cit) (rows (tombstones (db life)))) cits"
  by (rule revoked_never_cited [OF reachable_life]) (rule r_into_rtranclp, rule step.request)

section \<open>The worker\<close>


text \<open>
  C23: The worker decides nothing. Of a publication it changes only the index status and the update
  time, and it leaves approvals, documents, revisions, spaces, data sources, reviews and
  tombstones as they are.
\<close>

theorem worker_decides_nothing:
  "map withoutIndex (rows (publications (db (after (runIndexWorker events) w)))) = map withoutIndex (rows (publications (db w))) \<and>
   approvals (db (after (runIndexWorker events) w)) = approvals (db w) \<and>
   documents (db (after (runIndexWorker events) w)) = documents (db w) \<and>
   revisions (db (after (runIndexWorker events) w)) = revisions (db w) \<and>
   spaces (db (after (runIndexWorker events) w)) = spaces (db w) \<and>
   dataSources (db (after (runIndexWorker events) w)) = dataSources (db w) \<and>
   reviewChecks (db (after (runIndexWorker events) w)) = reviewChecks (db w) \<and>
   tombstones (db (after (runIndexWorker events) w)) = tombstones (db w)"
proof -
  have "workerReach (db w) (db (after (runIndexWorker events) w))"
    unfolding after_def by (rule wrk.withinD [OF worker_runIndexWorker prod.collapse [symmetric]])
  then show ?thesis
    unfolding workerReach_def by (cases "db w"; cases "db (after (runIndexWorker events) w)") simp
qed

end
