(* ===== verification/Refusals.thy ===== *)
theory Refusals
  imports Reviewed
begin

text \<open>
  Requests that are all or nothing: when one returns an error, the database is unchanged.
\<close>

text \<open>A run that returns an error leaves the database as it was.\<close>

definition allOrNothing :: "'a prog \<Rightarrow> bool" where
  "allOrNothing m \<longleftrightarrow> (\<forall>w. case m w of (Inl e, w') \<Rightarrow> db w' = db w | (Inr a, w') \<Rightarrow> True)"

lemma allOrNothingI: "unchanged.fails_within m \<Longrightarrow> allOrNothing m"
  by (auto simp: allOrNothing_def unchanged.fails_within_def split: prod.splits sum.splits)

lemma unchanged_withTx: "unchanged.fails_within (withTx m)"
  by (auto simp: unchanged.fails_within_def dest: withTx_error)

lemmas refuse_intros = allOrNothingI unchanged.fails_within_if unchanged.fails_within_raise unchanged_withTx
  unchanged.fails_within_andThen unchanged.access_intros

lemma allOrNothingD: "allOrNothing m \<Longrightarrow> m w = (Inl e, w') \<Longrightarrow> db w' = db w"
  unfolding allOrNothing_def by (metis (mono_tags) case_prod_conv old.sum.simps(5))

lemma allOrNothing_ResolveQualityTask: "allOrNothing (ResolveQualityTask a t i)"
  unfolding ResolveQualityTask_def by (intro refuse_intros)

lemma allOrNothing_decisions:
  "allOrNothing (Approve i a c)" "allOrNothing (Reject i a c)" "allOrNothing (catalogActivate i a)"
  "allOrNothing (catalogUnpublish i a reason)" "allOrNothing (UploadRevision opts)"
proof -
  show "allOrNothing (Approve i a c)" by (rule allOrNothingI [OF Approve_unchanged])
  show "allOrNothing (UploadRevision opts)" by (rule allOrNothingI [OF UploadRevision_unchanged])
  show "allOrNothing (Reject i a c)"
    unfolding Reject_def RejectRevision_def by (intro refuse_intros)
  show "allOrNothing (catalogActivate i a)"
    unfolding catalogActivate_def sourceExpired_def ActivatePublication_def by (intro refuse_intros)
  show "allOrNothing (catalogUnpublish i a reason)"
    unfolding catalogUnpublish_def UnpublishPublication_def by (intro refuse_intros)
qed

lemma allOrNothing_sources: "allOrNothing (EnableDataSource i a)" "allOrNothing (ConfirmDataSourceReview i a)"
  unfolding EnableDataSource_def ConfirmDataSourceReview_def by (intro refuse_intros)+

lemma allOrNothing_index: "allOrNothing (RetryPublicationIndex i a)" "allOrNothing (reconcileSearchableBinding i)"
  unfolding RetryPublicationIndex_def ValidateKnowledgeSettings_def orRaise_def reconcileSearchableBinding_def
  by (intro refuse_intros)+

text \<open>What succeeds only without an effect, and fails only without one, has no effect.\<close>

lemma allOrNothing_idle:
  assumes "allOrNothing m" "\<And>a w'. m w = (Inr a, w') \<Longrightarrow> db w' = db w"
  shows "db (snd (m w)) = db w"
proof (cases "m w")
  case (Pair r w')
  then show ?thesis using assms allOrNothingD [OF assms(1)] by (cases r) auto
qed

end
