(* ===== verification/Properties_Publishing.thy ===== *)
theory Properties_Publishing
  imports Ledger Stages Refusals
begin

text \<open>
  The properties of activation, revocation, expiry and reviews: what becomes current, what stays
  as it is, who may do it, and that a refused request leaves nothing behind.
\<close>

section \<open>Helpers\<close>




section \<open>Activation\<close>



section \<open>Revocation\<close>



section \<open>Refusals\<close>


section \<open>Expiry\<close>

text \<open>
  C24: A successful expiry check, run by an administrator, leaves no due data source enabled and no
  document of a due data source with a current publication; it reports the number of sources that
  were due, and the other sources stay as they are.
\<close>

theorem expiry_withdraws:
  assumes "ExpireDueDataSources actorID w = (Inr n, w')" "governance (db w)"
  shows "(\<exists>actor. tblGet user_ID actorID (users (db w)) = Some actor \<and> user_IsAdmin actor) \<and>
    n = tblCount (dueSource (currentUnix w)) (dataSources (db w)) \<and>
    list_all (\<lambda>s. (case tblGet ds_ID (ds_ID s) (dataSources (db w')) of None \<Rightarrow> False
                   | Some s' \<Rightarrow> ds_Status s' = DataSourceStatusExpired) \<and>
                  list_all (\<lambda>x. doc_DataSourceID x \<noteq> ds_ID s \<or> doc_CurrentPublicationID x \<le> 0) (rows (documents (db w'))))
      (filter (dueSource (currentUnix w)) (rows (dataSources (db w))))"
  using ExpireDueDataSources_effect(1,2) [OF assms] ExpireDueDataSources_effect(3,4) [OF assms]
  by (fastforce simp: list_all_iff)

theorem expiry_withdraws_witness:
  "\<exists>w'. ExpireDueDataSources 8 (stageWorld dueDatabase) = (Inr 1, w') \<and>
     list_all (\<lambda>x. doc_DataSourceID x \<noteq> 1 \<or> doc_CurrentPublicationID x \<le> 0) (rows (documents (db w')))"
proof -
  obtain w' where run: "ExpireDueDataSources 8 (stageWorld dueDatabase) = (Inr 1, w')"
    using stageExpire_runs by blast
  have "governance (db (stageWorld dueDatabase))" by (simp add: stage_simps governance_due)
  from expiry_withdraws [OF run this] run show ?thesis
    by (auto simp: stage_simps dueSource_def currentUnix_def)
qed

section \<open>Four eyes\<close>

text \<open>
  C26: Approving takes an administrator who did not request the approval, and all six reviews of the
  revision: exactly six check records, one passed record per review type. Whoever is refused
  changes nothing.
\<close>

theorem approval_needs_reviews:
  "case Approve approvalID actorID comment w of (Inl e, w') \<Rightarrow> db w' = db w
   | (Inr res, w') \<Rightarrow>
      (\<exists>actor approval. tblGet user_ID actorID (users (db w)) = Some actor \<and> user_IsAdmin actor \<and>
         tblGet appr_ID approvalID (approvals (db w)) = Some approval \<and> appr_RequestedBy approval \<noteq> actorID \<and>
         length (filter (\<lambda>c. rc_RevisionID c = appr_RevisionID approval) (rows (reviewChecks (db w)))) = 6 \<and>
         list_all (\<lambda>t. list_ex (\<lambda>c. rc_RevisionID c = appr_RevisionID approval \<and> rc_ReviewType c = t \<and> rc_Status c = ''passed'')
           (rows (reviewChecks (db w)))) RequiredReviewTypes)"
proof (cases "Approve approvalID actorID comment w")
  case (Pair r w')
  show ?thesis
  proof (cases r)
    case (Inl e)
    with Pair Approve_unchanged show ?thesis by (auto simp: unchanged.fails_within_def)
  next
    case (Inr res)
    from Pair [unfolded Inr] show ?thesis
    proof (rule Approve_run)
      fix actor approval
      assume "tblGet user_ID actorID (users (db w)) = Some actor" "user_IsAdmin actor"
        "tblGet appr_ID approvalID (approvals (db w)) = Some approval" "appr_RequestedBy approval \<noteq> actorID"
        "allReviewsPassed (appr_RevisionID approval) (db w)"
      then show ?thesis
        using Pair Inr by (fastforce simp: allReviewsPassed_def tblFind_def list_all_iff list_ex_iff RequiredReviewTypes_def)
    qed
  qed
qed

text \<open>
  C33: A data source is enabled only by an administrator who did not register it, from the state
  pending review and below the prohibited level; nothing but its status (and update time) and one
  audit event are written.
\<close>

theorem source_needs_second_admin:
  "case EnableDataSource sourceID actorID w of (Inl e, w') \<Rightarrow> db w' = db w
   | (Inr u, w') \<Rightarrow>
      (\<exists>actor source now te event. tblGet user_ID actorID (users (db w)) = Some actor \<and> user_IsAdmin actor \<and>
         tblGet ds_ID sourceID (dataSources (db w)) = Some source \<and> ds_Status source = DataSourceStatusPendingReview \<and>
         ds_CreatedBy source \<noteq> actorID \<and> ds_SecurityLevel source \<noteq> SecurityLevelProhibited \<and>
         rows te = rows (auditEvents (db w)) @ [event] \<and> ae_ActorID event = actorID \<and> ae_EntityID event = sourceID \<and>
         db w' = (db w)\<lparr>dataSources := tblUpdate (\<lambda>s. ds_ID s = sourceID)
           (\<lambda>s. s\<lparr>ds_Status := DataSourceStatusEnabled, ds_UpdatedUnix := now\<rparr>) (dataSources (db w)), auditEvents := te\<rparr>)"
proof (cases "EnableDataSource sourceID actorID w")
  case (Pair r w')
  show ?thesis
  proof (cases r)
    case (Inl e)
    have "allOrNothing (EnableDataSource sourceID actorID)"
      unfolding EnableDataSource_def by (intro refuse_intros)
    with Pair Inl show ?thesis by (auto simp: allOrNothing_def split: prod.splits sum.splits)
  next
    case (Inr u)
    from Pair [unfolded Inr] show ?thesis
    proof (rule EnableDataSource_run)
      fix actor source now te event
      assume a: "tblGet user_ID actorID (users (db w)) = Some actor" "user_IsAdmin actor"
        "tblGet ds_ID sourceID (dataSources (db w)) = Some source" "ds_Status source = DataSourceStatusPendingReview"
        "ds_CreatedBy source \<noteq> actorID" "ds_SecurityLevel source \<noteq> SecurityLevelProhibited"
        and e: "rows te = rows (auditEvents (db w)) @ [event]"
          "sourceAudit (source\<lparr>ds_Status := DataSourceStatusEnabled\<rparr>) actorID ''data_source_enabled'' ''approved'' event"
        and r: "db w' = (db w)\<lparr>dataSources := tblUpdate (\<lambda>s. ds_ID s = ds_ID source)
          (\<lambda>s. ds_touch now (s\<lparr>ds_Status := DataSourceStatusEnabled\<rparr>)) (dataSources (db w)), auditEvents := te\<rparr>"
      have "ds_ID source = sourceID" using a(3) by (rule tblGet_id)
      with a e r Pair Inr show ?thesis by (auto simp: sourceAudit_def ds_touch_def)
    qed
  qed
qed

end
