(* ===== verification/Properties_Index.thy ===== *)
theory Properties_Index
  imports Scenario
begin

text \<open>
  The properties of index jobs: which bytes reach the engine, what claiming refuses, what a retry
  requeues, and two things the job states do not guarantee.
\<close>

section \<open>Examples\<close>

definition stageJob :: "IndexJobType \<Rightarrow> IndexJobStatus \<Rightarrow> IndexJob" where
  "stageJob type status =
     \<lparr>job_ID = 1, job_PublicationID = 1, job_JobType = type, job_IdempotencyKey = ''k'', job_Status = status,
      job_RevisionSHA256 = rev_ContentSHA256 sampleRevision, job_EngineProfileVersion = ks_EngineProfileVersion stageSetting,
      job_Attempt = 0, job_MaxAttempts = 5, job_NextAttemptUnix = 0, job_LastError = '''', job_CreatedUnix = 30, job_UpdatedUnix = 30\<rparr>"

definition jobDatabase :: "IndexJobType \<Rightarrow> IndexJobStatus \<Rightarrow> database" where
  "jobDatabase type status = stagedDatabase\<lparr>indexJobs := \<lparr>rows = [stageJob type status], next_id = 2\<rparr>\<rparr>"

definition stageProcessor :: Processor where
  "stageProcessor = \<lparr>prc_engineName = ''ragflow'', prc_datasetID = ''ds1''\<rparr>"

lemma job_tables [stage_simps]:
  "indexJobs (jobDatabase type status) = \<lparr>rows = [stageJob type status], next_id = 2\<rparr>"
  "publications (jobDatabase type status) = publications stagedDatabase" "documents (jobDatabase type status) = documents stagedDatabase"
  "revisions (jobDatabase type status) = revisions stagedDatabase" "spaces (jobDatabase type status) = spaces stagedDatabase"
  "indexBindings (jobDatabase type status) = indexBindings stagedDatabase" "users (jobDatabase type status) = users stagedDatabase"
  by (simp_all add: jobDatabase_def)

section \<open>Content\<close>

text \<open>
  C16: Whatever an upsert job does, and however it ends, every document it uploads to the engine has
  exactly the bytes, the size and the file name of the approved revision of the job's publication:
  the publication is approved and scheduled in an active space, at the space's revocation
  generation, and the revision has the digest the job was created for.
\<close>

theorem upsert_uploads_approved_bytes:
  "case processUpsert p job w of (r, w') \<Rightarrow>
     \<exists>new. sent w' = sent w @ new \<and>
       list_all (\<lambda>c. case c of
           CallUpload u \<Rightarrow> (\<exists>g w1. loadGraph job w = (Inr g, w1) \<and> validForUpsert g \<and>
             hexEncode (sha256 (env w) (ur_Content u)) = rev_ContentSHA256 (g_revision g) \<and>
             int (length (ur_Content u)) = rev_Size (g_revision g) \<and> ur_Size u = rev_Size (g_revision g) \<and>
             ur_FileName u = rev_FileName (g_revision g))
         | _ \<Rightarrow> True) new"
proof (cases "processUpsert p job w")
  case (Pair r w')
  then show ?thesis
    by (rule processUpsert_uploads) (auto simp: Pair list_all_iff approvedUpload_def split: engineCall.split)
qed

section \<open>Claiming\<close>

text \<open>
  A job that has succeeded or was cancelled is not processed again: nothing is written and
  nothing is sent to the engine.
\<close>

theorem finished_job_is_final:
  assumes "tblGet job_ID i (indexJobs (db w)) = Some job"
    "job_Status job \<in> {IndexJobStatusSucceeded, IndexJobStatusCancelled}"
  shows "db (after (processJob p i) w) = db w \<and> sent (after (processJob p i) w) = sent w"
  using processJob_finished [OF assms(1) _ prod.collapse [symmetric]] assms(2) by (auto simp: after_def)

theorem finished_job_is_final_witness:
  "db (after (processJob stageProcessor 1) (stageWorld (jobDatabase IndexJobTypeUpsert IndexJobStatusSucceeded))) =
     jobDatabase IndexJobTypeUpsert IndexJobStatusSucceeded"
  using finished_job_is_final [of 1 "stageWorld (jobDatabase IndexJobTypeUpsert IndexJobStatusSucceeded)"
      "stageJob IndexJobTypeUpsert IndexJobStatusSucceeded" stageProcessor]
  by (simp add: stage_simps table_eval stageJob_def)

text \<open>
  C35: A job in the state running is refused by the processor with an error, without any effect, and
  the worker does not select it. A job whose process died after claiming it is therefore never
  processed again by the worker.
\<close>

theorem running_job_is_stuck:
  assumes "tblGet job_ID i (indexJobs (db w)) = Some job" "job_Status job = IndexJobStatusRunning"
  shows "\<not> waiting job \<and> (\<exists>e. fst (processJob p i w) = Inl e) \<and>
    db (after (processJob p i) w) = db w \<and> sent (after (processJob p i) w) = sent w"
proof (cases "processJob p i w")
  case (Pair r w')
  with processJob_refused [OF assms(1)] assms(2) show ?thesis by (auto simp: after_def waiting_def)
qed

theorem running_job_is_stuck_witness:
  "\<exists>e. fst (processJob stageProcessor 1 (stageWorld (jobDatabase IndexJobTypeUpsert IndexJobStatusRunning))) = Inl e"
  using running_job_is_stuck [of 1 "stageWorld (jobDatabase IndexJobTypeUpsert IndexJobStatusRunning)"
      "stageJob IndexJobTypeUpsert IndexJobStatusRunning" stageProcessor]
  by (simp add: stage_simps table_eval stageJob_def)

section \<open>Polling\<close>





section \<open>Retry\<close>

text \<open>
  C34: A retry, allowed to administrators for a scheduled publication whose indexing failed, puts
  every upsert and poll job of the publication back to retry with no attempts and no error, whatever
  state the job was in, queues the publication, and leaves every other job and table alone.
\<close>

theorem retry_requeues:
  "case RetryPublicationIndex publicationID actorID w of (Inl e, w') \<Rightarrow> True
   | (Inr u, w') \<Rightarrow>
      (\<exists>tj now actor publication.
         tblGet user_ID actorID (users (db w)) = Some actor \<and> user_IsAdmin actor \<and>
         tblGet pub_ID publicationID (publications (db w)) = Some publication \<and>
         pub_ValidityStatus publication = ValidityStatusScheduled \<and> pub_IndexStatus publication = IndexStatusFailed \<and>
         db w' = (db w)\<lparr>indexJobs := tj, publications := tblUpdate (\<lambda>p. pub_ID p = publicationID)
           (\<lambda>p. p\<lparr>pub_IndexStatus := IndexStatusQueued, pub_UpdatedUnix := now\<rparr>) (publications (db w))\<rparr> \<and>
         (\<forall>i. rel_option (\<lambda>j j'. if list_ex (\<lambda>k. job_ID k = i \<and> retryableJob publicationID k) (rows (indexJobs (db w)))
              then \<exists>t. j' = j\<lparr>job_Status := IndexJobStatusRetry, job_Attempt := 0, job_LastError := '''', job_UpdatedUnix := t\<rparr>
              else j' = j) (tblGet job_ID i (indexJobs (db w))) (tblGet job_ID i tj)))"
proof (cases "RetryPublicationIndex publicationID actorID w")
  case (Pair r w')
  show ?thesis
  proof (cases r)
    case (Inr u)
    from Pair [unfolded Inr] show ?thesis
    proof (rule RetryPublicationIndex_run)
      fix tj now actor publication job
      assume r: "db w' = (db w)\<lparr>indexJobs := tj, publications := tblUpdate (\<lambda>p. pub_ID p = publicationID)
         (\<lambda>p. pub_touch now (p\<lparr>pub_IndexStatus := IndexStatusQueued\<rparr>)) (publications (db w))\<rparr>"
        and j: "requeuedJobs {job_ID j |j. j \<in> set (rows (indexJobs (db w))) \<and> retryableJob publicationID j} (indexJobs (db w)) tj"
        and a: "tblGet user_ID actorID (users (db w)) = Some actor" "user_IsAdmin actor"
          "tblGet pub_ID publicationID (publications (db w)) = Some publication"
          "pub_ValidityStatus publication = ValidityStatusScheduled" "pub_IndexStatus publication = IndexStatusFailed"
      have listed: "i \<in> {job_ID j |j. j \<in> set (rows (indexJobs (db w))) \<and> retryableJob publicationID j} \<longleftrightarrow>
          list_ex (\<lambda>k. job_ID k = i \<and> retryableJob publicationID k) (rows (indexJobs (db w)))" for i
        by (auto simp: list_ex_iff)
      show ?thesis
        unfolding Pair Inr prod.case sum.case
        by (intro exI [of _ tj] exI [of _ now] exI [of _ actor] exI [of _ publication] conjI a)
          (use r j [unfolded requeuedJobs_def listed requeued_def job_touch_def] in \<open>simp_all add: pub_touch_def\<close>)
    qed
  qed (simp add: Pair)
qed

section \<open>Reconciliation\<close>



section \<open>Operation keys\<close>

text \<open>
  The idempotency key of an index operation identifies it: two operations have the same key
  exactly if they have the same owner, space, publication, generation, revision digest, engine
  profile and job type, where the digests are hexadecimal as every stored digest is.
\<close>

theorem operation_key_identifies:
  "buildIndexIdempotencyKey (a\<lparr>ik_RevisionSHA256 := hexEncode x\<rparr>) = buildIndexIdempotencyKey (b\<lparr>ik_RevisionSHA256 := hexEncode y\<rparr>)
     \<longleftrightarrow> a\<lparr>ik_RevisionSHA256 := hexEncode x\<rparr> = b\<lparr>ik_RevisionSHA256 := hexEncode y\<rparr>"
  using buildIndexIdempotencyKey_inject [of "a\<lparr>ik_RevisionSHA256 := hexEncode x\<rparr>" "b\<lparr>ik_RevisionSHA256 := hexEncode y\<rparr>" x y]
  by (auto simp del: IndexIdempotencyKeyInput.ext_inject)

end
