(* ===== verification/Properties_Retrieval.thy ===== *)
theory Properties_Retrieval
  imports Stages Refusals
begin

text \<open>
  The properties of the retrieval gateway: what a citation stands for, what a retrieval writes, its
  bounds, the order of security levels, Dify credentials and quality tasks.
\<close>

section \<open>Citations\<close>



text \<open>
  A Dify connection gets citations only of its own space, and only while it is enabled and
  the space is active, of revisions of at most the security level it was granted, under the same
  checks as a user.
\<close>

theorem dify_citations_authorized:
  assumes "RetrieveForDify (Some binding) question topK w = (Inr cits, w')"
  shows "dify_Enabled binding \<and> int (length cits) \<le> clampTopK (setting (env w)) topK \<and>
    (\<exists>space. tblGet sp_ID (dify_SpaceID binding) (spaces (db w)) = Some space \<and> sp_Status space = SpaceStatusActive \<and>
       list_all (\<lambda>cit. \<exists>c chunk h chunks t t1 t2.
        loadedCandidate (setting (env w)) (db w) space (dify_MaxSecurityLevel binding) t c \<and>
        stillPublished (db w) t1 t2 c \<and> reading w t \<and> reading w t1 \<and> reading w t2 \<and>
        engRetrieve (env w) h = Inr chunks \<and> chunk \<in> set chunks \<and>
        rk_DocumentID chunk = ib_EngineDocumentID (rp_binding c) \<and> cit = citation c chunk) cits)"
  using assms
proof (rule RetrieveForDify_run)
  fix space
  assume "tblGet sp_ID (dify_SpaceID binding) (spaces (db w)) = Some space" "sp_Status space = SpaceStatusActive"
    "dify_Enabled binding" "int (length cits) \<le> clampTopK (setting (env w)) topK"
    "\<forall>cit \<in> set cits. authorized w space (dify_MaxSecurityLevel binding) cit"
  then show ?thesis
    unfolding list_all_iff authorized_def by (intro conjI exI [of _ space] ballI; (assumption | blast))
qed

theorem dify_citations_authorized_witness:
  "\<exists>cits w'. RetrieveForDify (Some stageDify) ''what'' 3 (stageWorld liveDatabase) = (Inr cits, w') \<and>
     cits \<noteq> [] \<and> int (length cits) \<le> clampTopK stageSetting 3"
proof -
  obtain w' where run: "RetrieveForDify (Some stageDify) ''what'' 3 (stageWorld liveDatabase) =
      (Inr [citation stageCandidate stageChunk], w')"
    using stageRetrieveForDify_runs by blast
  from dify_citations_authorized [OF this] run show ?thesis by (simp add: stage_simps)
qed

section \<open>Effects and bounds\<close>

lemma logged_RetrieveForUser: "lg.within (RetrieveForUser u i q k)"
  unfolding RetrieveForUser_def searchSpace_def findLimited_def Let_def
  by (intro lg.within_intros logged_retrieveSpace logged_recordRetrieval logged_quiet [OF quiet_canReadSpace] logged_quiet quiet_calls)

lemma logged_RetrieveForDify: "lg.within (RetrieveForDify b q k)"
  unfolding RetrieveForDify_def by (intro lg.within_intros logged_retrieveSpace)

lemma lg_after: "lg.within m \<Longrightarrow> logged w (after m w)"
  unfolding after_def using lg.withinD [of m w "fst (m w)" "snd (m w)"] by simp

text \<open>
  C37: A retrieval, by a user or by Dify, answered, refused or failed, writes nothing but the
  retrieval log.
\<close>

theorem retrieval_only_logs:
  "db (after (RetrieveForUser user spaceID question topK) w) =
     (db w)\<lparr>retrievalEvents := retrievalEvents (db (after (RetrieveForUser user spaceID question topK) w))\<rparr> \<and>
   db (after (RetrieveForDify binding question topK) w) =
     (db w)\<lparr>retrievalEvents := retrievalEvents (db (after (RetrieveForDify binding question topK) w))\<rparr>"
  using lg_after [OF logged_RetrieveForUser [of user spaceID question topK], of w]
    lg_after [OF logged_RetrieveForDify [of binding question topK], of w]
  by (auto simp: logged_def)

text \<open>
  The number of citations asked for is brought between one and the configured maximum (ten if
  none is configured), and the number of passages asked of the engine between 20 and 50, for every
  integer a caller sends, also one that overflows when multiplied.
\<close>

theorem retrieval_limits_bounded:
  "1 \<le> clampTopK k requested \<and>
   clampTopK k requested \<le> (if 0 < ks_RetrieveMaxTopK k then ks_RetrieveMaxTopK k else 10) \<and>
   20 \<le> retrievalCandidateLimit limit \<and> retrievalCandidateLimit limit \<le> 50"
  using retrievalCandidateLimit_range [of limit] by (auto simp: clampTopK_def Let_def)

text \<open>
  The check of security levels is the order of the levels: content may be served up to a
  maximum exactly if its level is a known one other than prohibited and at most the maximum in the
  order public, internal, restricted, prohibited, in which unknown levels come first.
\<close>

theorem security_check_is_order:
  "securityAllowed actual maximum \<longleftrightarrow>
     SecurityLevelPublic \<le> actual \<and> actual < SecurityLevelProhibited \<and> actual \<le> maximum"
  by (cases actual; cases maximum)
    (simp_all add: securityAllowed_def securityRank_def less_eq_SecurityLevel_def less_SecurityLevel_def securityKey_def)

section \<open>Dify credentials\<close>

text \<open>
  C27: The credential handed out when a Dify connection is created is the way in: looked up with the
  connection's identifier, exactly the credentials of 24 to 128 bytes with the digest of the one
  handed out are accepted, and they give the connection that was created.
\<close>

theorem dify_credential_roundtrip:
  assumes "CreateDifyBinding opts w = (Inr (b, token), w')" "\<not> faults (env w') (calls w')"
  shows "fst (LookupDifyBinding t (cdb_DifyKnowledgeID opts) w') = Inr b' \<longleftrightarrow>
    24 \<le> length t \<and> length t \<le> 128 \<and> sha256 (env w) t = sha256 (env w) token \<and> b' = b"
  by (rule CreateDifyBinding_lookup [OF assms])

definition difyWorld :: world where
  "difyWorld = (stageWorld liveDatabase)\<lparr>env := stageEnv\<lparr>randomString := \<lambda>_. Inr ''0123456789abcdef''\<rparr>\<rparr>"

definition difyOptions :: CreateDifyBindingOptions where
  "difyOptions = \<lparr>cdb_ActorID = 8, cdb_Name = ''dify'', cdb_DifyKnowledgeID = ''k1'', cdb_SpaceID = 1,
     cdb_MaxSecurityLevel = SecurityLevelInternal\<rparr>"

lemma difyOptions_valid: "validBindingIdentifier ''k1''" "validBindingText ''dify''" "validDifySecurityLevel SecurityLevelInternal"
  by (simp_all add: validBindingIdentifier_def validBindingText_def validDifySecurityLevel_def eval_simps)

lemma difyOptions_run:
  assumes [simp]: "env v = stageEnv\<lparr>randomString := \<lambda>_. Inr ''0123456789abcdef''\<rparr>" "db v = liveDatabase"
  shows "\<exists>b w'. CreateDifyBinding difyOptions v = (Inr (b, ''dify_kb_0123456789abcdef''), w') \<and> \<not> faults (env w') (calls w')"
  by (simp add: CreateDifyBinding_def cryptoRandomString_def appendAudit_def difyOptions_def difyOptions_valid exec_simps
      table_eval stage_simps Let_def)

lemma difyWorld_parts: "env difyWorld = stageEnv\<lparr>randomString := \<lambda>_. Inr ''0123456789abcdef''\<rparr>" "db difyWorld = liveDatabase"
  by (simp_all add: difyWorld_def stage_simps)

theorem dify_credential_roundtrip_witness:
  "\<exists>b w'. CreateDifyBinding difyOptions difyWorld = (Inr (b, ''dify_kb_0123456789abcdef''), w') \<and>
     fst (LookupDifyBinding ''dify_kb_0123456789abcdef'' ''k1'' w') = Inr b"
proof -
  obtain b w' where run: "CreateDifyBinding difyOptions difyWorld = (Inr (b, ''dify_kb_0123456789abcdef''), w')"
    and ok: "\<not> faults (env w') (calls w')"
    using difyOptions_run [OF difyWorld_parts] by blast
  from dify_credential_roundtrip [OF run ok, of "''dify_kb_0123456789abcdef''" b] run show ?thesis
    by (simp add: difyOptions_def)
qed

section \<open>Quality tasks\<close>

text \<open>
  C38: A quality task is resolved once. A refused or failed resolution writes nothing; a successful
  one leaves a resolution in the audit log, and any later resolution of the same task, by whomever,
  whether it succeeds or not, writes nothing.
\<close>

theorem quality_task_resolved_once:
  "case ResolveQualityTask i taskType entityID w of (Inl e, w') \<Rightarrow> db w' = db w
   | (Inr u, w') \<Rightarrow> list_ex (resolvedTask (taskEntity taskType) entityID) (rows (auditEvents (db w'))) \<and>
       db (after (ResolveQualityTask j taskType entityID) (v\<lparr>db := db w'\<rparr>)) = db w'"
proof -
  note failed = allOrNothingD [OF allOrNothing_ResolveQualityTask]
  have repeated: "db (after (ResolveQualityTask j taskType entityID) x) = db x"
    if "list_ex (resolvedTask (taskEntity taskType) entityID) (rows (auditEvents (db x)))" for x
  proof (cases "ResolveQualityTask j taskType entityID x")
    case (Pair r x')
    show ?thesis
    proof (cases r)
      case (Inr u)
      with Pair have "resolution j taskType entityID (db x) (db x')" by (auto dest: ResolveQualityTask_run)
      with that show ?thesis by (simp add: resolution_def after_def Pair)
    qed (use Pair failed in \<open>simp add: after_def\<close>)
  qed
  show ?thesis
  proof (cases "ResolveQualityTask i taskType entityID w")
    case (Pair r w')
    show ?thesis
    proof (cases r)
      case (Inr u)
      with Pair have "resolution i taskType entityID (db w) (db w')" by (auto dest: ResolveQualityTask_run)
      then have "list_ex (resolvedTask (taskEntity taskType) entityID) (rows (auditEvents (db w')))"
        by (auto simp: resolution_def split: if_splits)
      with repeated [of "v\<lparr>db := db w'\<rparr>"] show ?thesis by (simp add: Pair Inr)
    qed (use Pair failed in simp)
  qed
qed

end
