(* ===== verification/Properties_Intake.thy ===== *)
theory Properties_Intake
  imports Stages Refusals
begin

text \<open>
  The properties of what enters the subsystem and of its way to the engine: uploads, archives, the
  database connector, the deletion of spaces, and the client built from the settings.
\<close>

section \<open>Uploads\<close>


section \<open>Archives\<close>

text \<open>
  C29: An Office archive that passes inspection under the default policy has at most 4096 entries,
  none of which is encrypted or named so that it leaves the archive (an absolute path or a ".."
  component); every file entry declares at most 64 MiB and at most 200 times its compressed size,
  and all of them together at most 256 MiB, summed without wrap-around.
\<close>

theorem archive_inspection_bounds:
  "case inspectOOXML e fileName (Some content) nbytes defaultOOXMLPolicy of Inl err \<Rightarrow> True
   | Inr inspection \<Rightarrow>
      (\<exists>entries. zipEntries e content nbytes = Some entries \<and> length entries \<le> 4096 \<and>
         oi_UncompressedBytes inspection = declaredBytes entries \<and>
         0 < declaredBytes entries \<and> declaredBytes entries \<le> 256 * 2 ^ 20 \<and>
         list_all (\<lambda>entry. \<not> hasPrefix (ze_Name entry) ''/'' \<and> ''..'' \<notin> set (splitOn (CHR ''/'') (ze_Name entry)) \<and>
           \<not> ze_Encrypted entry \<and>
           (ze_IsDir entry \<or> uint (ze_UncompressedSize64 entry) \<le> 64 * 2 ^ 20 \<and>
              unat (ze_UncompressedSize64 entry) \<le> 200 * unat (ze_CompressedSize64 entry))) entries)"
proof (cases "inspectOOXML e fileName (Some content) nbytes defaultOOXMLPolicy")
  case (Inr inspection)
  from this boundedPolicy_default obtain entries where
    e: "zipEntries e content nbytes = Some entries" "oi_EntryCount inspection = int (length entries)"
      "oi_EntryCount inspection \<le> op_MaxEntries defaultOOXMLPolicy"
      "\<forall>entry \<in> set entries. acceptedEntry e defaultOOXMLPolicy entry"
      "oi_UncompressedBytes inspection = declaredBytes entries" "0 < declaredBytes entries"
      "declaredBytes entries \<le> op_MaxUncompressedBytes defaultOOXMLPolicy"
    by (rule inspectOOXML_accepts)
  have "length entries \<le> 4096" "declaredBytes entries \<le> 256 * 2 ^ 20"
    using e(2,3,7) by (simp_all add: defaultOOXMLPolicy_def)
  with e Inr show ?thesis
    unfolding list_all_iff
    by (auto simp: acceptedEntry_def defaultOOXMLPolicy_def dest: safeArchiveEntry_inside)
qed simp

text \<open>
  The check of the compression ratio, done with a quotient and a remainder on unsigned 64-bit
  numbers, is the exact comparison: it refuses an entry exactly if its size is more than the maximum
  times its compressed size as integers, where the product may not fit into 64 bits, or one of the
  two factors is zero.
\<close>

theorem compression_check_exact:
  "compressionRatioExceeded uncompressed compressed maximum \<longleftrightarrow>
     compressed = 0 \<or> maximum = 0 \<or> unat maximum * unat compressed < unat uncompressed"
proof (cases "compressed = 0 \<or> maximum = 0")
  case True
  then show ?thesis by (auto simp: compressionRatioExceeded_def)
next
  case False
  then show ?thesis using compressionRatio_iff [of compressed maximum uncompressed] by simp
qed

section \<open>The database connector\<close>

text \<open>
  C39: A synchronisation with MySQL writes nothing but its run record, whatever its outcome, and no
  document is ever queued: one that succeeds without being a preview has read no record at all,
  because the manifest it gives to every record fails validation.
\<close>

theorem mysql_sync_imports_nothing:
  "case SyncMySQL sourceID actorID preview w of (r, w') \<Rightarrow>
     (\<exists>t. db w' = (db w)\<lparr>syncRuns := t\<rparr>) \<and>
     (case r of Inl e \<Rightarrow> True
      | Inr result \<Rightarrow> run_DocumentsQueued result = 0 \<and> (preview \<or> run_RecordsRead result = 0))"
proof (cases "SyncMySQL sourceID actorID preview w")
  case (Pair r w')
  from runs.withinD [OF runs_SyncMySQL Pair] have "\<exists>t. db w' = (db w)\<lparr>syncRuns := t\<rparr>" .
  moreover have "run_DocumentsQueued result = 0 \<and> (preview \<or> run_RecordsRead result = 0)" if "r = Inr result" for result
    using Pair [unfolded that] by (rule SyncMySQL_run) auto
  ultimately show ?thesis by (simp add: Pair split: sum.split)
qed

section \<open>Spaces\<close>


section \<open>Settings and client\<close>

text \<open>
  C30: For enabled settings that pass validation, building the engine client succeeds exactly if
  the dataset id is an identifier and the file limit is at most 32 MiB: in everything else, the
  transport rules included, the two validations agree.
\<close>

theorem client_of_valid_settings:
  assumes "validateKnowledgeSettings (urlParse e) (isLoopbackIP e) production testing k = None" "ks_Enabled k"
  shows "(\<exists>c. newClient e (knowledgeConfig k) = Inr c) \<longleftrightarrow>
    validIdentifier (ks_RAGFlowDatasetID k) \<and> ks_MaxFileSize k \<le> 33554432"
  using assms by (rule newClient_of_settings)

lemma stageSetting_client: "ks_Enabled stageSetting" "validIdentifier (ks_RAGFlowDatasetID stageSetting)"
  "ks_MaxFileSize stageSetting \<le> 33554432" "urlParse stageEnv = (\<lambda>_. Some stageURL)" "isLoopbackIP stageEnv = (\<lambda>_. False)"
  by (simp_all add: stage_simps stageSetting_def defaultKnowledgeSetting_def validIdentifier_def eval_simps)

theorem client_of_valid_settings_witness: "\<exists>c. newClient stageEnv (knowledgeConfig stageSetting) = Inr c"
  using client_of_valid_settings [of stageEnv False True stageSetting] stage_valid by (simp add: stageSetting_client)


end
