(* ===== verification/Calendar.thy ===== *)
theory Calendar
  imports Go_Strings
begin

text \<open>
  The part of Go's package \<open>time\<close> that the console uses: \<open>Time.AddDate\<close>, \<open>Time.Format\<close> and
  \<open>time.ParseInLocation\<close> with the layout \<^verbatim>\<open>2006-01-02\<close>. Times are seconds of the Unix epoch, a
  location is how many seconds it is ahead of UTC at an instant, dates are of the proleptic
  Gregorian calendar.

  The lemmas show that days and dates determine each other, that a date is read back as it was
  written, and how far adding days or months moves a time in a zone without shifts.
\<close>

section \<open>Days and dates\<close>

definition leapYear :: "int \<Rightarrow> bool" where
  "leapYear y \<longleftrightarrow> y mod 4 = 0 \<and> (y mod 100 \<noteq> 0 \<or> y mod 400 = 0)"

definition monthLengths :: "int \<Rightarrow> int list" where
  "monthLengths y = [31, if leapYear y then 29 else 28, 31, 30, 31, 30, 31, 31, 30, 31, 30, 31]"

definition daysIn :: "int \<Rightarrow> int \<Rightarrow> int" where
  "daysIn y m = monthLengths y ! nat (m - 1)"

text \<open>Days from January 1 of the year 1 to January 1 of a year, and to a date.\<close>

definition daysBeforeYear :: "int \<Rightarrow> int" where
  "daysBeforeYear y = (let n = y - 1 in 365 * n + n div 4 - n div 100 + n div 400)"

definition civilDays :: "int \<Rightarrow> int \<Rightarrow> int \<Rightarrow> int" where
  "civilDays y m d = daysBeforeYear y + sum_list (take (nat (m - 1)) (monthLengths y)) + d - 1"

text \<open>The date of a day: the year by cycles of 400, 100, 4 and 1 years, then the month.\<close>

definition civilYear :: "int \<Rightarrow> int" where
  "civilYear n =
     (let n400 = n div 146097; r400 = n mod 146097; n100 = min 3 (r400 div 36524); r100 = r400 - n100 * 36524;
          n4 = r100 div 1461; r4 = r100 mod 1461; n1 = min 3 (r4 div 365)
      in 400 * n400 + 100 * n100 + 4 * n4 + n1 + 1)"

fun splitMonth :: "int list \<Rightarrow> int \<Rightarrow> int \<times> int" where
  "splitMonth [] d = (1, d + 1)"
| "splitMonth (l # ls) d = (if d < l then (1, d + 1) else apfst ((+) 1) (splitMonth ls (d - l)))"

definition civilDate :: "int \<Rightarrow> int \<times> int \<times> int" where
  "civilDate n = (let y = civilYear n in (y, splitMonth (monthLengths y) (n - daysBeforeYear y)))"

definition validDate :: "int \<Rightarrow> int \<Rightarrow> int \<Rightarrow> bool" where
  "validDate y m d \<longleftrightarrow> 1 \<le> m \<and> m \<le> 12 \<and> 1 \<le> d \<and> d \<le> daysIn y m"

section \<open>Times\<close>

text \<open>The days from January 1 of the year 1 to the epoch.\<close>

definition epochDay :: int where
  "epochDay = 719162"

text \<open>
  \<open>time.Date\<close>: months and days outside their range are carried over; the offset is that of the
  instant the first guess leads to.
\<close>

definition dateUnix :: "(int \<Rightarrow> int) \<Rightarrow> int \<Rightarrow> int \<Rightarrow> int \<Rightarrow> int \<Rightarrow> int" where
  "dateUnix loc year month day secs =
     (let y = year + (month - 1) div 12; m = (month - 1) mod 12 + 1;
          unix = (civilDays y m 1 + day - 1 - epochDay) * 86400 + secs;
          offset = loc unix
      in if offset = 0 then unix else unix - loc (unix - offset))"

text \<open>\<open>t.Date()\<close> and the seconds of \<open>t.Clock()\<close>.\<close>

definition localDate :: "(int \<Rightarrow> int) \<Rightarrow> int \<Rightarrow> int \<times> int \<times> int" where
  "localDate loc t = civilDate ((t + loc t) div 86400 + epochDay)"

definition localSeconds :: "(int \<Rightarrow> int) \<Rightarrow> int \<Rightarrow> int" where
  "localSeconds loc t = (t + loc t) mod 86400"

text \<open>\<open>t.AddDate(0, months, days)\<close>\<close>

definition addDate :: "(int \<Rightarrow> int) \<Rightarrow> int \<Rightarrow> int \<Rightarrow> int \<Rightarrow> int" where
  "addDate loc t months days =
     (case localDate loc t of (y, m, d) \<Rightarrow> dateUnix loc y (m + months) (d + days) (localSeconds loc t))"

section \<open>Text\<close>

definition twoDigits :: "int \<Rightarrow> string" where
  "twoDigits n = [char_of (48 + nat n div 10), char_of (48 + nat n mod 10)]"

text \<open>\<open>appendInt(b, n, 4)\<close>: at least four digits, the sign before them.\<close>

definition fourDigits :: "int \<Rightarrow> string" where
  "fourDigits n =
     (let ds = natDigits (nat \<bar>n\<bar>) in (if n < 0 then ''-'' else '''') @ replicate (4 - length ds) (CHR ''0'') @ ds)"

definition formatDate :: "int \<times> int \<times> int \<Rightarrow> string" where
  "formatDate date = (case date of (y, m, d) \<Rightarrow> fourDigits y @ ''-'' @ twoDigits m @ ''-'' @ twoDigits d)"

text \<open>The layout asks for exactly four, two and two digits, and nothing behind them.\<close>

definition parseDate :: "(int \<Rightarrow> int) \<Rightarrow> string \<Rightarrow> int option" where
  "parseDate loc value =
     (let ys = take 4 value; ms = take 2 (drop 5 value); ds = take 2 (drop 8 value) in
      if length value \<noteq> 10 \<or> \<not> list_all isDigit (ys @ ms @ ds) \<or> value ! 4 \<noteq> CHR ''-'' \<or> value ! 7 \<noteq> CHR ''-''
      then None
      else
        (let y = int (digitsVal ys); m = int (digitsVal ms); d = int (digitsVal ds)
         in if validDate y m d then Some (dateUnix loc y m d 0) else None))"

section \<open>The calendar\<close>

lemma sum_monthLengths: "sum_list (monthLengths y) = (if leapYear y then 366 else 365)"
  by (simp add: monthLengths_def)

lemma length_monthLengths: "length (monthLengths y) = 12"
  by (simp add: monthLengths_def)

lemma div_next:
  assumes "0 < (k :: int)"
  shows "(x + 1) div k = x div k + (if (x + 1) mod k = 0 then 1 else 0)"
proof (cases "x mod k = k - 1")
  case True
  have "(x div k + 1) * k = x div k * k + k" by (simp add: distrib_right)
  with True have "x + 1 = (x div k + 1) * k" using div_mult_mod_eq [of x k] by linarith
  with assms show ?thesis by simp
next
  case False
  then have "x mod k + 1 < k" "0 \<le> x mod k" using assms pos_mod_bound [of k x] by (simp_all add: less_le)
  moreover have "x + 1 = x div k * k + (x mod k + 1)" by simp
  ultimately have "(x + 1) div k = x div k" "(x + 1) mod k = x mod k + 1"
    using int_div_pos_eq [of "x + 1" k "x div k" "x mod k + 1"] int_mod_pos_eq [of "x + 1" k "x div k" "x mod k + 1"]
    by (simp_all add: mult.commute)
  with \<open>0 \<le> x mod k\<close> show ?thesis by simp
qed

lemma cycles: "(4 :: int) dvd 100" "(100 :: int) dvd 400"
  by simp_all

lemma century: "y mod 100 = 0 \<longrightarrow> y mod 4 = (0 :: int)"
  unfolding mod_eq_0_iff_dvd by (rule impI) (rule dvd_trans [OF cycles(1)])

lemma four_centuries: "y mod 400 = 0 \<longrightarrow> y mod 100 = (0 :: int)"
  unfolding mod_eq_0_iff_dvd by (rule impI) (rule dvd_trans [OF cycles(2)])

lemma nested_count:
  "(B \<longrightarrow> A) \<Longrightarrow> (C \<longrightarrow> B) \<Longrightarrow>
   (if A then 1 else 0) - (if B then 1 else 0) + (if C then 1 else 0) = (if A \<and> (\<not> B \<or> C) then 1 else 0 :: int)"
  by (cases A; cases B; cases C) simp_all

lemma leapYear_count:
  "(if y mod 4 = 0 then 1 else 0) - (if y mod 100 = 0 then 1 else 0) + (if y mod 400 = 0 then 1 else 0) =
   (if leapYear y then 1 else 0 :: int)"
  unfolding leapYear_def by (rule nested_count [OF century four_centuries])

lemma daysBeforeYear_next: "daysBeforeYear (y + 1) = daysBeforeYear y + sum_list (monthLengths y)"
proof -
  have linear: "a = a' + i \<Longrightarrow> b = b' + j \<Longrightarrow> c = c' + k \<Longrightarrow> i - j + k = l \<Longrightarrow>
      365 * n + a - b + c = 365 * (n - 1) + a' - b' + c' + (365 + l)" for a a' b b' c c' i j k l n :: int
    by simp
  have "sum_list (monthLengths y) = 365 + (if leapYear y then 1 else 0)" by (simp add: sum_monthLengths)
  moreover have "y div m = (y - 1) div m + (if y mod m = 0 then 1 else 0)" if "0 < m" for m :: int
    using div_next [OF that, of "y - 1"] by (simp only: diff_add_cancel)
  ultimately show ?thesis
    unfolding daysBeforeYear_def Let_def add_diff_cancel_right' by (simp only: linear [OF _ _ _ leapYear_count] zero_less_numeral)
qed

lemma daysBeforeYear_mono: "x \<le> y \<Longrightarrow> daysBeforeYear x \<le> daysBeforeYear y"
proof (induction y rule: int_ge_induct)
  case (step i)
  then show ?case by (simp add: daysBeforeYear_next sum_monthLengths split: if_splits)
qed simp

lemma civilYear_range:
  "daysBeforeYear (civilYear n) \<le> n" "n < daysBeforeYear (civilYear n + 1)"
proof -
  define n400 r400 where "n400 = n div 146097" and "r400 = n mod 146097"
  define n100 where "n100 = min 3 (r400 div 36524)"
  define r100 where "r100 = r400 - n100 * 36524"
  define n4 r4 where "n4 = r100 div 1461" and "r4 = r100 mod 1461"
  define n1 where "n1 = min 3 (r4 div 365)"
  have n: "n = 146097 * n400 + 36524 * n100 + 1461 * n4 + r4" 
    by (simp add: n400_def r400_def r100_def n4_def r4_def)
  have r400: "0 \<le> r400" "r400 < 146097" by (simp_all add: r400_def)
  then have n100: "0 \<le> n100" "n100 \<le> 3" "0 \<le> r100" "r100 \<le> 36524" "n100 < 3 \<Longrightarrow> r100 < 36524"
    unfolding n100_def r100_def by (auto simp: min_def)
  then have n4: "0 \<le> n4" "n4 \<le> 24" "0 \<le> r4" "r4 < 1461" "n4 = 24 \<Longrightarrow> n100 < 3 \<Longrightarrow> r4 < 1460"
    using div_mult_mod_eq [of r100 1461] unfolding n4_def r4_def by auto
  then have n1: "0 \<le> n1" "n1 \<le> 3" "365 * n1 \<le> r4" "n1 < 3 \<Longrightarrow> r4 < 365 * n1 + 365" "r4 \<le> 365 * n1 + 365"
    unfolding n1_def by (auto simp: min_def)
  have y: "civilYear n = 400 * n400 + 100 * n100 + 4 * n4 + n1 + 1"
    by (simp add: civilYear_def Let_def n400_def r400_def n100_def r100_def n4_def r4_def n1_def)
  have before: "daysBeforeYear (civilYear n) = 146097 * n400 + 36524 * n100 + 1461 * n4 + 365 * n1"
  proof -
    let ?y = "400 * n400 + 100 * n100 + 4 * n4 + n1"
    have "?y div 4 = 100 * n400 + 25 * n100 + n4"
      by (rule int_div_pos_eq [where r = n1]) (use n1 in auto)
    moreover have "?y div 100 = 4 * n400 + n100"
      by (rule int_div_pos_eq [where r = "4 * n4 + n1"]) (use n1 n4 in auto)
    moreover have "?y div 400 = n400"
      by (rule int_div_pos_eq [where r = "100 * n100 + 4 * n4 + n1"]) (use n1 n4 n100 in auto)
    ultimately show ?thesis by (simp add: y daysBeforeYear_def Let_def)
  qed
  show "daysBeforeYear (civilYear n) \<le> n" unfolding before using n n1 by linarith
  have "leapYear (civilYear n)" if "r4 = 365 * n1 + 365"
  proof -
    have n1: "n1 = 3" using n1 that by linarith
    then have last: "n4 = 24 \<Longrightarrow> n100 = 3" using n4 n100 that by force
    have "civilYear n = 4 * (100 * n400 + 25 * n100 + n4 + 1)" by (simp add: y n1)
    then have "civilYear n mod 4 = 0" by simp
    moreover have "civilYear n mod 100 = 4 * n4 + 4" if "n4 < 24"
      by (rule int_mod_pos_eq [where q = "4 * n400 + n100"]) (use n4 n1 that in \<open>auto simp: y\<close>)
    moreover have "civilYear n mod 400 = 0" if "n4 = 24"
      using that last by (simp add: y n1)
    ultimately show ?thesis using n4 by (cases "n4 = 24") (auto simp: leapYear_def)
  qed
  then have "r4 < 365 * n1 + sum_list (monthLengths (civilYear n))"
    using n1 unfolding sum_monthLengths by (cases "r4 = 365 * n1 + 365") auto
  then show "n < daysBeforeYear (civilYear n + 1)"
    unfolding daysBeforeYear_next before using n by linarith
qed


lemma splitMonth_range:
  "0 \<le> d \<Longrightarrow> d < sum_list ls \<Longrightarrow> (case splitMonth ls d of (m, k) \<Rightarrow>
     1 \<le> m \<and> m \<le> int (length ls) \<and> 1 \<le> k \<and> k \<le> ls ! nat (m - 1) \<and> sum_list (take (nat (m - 1)) ls) + k - 1 = d)"
proof (induction ls arbitrary: d)
  case (Cons l ls)
  show ?case
  proof (cases "d < l")
    case False
    obtain m k where mk: "splitMonth ls (d - l) = (m, k)" by (cases "splitMonth ls (d - l)")
    with Cons False have "1 \<le> m" "m \<le> int (length ls)" "1 \<le> k" "k \<le> ls ! nat (m - 1)"
      "sum_list (take (nat (m - 1)) ls) + k - 1 = d - l"
      using Cons.IH [of "d - l"] by auto
    moreover then have "nat m = Suc (nat (m - 1))" by simp
    ultimately show ?thesis using False mk by simp
  qed (use Cons in simp)
qed simp

text \<open>A day has a valid date, which is the date of that day only.\<close>

lemma civilDate_days:
  assumes "civilDate n = (y, m, d)"
  shows "validDate y m d" "civilDays y m d = n" "y = civilYear n"
proof -
  have y: "y = civilYear n" and md: "splitMonth (monthLengths y) (n - daysBeforeYear y) = (m, d)"
    using assms by (auto simp: civilDate_def Let_def)
  have "0 \<le> n - daysBeforeYear y" "n - daysBeforeYear y < sum_list (monthLengths y)"
    using civilYear_range [of n] by (simp_all add: y daysBeforeYear_next)
  from splitMonth_range [OF this] md show "validDate y m d" "civilDays y m d = n"
    by (simp_all add: validDate_def daysIn_def civilDays_def length_monthLengths)
  show "y = civilYear n" by (rule y)
qed

lemma nth_le_rest:
  "i < length ls \<Longrightarrow> \<forall>l \<in> set ls. 0 \<le> l \<Longrightarrow> sum_list (take i ls) + ls ! i \<le> sum_list (ls :: int list)"
  by (induction ls arbitrary: i) (auto simp: nth_Cons' take_Cons' sum_list_nonneg)

lemma splitMonth_inverse:
  "i < length ls \<Longrightarrow> \<forall>l \<in> set ls. 0 \<le> l \<Longrightarrow> 1 \<le> k \<Longrightarrow> k \<le> ls ! i \<Longrightarrow>
   splitMonth ls (sum_list (take i ls) + k - 1) = (int i + 1, k)"
proof (induction ls arbitrary: i)
  case (Cons l ls)
  show ?case
  proof (cases i)
    case (Suc j)
    with Cons.prems have "0 \<le> sum_list (take j ls)"
      by (auto intro!: sum_list_nonneg dest: in_set_takeD)
    with Cons Suc have "splitMonth ls (sum_list (take j ls) + k - 1) = (int j + 1, k)" by simp
    with Cons.prems Suc \<open>0 \<le> sum_list (take j ls)\<close> show ?thesis by (simp add: add_diff_eq)
  qed (use Cons in simp)
qed simp

lemma civilDate_inverse:
  assumes "validDate y m d"
  shows "civilDate (civilDays y m d) = (y, m, d)"
proof -
  let ?n = "civilDays y m d" and ?i = "nat (m - 1)"
  have i: "?i < length (monthLengths y)" "\<forall>l \<in> set (monthLengths y). 0 \<le> l" "1 \<le> d" "d \<le> monthLengths y ! ?i" "int ?i + 1 = m"
    using assms by (auto simp: validDate_def daysIn_def length_monthLengths) (auto simp: monthLengths_def split: if_splits)
  have "0 \<le> sum_list (take ?i (monthLengths y))"
    using i(2) by (auto intro!: sum_list_nonneg dest: in_set_takeD)
  then have n: "daysBeforeYear y \<le> ?n" "?n < daysBeforeYear (y + 1)"
    using i nth_le_rest [OF i(1,2)] by (auto simp: civilDays_def daysBeforeYear_next)
  have "civilYear ?n = y"
  proof (rule ccontr)
    assume "civilYear ?n \<noteq> y"
    then consider "civilYear ?n + 1 \<le> y" | "y + 1 \<le> civilYear ?n" by linarith
    then show False
      using civilYear_range [of ?n] n by cases (auto dest: daysBeforeYear_mono)
  qed
  then show ?thesis
    using splitMonth_inverse [OF i(1-4)] i(5) by (simp add: civilDate_def Let_def) (simp add: civilDays_def add_diff_eq)
qed

section \<open>Moving in a zone without shifts\<close>

lemma daysIn_range: "1 \<le> m \<Longrightarrow> m \<le> 12 \<Longrightarrow> 28 \<le> daysIn y m \<and> daysIn y m \<le> 31"
proof -
  assume "1 \<le> m" "m \<le> 12"
  then have "daysIn y m \<in> set (monthLengths y)" by (simp add: daysIn_def length_monthLengths)
  then show ?thesis by (auto simp: monthLengths_def split: if_splits)
qed

lemma civilDays_month:
  assumes "1 \<le> m" "m \<le> 12"
  shows "civilDays (y + m div 12) (m mod 12 + 1) d = civilDays y m d + daysIn y m"
proof (cases "m = 12")
  case True
  have "monthLengths y = take 11 (monthLengths y) @ [31]" by (simp add: monthLengths_def)
  then have "sum_list (monthLengths y) = sum_list (take 11 (monthLengths y)) + 31"
    using sum_list_append [of "take 11 (monthLengths y)" "[31]"] by simp
  then show ?thesis using True by (simp add: civilDays_def daysBeforeYear_next daysIn_def) (simp add: monthLengths_def)
next
  case False
  with assms have "m div 12 = 0" "m mod 12 = m" "nat m = Suc (nat (m - 1))" "nat (m - 1) < length (monthLengths y)"
    by (simp_all add: div_pos_pos_trivial mod_pos_pos_trivial length_monthLengths)
  then show ?thesis by (simp add: civilDays_def daysIn_def take_Suc_conv_app_nth)
qed

lemma civilDays_shift: "civilDays y m 1 + d - 1 = civilDays y m d"
  by (simp add: civilDays_def)

lemma localDate_days: "localDate loc t = (y, m, d) \<Longrightarrow> validDate y m d \<and> civilDays y m d = (t + loc t) div 86400 + epochDay"
  unfolding localDate_def using civilDate_days [of "(t + loc t) div 86400 + epochDay" y m d] by simp

lemma month_carry: "1 \<le> m \<Longrightarrow> m \<le> 12 \<Longrightarrow> (m - 1) div 12 = 0 \<and> (m - 1) mod 12 = (m - 1 :: int)"
  by (simp add: div_pos_pos_trivial mod_pos_pos_trivial)

lemma dateUnix_fixed:
  "dateUnix (\<lambda>_. c) y m d s = (civilDays (y + (m - 1) div 12) ((m - 1) mod 12 + 1) d - epochDay) * 86400 + s - c"
  by (simp add: dateUnix_def Let_def civilDays_shift)

lemma addDate_days: "addDate (\<lambda>_. c) t 0 k = t + k * 86400"
proof -
  obtain y m d where date: "localDate (\<lambda>_. c) t = (y, m, d)" by (cases "localDate (\<lambda>_. c) t")
  then have "validDate y m d" "civilDays y m d = (t + c) div 86400 + epochDay" using localDate_days by fastforce+
  moreover have "civilDays y m (d + k) = civilDays y m d + k" by (simp add: civilDays_def)
  ultimately show ?thesis
    using month_carry [of m] div_mult_mod_eq [of "t + c" 86400]
    by (simp add: addDate_def date dateUnix_fixed localSeconds_def validDate_def distrib_right)
qed

text \<open>A month ahead is 28 to 31 days ahead, as often as it is repeated.\<close>

lemma civilDays_months:
  assumes "1 \<le> m" "m \<le> 12"
  shows "civilDays y m d + 28 * int k \<le> civilDays (y + (m - 1 + int k) div 12) ((m - 1 + int k) mod 12 + 1) d \<and>
    civilDays (y + (m - 1 + int k) div 12) ((m - 1 + int k) mod 12 + 1) d \<le> civilDays y m d + 31 * int k"
proof (induction k)
  case 0
  then show ?case using month_carry [OF assms] by simp
next
  case (Suc k)
  define M Y where "M = (m - 1 + int k) mod 12 + 1" and "Y = y + (m - 1 + int k) div 12"
  have M: "1 \<le> M" "M \<le> 12" by (simp_all add: M_def)
  have "m - 1 + int (Suc k) = 12 * ((m - 1 + int k) div 12) + M" by (simp add: M_def)
  then have "(m - 1 + int (Suc k)) div 12 = (m - 1 + int k) div 12 + M div 12" "(m - 1 + int (Suc k)) mod 12 = M mod 12"
    by simp_all
  then have "civilDays (y + (m - 1 + int (Suc k)) div 12) ((m - 1 + int (Suc k)) mod 12 + 1) d = civilDays Y M d + daysIn Y M"
    using civilDays_month [OF M, of Y d] by (simp only: Y_def add.assoc)
  with Suc.IH daysIn_range [OF M, of Y] show ?case unfolding M_def [symmetric] Y_def [symmetric] by simp
qed

lemma addDate_months:
  "t + int k * (28 * 86400) \<le> addDate (\<lambda>_. c) t (int k) 0 \<and> addDate (\<lambda>_. c) t (int k) 0 \<le> t + int k * (31 * 86400)"
proof -
  obtain y m d where date: "localDate (\<lambda>_. c) t = (y, m, d)" by (cases "localDate (\<lambda>_. c) t")
  then have valid: "validDate y m d" "civilDays y m d = (t + c) div 86400 + epochDay" using localDate_days by fastforce+
  define n where "n = civilDays (y + (m - 1 + int k) div 12) ((m - 1 + int k) mod 12 + 1) d"
  have n: "civilDays y m d + 28 * int k \<le> n" "n \<le> civilDays y m d + 31 * int k"
    using civilDays_months [of m y d k] valid(1) by (simp_all add: validDate_def n_def)
  have "addDate (\<lambda>_. c) t (int k) 0 = (n - epochDay) * 86400 + (t + c) mod 86400 - c"
    by (simp add: addDate_def date dateUnix_fixed localSeconds_def n_def algebra_simps)
  moreover obtain q r where "(t + c) div 86400 = q" "(t + c) mod 86400 = r" "q * 86400 + r = t + c"
    using div_mult_mod_eq [of "t + c" 86400] by blast
  ultimately show ?thesis using n valid(2) by simp
qed

section \<open>Reading a date back\<close>

lemma twoDigits_value:
  assumes "0 \<le> n" "n < 100"
  obtains a b where "twoDigits n = [a, b]" "isDigit a" "isDigit b" "int (digitsVal [a, b]) = n"
proof
  have "nat n div 10 < 10" "nat n mod 10 < 10" using assms by auto
  then show "twoDigits n = [char_of (48 + nat n div 10), char_of (48 + nat n mod 10)]"
    "isDigit (char_of (48 + nat n div 10))" "isDigit (char_of (48 + nat n mod 10))"
    by (simp_all add: twoDigits_def isDigit_char_of)
  have "digitsVal [char_of (48 + nat n div 10), char_of (48 + nat n mod 10)] = nat n div 10 * 10 + nat n mod 10"
    using \<open>nat n div 10 < 10\<close> \<open>nat n mod 10 < 10\<close> by (simp add: digitsVal_def)
  then show "int (digitsVal [char_of (48 + nat n div 10), char_of (48 + nat n mod 10)]) = n"
    using assms by simp
qed

lemma digitsVal_zeros: "digitsVal (replicate k (CHR ''0'') @ ds) = digitsVal ds"
  by (induction k) (simp_all add: digitsVal_def)

lemma fourDigits_value:
  assumes "0 \<le> n" "n < 10000"
  obtains a b c d where "fourDigits n = [a, b, c, d]" "list_all isDigit [a, b, c, d]" "int (digitsVal [a, b, c, d]) = n"
proof -
  let ?ds = "natDigits (nat n)"
  have "length ?ds \<le> 4" using assms by (intro natDigits_length) auto
  then have "length (fourDigits n) = 4" "fourDigits n = replicate (4 - length ?ds) (CHR ''0'') @ ?ds"
    using assms by (simp_all add: fourDigits_def Let_def)
  moreover have "\<exists>a b c d. xs = [a, b, c, d]" if "length xs = 4" for xs :: string
    using that by (auto simp: numeral_eq_Suc length_Suc_conv)
  from this [OF calculation(1)] obtain a b c d where "fourDigits n = [a, b, c, d]" by blast
  moreover have "list_all isDigit (fourDigits n)" "int (digitsVal (fourDigits n)) = n"
    using calculation(2) natDigits_digits [of "nat n"] assms
    by (simp_all add: digitsVal_zeros natDigits_val list_all_iff) (auto simp: isDigit_def)
  ultimately show thesis by (intro that [of a b c d]) metis+
qed

text \<open>A date of the years 0 to 9999 is read back as its first second.\<close>

lemma parse_formatDate:
  assumes "validDate y m d" "0 \<le> y" "y < 10000"
  shows "parseDate loc (formatDate (y, m, d)) = Some (dateUnix loc y m d 0)"
proof -
  have range: "0 \<le> m" "m < 100" "0 \<le> d" "d < 100"
    using assms(1) daysIn_range [of m y] by (auto simp: validDate_def)
  obtain y1 y2 y3 y4 where y: "fourDigits y = [y1, y2, y3, y4]" "list_all isDigit [y1, y2, y3, y4]" "int (digitsVal [y1, y2, y3, y4]) = y"
    using assms(2,3) by (rule fourDigits_value)
  obtain m1 m2 where m: "twoDigits m = [m1, m2]" "isDigit m1" "isDigit m2" "int (digitsVal [m1, m2]) = m"
    using range(1,2) by (rule twoDigits_value)
  obtain d1 d2 where d: "twoDigits d = [d1, d2]" "isDigit d1" "isDigit d2" "int (digitsVal [d1, d2]) = d"
    using range(3,4) by (rule twoDigits_value)
  show ?thesis
    using assms(1) y(2) m(2,3) d(2,3) by (simp add: formatDate_def parseDate_def Let_def y(1,3) m(1,4) d(1,4))
qed

end
