(* ===== verification/Reminders.thy ===== *)
theory Reminders
  imports Retrieval DataSources Calendar
begin

text \<open>
  The governance tasks of the console, \<^verbatim>\<open>routers/web/knowledge/dashboard.go\<close>: when the periodic review
  of a data source is due (\<open>evaluateDataSourceFreshness\<close>, \<open>loadDataSourceGovernanceTasks\<close>), and which
  unanswered searches and low ratings wait for an administrator (\<open>loadQualityTasks\<close>).

  A list that cannot be read is shown empty. The lemmas say when a source is reminded of, that a
  confirmed review starts the period again, and that a resolved quality task is not listed.
\<close>

section \<open>Ordered lists\<close>

text \<open>
  \<open>Where(P).Desc(column).Limit(n)\<close> and \<open>Where(P).Asc(column)\<close>; rows that are equal in the column
  come in the order of the table.
\<close>

definition findDesc :: "(database \<Rightarrow> 'r table) \<Rightarrow> ('r \<Rightarrow> int) \<Rightarrow> ('r \<Rightarrow> bool) \<Rightarrow> nat \<Rightarrow> 'r list prog" where
  "findDesc sel column P n = query (\<lambda>d. take n (sort_key (\<lambda>r. - column r) (tblFind P (sel d))))"

definition findAllDesc :: "(database \<Rightarrow> 'r table) \<Rightarrow> ('r \<Rightarrow> int) \<Rightarrow> ('r \<Rightarrow> bool) \<Rightarrow> 'r list prog" where
  "findAllDesc sel column P = query (\<lambda>d. sort_key (\<lambda>r. - column r) (tblFind P (sel d)))"

definition findAsc :: "(database \<Rightarrow> 'r table) \<Rightarrow> ('r \<Rightarrow> 'k::linorder) \<Rightarrow> ('r \<Rightarrow> bool) \<Rightarrow> 'r list prog" where
  "findAsc sel column P = query (\<lambda>d. sort_key column (tblFind P (sel d)))"

text \<open>The rows, or none when the query fails.\<close>

definition orEmpty :: "'r list prog \<Rightarrow> 'r list prog" where
  "orEmpty m = andThen (attempt m) (\<lambda>found. case found of Inl _ \<Rightarrow> ret [] | Inr rs \<Rightarrow> ret rs)"

definition dashboardLimit :: nat where
  "dashboardLimit = 20"

section \<open>Review of data sources\<close>

record dataSourceFreshness =
  fr_DueUnix :: TimeStamp
  fr_Label :: string
  fr_IsTask :: bool
  fr_IsOverdue :: bool

definition dataSourceReviewReminderWindow :: int where
  "dataSourceReviewReminderWindow = 7 * 24 * 3600 * second"

definition nextReviewDue :: "(int \<Rightarrow> int) \<Rightarrow> TimeStamp \<Rightarrow> ReviewFrequency \<Rightarrow> TimeStamp" where
  "nextReviewDue loc base frequency =
     (case frequency of
        ReviewFrequencyWeekly \<Rightarrow> addDate loc base 0 7
      | ReviewFrequencyMonthly \<Rightarrow> addDate loc base 1 0
      | ReviewFrequencyQuarterly \<Rightarrow> addDate loc base 3 0
      | _ \<Rightarrow> 0)"

text \<open>The later of the source's own times and the last confirmation.\<close>

definition reviewBase :: "DataSource \<Rightarrow> TimeStamp \<Rightarrow> TimeStamp" where
  "reviewBase source lastConfirmed =
     (let base0 = ds_EffectiveUnix source;
          base1 = (if base0 < ds_UpdatedUnix source then ds_UpdatedUnix source else base0)
      in if base1 < lastConfirmed then lastConfirmed else base1)"

text \<open>The distance is compared as a \<open>time.Duration\<close>, in nanoseconds of 64 bits.\<close>

definition evaluateDataSourceFreshness :: "(int \<Rightarrow> int) \<Rightarrow> DataSource \<Rightarrow> TimeStamp \<Rightarrow> TimeStamp \<Rightarrow> dataSourceFreshness" where
  "evaluateDataSourceFreshness loc source lastConfirmed now =
     (let note = (\<lambda>label. \<lparr>fr_DueUnix = 0, fr_Label = label, fr_IsTask = False, fr_IsOverdue = False\<rparr>) in
      if ds_Status source \<noteq> DataSourceStatusEnabled then note (utf8 [21551, 29992, 21518, 24320, 22987, 22797, 23457])
      else if ds_ReviewFrequency source = ReviewFrequencyEventTriggered then note (utf8 [20107, 20214, 35302, 21457, 26102, 22797, 23457])
      else
      let base = reviewBase source lastConfirmed in
      if base \<le> 0 then note (utf8 [32570, 23569, 22797, 23457, 22522, 20934])
      else
      let due = nextReviewDue loc base (ds_ReviewFrequency source) in
      if due \<le> 0 then note (utf8 [22797, 23457, 21608, 26399, 26410, 37197, 32622])
      else if due \<le> now then
        let days = (now - due) div 86400 in
        \<lparr>fr_DueUnix = due,
         fr_Label = (if days = 0 then (utf8 [20170, 22825, 38656, 35201, 22797, 23457]) else (utf8 [24050, 36926, 26399] @ '' '') @ itoa days @ ('' '' @ utf8 [22825])),
         fr_IsTask = True, fr_IsOverdue = True\<rparr>
      else if wrap64 ((due - now) * second) \<le> dataSourceReviewReminderWindow then
        let days = (due - now + 86400 - 1) div 86400 in
        \<lparr>fr_DueUnix = due, fr_Label = itoa days @ ('' '' @ utf8 [22825, 21518, 38656, 35201, 22797, 23457]), fr_IsTask = True, fr_IsOverdue = False\<rparr>
      else \<lparr>fr_DueUnix = due, fr_Label = (utf8 [22797, 23457, 27491, 24120]), fr_IsTask = False, fr_IsOverdue = False\<rparr>)"

definition confirmation :: "int list \<Rightarrow> AuditEvent \<Rightarrow> bool" where
  "confirmation ids e \<longleftrightarrow> ae_EntityID e \<in> set ids \<and> ae_EntityType e = ''data_source'' \<and>
     ae_Action e = ''data_source_review_confirmed''"

text \<open>The first event of each source stays, which is its latest.\<close>

definition latestByEntity :: "AuditEvent list \<Rightarrow> int \<rightharpoonup> TimeStamp" where
  "latestByEntity events =
     fold (\<lambda>e latest. if latest (ae_EntityID e) = None then latest(ae_EntityID e \<mapsto> ae_CreatedUnix e) else latest) events Map.empty"

definition loadLatestDataSourceReviewEvents :: "DataSource list \<Rightarrow> (int \<rightharpoonup> TimeStamp) prog" where
  "loadLatestDataSourceReviewEvents sources =
     (let ids = map ds_ID sources in
      if ids = [] then ret Map.empty
      else
      andThen (orEmpty (findAllDesc auditEvents ae_CreatedUnix (confirmation ids))) (\<lambda>events.
      ret (latestByEntity events)))"

text \<open>A map without the key gives 0.\<close>

definition lastReview :: "(int \<rightharpoonup> TimeStamp) \<Rightarrow> DataSource \<Rightarrow> TimeStamp" where
  "lastReview latest source = (case latest (ds_ID source) of None \<Rightarrow> 0 | Some t \<Rightarrow> t)"

primrec reviewFrequencyLabel :: "ReviewFrequency \<Rightarrow> string" where
  "reviewFrequencyLabel ReviewFrequencyWeekly = (utf8 [27599, 21608])"
| "reviewFrequencyLabel ReviewFrequencyMonthly = (utf8 [27599, 26376])"
| "reviewFrequencyLabel ReviewFrequencyQuarterly = (utf8 [27599, 23395, 24230])"
| "reviewFrequencyLabel ReviewFrequencyEventTriggered = (utf8 [20107, 20214, 35302, 21457])"
| "reviewFrequencyLabel (ReviewFrequencyOther s) = ''''"

record dashboardDataSourceTask =
  dt_ID :: int
  dt_Name :: string
  dt_ReviewFrequency :: string
  dt_ReviewDueUnix :: TimeStamp
  dt_ReviewStatusLabel :: string
  dt_IsOverdue :: bool
  dt_CanConfirmReview :: bool

definition sourceTask ::
  "(int \<Rightarrow> int) \<Rightarrow> User \<Rightarrow> (int \<rightharpoonup> TimeStamp) \<Rightarrow> TimeStamp \<Rightarrow> DataSource \<Rightarrow> dashboardDataSourceTask option" where
  "sourceTask loc doer latest now source =
     (let freshness = evaluateDataSourceFreshness loc source (lastReview latest source) now in
      if \<not> fr_IsTask freshness then None
      else Some
        \<lparr>dt_ID = ds_ID source, dt_Name = ds_Name source, dt_ReviewFrequency = reviewFrequencyLabel (ds_ReviewFrequency source),
         dt_ReviewDueUnix = fr_DueUnix freshness, dt_ReviewStatusLabel = fr_Label freshness,
         dt_IsOverdue = fr_IsOverdue freshness, dt_CanConfirmReview = user_IsAdmin doer\<rparr>)"

definition loadDataSourceGovernanceTasks :: "User \<Rightarrow> dashboardDataSourceTask list prog" where
  "loadDataSourceGovernanceTasks doer =
     andThen (orEmpty (findAsc dataSources ds_ExpiresUnix (\<lambda>s. ds_Status s = DataSourceStatusEnabled))) (\<lambda>sources.
     andThen (loadLatestDataSourceReviewEvents sources) (\<lambda>latest.
     andThen timeStampNow (\<lambda>now.
     andThen (askEnv zone) (\<lambda>loc.
     ret (List.map_filter (sourceTask loc doer latest now) sources)))))"

section \<open>Quality tasks\<close>

record dashboardQualityTask =
  qt_ID :: int
  qt_TaskType :: string
  qt_TaskTypeLabel :: string
  qt_SpaceID :: int
  qt_Summary :: string
  qt_CanResolve :: bool

definition loadResolvedQualityTaskIDs :: "string \<Rightarrow> int list \<Rightarrow> int list prog" where
  "loadResolvedQualityTaskIDs entityType ids =
     (if ids = [] then ret []
      else
      andThen (orEmpty (findRows auditEvents (\<lambda>a. ae_EntityID a \<in> set ids \<and> ae_Action a = ''knowledge.quality_task.resolved'' \<and>
        ae_EntityType a = entityType \<and> ae_Result a = ''succeeded''))) (\<lambda>events. ret (map ae_EntityID events)))"

definition noAnswerTask :: "User \<Rightarrow> RetrievalEvent \<Rightarrow> dashboardQualityTask" where
  "noAnswerTask doer event =
     \<lparr>qt_ID = re_ID event, qt_TaskType = ''no_answer'', qt_TaskTypeLabel = (utf8 [26080, 31572, 26696, 26816, 32034]), qt_SpaceID = re_SpaceID event,
      qt_Summary = (utf8 [35813, 27425, 26816, 32034, 26410, 36820, 22238, 24403, 21069, 36134, 21495, 21487, 23637, 31034, 30340, 26377, 25928, 24341, 29992, 12290, 35831, 26680, 26597, 36164, 26009, 35206, 30422, 33539, 22260, 12289, 21457, 24067, 29366, 24577, 25110, 26435, 38480, 33539, 22260, 12290]),
      qt_CanResolve = user_IsAdmin doer\<rparr>"

definition lowFeedbackTask :: "User \<Rightarrow> Feedback \<Rightarrow> dashboardQualityTask" where
  "lowFeedbackTask doer feedback =
     \<lparr>qt_ID = fb_ID feedback, qt_TaskType = ''low_feedback'', qt_TaskTypeLabel = (utf8 [20302, 36136, 37327, 21453, 39304]), qt_SpaceID = fb_SpaceID feedback,
      qt_Summary = (utf8 [29992, 25143, 23545, 8220]) @ fb_Category feedback @ (utf8 [8221, 32473, 20986] @ '' '') @ itoa (fb_Rating feedback) @
        ('' '' @ utf8 [20998, 21453, 39304, 12290, 35831, 26680, 26597, 24341, 29992, 12289, 36164, 26009, 29256, 26412, 25110, 26435, 38480, 33539, 22260, 12290]),
      qt_CanResolve = user_IsAdmin doer\<rparr>"

text \<open>One kind of task: the rows, less the resolved ones; nothing when the rows cannot be read.\<close>

definition unresolvedTasks :: "'r list prog \<Rightarrow> string \<Rightarrow> ('r \<Rightarrow> int) \<Rightarrow> ('r \<Rightarrow> dashboardQualityTask) \<Rightarrow> dashboardQualityTask list prog" where
  "unresolvedTasks load entityType rowID task =
     andThen (attempt load) (\<lambda>found.
     case found of Inl _ \<Rightarrow> ret [] | Inr rs \<Rightarrow>
     andThen (loadResolvedQualityTaskIDs entityType (map rowID rs)) (\<lambda>resolved.
     ret (map task (filter (\<lambda>r. rowID r \<notin> set resolved) rs))))"

definition loadQualityTasks :: "User \<Rightarrow> dashboardQualityTask list prog" where
  "loadQualityTasks doer =
     andThen (unresolvedTasks (findDesc retrievalEvents re_CreatedUnix (\<lambda>e. re_Outcome e = ''empty'') dashboardLimit)
       ''retrieval_event'' re_ID (noAnswerTask doer)) (\<lambda>unanswered.
     andThen (unresolvedTasks (findDesc feedbacks fb_CreatedUnix (\<lambda>f. fb_Rating f \<le> 2) dashboardLimit)
       ''feedback'' fb_ID (lowFeedbackTask doer)) (\<lambda>rated.
     ret (unanswered @ rated)))"

section \<open>When a source is reminded of\<close>

lemma freshness_task:
  assumes "ds_Status source = DataSourceStatusEnabled" "ds_ReviewFrequency source \<noteq> ReviewFrequencyEventTriggered"
    "0 < reviewBase source lastConfirmed" "0 < nextReviewDue loc (reviewBase source lastConfirmed) (ds_ReviewFrequency source)"
  shows "fr_IsTask (evaluateDataSourceFreshness loc source lastConfirmed now) \<longleftrightarrow>
      nextReviewDue loc (reviewBase source lastConfirmed) (ds_ReviewFrequency source) \<le> now \<or>
      wrap64 ((nextReviewDue loc (reviewBase source lastConfirmed) (ds_ReviewFrequency source) - now) * second) \<le> dataSourceReviewReminderWindow"
  using assms by (auto simp: evaluateDataSourceFreshness_def Let_def)

text \<open>The distance in nanoseconds: it wraps around after 292 years.\<close>

lemma wrapped_distance:
  assumes "0 < n" "n \<le> 18446744073"
  shows "wrap64 (n * second) \<le> dataSourceReviewReminderWindow \<longleftrightarrow> n \<le> 7 * 24 * 3600 \<or> 9223372037 \<le> n"
proof (cases "n \<le> 9223372036")
  case True
  then have "wrap64 (n * second) = n * second" using assms by (intro wrap64_id) (simp_all add: second_def)
  with True show ?thesis by (simp add: dataSourceReviewReminderWindow_def second_def)
next
  case False
  then have "(n * second + 2 ^ 63) mod 2 ^ 64 = n * second + 2 ^ 63 - 2 ^ 64"
    using assms by (intro int_mod_pos_eq [where q = 1]) (simp_all add: second_def)
  then have "wrap64 (n * second) = n * second - 2 ^ 64" by (simp add: wrap64_def)
  then have "wrap64 (n * second) < 0" using assms by (simp add: second_def)
  with False show ?thesis by (simp add: dataSourceReviewReminderWindow_def second_def)
qed

lemma freshness_window:
  assumes "ds_Status source = DataSourceStatusEnabled" "ds_ReviewFrequency source \<noteq> ReviewFrequencyEventTriggered"
    "0 < reviewBase source lastConfirmed" "due = nextReviewDue loc (reviewBase source lastConfirmed) (ds_ReviewFrequency source)"
    "0 < due" "due - now \<le> 18446744073"
  shows "fr_IsTask (evaluateDataSourceFreshness loc source lastConfirmed now) \<longleftrightarrow>
      due \<le> now + 7 * 24 * 3600 \<or> 9223372037 \<le> due - now"
proof (cases "due \<le> now")
  case False
  with assms wrapped_distance [of "due - now"] show ?thesis by (auto simp: freshness_task)
qed (use assms in \<open>simp add: freshness_task\<close>)

text \<open>
  A review confirmed right now, in a zone without shifts: the next one is seven days, or 28 to 93
  days ahead.
\<close>

lemma confirmed_base:
  "0 < now \<Longrightarrow> ds_EffectiveUnix source \<le> now \<Longrightarrow> ds_UpdatedUnix source \<le> now \<Longrightarrow> reviewBase source now = now"
  by (auto simp: reviewBase_def Let_def)

lemma confirmed_task:
  assumes "ds_Status source = DataSourceStatusEnabled" "0 < now" "ds_EffectiveUnix source \<le> now" "ds_UpdatedUnix source \<le> now"
  shows "fr_IsTask (evaluateDataSourceFreshness (\<lambda>_. c) source now now) \<longleftrightarrow> ds_ReviewFrequency source = ReviewFrequencyWeekly"
proof -
  note base = confirmed_base [OF assms(2-4)]
  show ?thesis
  proof (cases "ds_ReviewFrequency source")
    case ReviewFrequencyWeekly
    then show ?thesis
      using assms base freshness_window [of source now "now + 7 * 86400" "\<lambda>_. c" now] addDate_days [of c now 7]
      by (simp add: nextReviewDue_def)
  next
    case ReviewFrequencyMonthly
    then show ?thesis
      using assms base freshness_window [of source now "addDate (\<lambda>_. c) now 1 0" "\<lambda>_. c" now] addDate_months [of now 1 c]
      by (simp add: nextReviewDue_def)
  next
    case ReviewFrequencyQuarterly
    then show ?thesis
      using assms base freshness_window [of source now "addDate (\<lambda>_. c) now 3 0" "\<lambda>_. c" now] addDate_months [of now 3 c]
      by (simp add: nextReviewDue_def)
  qed (use assms base in \<open>simp_all add: evaluateDataSourceFreshness_def nextReviewDue_def Let_def\<close>)
qed

section \<open>The latest confirmation\<close>

lemma latest_fold:
  "fold (\<lambda>e latest. if latest (ae_EntityID e) = None then latest(ae_EntityID e \<mapsto> ae_CreatedUnix e) else latest) events m i =
   (case m i of Some t \<Rightarrow> Some t | None \<Rightarrow> map_option ae_CreatedUnix (List.find (\<lambda>e. ae_EntityID e = i) events))"
  by (induction events arbitrary: m) (auto split: option.splits)

lemma latestByEntity_find:
  "latestByEntity events i = map_option ae_CreatedUnix (List.find (\<lambda>e. ae_EntityID e = i) events)"
  by (simp add: latestByEntity_def latest_fold)

lemma find_sorted:
  assumes "sorted (map f xs)" "x \<in> set xs" "P x"
  obtains y where "List.find P xs = Some y" "y \<in> set xs" "P y" "f y \<le> f x"
proof -
  have "\<exists>y. List.find P xs = Some y \<and> y \<in> set xs \<and> P y \<and> f y \<le> f x"
    using assms by (induction xs) auto
  then show thesis using that by blast
qed

lemma latest_confirmation:
  fixes sources d
  defines "events \<equiv> sort_key (\<lambda>r. - ae_CreatedUnix r) (tblFind (confirmation (map ds_ID sources)) (auditEvents d))"
  assumes "source \<in> set sources" "e \<in> set (rows (auditEvents d))" "confirmation [ds_ID source] e"
  shows "ae_CreatedUnix e \<le> lastReview (latestByEntity events) source"
proof -
  have "e \<in> set events" "ae_EntityID e = ds_ID source"
    using assms by (auto simp: tblFind_def confirmation_def)
  moreover obtain y where "List.find (\<lambda>e. ae_EntityID e = ds_ID source) events = Some y" "- ae_CreatedUnix y \<le> - ae_CreatedUnix e"
    using find_sorted [of "\<lambda>r. - ae_CreatedUnix r" events e "\<lambda>e. ae_EntityID e = ds_ID source"] calculation
    unfolding events_def by (metis sorted_sort_key)
  ultimately show ?thesis by (simp add: lastReview_def latestByEntity_find)
qed

section \<open>Confirming a review\<close>

lemma insertDataSourceAudit_stamp:
  assumes "insertDataSourceAudit source actorID ''data_source_review_confirmed'' result w = (Inr u, w')"
    "\<And>n. clock (env w) n div second = now"
  shows "\<exists>te event. db w' = (db w)\<lparr>auditEvents := te\<rparr> \<and> rows te = rows (auditEvents (db w)) @ [event] \<and>
     confirmation [ds_ID source] event \<and> ae_CreatedUnix event = now \<and> env w' = env w"
  using assms(1)
  by (auto simp: insertDataSourceAudit_def run_simps confirmation_def ae_stamp_def currentUnix_def assms(2) dest!: audit_insertD)

lemma ConfirmDataSourceReview_stamp:
  assumes "ConfirmDataSourceReview i actorID w = (Inr u, w')" "\<And>n. clock (env w) n div second = now"
  obtains te event where "db w' = (db w)\<lparr>auditEvents := te\<rparr>" "rows te = rows (auditEvents (db w)) @ [event]"
    "confirmation [i] event" "ae_CreatedUnix event = now" "env w' = env w"
proof -
  from assms(1) obtain source v w1 w2 where "insertDataSourceAudit source v ''data_source_review_confirmed'' ''succeeded'' w1 = (Inr u, w2)"
    "db w1 = db w" "env w1 = env w" "db w' = db w2" "env w' = env w2" "ds_ID source = i"
    unfolding ConfirmDataSourceReview_def confirmReview_def
    by (auto simp: run_simps split: if_splits dest: tblGet_id)
  with insertDataSourceAudit_stamp [of source v _ w1 u w2 now] assms(2) that show thesis by auto
qed

lemma loadLatest_run:
  assumes "\<not> faults (env w) (calls w)"
  obtains w' where "loadLatestDataSourceReviewEvents sources w =
     (Inr (latestByEntity (sort_key (\<lambda>r. - ae_CreatedUnix r) (tblFind (confirmation (map ds_ID sources)) (auditEvents (db w))))), w')"
    "db w' = db w" "env w' = env w"
proof (cases "sources = []")
  case True
  then show thesis
    by (intro that [of w]) (simp_all add: loadLatestDataSourceReviewEvents_def exec_simps tblFind_def confirmation_def latestByEntity_def)
next
  case False
  with assms show thesis
    by (intro that [of "w\<lparr>calls := Suc (calls w), db := db w\<rparr>"])
      (simp_all add: loadLatestDataSourceReviewEvents_def orEmpty_def findAllDesc_def query_def dbCall_def exec_simps Let_def)
qed

lemma lastReview_bound:
  assumes "list_all (\<lambda>e. ae_CreatedUnix e \<le> now) (rows (auditEvents d))" "0 \<le> now"
  shows "lastReview (latestByEntity (sort_key (\<lambda>r. - ae_CreatedUnix r) (tblFind P (auditEvents d)))) source \<le> now"
  using assms
  by (auto simp: lastReview_def latestByEntity_find list_all_iff tblFind_set split: option.split dest!: find_SomeD)

definition sourceTasks :: "User \<Rightarrow> TimeStamp \<Rightarrow> (int \<Rightarrow> int) \<Rightarrow> database \<Rightarrow> dashboardDataSourceTask list" where
  "sourceTasks doer now loc d =
     (let sources = sort_key ds_ExpiresUnix (tblFind (\<lambda>s. ds_Status s = DataSourceStatusEnabled) (dataSources d));
          events = sort_key (\<lambda>r. - ae_CreatedUnix r) (tblFind (confirmation (map ds_ID sources)) (auditEvents d))
      in List.map_filter (sourceTask loc doer (latestByEntity events) now) sources)"

text \<open>The list of tasks, when every query runs.\<close>

lemma governanceTasks_run:
  assumes "\<And>n. \<not> faults (env w) n" "\<And>n. clock (env w) n div second = now"
  shows "\<exists>w'. loadDataSourceGovernanceTasks doer w = (Inr (sourceTasks doer now (zone (env w)) (db w)), w')"
proof -
  let ?w1 = "w\<lparr>calls := Suc (calls w), db := db w\<rparr>"
  let ?sources = "sort_key ds_ExpiresUnix (tblFind (\<lambda>s. ds_Status s = DataSourceStatusEnabled) (dataSources (db w)))"
  have "orEmpty (findAsc dataSources ds_ExpiresUnix (\<lambda>s. ds_Status s = DataSourceStatusEnabled)) w = (Inr ?sources, ?w1)"
    using assms(1) by (simp add: orEmpty_def findAsc_def query_def dbCall_def exec_simps Let_def)
  moreover obtain w2 where "loadLatestDataSourceReviewEvents ?sources ?w1 =
     (Inr (latestByEntity (sort_key (\<lambda>r. - ae_CreatedUnix r) (tblFind (confirmation (map ds_ID ?sources)) (auditEvents (db w))))), w2)"
    "env w2 = env w"
    using loadLatest_run [of ?w1 ?sources] assms(1) by auto
  ultimately show ?thesis
    by (simp add: loadDataSourceGovernanceTasks_def andThen_def timeStampNow_def timeNow_def askEnv_def ret_def sourceTasks_def Let_def assms(2))
qed

lemma map_filter_set: "set (List.map_filter f xs) = {y. \<exists>x \<in> set xs. f x = Some y}"
  by (induction xs) (auto simp: map_filter_simps split: option.splits)

lemma map_filter_ids:
  assumes "\<And>s t. f s = Some t \<Longrightarrow> g t = h s" "x \<in> set xs" "\<And>s. s \<in> set xs \<Longrightarrow> h s = h x \<Longrightarrow> s = x"
  shows "h x \<in> g ` set (List.map_filter f xs) \<longleftrightarrow> f x \<noteq> None"
proof
  assume "h x \<in> g ` set (List.map_filter f xs)"
  then obtain s t where "s \<in> set xs" "f s = Some t" "h x = g t" unfolding map_filter_set by blast
  with assms(1,3) show "f x \<noteq> None" by (metis option.distinct(1))
next
  assume "f x \<noteq> None"
  then obtain t where "f x = Some t" by blast
  with assms(1,2) show "h x \<in> g ` set (List.map_filter f xs)" unfolding map_filter_set by (metis (mono_tags, lifting) image_eqI mem_Collect_eq)
qed

lemma sourceTask_id: "sourceTask loc doer latest now s = Some t \<Longrightarrow> dt_ID t = ds_ID s"
  by (auto simp: sourceTask_def Let_def split: if_splits)

lemma sourceTask_None: "sourceTask loc doer latest now s \<noteq> None \<longleftrightarrow>
    fr_IsTask (evaluateDataSourceFreshness loc s (lastReview latest s) now)"
  by (simp add: sourceTask_def Let_def)

lemma sourceTasks_ids:
  assumes "tblWf ds_ID (dataSources d)" "source \<in> set (rows (dataSources d))" "ds_Status source = DataSourceStatusEnabled"
  shows "ds_ID source \<in> dt_ID ` set (sourceTasks doer now loc d) \<longleftrightarrow>
    fr_IsTask (evaluateDataSourceFreshness loc source (lastReview (latestByEntity (sort_key (\<lambda>r. - ae_CreatedUnix r)
      (tblFind (confirmation (map ds_ID (sort_key ds_ExpiresUnix (tblFind (\<lambda>s. ds_Status s = DataSourceStatusEnabled) (dataSources d)))))
        (auditEvents d)))) source) now)"
proof -
  have "s = source" if "s \<in> set (rows (dataSources d))" "ds_ID s = ds_ID source" for s
    by (metis that tblWf_get [OF assms(1)] assms(2) option.inject)
  then have "ds_ID source \<in> dt_ID ` set (sourceTasks doer now loc d) \<longleftrightarrow>
    sourceTask loc doer (latestByEntity (sort_key (\<lambda>r. - ae_CreatedUnix r)
      (tblFind (confirmation (map ds_ID (sort_key ds_ExpiresUnix (tblFind (\<lambda>s. ds_Status s = DataSourceStatusEnabled) (dataSources d)))))
        (auditEvents d)))) now source \<noteq> None"
    unfolding sourceTasks_def Let_def using assms(2,3)
    by (intro map_filter_ids) (auto simp: tblFind_set sourceTask_id inj_on_def)
  then show ?thesis by (simp only: sourceTask_None)
qed

text \<open>The tasks right after a review was confirmed, in a zone without shifts and at a clock that stands.\<close>

lemma tasks_after_confirmation:
  assumes "ConfirmDataSourceReview i actorID w = (Inr u, w')" "\<And>n. clock (env w) n div second = now"
    and wf: "tblWf ds_ID (dataSources (db w))" and source: "tblGet ds_ID i (dataSources (db w)) = Some source"
    and past: "0 < now" "ds_EffectiveUnix source \<le> now" "ds_UpdatedUnix source \<le> now"
      "list_all (\<lambda>e. ae_CreatedUnix e \<le> now) (rows (auditEvents (db w)))"
  shows "i \<in> dt_ID ` set (sourceTasks doer now (\<lambda>_. c) (db w')) \<longleftrightarrow> ds_ReviewFrequency source = ReviewFrequencyWeekly"
proof -
  from ConfirmDataSourceReview_run [OF assms(1)] source have enabled: "ds_Status source = DataSourceStatusEnabled" by auto
  from source have id: "ds_ID source = i" and mem: "source \<in> set (rows (dataSources (db w)))" by (auto dest: tblGetD)
  obtain te event where w': "db w' = (db w)\<lparr>auditEvents := te\<rparr>" "rows te = rows (auditEvents (db w)) @ [event]"
    "confirmation [i] event" "ae_CreatedUnix event = now"
    using ConfirmDataSourceReview_stamp [OF assms(1,2)] by metis
  let ?sources = "sort_key ds_ExpiresUnix (tblFind (\<lambda>s. ds_Status s = DataSourceStatusEnabled) (dataSources (db w)))"
  let ?events = "sort_key (\<lambda>r. - ae_CreatedUnix r) (tblFind (confirmation (map ds_ID ?sources)) (auditEvents (db w')))"
  have "now \<le> lastReview (latestByEntity ?events) source"
    using latest_confirmation [of source ?sources event "db w'"] w' mem enabled id by (simp add: tblFind_set)
  moreover have "lastReview (latestByEntity ?events) source \<le> now"
    by (rule lastReview_bound) (use w' past in auto)
  ultimately show ?thesis
    using sourceTasks_ids [of "db w'" source doer now "\<lambda>_. c"] confirmed_task [OF enabled past(1-3), of c] wf mem enabled id w'(1)
    by simp
qed

section \<open>Resolved tasks\<close>

lemma unresolvedTasks_run:
  assumes "unresolvedTasks (query q) entityType rowID task w = (Inr ts, w')" "\<And>n. \<not> faults (env w) n"
  shows "ts = map task (filter (\<lambda>r. \<not> list_ex (resolvedTask entityType (rowID r)) (rows (auditEvents (db w)))) (q (db w)))"
    "db w' = db w" "env w' = env w"
proof -
  have resolved: "rowID r \<in> set (map ae_EntityID (tblFind (\<lambda>a. ae_EntityID a \<in> set (map rowID (q (db w))) \<and>
      ae_Action a = ''knowledge.quality_task.resolved'' \<and> ae_EntityType a = entityType \<and> ae_Result a = ''succeeded'')
      (auditEvents (db w)))) \<longleftrightarrow> list_ex (resolvedTask entityType (rowID r)) (rows (auditEvents (db w)))"
    if "r \<in> set (q (db w))" for r
    using that by (auto simp: tblFind_def resolvedTask_def qualityTaskResolved_def list_ex_iff intro!: rev_image_eqI)
  show "db w' = db w" "env w' = env w"
    "ts = map task (filter (\<lambda>r. \<not> list_ex (resolvedTask entityType (rowID r)) (rows (auditEvents (db w)))) (q (db w)))"
    using assms resolved
    by (auto simp: unresolvedTasks_def loadResolvedQualityTaskIDs_def orEmpty_def findRows_def query_def exec_simps Let_def
        split: if_splits cong: filter_cong)
qed

end
