(* ===== verification/Console.thy ===== *)
theory Console
  imports Reminders Reviewed Settings
begin

text \<open>
  What the console shows, \<^verbatim>\<open>routers/web/knowledge/dashboard.go\<close>: the rows of its lists with their
  labels and with the actions they offer, the counts, the repository files that can be picked, and
  \<open>Dashboard\<close>, which puts them on one page.

  The lemmas show that the page only reads, and what the rows say about the database.
\<close>

section \<open>Labels\<close>

primrec dataSourceTypeLabel :: "DataSourceType \<Rightarrow> string" where
  "dataSourceTypeLabel DataSourceTypePolicy = (utf8 [21046, 24230, 24211])"
| "dataSourceTypeLabel DataSourceTypeProcedure = (utf8 [27969, 31243, 19982, 20316, 19994, 25163, 20876])"
| "dataSourceTypeLabel DataSourceTypeProduct = (utf8 [20135, 21697, 36164, 26009])"
| "dataSourceTypeLabel DataSourceTypeTraining = (utf8 [22521, 35757, 36164, 26009])"
| "dataSourceTypeLabel DataSourceTypeFAQ = (utf8 [24120, 35265, 38382, 31572])"
| "dataSourceTypeLabel DataSourceTypeCase = (utf8 [26696, 20363, 36164, 26009])"
| "dataSourceTypeLabel DataSourceTypeTicket = (utf8 [24037, 21333, 35760, 24405])"
| "dataSourceTypeLabel DataSourceTypePublicMaterial = (utf8 [22806, 37096, 20844, 24320, 26448, 26009])"
| "dataSourceTypeLabel DataSourceTypeDatabase = (utf8 [25968, 25454, 24211] @ ''/'' @ utf8 [19994, 21153, 31995, 32479])"
| "dataSourceTypeLabel DataSourceTypeAPI = (utf8 [22806, 37096] @ '' API'')"
| "dataSourceTypeLabel DataSourceTypeFileRepository = (utf8 [25991, 20214, 36164, 26009, 24211])"
| "dataSourceTypeLabel (DataSourceTypeOther s) = ''''"

primrec securityLevelLabel :: "SecurityLevel \<Rightarrow> string" where
  "securityLevelLabel SecurityLevelPublic = (utf8 [19968, 32423, 20844, 24320])"
| "securityLevelLabel SecurityLevelInternal = (utf8 [20108, 32423, 20869, 37096])"
| "securityLevelLabel SecurityLevelRestricted = (utf8 [19977, 32423, 21463, 38480])"
| "securityLevelLabel SecurityLevelProhibited = (utf8 [22235, 32423, 31105, 27490, 20837, 24211])"
| "securityLevelLabel (SecurityLevelOther s) = ''''"

primrec dataSourceStatusLabel :: "DataSourceStatus \<Rightarrow> string" where
  "dataSourceStatusLabel DataSourceStatusDraft = (utf8 [33609, 31295])"
| "dataSourceStatusLabel DataSourceStatusPendingReview = (utf8 [24453, 23457, 26680])"
| "dataSourceStatusLabel DataSourceStatusApproved = (utf8 [24050, 25209, 20934])"
| "dataSourceStatusLabel DataSourceStatusEnabled = (utf8 [24050, 21551, 29992])"
| "dataSourceStatusLabel DataSourceStatusSuspended = (utf8 [24050, 20572, 29992])"
| "dataSourceStatusLabel DataSourceStatusExpired = (utf8 [24050, 36807, 26399])"
| "dataSourceStatusLabel DataSourceStatusArchived = (utf8 [24050, 24402, 26723])"

primrec searchabilityStatusLabel :: "SearchabilityStatus \<Rightarrow> string" where
  "searchabilityStatusLabel SearchabilityStatusSearchable = (utf8 [21487, 20840, 25991, 26816, 32034])"
| "searchabilityStatusLabel SearchabilityStatusOCRRequired = (utf8 [38656, 23436, 25104] @ '' OCR'')"
| "searchabilityStatusLabel SearchabilityStatusNotSearchable = (utf8 [19981, 21487, 26816, 32034])"
| "searchabilityStatusLabel (SearchabilityStatusOther s) = ''''"

primrec governanceStatusLabel :: "GovernanceStatus \<Rightarrow> string" where
  "governanceStatusLabel GovernanceStatusDraft = (utf8 [33609, 31295])"
| "governanceStatusLabel GovernanceStatusPending = (utf8 [24453, 23457, 26680])"
| "governanceStatusLabel GovernanceStatusRejected = (utf8 [24050, 39539, 22238])"
| "governanceStatusLabel GovernanceStatusApproved = (utf8 [24050, 25209, 20934])"
| "governanceStatusLabel GovernanceStatusWithdrawn = (utf8 [24050, 25764, 22238])"

primrec validityStatusLabel :: "ValidityStatus \<Rightarrow> string" where
  "validityStatusLabel ValidityStatusScheduled = (utf8 [24453, 29983, 25928])"
| "validityStatusLabel ValidityStatusCurrent = (utf8 [24403, 21069, 26377, 25928])"
| "validityStatusLabel ValidityStatusExpired = (utf8 [24050, 22833, 25928])"
| "validityStatusLabel ValidityStatusUnpublished = (utf8 [24050, 19979, 26550])"
| "validityStatusLabel ValidityStatusArchived = (utf8 [24050, 24402, 26723])"

primrec indexStatusLabel :: "IndexStatus \<Rightarrow> string" where
  "indexStatusLabel IndexStatusUnindexed = (utf8 [26410, 32034, 24341])"
| "indexStatusLabel IndexStatusQueued = (utf8 [24453, 22788, 29702])"
| "indexStatusLabel IndexStatusIndexing = (utf8 [32034, 24341, 20013])"
| "indexStatusLabel IndexStatusEvaluation = (utf8 [24453, 35780, 27979])"
| "indexStatusLabel IndexStatusSearchable = (utf8 [21487, 26816, 32034])"
| "indexStatusLabel IndexStatusFailed = (utf8 [32034, 24341, 22833, 36133])"
| "indexStatusLabel IndexStatusSuperseded = (utf8 [24050, 26367, 20195])"
| "indexStatusLabel IndexStatusDeleting = (utf8 [21024, 38500, 20013])"
| "indexStatusLabel IndexStatusDeleted = (utf8 [24050, 21024, 38500])"

primrec indexJobTypeLabel :: "IndexJobType \<Rightarrow> string" where
  "indexJobTypeLabel IndexJobTypeUpsert = (utf8 [20889, 20837, 32034, 24341])"
| "indexJobTypeLabel IndexJobTypePoll = (utf8 [26597, 35810, 29366, 24577])"
| "indexJobTypeLabel IndexJobTypeDelete = (utf8 [21024, 38500, 32034, 24341])"
| "indexJobTypeLabel IndexJobTypeRebuild = (utf8 [37325, 24314, 32034, 24341])"

primrec indexJobStatusLabel :: "IndexJobStatus \<Rightarrow> string" where
  "indexJobStatusLabel IndexJobStatusQueued = (utf8 [24453, 22788, 29702])"
| "indexJobStatusLabel IndexJobStatusRunning = (utf8 [22788, 29702, 20013])"
| "indexJobStatusLabel IndexJobStatusRetry = (utf8 [31561, 24453, 37325, 35797])"
| "indexJobStatusLabel IndexJobStatusSucceeded = (utf8 [24050, 23436, 25104])"
| "indexJobStatusLabel IndexJobStatusFailed = (utf8 [22833, 36133])"
| "indexJobStatusLabel IndexJobStatusCancelled = (utf8 [24050, 21462, 28040])"

definition reviewTypeLabel :: "string \<Rightarrow> string" where
  "reviewTypeLabel value =
     (case map_of [(''source'', (utf8 [25968, 25454, 28304])), (''content'', (utf8 [20869, 23481, 36136, 37327])), (''permission'', (utf8 [26435, 38480, 33539, 22260])),
        (''sensitive'', (utf8 [25935, 24863, 20449, 24687])), (''format'', (utf8 [26684, 24335, 21487, 26816, 32034, 24615])), (''release'', (utf8 [21457, 24067, 20934, 20837]))] value of
        None \<Rightarrow> '''' | Some label \<Rightarrow> label)"

definition reviewStatusLabel :: "string \<Rightarrow> string" where
  "reviewStatusLabel value =
     (case map_of [(''pending'', (utf8 [24453, 23457, 26680])), (''passed'', (utf8 [24050, 36890, 36807])), (''failed'', (utf8 [26410, 36890, 36807]))] value of
        None \<Rightarrow> '''' | Some label \<Rightarrow> label)"

section \<open>Counts\<close>

record dashboardCounts =
  dc_Spaces :: int
  dc_DataSources :: int
  dc_Documents :: int
  dc_Publications :: int
  dc_QueuedJobs :: int
  dc_FailedJobs :: int
  dc_Retrievals :: int
  dc_NoAnswer :: int
  dc_Feedback :: int
  dc_ExpiredSources :: int

definition countAll :: "(database \<Rightarrow> 'r table) \<Rightarrow> int prog" where
  "countAll sel = countRows sel (\<lambda>_. True)"

definition loadCounts :: "dashboardCounts prog" where
  "loadCounts =
     andThen (countAll spaces) (\<lambda>spaceCount.
     andThen (countAll documents) (\<lambda>documentCount.
     andThen (countAll dataSources) (\<lambda>sourceCount.
     andThen (countAll publications) (\<lambda>publicationCount.
     andThen (countRows indexJobs (\<lambda>j. job_Status j = IndexJobStatusQueued \<or> job_Status j = IndexJobStatusRetry \<or>
       job_Status j = IndexJobStatusRunning)) (\<lambda>queuedJobs.
     andThen (countRows indexJobs (\<lambda>j. job_Status j = IndexJobStatusFailed)) (\<lambda>failedJobs.
     andThen (countAll retrievalEvents) (\<lambda>retrievals.
     andThen (countRows retrievalEvents (\<lambda>e. re_Outcome e = ''empty'')) (\<lambda>noAnswer.
     andThen (countAll feedbacks) (\<lambda>feedback.
     andThen timeStampNow (\<lambda>now.
     andThen (countRows dataSources (\<lambda>s. 0 < ds_ExpiresUnix s \<and> ds_ExpiresUnix s \<le> now)) (\<lambda>expired.
     ret \<lparr>dc_Spaces = spaceCount, dc_DataSources = sourceCount, dc_Documents = documentCount,
          dc_Publications = publicationCount, dc_QueuedJobs = queuedJobs, dc_FailedJobs = failedJobs,
          dc_Retrievals = retrievals, dc_NoAnswer = noAnswer, dc_Feedback = feedback, dc_ExpiredSources = expired\<rparr>)))))))))))"

section \<open>Jobs and documents\<close>

record dashboardJob =
  dj_ID :: int
  dj_PublicationID :: int
  dj_JobType :: IndexJobType
  dj_JobTypeLabel :: string
  dj_Status :: IndexJobStatus
  dj_StatusLabel :: string
  dj_Attempt :: int
  dj_MaxAttempts :: int
  dj_EngineProfileVersion :: string
  dj_LastError :: string
  dj_CanProcess :: bool

definition jobRow :: "IndexJob \<Rightarrow> dashboardJob" where
  "jobRow job =
     \<lparr>dj_ID = job_ID job, dj_PublicationID = job_PublicationID job, dj_JobType = job_JobType job,
      dj_JobTypeLabel = indexJobTypeLabel (job_JobType job), dj_Status = job_Status job,
      dj_StatusLabel = indexJobStatusLabel (job_Status job), dj_Attempt = job_Attempt job,
      dj_MaxAttempts = job_MaxAttempts job, dj_EngineProfileVersion = job_EngineProfileVersion job,
      dj_LastError = job_LastError job,
      dj_CanProcess = (job_Status job = IndexJobStatusQueued \<or> job_Status job = IndexJobStatusRetry)\<rparr>"

definition loadRecentJobs :: "dashboardJob list prog" where
  "loadRecentJobs = andThen (findDesc indexJobs job_UpdatedUnix (\<lambda>_. True) dashboardLimit) (\<lambda>jobs. ret (map jobRow jobs))"

record dashboardDocument =
  dd_ID :: int
  dd_SpaceID :: int
  dd_DataSourceID :: int
  dd_Title :: string
  dd_RepoPath :: string
  dd_MIMEType :: string
  dd_GovernanceStatus :: GovernanceStatus
  dd_GovernanceLabel :: string
  dd_CurrentRevisionID :: int

definition documentRow :: "Document \<Rightarrow> dashboardDocument" where
  "documentRow document =
     \<lparr>dd_ID = doc_ID document, dd_SpaceID = doc_SpaceID document, dd_DataSourceID = doc_DataSourceID document,
      dd_Title = doc_Title document, dd_RepoPath = doc_RepoPath document, dd_MIMEType = doc_MIMEType document,
      dd_GovernanceStatus = doc_GovernanceStatus document,
      dd_GovernanceLabel = governanceStatusLabel (doc_GovernanceStatus document),
      dd_CurrentRevisionID = doc_CurrentRevisionID document\<rparr>"

definition loadRecentDocuments :: "dashboardDocument list prog" where
  "loadRecentDocuments =
     andThen (orEmpty (findDesc documents doc_UpdatedUnix (\<lambda>_. True) dashboardLimit)) (\<lambda>ds. ret (map documentRow ds))"

section \<open>Data sources\<close>

record dashboardDataSource =
  dx_ID :: int
  dx_SpaceID :: int
  dx_SourceCode :: string
  dx_Name :: string
  dx_SourceType :: DataSourceType
  dx_SourceTypeLabel :: string
  dx_BusinessDomainCode :: string
  dx_ContentTypeCode :: string
  dx_SecurityLevel :: SecurityLevel
  dx_SecurityLevelLabel :: string
  dx_Status :: DataSourceStatus
  dx_StatusLabel :: string
  dx_ContentOwnerName :: string
  dx_MaintenanceOwnerName :: string
  dx_EffectiveUnix :: TimeStamp
  dx_ExpiresUnix :: TimeStamp
  dx_SearchabilityStatus :: SearchabilityStatus
  dx_SearchabilityLabel :: string
  dx_CanApprove :: bool
  dx_ConnectorType :: string
  dx_CanSync :: bool
  dx_ReviewStatusLabel :: string
  dx_ReviewDueUnix :: TimeStamp

definition ownerName :: "int \<Rightarrow> string prog" where
  "ownerName userID =
     andThen (attempt (getUserByID userID)) (\<lambda>found.
     ret (case found of Inl _ \<Rightarrow> CHR ''#'' # itoa userID | Inr owner \<Rightarrow> user_Name owner))"

definition sourceRow :: "User \<Rightarrow> string \<Rightarrow> string \<Rightarrow> dataSourceFreshness \<Rightarrow> DataSource \<Rightarrow> dashboardDataSource" where
  "sourceRow doer contentOwnerName maintenanceOwnerName freshness source =
     \<lparr>dx_ID = ds_ID source, dx_SpaceID = ds_SpaceID source, dx_SourceCode = ds_SourceCode source, dx_Name = ds_Name source,
      dx_SourceType = ds_SourceType source, dx_SourceTypeLabel = dataSourceTypeLabel (ds_SourceType source),
      dx_BusinessDomainCode = ds_BusinessDomainCode source, dx_ContentTypeCode = ds_ContentTypeCode source,
      dx_SecurityLevel = ds_SecurityLevel source, dx_SecurityLevelLabel = securityLevelLabel (ds_SecurityLevel source),
      dx_Status = ds_Status source, dx_StatusLabel = dataSourceStatusLabel (ds_Status source),
      dx_ContentOwnerName = contentOwnerName, dx_MaintenanceOwnerName = maintenanceOwnerName,
      dx_EffectiveUnix = ds_EffectiveUnix source, dx_ExpiresUnix = ds_ExpiresUnix source,
      dx_SearchabilityStatus = ds_SearchabilityStatus source,
      dx_SearchabilityLabel = searchabilityStatusLabel (ds_SearchabilityStatus source),
      dx_CanApprove = (user_IsAdmin doer \<and> ds_Status source = DataSourceStatusPendingReview \<and> ds_CreatedBy source \<noteq> user_ID doer),
      dx_ConnectorType = ds_ConnectorType source,
      dx_CanSync = (user_IsAdmin doer \<and> ds_Status source = DataSourceStatusEnabled \<and>
        ds_SourceType source = DataSourceTypeDatabase \<and> ds_ConnectorType source = ''mysql''),
      dx_ReviewStatusLabel = fr_Label freshness, dx_ReviewDueUnix = fr_DueUnix freshness\<rparr>"

definition addSourceRow ::
  "(int \<Rightarrow> int) \<Rightarrow> User \<Rightarrow> (int \<rightharpoonup> TimeStamp) \<Rightarrow> TimeStamp \<Rightarrow> dashboardDataSource list \<Rightarrow> DataSource \<Rightarrow> dashboardDataSource list prog" where
  "addSourceRow loc doer latest now listed source =
     andThen (ownerName (ds_ContentOwnerID source)) (\<lambda>contentOwnerName.
     andThen (ownerName (ds_MaintenanceOwnerID source)) (\<lambda>maintenanceOwnerName.
     ret (listed @ [sourceRow doer contentOwnerName maintenanceOwnerName
       (evaluateDataSourceFreshness loc source (lastReview latest source) now) source])))"

definition loadRecentDataSources :: "User \<Rightarrow> dashboardDataSource list prog" where
  "loadRecentDataSources doer =
     andThen (orEmpty (findDesc dataSources ds_UpdatedUnix (\<lambda>_. True) dashboardLimit)) (\<lambda>sources.
     andThen (loadLatestDataSourceReviewEvents sources) (\<lambda>latest.
     andThen timeStampNow (\<lambda>now.
     andThen (askEnv zone) (\<lambda>loc.
     foldM (addSourceRow loc doer latest now) [] sources))))"

definition loadEnabledDataSources :: "DataSource list prog" where
  "loadEnabledDataSources =
     orEmpty (findAsc dataSources ds_Name (\<lambda>s. ds_Status s = DataSourceStatusEnabled \<and> ds_SecurityLevel s \<noteq> SecurityLevelProhibited))"

section \<open>Approvals\<close>

record dashboardReviewCheck =
  dk_ReviewType :: string
  dk_ReviewLabel :: string
  dk_Status :: string
  dk_StatusLabel :: string
  dk_CanReview :: bool

definition reviewRow :: "bool \<Rightarrow> ReviewCheck \<Rightarrow> dashboardReviewCheck" where
  "reviewRow canReview check =
     \<lparr>dk_ReviewType = rc_ReviewType check, dk_ReviewLabel = reviewTypeLabel (rc_ReviewType check), dk_Status = rc_Status check,
      dk_StatusLabel = reviewStatusLabel (rc_Status check), dk_CanReview = (canReview \<and> rc_Status check = ''pending'')\<rparr>"

definition loadReviewChecks :: "int \<Rightarrow> bool \<Rightarrow> dashboardReviewCheck list prog" where
  "loadReviewChecks revisionID canReview =
     andThen (orEmpty (findAsc reviewChecks rc_ID (\<lambda>c. rc_RevisionID c = revisionID))) (\<lambda>checks.
     ret (map (reviewRow canReview) checks))"

record dashboardApproval =
  da_ID :: int
  da_RevisionID :: int
  da_RequestedBy :: int
  da_Status :: ApprovalStatus
  da_DocumentID :: int
  da_Title :: string
  da_FileName :: string
  da_ReviewChecks :: "dashboardReviewCheck list"
  da_CanReview :: bool
  da_CanApprove :: bool

definition approvalRow :: "User \<Rightarrow> Approval \<Rightarrow> Revision \<Rightarrow> Document \<Rightarrow> dashboardReviewCheck list \<Rightarrow> dashboardApproval" where
  "approvalRow doer approval revision document checks =
     (let reviewer = (user_IsAdmin doer \<and> appr_RequestedBy approval \<noteq> user_ID doer);
          allPassed = (length checks = length RequiredReviewTypes \<and> list_all (\<lambda>c. dk_Status c = ''passed'') checks)
      in \<lparr>da_ID = appr_ID approval, da_RevisionID = appr_RevisionID approval, da_RequestedBy = appr_RequestedBy approval,
          da_Status = appr_Status approval, da_DocumentID = doc_ID document, da_Title = doc_Title document,
          da_FileName = rev_FileName revision, da_ReviewChecks = checks, da_CanReview = reviewer,
          da_CanApprove = (reviewer \<and> allPassed)\<rparr>)"

text \<open>An approval whose revision or document cannot be read is left out.\<close>

definition addApprovalRow :: "User \<Rightarrow> dashboardApproval list \<Rightarrow> Approval \<Rightarrow> dashboardApproval list prog" where
  "addApprovalRow doer listed approval =
     orSkip (getByID rev_ID revisions (appr_RevisionID approval)) listed (\<lambda>revision.
     orSkip (getByID doc_ID documents (rev_DocumentID revision)) listed (\<lambda>document.
     andThen (loadReviewChecks (appr_RevisionID approval) (user_IsAdmin doer \<and> appr_RequestedBy approval \<noteq> user_ID doer)) (\<lambda>checks.
     ret (listed @ [approvalRow doer approval revision document checks]))))"

definition loadPendingApprovals :: "User \<Rightarrow> dashboardApproval list prog" where
  "loadPendingApprovals doer =
     andThen (orEmpty (findDesc approvals appr_RequestedUnix (\<lambda>a. appr_Status a = ApprovalStatusPending) dashboardLimit)) (\<lambda>pending.
     foldM (addApprovalRow doer) [] pending)"

section \<open>Publications, connections and runs\<close>

record dashboardPublication =
  dp_ID :: int
  dp_SpaceID :: int
  dp_DocumentID :: int
  dp_Generation :: int
  dp_ValidityStatus :: ValidityStatus
  dp_ValidityLabel :: string
  dp_IndexStatus :: IndexStatus
  dp_IndexLabel :: string
  dp_IsCurrent :: bool
  dp_RevocationGeneration :: int
  dp_CanActivate :: bool
  dp_CanUnpublish :: bool
  dp_CanRetry :: bool

definition publicationRow :: "User \<Rightarrow> Publication \<Rightarrow> dashboardPublication" where
  "publicationRow doer publication =
     \<lparr>dp_ID = pub_ID publication, dp_SpaceID = pub_SpaceID publication, dp_DocumentID = pub_DocumentID publication,
      dp_Generation = pub_Generation publication, dp_ValidityStatus = pub_ValidityStatus publication,
      dp_ValidityLabel = validityStatusLabel (pub_ValidityStatus publication), dp_IndexStatus = pub_IndexStatus publication,
      dp_IndexLabel = indexStatusLabel (pub_IndexStatus publication), dp_IsCurrent = pub_IsCurrent publication,
      dp_RevocationGeneration = pub_RevocationGeneration publication,
      dp_CanActivate = (user_IsAdmin doer \<and> pub_ValidityStatus publication = ValidityStatusScheduled \<and>
        pub_IndexStatus publication = IndexStatusEvaluation),
      dp_CanUnpublish = (user_IsAdmin doer \<and> pub_IsCurrent publication \<and> pub_ValidityStatus publication = ValidityStatusCurrent),
      dp_CanRetry = (user_IsAdmin doer \<and> pub_ValidityStatus publication = ValidityStatusScheduled \<and>
        pub_IndexStatus publication = IndexStatusFailed)\<rparr>"

definition loadRecentPublications :: "User \<Rightarrow> dashboardPublication list prog" where
  "loadRecentPublications doer =
     andThen (orEmpty (findDesc publications pub_UpdatedUnix (\<lambda>_. True) dashboardLimit)) (\<lambda>ps. ret (map (publicationRow doer) ps))"

definition loadDifyBindings :: "DifyBinding list prog" where
  "loadDifyBindings = orEmpty (findDesc difyBindings dify_UpdatedUnix (\<lambda>_. True) dashboardLimit)"

definition loadSyncRuns :: "SyncRun list prog" where
  "loadSyncRuns = orEmpty (findDesc syncRuns sr_UpdatedUnix (\<lambda>_. True) dashboardLimit)"

section \<open>Repository files\<close>

record repositoryArtifact =
  ra_RepoID :: int
  ra_RepoName :: string
  ra_Path :: string
  ra_CommitSHA :: string
  ra_Size :: int

definition maxArtifacts :: nat where
  "maxArtifacts = 200"

definition pickable :: "int \<Rightarrow> string \<Rightarrow> bool \<Rightarrow> int \<Rightarrow> bool" where
  "pickable maxFileSize entryPath regular bytes \<longleftrightarrow>
     \<not> (\<not> regular \<or> maxFileSize < bytes \<or> up_AllowedTypes defaultUploadPolicy (toLower (fileExt entryPath)) = None)"

text \<open>A directory is entered only while fewer than 200 files are collected; its files are all taken.\<close>

fun collectTree ::
    "int \<Rightarrow> (string \<Rightarrow> int \<Rightarrow> repositoryArtifact) \<Rightarrow> string \<Rightarrow> gitEntry list option \<Rightarrow> repositoryArtifact list \<Rightarrow> repositoryArtifact list"
  and collectEntries ::
    "int \<Rightarrow> (string \<Rightarrow> int \<Rightarrow> repositoryArtifact) \<Rightarrow> string \<Rightarrow> gitEntry list \<Rightarrow> repositoryArtifact list \<Rightarrow> repositoryArtifact list" where
  "collectTree maxFileSize artifact dir listing collected =
     (if maxArtifacts \<le> length collected then collected
      else case listing of None \<Rightarrow> collected | Some entries \<Rightarrow> collectEntries maxFileSize artifact dir entries collected)"
| "collectEntries maxFileSize artifact dir [] collected = collected"
| "collectEntries maxFileSize artifact dir (GitDir name listing # entries) collected =
     collectEntries maxFileSize artifact dir entries
       (collectTree maxFileSize artifact (pathJoin [dir, name]) listing collected)"
| "collectEntries maxFileSize artifact dir (GitFile name regular bytes # entries) collected =
     collectEntries maxFileSize artifact dir entries
       (if pickable maxFileSize (pathJoin [dir, name]) regular bytes
        then collected @ [artifact (pathJoin [dir, name]) bytes] else collected)"

definition newArtifact :: "Repository \<Rightarrow> string \<Rightarrow> string \<Rightarrow> string \<Rightarrow> int \<Rightarrow> repositoryArtifact" where
  "newArtifact repo repoOwner commitSHA entryPath bytes =
     \<lparr>ra_RepoID = repo_ID repo, ra_RepoName = repoOwner @ ''/'' @ repo_Name repo, ra_Path = entryPath,
      ra_CommitSHA = commitSHA, ra_Size = bytes\<rparr>"

definition addRepository ::
  "environment \<Rightarrow> Repository \<times> string \<Rightarrow> repositoryArtifact list \<Rightarrow> repositoryArtifact list" where
  "addRepository e found collected =
     (case found of (repo, repoOwner) \<Rightarrow>
      if hasPrefix (repo_Name repo) ''kb-'' then collected
      else case branchTree e repo of None \<Rightarrow> collected
      | Some (commitSHA, listing) \<Rightarrow>
          collectTree (ks_MaxFileSize (setting e)) (newArtifact repo repoOwner commitSHA) '''' listing collected)"

definition loadRepositoryArtifacts :: "User \<Rightarrow> repositoryArtifact list prog" where
  "loadRepositoryArtifacts doer =
     askEnv (\<lambda>e. case visibleRepos e doer of Inl _ \<Rightarrow> [] | Inr repos \<Rightarrow> fold (addRepository e) repos [])"

section \<open>The page\<close>

record dashboardPage =
  page_ConfigError :: "error option"
  page_Settings :: KnowledgeSetting
  page_Spaces :: "Space list"
  page_DataSources :: "dashboardDataSource list"
  page_EnabledDataSources :: "DataSource list"
  page_CanApproveDataSources :: bool
  page_DataSourceTasks :: "dashboardDataSourceTask list"
  page_DataSourceTaskCount :: int
  page_QualityTasks :: "dashboardQualityTask list"
  page_QualityTaskCount :: int
  page_Counts :: dashboardCounts
  page_Jobs :: "dashboardJob list"
  page_Documents :: "dashboardDocument list"
  page_Approvals :: "dashboardApproval list"
  page_ReviewTaskCount :: int
  page_GovernanceTaskCount :: int
  page_Publications :: "dashboardPublication list"
  page_DifyBindings :: "DifyBinding list"
  page_SyncRuns :: "SyncRun list"
  page_RepositoryArtifacts :: "repositoryArtifact list"

text \<open>An error is the page of a server error.\<close>

definition Dashboard :: "User \<Rightarrow> dashboardPage prog" where
  "Dashboard doer =
     andThen (attempt ValidateKnowledgeSettings) (\<lambda>validated.
     andThen (askEnv setting) (\<lambda>k.
     andThen (onErr (Errorf ''ListKnowledgeSpaces'') (findDesc spaces sp_UpdatedUnix (\<lambda>_. True) dashboardLimit)) (\<lambda>spaceRows.
     andThen (loadRecentDataSources doer) (\<lambda>sources.
     andThen loadEnabledDataSources (\<lambda>enabled.
     andThen (loadDataSourceGovernanceTasks doer) (\<lambda>sourceTasks.
     andThen (loadQualityTasks doer) (\<lambda>qualityTasks.
     andThen (onErr (Errorf ''LoadKnowledgeCounts'') loadCounts) (\<lambda>counts.
     andThen (onErr (Errorf ''LoadKnowledgeJobs'') loadRecentJobs) (\<lambda>jobs.
     andThen loadRecentDocuments (\<lambda>documentRows.
     andThen (loadPendingApprovals doer) (\<lambda>pendingApprovals.
     andThen (loadRecentPublications doer) (\<lambda>publicationRows.
     andThen loadDifyBindings (\<lambda>bindings.
     andThen loadSyncRuns (\<lambda>runs.
     andThen (loadRepositoryArtifacts doer) (\<lambda>artifacts.
     let ready = int (length (filter da_CanReview pendingApprovals)) in
     ret \<lparr>page_ConfigError = (case validated of Inl e \<Rightarrow> Some e | Inr _ \<Rightarrow> None), page_Settings = k, page_Spaces = spaceRows,
          page_DataSources = sources, page_EnabledDataSources = enabled, page_CanApproveDataSources = user_IsAdmin doer,
          page_DataSourceTasks = sourceTasks, page_DataSourceTaskCount = int (length sourceTasks),
          page_QualityTasks = qualityTasks, page_QualityTaskCount = int (length qualityTasks),
          page_Counts = counts\<lparr>dc_Publications := max (dc_Publications counts) (int (length publicationRows))\<rparr>,
          page_Jobs = jobs, page_Documents = documentRows, page_Approvals = pendingApprovals,
          page_ReviewTaskCount = ready,
          page_GovernanceTaskCount = ready + int (length sourceTasks) + int (length qualityTasks),
          page_Publications = publicationRows, page_DifyBindings = bindings, page_SyncRuns = runs,
          page_RepositoryArtifacts = artifacts\<rparr>)))))))))))))))"

section \<open>The page only reads\<close>

lemma quiet_lists:
  "quiet.within (findDesc sel column P n)" "quiet.within (findAllDesc sel2 column2 P2)" "quiet.within (findAsc sel3 column3 P3)"
  "quiet.within (countRows sel4 P4)" "quiet.within (findRows sel5 P5)"
  unfolding findDesc_def findAllDesc_def findAsc_def countRows_def findRows_def by (intro quiet_calls)+

lemma quiet_orEmpty: "quiet.within m \<Longrightarrow> quiet.within (orEmpty m)"
  unfolding orEmpty_def by (intro quiet_intros)

lemma quiet_foldM: "(\<And>b x. quiet.within (f b x)) \<Longrightarrow> quiet.within (foldM f b xs)"
  by (induction xs arbitrary: b) (simp_all, (intro quiet_intros | assumption)+)

lemmas page_intros = quiet_lists quiet_orEmpty quiet_foldM quiet_intros

lemma quiet_sources:
  "quiet.within (ownerName i)" "quiet.within (loadLatestDataSourceReviewEvents sources)"
  "quiet.within (loadRecentDataSources doer)" "quiet.within loadEnabledDataSources"
  "quiet.within (loadDataSourceGovernanceTasks doer)"
proof -
  show owner: "quiet.within (ownerName i)" for i
    unfolding ownerName_def getUserByID_def by (intro page_intros)
  show reviews: "quiet.within (loadLatestDataSourceReviewEvents sources)" for sources
    unfolding loadLatestDataSourceReviewEvents_def Let_def by (intro page_intros)
  show "quiet.within (loadRecentDataSources doer)" "quiet.within loadEnabledDataSources"
    "quiet.within (loadDataSourceGovernanceTasks doer)"
    unfolding loadRecentDataSources_def loadEnabledDataSources_def loadDataSourceGovernanceTasks_def addSourceRow_def
    by (intro page_intros owner reviews)+
qed

lemma quiet_quality: "quiet.within (loadQualityTasks doer)"
  unfolding loadQualityTasks_def unresolvedTasks_def loadResolvedQualityTaskIDs_def by (intro page_intros)

lemma quiet_rows:
  "quiet.within loadCounts" "quiet.within loadRecentJobs" "quiet.within loadRecentDocuments"
  "quiet.within (loadPendingApprovals doer)" "quiet.within (loadRecentPublications doer)"
  "quiet.within loadDifyBindings" "quiet.within loadSyncRuns" "quiet.within (loadRepositoryArtifacts doer)"
  unfolding loadCounts_def countAll_def loadRecentJobs_def loadRecentDocuments_def loadPendingApprovals_def addApprovalRow_def
    loadReviewChecks_def loadRecentPublications_def loadDifyBindings_def loadSyncRuns_def loadRepositoryArtifacts_def
  by (intro page_intros)+

lemma quiet_Dashboard: "quiet.within (Dashboard doer)"
  unfolding Dashboard_def Let_def ValidateKnowledgeSettings_def
  by (intro page_intros quiet_sources quiet_quality quiet_rows)

end
