(* ===== verification/External.thy ===== *)
theory External
  imports Retrieval
begin

text \<open>
  The endpoint of Dify's external knowledge API, \<^verbatim>\<open>routers/web/knowledge/external.go\<close>: a bearer
  token and a JSON body become a lookup of the Dify connection and a retrieval for it, and the
  citations become JSON records. A program returns the status and the body of the HTTP answer.

  The lemmas say which requests are answered, and that a request is refused alike whatever the
  database holds unless it presents the credential of an enabled connection.
\<close>

section \<open>Request\<close>

text \<open>\<open>strings.Fields\<close>: the pieces between white space, on the runes of a string.\<close>

fun spanFields :: "string \<Rightarrow> (nat \<times> string) list \<Rightarrow> string list" where
  "spanFields field [] = (if field = '''' then [] else [field])"
| "spanFields field ((r, bs) # rs) =
     (if isSpace r then (if field = '''' then spanFields '''' rs else field # spanFields '''' rs)
      else spanFields (field @ bs) rs)"

definition stringFields :: "string \<Rightarrow> string list" where
  "stringFields s = spanFields '''' (runes s)"

definition bearerToken :: "string \<Rightarrow> string option" where
  "bearerToken header =
     (case stringFields header of
        [scheme, token] \<Rightarrow> if \<not> equalFold scheme ''Bearer'' \<or> trimSpace token = '''' then None else Some token
      | _ \<Rightarrow> None)"

record difyRetrievalRequest =
  dq_KnowledgeID :: string
  dq_Query :: string
  dq_TopK :: int
  dq_ScoreThreshold :: float64
  dq_MetadataCondition :: "json option"

definition emptyDifyRequest :: difyRetrievalRequest where
  "emptyDifyRequest = \<lparr>dq_KnowledgeID = '''', dq_Query = '''', dq_TopK = 0, dq_ScoreThreshold = 0, dq_MetadataCondition = None\<rparr>"

text \<open>
  The two structs of the request. Unknown members are errors (\<open>DisallowUnknownFields\<close>), and
  \<open>retrieval_setting\<close> decodes into the same struct each time it appears.
\<close>

definition decodeSettingField ::
  "(string \<Rightarrow> float64 option) \<Rightarrow> difyRetrievalRequest \<Rightarrow> string \<times> json \<Rightarrow> difyRetrievalRequest option" where
  "decodeSettingField parse r kv =
     (if equalFold (fst kv) ''top_k'' then map_option (\<lambda>n. r\<lparr>dq_TopK := n\<rparr>) (decodeInt (dq_TopK r) (snd kv))
      else if equalFold (fst kv) ''score_threshold''
      then map_option (\<lambda>x. r\<lparr>dq_ScoreThreshold := x\<rparr>) (decodeFloat parse (dq_ScoreThreshold r) (snd kv))
      else None)"

definition decodeRequestField ::
  "(string \<Rightarrow> float64 option) \<Rightarrow> difyRetrievalRequest \<Rightarrow> string \<times> json \<Rightarrow> difyRetrievalRequest option" where
  "decodeRequestField parse r kv =
     (if equalFold (fst kv) ''knowledge_id''
      then map_option (\<lambda>s. r\<lparr>dq_KnowledgeID := s\<rparr>) (decodeText (dq_KnowledgeID r) (snd kv))
      else if equalFold (fst kv) ''query'' then map_option (\<lambda>s. r\<lparr>dq_Query := s\<rparr>) (decodeText (dq_Query r) (snd kv))
      else if equalFold (fst kv) ''retrieval_setting'' then decodeStruct (decodeSettingField parse) r (snd kv)
      else if equalFold (fst kv) ''metadata_condition'' then Some (r\<lparr>dq_MetadataCondition := Some (snd kv)\<rparr>)
      else None)"

text \<open>\<open>64 << 10\<close>, the limit of \<open>http.MaxBytesReader\<close>.\<close>

definition maxRequestBytes :: nat where
  "maxRequestBytes = 65536"

text \<open>
  One value from the body. The decoder reads no further than the end of an object, so what follows
  it is not looked at; a top-level \<open>null\<close> ends only at a further byte or at the end of the body.
\<close>

definition decodeRequest ::
  "(string \<Rightarrow> float64 option) \<Rightarrow> string \<times> error option \<Rightarrow> difyRetrievalRequest option" where
  "decodeRequest parse stream =
     (let body = take maxRequestBytes (fst stream);
          ended = (length (fst stream) \<le> maxRequestBytes \<and> snd stream = None)
      in case parseValue maxNestingDepth body of None \<Rightarrow> None
         | Some (v, rest) \<Rightarrow>
           if v = JNull \<and> rest = '''' \<and> \<not> ended then None
           else decodeStruct (decodeRequestField parse) emptyDifyRequest v)"

section \<open>Answer\<close>

text \<open>A record with its metadata.\<close>

record difyRetrievalRecord =
  dr_Content :: string
  dr_Score :: float64
  dr_Title :: string
  dr_CitationID :: int
  dr_DocumentID :: int
  dr_RevisionID :: int
  dr_Source :: string
  dr_SecurityScope :: SecurityLevel

datatype externalBody =
    ErrorAnswer int string
  | RecordsAnswer "difyRetrievalRecord list"

definition difySource :: string where
  "difySource = ''FileBay '' @ utf8 [20225, 19994, 30693, 35782, 24211]"

definition difyRecord :: "DifyBinding \<Rightarrow> Citation \<Rightarrow> difyRetrievalRecord" where
  "difyRecord binding cit =
     \<lparr>dr_Content = cit_Content cit, dr_Score = cit_Score cit, dr_Title = cit_Title cit,
      dr_CitationID = cit_PublicationID cit, dr_DocumentID = cit_DocumentID cit, dr_RevisionID = cit_RevisionID cit,
      dr_Source = difySource, dr_SecurityScope = dify_MaxSecurityLevel binding\<rparr>"

definition externalError :: "int \<Rightarrow> int \<Rightarrow> string \<Rightarrow> (int \<times> externalBody) prog" where
  "externalError status code message = ret (status, ErrorAnswer code message)"

definition ExternalRetrieval :: "string \<Rightarrow> string \<times> error option \<Rightarrow> (int \<times> externalBody) prog" where
  "ExternalRetrieval authorization stream =
     andThen (askEnv setting) (\<lambda>k.
     if \<not> ks_Enabled k then externalError 404 2001 (utf8 [30693, 35782, 24211, 19981, 23384, 22312])
     else
     case bearerToken authorization of
       None \<Rightarrow> externalError 401 1001 (utf8 [25480, 26435, 26684, 24335, 38169, 35823])
     | Some token \<Rightarrow>
       andThen (askEnv parseFloat) (\<lambda>parse.
       case decodeRequest parse stream of
         None \<Rightarrow> externalError 400 1001 (utf8 [26816, 32034, 35831, 27714, 26684, 24335, 38169, 35823])
       | Some request \<Rightarrow>
         andThen (attempt (LookupDifyBinding token (dq_KnowledgeID request))) (\<lambda>found.
         case found of
           Inl _ \<Rightarrow> externalError 401 1002 (utf8 [25480, 26435, 22833, 36133])
         | Inr binding \<Rightarrow>
           andThen (attempt (RetrieveForDify (Some binding) (dq_Query request) (dq_TopK request))) (\<lambda>retrieved.
           case retrieved of
             Inl _ \<Rightarrow> externalError 400 2001 (utf8 [30693, 35782, 24211, 26816, 32034, 19981, 21487, 29992])
           | Inr citations \<Rightarrow> ret (200, RecordsAnswer (map (difyRecord binding) citations))))))"

section \<open>Facts\<close>

lemma externalError_exec [exec_simps]: "externalError status code message w = (Inr (status, ErrorAnswer code message), w)"
  by (simp add: externalError_def exec_simps)

text \<open>Every request is answered, whatever fails behind it.\<close>

lemma ExternalRetrieval_total: "\<exists>answer w'. ExternalRetrieval authorization stream w = (Inr answer, w')"
  unfolding ExternalRetrieval_def
  by (simp add: askEnv_def exec_simps split: option.split sum.split prod.split)

text \<open>A request that gets as far as the lookup.\<close>

definition wellFormedCall :: "environment \<Rightarrow> string \<Rightarrow> string \<times> error option \<Rightarrow> string \<Rightarrow> difyRetrievalRequest \<Rightarrow> bool" where
  "wellFormedCall e authorization stream token request \<longleftrightarrow>
     ks_Enabled (setting e) \<and> bearerToken authorization = Some token \<and> decodeRequest (parseFloat e) stream = Some request"

lemma ExternalRetrieval_calls:
  assumes "wellFormedCall (env w) authorization stream token request"
  shows "ExternalRetrieval authorization stream w =
    (case LookupDifyBinding token (dq_KnowledgeID request) w of
       (Inl _, w1) \<Rightarrow> (Inr (401, ErrorAnswer 1002 (utf8 [25480, 26435, 22833, 36133])), w1)
     | (Inr binding, w1) \<Rightarrow>
       (case RetrieveForDify (Some binding) (dq_Query request) (dq_TopK request) w1 of
          (Inl _, w2) \<Rightarrow> (Inr (400, ErrorAnswer 2001 (utf8 [30693, 35782, 24211, 26816, 32034, 19981, 21487, 29992])), w2)
        | (Inr citations, w2) \<Rightarrow> (Inr (200, RecordsAnswer (map (difyRecord binding) citations)), w2)))"
  using assms unfolding wellFormedCall_def
  by (simp add: ExternalRetrieval_def askEnv_def exec_simps split: sum.split prod.split)

text \<open>Any other request is refused from its text and the settings alone.\<close>

lemma ExternalRetrieval_malformed:
  assumes "\<nexists>token request. wellFormedCall (env w) authorization stream token request"
  obtains code message where "ExternalRetrieval authorization stream w = (Inr (code, message), w)" "code \<noteq> 200"
    "\<And>v. env v = env w \<Longrightarrow> fst (ExternalRetrieval authorization stream v) = Inr (code, message)"
  using assms unfolding wellFormedCall_def
  by (cases "ks_Enabled (setting (env w))"; cases "bearerToken authorization"; cases "decodeRequest (parseFloat (env w)) stream")
    (auto simp: ExternalRetrieval_def askEnv_def exec_simps)

lemma ExternalRetrieval_answer:
  assumes "ExternalRetrieval authorization stream w = (Inr (status, RecordsAnswer records), w')"
  obtains token request binding citations w1 where
    "wellFormedCall (env w) authorization stream token request" "status = 200"
    "LookupDifyBinding token (dq_KnowledgeID request) w = (Inr binding, w1)"
    "RetrieveForDify (Some binding) (dq_Query request) (dq_TopK request) w1 = (Inr citations, w')"
    "records = map (difyRecord binding) citations"
proof (cases "\<exists>token request. wellFormedCall (env w) authorization stream token request")
  case True
  then obtain token request where call: "wellFormedCall (env w) authorization stream token request" by blast
  with assms that show thesis
    by (auto simp: ExternalRetrieval_calls split: prod.splits sum.splits)
next
  case False
  then show thesis
    using assms by (rule_tac ExternalRetrieval_malformed [of w authorization stream])
      (auto simp: ExternalRetrieval_def askEnv_def exec_simps split: if_splits option.splits sum.splits prod.splits)
qed

text \<open>The lookup writes nothing, and refuses every token that no enabled connection has.\<close>

lemma LookupDifyBinding_db: "LookupDifyBinding token i w = (r, w') \<Longrightarrow> db w' = db w \<and> env w' = env w"
  by (auto simp: LookupDifyBinding_def exec_simps Let_def split: if_splits prod.splits option.splits sum.splits)

lemma LookupDifyBinding_unknown:
  assumes "\<forall>b \<in> set (rows (difyBindings (db w))). dify_Enabled b \<longrightarrow> dify_TokenSHA256 b \<noteq> hexEncode (sha256 (env w) token)"
  obtains e w' where "LookupDifyBinding token i w = (Inl e, w')"
proof (cases "fst (LookupDifyBinding token i w)")
  case (Inr b)
  then have "LookupDifyBinding token i w = (Inr b, snd (LookupDifyBinding token i w))"
    by (metis prod.collapse)
  with assms show thesis
    by (auto simp: LookupDifyBinding_run tblFirst_def dest!: find_Some_iff [THEN iffD1] in_set_conv_nth [THEN iffD2])
qed (metis prod.collapse that)

end
