(* ===== verification/Handlers.thy ===== *)
theory Handlers
  imports Console System External
begin

text \<open>
  The routes of the console (\<^verbatim>\<open>routers/web/web.go\<close>) and their handlers
  (\<^verbatim>\<open>routers/web/knowledge/dashboard.go\<close>): each reads a form, calls one operation for the signed-in
  user and answers with a message and a redirect, or with the page.

  A handler never fails: every error is in its answer. The lemmas show that a handler changes the
  database as one request of \<open>System\<close> does, made by the signed-in user, or not at all.
\<close>

section \<open>Requests and answers\<close>

text \<open>
  \<open>wr_FormValue\<close> is the first value of a field, "" when there is none; \<open>wr_FormFile\<close> a file of a
  multipart form, its name and its bytes; \<open>wr_MultipartParsed\<close> whether the form could be parsed.
\<close>

record webRequest =
  wr_PathParam :: "string \<Rightarrow> string"
  wr_FormValue :: "string \<Rightarrow> string"
  wr_MultipartParsed :: bool
  wr_FormFile :: "string \<Rightarrow> (string \<times> (string \<times> error option)) option"

text \<open>A message; an error in it is the text \<open>err.Error()\<close> behind the message.\<close>

datatype flash =
    FlashError string "error option"
  | FlashSuccess string
  | FlashWarning string

datatype pageNotice =
    PlainPage
  | NewDifyBinding string DifyBinding
  | SearchModelUnavailable string
  | SearchResult string "Citation list"

text \<open>\<open>Unrouted\<close> is the router's own answer, not found or method not allowed. The target of a redirect is without \<open>setting.AppSubURL\<close>, which is before every one.\<close>

datatype response =
    NotFound
  | Unrouted
  | ServerError error
  | Redirect flash string
  | Page pageNotice dashboardPage

type_synonym handler = "User \<Rightarrow> webRequest \<Rightarrow> response prog"

text \<open>\<open>v, _ := strconv.ParseInt(s, 10, 64)\<close>: a number out of range is the nearest int64.\<close>

definition parseIntOrZero :: "string \<Rightarrow> int" where
  "parseIntOrZero s =
     (case parseInt64 s of Some v \<Rightarrow> v
      | None \<Rightarrow>
         (let neg = hasPrefix s ''-''; ds = (if neg \<or> hasPrefix s ''+'' then tl s else s)
          in if ds = [] \<or> \<not> list_all isDigit ds then 0 else if neg then - (2 ^ 63) else 2 ^ 63 - 1))"

definition FormInt64 :: "webRequest \<Rightarrow> string \<Rightarrow> int" where
  "FormInt64 r key = parseIntOrZero (wr_FormValue r key)"

definition FormBool :: "webRequest \<Rightarrow> string \<Rightarrow> bool" where
  "FormBool r key =
     (let s = wr_FormValue r key in s \<in> set [''1'', ''t'', ''T'', ''true'', ''TRUE'', ''True''] \<or> equalFold s ''on'')"

definition PathParamInt64 :: "webRequest \<Rightarrow> string \<Rightarrow> int" where
  "PathParamInt64 r key = parseIntOrZero (wr_PathParam r key)"

text \<open>The operation's outcome becomes the answer.\<close>

definition answerWith :: "'a prog \<Rightarrow> (error \<Rightarrow> response) \<Rightarrow> ('a \<Rightarrow> response) \<Rightarrow> response prog" where
  "answerWith m failed succeeded = andThen (attempt m) (\<lambda>r. ret (case r of Inl e \<Rightarrow> failed e | Inr a \<Rightarrow> succeeded a))"

definition flashError :: "string \<Rightarrow> string \<Rightarrow> error \<Rightarrow> response" where
  "flashError text target e = Redirect (FlashError text (Some e)) target"

definition withPathID :: "webRequest \<Rightarrow> (int \<Rightarrow> response prog) \<Rightarrow> response prog" where
  "withPathID r k = (case parseInt64 (wr_PathParam r ''id'') of None \<Rightarrow> ret NotFound | Some i \<Rightarrow> k i)"

definition showDashboard :: "pageNotice \<Rightarrow> User \<Rightarrow> response prog" where
  "showDashboard notice doer = answerWith (Dashboard doer) ServerError (Page notice)"

section \<open>Handlers\<close>

definition DashboardHandler :: handler where
  "DashboardHandler doer r = showDashboard PlainPage doer"

definition CreateSpaceHandler :: handler where
  "CreateSpaceHandler doer r =
     answerWith (CreateSpace \<lparr>cso_OwnerID = user_ID doer, cso_ActorID = user_ID doer, cso_Name = wr_FormValue r ''name'',
         cso_Description = wr_FormValue r ''description''\<rparr>)
       (\<lambda>e. if errorIs e ErrSpaceAlreadyExists
            then Redirect (FlashWarning (utf8 [35813, 36164, 26009, 22841, 24050, 32463, 21019, 24314, 65292, 35831, 21040, 8220, 36164, 26009, 19982, 31354, 38388, 21488, 36134, 8221, 32487, 32493, 31649, 29702, 12290])) ''/knowledge#knowledge-library''
            else flashError '''' ''/knowledge#knowledge-space'' e)
       (\<lambda>space. Redirect (FlashSuccess ((utf8 [36164, 26009, 22841, 24050, 21019, 24314, 65306]) @ sp_Name space @ (utf8 [12290, 19979, 19968, 27493, 65306, 30331, 35760, 36825, 25209, 36164, 26009, 30340, 26469, 28304]))) ''/knowledge#knowledge-data'')"

definition DeleteEmptySpaceHandler :: handler where
  "DeleteEmptySpaceHandler doer r =
     answerWith (DeleteEmptySpace (PathParamInt64 r ''id'') (user_ID doer))
       (flashError (utf8 [26080, 27861, 21024, 38500, 36164, 26009, 22841, 65306]) ''/knowledge'')
       (\<lambda>_. Redirect (FlashSuccess (utf8 [31354, 36164, 26009, 22841, 24050, 21024, 38500])) ''/knowledge'')"

definition parseKnowledgeDate :: "(int \<Rightarrow> int) \<Rightarrow> string \<Rightarrow> bool \<Rightarrow> TimeStamp option" where
  "parseKnowledgeDate loc value required =
     (if value = '''' then if required then None else Some 0 else parseDate loc value)"

definition formValue :: "webRequest \<Rightarrow> string \<Rightarrow> string \<Rightarrow> string" where
  "formValue r name fallback = (let value = trimSpace (wr_FormValue r name) in if value \<noteq> '''' then value else fallback)"

definition dataSourceForm :: "User \<Rightarrow> webRequest \<Rightarrow> string \<Rightarrow> TimeStamp \<Rightarrow> TimeStamp \<Rightarrow> CreateDataSourceOptions" where
  "dataSourceForm doer r sourceCode effectiveUnix expiresUnix =
     (let sourceType = formValue r ''source_type'' ''policy'' in
      \<lparr>cds_SpaceID = FormInt64 r ''space_id'', cds_ActorID = user_ID doer, cds_SourceCode = sourceCode,
       cds_Name = wr_FormValue r ''name'', cds_SourceType = dataSourceTypeOf sourceType,
       cds_BusinessDomainCode = formValue r ''business_domain_code'' ''general'',
       cds_ContentTypeCode = formValue r ''content_type_code'' sourceType,
       cds_SourceDepartment = formValue r ''source_department'' (utf8 [26410, 25351, 23450, 37096, 38376]),
       cds_ContentOwnerUsername = formValue r ''content_owner_username'' (user_Name doer),
       cds_MaintenanceUsername = formValue r ''maintenance_username'' (user_Name doer),
       cds_EffectiveUnix = effectiveUnix, cds_ExpiresUnix = expiresUnix,
       cds_ReviewFrequency = reviewFrequencyOf (formValue r ''review_frequency'' ''monthly''),
       cds_SecurityLevel = securityLevelOf (formValue r ''security_level'' ''internal''),
       cds_ApprovalBasisRef = formValue r ''approval_basis_ref'' ''approval-ref:manual-entry'',
       cds_ApplicableScopeJSON = formValue r ''applicable_scope_json''
         (CHR 0x7B # CHR 0x22 # ''organization'' @ CHR 0x22 # CHR '':'' # CHR 0x22 # (utf8 [20840, 20844, 21496]) @ [CHR 0x22, CHR 0x7D]),
       cds_SourceAuthorizationRef = formValue r ''source_authorization_ref'' ''grant-id:manual-upload'',
       cds_SourceFormat = formValue r ''source_format'' ''text/markdown'',
       cds_SearchabilityStatus = searchabilityStatusOf (formValue r ''searchability_status'' ''searchable''),
       cds_ConnectorType = wr_FormValue r ''connector_type'', cds_SecretRef = wr_FormValue r ''secret_ref'',
       cds_ReadScope = wr_FormValue r ''read_scope'', cds_QueryTemplateRef = wr_FormValue r ''query_template_ref'',
       cds_SchemaVersion = wr_FormValue r ''schema_version'', cds_FieldMappingJSON = wr_FormValue r ''field_mapping_json'',
       cds_IncrementalCursorField = wr_FormValue r ''incremental_cursor_field'',
       cds_DataRetentionRule = wr_FormValue r ''data_retention_rule'',
       cds_MaskPolicyVersion = formValue r ''mask_policy_version'' ''mask-policy-manual-v1''\<rparr>)"

text \<open>The day of today when the form has none; a source code made of the time when it has none.\<close>

definition effectiveDateOf :: "webRequest \<Rightarrow> string prog" where
  "effectiveDateOf r =
     (let given = trimSpace (wr_FormValue r ''effective_date'') in
      if given = '''' then
        andThen timeNow (\<lambda>now.
        andThen (askEnv zone) (\<lambda>loc. ret (formatDate (localDate loc (now div second)))))
      else ret given)"

definition sourceCodeOf :: "webRequest \<Rightarrow> string prog" where
  "sourceCodeOf r =
     (let given = trimSpace (wr_FormValue r ''source_code'') in
      if given = '''' then andThen timeNow (\<lambda>now. ret (''manual-'' @ itoa now)) else ret given)"

definition CreateDataSourceHandler :: handler where
  "CreateDataSourceHandler doer r =
     andThen (effectiveDateOf r) (\<lambda>effectiveDate.
     andThen (askEnv zone) (\<lambda>loc.
     case parseKnowledgeDate loc effectiveDate True of
       None \<Rightarrow> ret (Redirect (FlashError (utf8 [29983, 25928, 26085, 26399, 26684, 24335, 19981, 27491, 30830, 65292, 35831, 20351, 29992] @ '' YYYY-MM-DD'') None) ''/knowledge#knowledge-data'')
     | Some effectiveUnix \<Rightarrow>
       (case parseKnowledgeDate loc (wr_FormValue r ''expires_date'') False of
          None \<Rightarrow> ret (Redirect (FlashError (utf8 [22833, 25928, 26085, 26399, 26684, 24335, 19981, 27491, 30830, 65292, 35831, 20351, 29992] @ '' YYYY-MM-DD'') None) ''/knowledge#knowledge-data'')
        | Some expiresUnix \<Rightarrow>
          andThen (sourceCodeOf r) (\<lambda>sourceCode.
          answerWith (CreateDataSource (dataSourceForm doer r sourceCode effectiveUnix expiresUnix))
            (flashError (utf8 [25968, 25454, 28304, 30331, 35760, 22833, 36133, 65306]) ''/knowledge#knowledge-data'')
            (\<lambda>source. Redirect (FlashSuccess ((utf8 [36164, 26009, 26469, 28304, 24050, 30331, 35760, 65306]) @ ds_Name source @ (utf8 [12290, 19979, 19968, 27493, 65306, 35831, 30001, 21478, 19968, 20301, 30693, 35782, 31649, 29702, 21592, 22312, 19979, 26041, 23457, 26680, 24182, 21551, 29992, 35813, 26469, 28304])))
               ''/knowledge#knowledge-data'')))))"

definition EnableDataSourceHandler :: handler where
  "EnableDataSourceHandler doer r =
     withPathID r (\<lambda>sourceID. answerWith (EnableDataSource sourceID (user_ID doer))
       (flashError (utf8 [25968, 25454, 28304, 21551, 29992, 22833, 36133, 65306]) ''/knowledge'')
       (\<lambda>_. Redirect (FlashSuccess (utf8 [25968, 25454, 28304, 24050, 23457, 26680, 24182, 21551, 29992, 12290, 19979, 19968, 27493, 65306, 20174] @ '' FileBay '' @ utf8 [20179, 24211, 36873, 25321, 24050, 33073, 25935, 25991, 20214, 24182, 25552, 20132])) ''/knowledge#knowledge-upload''))"

definition ConfirmDataSourceReviewHandler :: handler where
  "ConfirmDataSourceReviewHandler doer r =
     withPathID r (\<lambda>sourceID. answerWith (ConfirmDataSourceReview sourceID (user_ID doer))
       (flashError (utf8 [22797, 23457, 30830, 35748, 22833, 36133, 65306]) ''/knowledge#knowledge-tasks'')
       (\<lambda>_. Redirect (FlashSuccess (utf8 [24050, 35760, 24405, 26412, 27425, 22797, 23457, 65292, 31995, 32479, 20250, 25353, 35813, 26469, 28304, 30340, 22797, 23457, 21608, 26399, 20877, 27425, 25552, 37266])) ''/knowledge#knowledge-tasks''))"

definition SyncMySQLHandler :: handler where
  "SyncMySQLHandler doer r =
     withPathID r (\<lambda>sourceID.
     let preview = (wr_FormValue r ''mode'' = ''preview'') in
     answerWith (SyncMySQL sourceID (user_ID doer) preview)
       (flashError (''MySQL '' @ utf8 [25509, 20837, 22833, 36133, 65306]) ''/knowledge'')
       (\<lambda>result. Redirect (FlashSuccess
          (if preview then (utf8 [33073, 25935, 35270, 22270, 39044, 35272, 23436, 25104, 65306, 35835, 21462] @ '' '') @ itoa (run_RecordsRead result) @ ('' '' @ utf8 [26465, 35760, 24405, 65292, 26410, 21019, 24314, 30693, 35782, 25991, 26723])
           else (''MySQL '' @ utf8 [21516, 27493, 23436, 25104, 65306, 35835, 21462] @ '' '') @ itoa (run_RecordsRead result) @ ('' '' @ utf8 [26465, 65292, 24050, 21019, 24314] @ '' '') @ itoa (run_DocumentsQueued result) @
                ('' '' @ utf8 [26465, 24453, 23457, 26680, 30693, 35782]))) ''/knowledge''))"

definition ExpireDueDataSourcesHandler :: handler where
  "ExpireDueDataSourcesHandler doer r =
     answerWith (ExpireDueDataSources (user_ID doer))
       (flashError (utf8 [21040, 26399, 26816, 26597, 22833, 36133, 65306]) ''/knowledge'')
       (\<lambda>count. Redirect (FlashSuccess ((utf8 [21040, 26399, 26816, 26597, 23436, 25104, 65306, 24050, 20572, 29992] @ '' '') @ itoa count @ ('' '' @ utf8 [20010, 25968, 25454, 28304]))) ''/knowledge'')"

definition defaultKnowledgeVersion :: "string \<Rightarrow> string" where
  "defaultKnowledgeVersion value = (if trimSpace value = '''' then ''V1.0'' else trimSpace value)"

definition defaultKnowledgeRelation :: "string \<Rightarrow> string" where
  "defaultKnowledgeRelation value = (if trimSpace value = '''' then ''new'' else trimSpace value)"

definition uploadForm :: "User \<Rightarrow> webRequest \<Rightarrow> string \<Rightarrow> string \<times> error option \<Rightarrow> UploadManifest \<Rightarrow> UploadRevisionOptions" where
  "uploadForm doer r fileName content manifest =
     \<lparr>uro_DocumentID = FormInt64 r ''document_id'', uro_SpaceID = FormInt64 r ''space_id'',
      uro_DataSourceID = FormInt64 r ''data_source_id'', uro_ActorID = user_ID doer, uro_Title = wr_FormValue r ''title'',
      uro_VersionNo = defaultKnowledgeVersion (wr_FormValue r ''version_no''),
      uro_Relation = defaultKnowledgeRelation (wr_FormValue r ''revision_relation''), uro_FileName = fileName,
      uro_Content = Some content, uro_Manifest = manifest\<rparr>"

definition uploadManifestForm :: "webRequest \<Rightarrow> string \<Rightarrow> UploadManifest" where
  "uploadManifestForm r fileName =
     \<lparr>um_Masked = FormBool r ''masked'', um_FileName = '''', um_ContentSHA256 = '''', um_Size = 0,
      um_MIMEType = (case up_AllowedTypes defaultUploadPolicy (toLower (fileExt fileName)) of None \<Rightarrow> '''' | Some t \<Rightarrow> t),
      um_MaskPolicyVersion = wr_FormValue r ''mask_policy_version'', um_MaskManifestJSON = wr_FormValue r ''mask_manifest_json'',
      um_SourceAuthorization = wr_FormValue r ''source_authorization''\<rparr>"

definition uploadRefused :: "string \<Rightarrow> response" where
  "uploadRefused text = Redirect (FlashError text None) ''/knowledge#knowledge-upload''"

definition UploadRevisionHandler :: handler where
  "UploadRevisionHandler doer r =
     (if \<not> wr_MultipartParsed r then ret (uploadRefused (utf8 [19978, 20256, 36164, 26009, 26684, 24335, 19981, 27491, 30830]))
      else case wr_FormFile r ''artifact'' of
        None \<Rightarrow> ret (uploadRefused (utf8 [35831, 36873, 25321, 24050, 32463, 33073, 25935, 30340, 36164, 26009, 25991, 20214]))
      | Some (fileName, content) \<Rightarrow>
        answerWith (UploadRevision (uploadForm doer r fileName content (uploadManifestForm r fileName)))
          (flashError '''' ''/knowledge#knowledge-upload'')
          (\<lambda>result. Redirect (FlashSuccess ((utf8 [36164, 26009, 24050, 25552, 20132, 65306]) @ doc_Title (urr_Document result) @
             (utf8 [12290, 19979, 19968, 27493, 65306, 30001, 21478, 19968, 20301, 30693, 35782, 31649, 29702, 21592, 23436, 25104, 20845, 39033, 23457, 26680]))) ''/knowledge#knowledge-review''))"

text \<open>A file of a repository is read for the user first; the managed repositories of spaces are not offered.\<close>

definition readArtifact :: "User \<Rightarrow> webRequest \<Rightarrow> int \<Rightarrow> string \<Rightarrow> string \<Rightarrow> (response + string) prog" where
  "readArtifact doer r repoID commitSHA repoPath =
     andThen (attempt (getRepositoryByID repoID)) (\<lambda>found. case found of
       Inl _ \<Rightarrow> ret (Inl (uploadRefused (utf8 [20179, 24211, 25991, 20214, 19981, 21487, 29992])))
     | Inr repo \<Rightarrow>
       andThen (askEnv (\<lambda>e. codeReadable e doer repo)) (\<lambda>readable.
       if readable \<noteq> Inr True \<or> hasPrefix (repo_Name repo) ''kb-''
       then ret (Inl (uploadRefused (utf8 [20320, 27809, 26377, 35835, 21462, 35813, 20179, 24211, 25991, 20214, 30340, 26435, 38480])))
       else
       andThen (attempt (gitSourceOpen repoID commitSHA repoPath)) (\<lambda>opened. case opened of
         Inl _ \<Rightarrow> ret (Inl (uploadRefused (utf8 [26080, 27861, 35835, 21462, 25152, 36873, 20179, 24211, 29256, 26412])))
       | Inr stream \<Rightarrow>
         andThen (askEnv (ks_MaxFileSize \<circ> setting)) (\<lambda>limit.
         case readLimited (limit + 1) stream of
           Inl _ \<Rightarrow> ret (Inl (uploadRefused (utf8 [25152, 36873, 20179, 24211, 25991, 20214, 35835, 21462, 22833, 36133, 25110, 36229, 36807, 22823, 23567, 38480, 21046])))
         | Inr content \<Rightarrow>
           if limit < int (length content) then ret (Inl (uploadRefused (utf8 [25152, 36873, 20179, 24211, 25991, 20214, 35835, 21462, 22833, 36133, 25110, 36229, 36807, 22823, 23567, 38480, 21046])))
           else ret (Inr content)))))"

definition maskedManifest :: UploadManifest where
  "maskedManifest =
     \<lparr>um_Masked = True, um_FileName = '''', um_ContentSHA256 = '''', um_Size = 0, um_MIMEType = '''',
      um_MaskPolicyVersion = '''', um_MaskManifestJSON = '''', um_SourceAuthorization = ''''\<rparr>"

definition ImportRepositoryArtifactHandler :: handler where
  "ImportRepositoryArtifactHandler doer r =
     (let repoID = FormInt64 r ''repository_id'';
          repoPath = pathClean (trimSpace (wr_FormValue r ''repository_path''));
          commitSHA = trimSpace (wr_FormValue r ''repository_commit'')
      in if repoID \<le> 0 \<or> repoPath = ''.'' \<or> hasPrefix repoPath ''../'' \<or> commitSHA = '''' \<or> \<not> FormBool r ''repository_masked''
      then ret (uploadRefused (utf8 [35831, 36873, 25321, 20179, 24211, 20013, 30340, 24050, 33073, 25935, 25991, 20214, 65292, 24182, 30830, 35748, 33073, 25935, 22768, 26126]))
      else
      andThen (readArtifact doer r repoID commitSHA repoPath) (\<lambda>artifact. case artifact of
        Inl refusal \<Rightarrow> ret refusal
      | Inr content \<Rightarrow>
        answerWith (UploadRevision (uploadForm doer r (fileBase repoPath) (content, None) maskedManifest))
          (flashError (utf8 [20179, 24211, 25991, 20214, 25552, 20132, 22833, 36133, 65306]) ''/knowledge#knowledge-upload'')
          (\<lambda>result. Redirect (FlashSuccess ((utf8 [24050, 20174] @ '' FileBay '' @ utf8 [20179, 24211, 25552, 20132, 36164, 26009, 65306]) @ doc_Title (urr_Document result) @
             (utf8 [12290, 19979, 19968, 27493, 65306, 30001, 21478, 19968, 20301, 30693, 35782, 31649, 29702, 21592, 23436, 25104, 20845, 39033, 23457, 26680]))) ''/knowledge#knowledge-review'')))"

definition CompleteReviewHandler :: handler where
  "CompleteReviewHandler doer r =
     (case parseInt64 (wr_PathParam r ''revisionID'') of
        None \<Rightarrow> ret (Redirect (FlashError (utf8 [23457, 26680, 35760, 24405, 32534, 21495, 19981, 27491, 30830]) None) ''/knowledge'')
      | Some revisionID \<Rightarrow>
        answerWith (CompleteReview revisionID (user_ID doer) (wr_PathParam r ''reviewType'') (wr_FormValue r ''comment''))
          (flashError (utf8 [23457, 26680, 39033, 26410, 33021, 23436, 25104, 65306]) ''/knowledge#knowledge-review'')
          (\<lambda>_. Redirect (FlashSuccess (utf8 [23457, 26680, 39033, 24050, 36890, 36807, 65292, 35831, 32487, 32493, 23436, 25104, 19979, 19968, 39033, 23457, 26680, 65307, 20845, 39033, 22343, 36890, 36807, 21518, 21363, 21487, 21019, 24314, 32034, 24341, 20219, 21153])) ''/knowledge#knowledge-review''))"

definition ApproveHandler :: handler where
  "ApproveHandler doer r =
     withPathID r (\<lambda>approvalID. answerWith (Approve approvalID (user_ID doer) (wr_FormValue r ''comment''))
       (flashError '''' ''/knowledge'')
       (\<lambda>result. Redirect (FlashSuccess ((utf8 [20845, 39033, 23457, 26680, 24050, 36890, 36807, 65292] @ ''RAGFlow '' @ utf8 [32034, 24341, 20219, 21153, 24050, 21019, 24314, 65306] @ ''#'') @ itoa (job_ID (arr_IndexJob result)) @
          (utf8 [12290, 19979, 19968, 27493, 65306, 22788, 29702, 32034, 24341, 24182, 35780, 27979, 21457, 24067]))) ''/knowledge#knowledge-publish''))"

definition RejectHandler :: handler where
  "RejectHandler doer r =
     withPathID r (\<lambda>approvalID. answerWith (Reject approvalID (user_ID doer) (wr_FormValue r ''comment''))
       (flashError (utf8 [23457, 26680, 39539, 22238, 22833, 36133, 65306]) ''/knowledge'')
       (\<lambda>_. Redirect (FlashSuccess (utf8 [30693, 35782, 20462, 35746, 24050, 39539, 22238, 65292, 21407, 26377, 24050, 29983, 25928, 29256, 26412, 19981, 21463, 24433, 21709])) ''/knowledge''))"

definition ProcessJobHandler :: handler where
  "ProcessJobHandler doer r =
     withPathID r (\<lambda>jobID. answerWith (ProcessIndexJob jobID (user_ID doer))
       (flashError '''' ''/knowledge'')
       (\<lambda>_. Redirect (FlashSuccess ((''RAGFlow '' @ utf8 [32034, 24341, 20219, 21153, 24050, 22788, 29702, 65306] @ ''#'') @ itoa jobID @ (utf8 [12290, 19979, 19968, 27493, 65306, 35780, 27979, 36890, 36807, 21518, 20351, 30693, 35782, 29983, 25928])))
          ''/knowledge#knowledge-publish''))"

definition RetryPublicationIndexHandler :: handler where
  "RetryPublicationIndexHandler doer r =
     withPathID r (\<lambda>publicationID. answerWith (RetryPublicationIndex publicationID (user_ID doer))
       (flashError (utf8 [37325, 26032, 32034, 24341, 22833, 36133, 65306]) ''/knowledge#knowledge-publish'')
       (\<lambda>_. Redirect (FlashSuccess (utf8 [24050, 37325, 26032, 25552, 20132, 32034, 24341, 65292] @ ''FileBay '' @ utf8 [23558, 33258, 21160, 20889, 20837] @ '' RAGFlow'')) ''/knowledge#knowledge-publish''))"

definition ActivatePublicationHandler :: handler where
  "ActivatePublicationHandler doer r =
     withPathID r (\<lambda>publicationID. answerWith (catalogActivate publicationID (user_ID doer))
       (flashError (utf8 [21457, 24067, 21551, 29992, 22833, 36133, 65306]) ''/knowledge#knowledge-search'')
       (\<lambda>_. Redirect (FlashSuccess (utf8 [30693, 35782, 24050, 29983, 25928, 12290, 19979, 19968, 27493, 65306, 21487, 20197, 31435, 21363, 26816, 32034, 39564, 35777, 31572, 26696, 21644, 24341, 29992, 26469, 28304])) ''/knowledge#knowledge-search''))"

definition UnpublishPublicationHandler :: handler where
  "UnpublishPublicationHandler doer r =
     withPathID r (\<lambda>publicationID. answerWith (catalogUnpublish publicationID (user_ID doer) (wr_FormValue r ''reason''))
       (flashError (utf8 [30693, 35782, 19979, 26550, 22833, 36133, 65306]) ''/knowledge'')
       (\<lambda>_. Redirect (FlashSuccess (utf8 [30693, 35782, 24050, 19979, 26550, 65292] @ ''FileBay '' @ utf8 [24050, 31435, 21363, 20572, 27490, 36820, 22238, 35813, 24341, 29992])) ''/knowledge''))"

text \<open>The token of a new connection is shown once, on the page that answers.\<close>

definition CreateDifyBindingHandler :: handler where
  "CreateDifyBindingHandler doer r =
     (case parseInt64 (wr_FormValue r ''space_id'') of
        None \<Rightarrow> ret (Redirect (FlashError (utf8 [30693, 35782, 31354, 38388, 32534, 21495, 19981, 27491, 30830]) None) ''/knowledge'')
      | Some spaceID \<Rightarrow>
        andThen (attempt (CreateDifyBinding \<lparr>cdb_ActorID = user_ID doer, cdb_Name = wr_FormValue r ''name'',
            cdb_DifyKnowledgeID = wr_FormValue r ''dify_knowledge_id'', cdb_SpaceID = spaceID,
            cdb_MaxSecurityLevel = securityLevelOf (wr_FormValue r ''max_security_level'')\<rparr>)) (\<lambda>created. case created of
          Inl e \<Rightarrow> ret (flashError (''Dify '' @ utf8 [24212, 29992, 25480, 26435, 21019, 24314, 22833, 36133, 65306]) ''/knowledge'' e)
        | Inr (binding, token) \<Rightarrow> showDashboard (NewDifyBinding token binding) doer))"

definition SearchHandler :: handler where
  "SearchHandler doer r =
     (let question = wr_FormValue r ''query'' in
      andThen (attempt (RetrieveForUser (Some doer) (parseIntOrZero (wr_FormValue r ''space_id'')) question 5)) (\<lambda>retrieved.
      case retrieved of
        Inl e \<Rightarrow> if errorIs e ErrRetrievalModelUnavailable then showDashboard (SearchModelUnavailable question) doer
                 else ret (flashError (utf8 [30693, 35782, 26816, 32034, 22833, 36133, 65306]) ''/knowledge'' e)
      | Inr result \<Rightarrow> showDashboard (SearchResult question result) doer))"

definition CreateFeedbackHandler :: handler where
  "CreateFeedbackHandler doer r =
     answerWith (RecordFeedback (user_ID doer) (parseIntOrZero (wr_FormValue r ''space_id''))
         (parseIntOrZero (wr_FormValue r ''publication_id'')) (wr_FormValue r ''category'')
         (parseIntOrZero (wr_FormValue r ''rating'')) (wr_FormValue r ''comment''))
       (flashError (utf8 [21453, 39304, 25552, 20132, 22833, 36133, 65306]) ''/knowledge'')
       (\<lambda>_. Redirect (FlashSuccess (utf8 [24863, 35874, 21453, 39304, 65292, 24050, 35760, 24405, 29992, 20110, 30693, 35782, 24211, 25913, 36827])) ''/knowledge'')"

definition ResolveQualityTaskHandler :: handler where
  "ResolveQualityTaskHandler doer r =
     withPathID r (\<lambda>entityID. answerWith (ResolveQualityTask (user_ID doer) (wr_PathParam r ''taskType'') entityID)
       (flashError (utf8 [36136, 37327, 24453, 21150, 22788, 29702, 22833, 36133, 65306]) ''/knowledge#knowledge-tasks'')
       (\<lambda>_. Redirect (FlashSuccess (utf8 [36136, 37327, 24453, 21150, 24050, 26631, 35760, 20026, 22788, 29702, 23436, 25104, 65292, 24182, 24050, 20445, 30041, 23457, 35745, 35760, 24405])) ''/knowledge#knowledge-tasks''))"

section \<open>Routes\<close>

datatype routeSegment = Static string | Param string

datatype webMethod = Get | Post

fun matchPath :: "routeSegment list \<Rightarrow> string list \<Rightarrow> (string \<times> string) list option" where
  "matchPath [] [] = Some []"
| "matchPath (Static s # pattern) (segment # segments) = (if s = segment then matchPath pattern segments else None)"
| "matchPath (Param name # pattern) (segment # segments) =
     map_option (Cons (name, segment)) (matchPath pattern segments)"
| "matchPath _ _ = None"

text \<open>The routes below \<^verbatim>\<open>/knowledge\<close>; no two match the same request.\<close>

definition knowledgeRoutes :: "(webMethod \<times> routeSegment list \<times> handler) list" where
  "knowledgeRoutes =
    [(Get, [], DashboardHandler),
     (Post, [Static ''spaces''], CreateSpaceHandler),
     (Post, [Static ''spaces'', Param ''id'', Static ''delete-empty''], DeleteEmptySpaceHandler),
     (Post, [Static ''data-sources''], CreateDataSourceHandler),
     (Post, [Static ''data-sources'', Param ''id'', Static ''enable''], EnableDataSourceHandler),
     (Post, [Static ''data-sources'', Param ''id'', Static ''confirm-review''], ConfirmDataSourceReviewHandler),
     (Post, [Static ''data-sources'', Param ''id'', Static ''sync''], SyncMySQLHandler),
     (Post, [Static ''data-sources'', Static ''expire-due''], ExpireDueDataSourcesHandler),
     (Post, [Static ''revisions''], UploadRevisionHandler),
     (Post, [Static ''repository-artifacts''], ImportRepositoryArtifactHandler),
     (Post, [Static ''reviews'', Param ''revisionID'', Param ''reviewType'', Static ''pass''], CompleteReviewHandler),
     (Post, [Static ''approvals'', Param ''id'', Static ''approve''], ApproveHandler),
     (Post, [Static ''approvals'', Param ''id'', Static ''reject''], RejectHandler),
     (Post, [Static ''publications'', Param ''id'', Static ''activate''], ActivatePublicationHandler),
     (Post, [Static ''publications'', Param ''id'', Static ''retry-index''], RetryPublicationIndexHandler),
     (Post, [Static ''publications'', Param ''id'', Static ''unpublish''], UnpublishPublicationHandler),
     (Post, [Static ''jobs'', Param ''id'', Static ''process''], ProcessJobHandler),
     (Post, [Static ''dify-bindings''], CreateDifyBindingHandler),
     (Post, [Static ''search''], SearchHandler),
     (Post, [Static ''feedback''], CreateFeedbackHandler),
     (Post, [Static ''quality-tasks'', Param ''taskType'', Param ''id'', Static ''resolve''], ResolveQualityTaskHandler)]"

definition routed :: "webMethod \<Rightarrow> string list \<Rightarrow> (handler \<times> (string \<times> string) list) option" where
  "routed meth segments =
     (case List.map_filter (\<lambda>(m, pattern, h). if m = meth then map_option (Pair h) (matchPath pattern segments) else None)
        knowledgeRoutes of
        [] \<Rightarrow> None | found # _ \<Rightarrow> Some found)"

text \<open>\<open>Enabled\<close>: nothing is there unless the subsystem is switched on.\<close>

definition EnabledGuard :: "response prog \<Rightarrow> response prog" where
  "EnabledGuard next = andThen (askEnv setting) (\<lambda>k. if \<not> ks_Enabled k then ret NotFound else next)"

text \<open>A request of a signed-in user; what it carries in its path is in \<open>wr_PathParam\<close>.\<close>

definition serveConsole :: "User \<Rightarrow> webMethod \<Rightarrow> string list \<Rightarrow> webRequest \<Rightarrow> response prog" where
  "serveConsole doer meth segments r =
     (case routed meth segments of None \<Rightarrow> ret Unrouted
      | Some (h, params) \<Rightarrow>
          EnabledGuard (h doer (r\<lparr>wr_PathParam := \<lambda>name. case map_of params name of None \<Rightarrow> '''' | Some v \<Rightarrow> v\<rparr>)))"

section \<open>Handlers as requests of the system\<close>

text \<open>The requests a user can be the author of through the console.\<close>

primrec requestBy :: "User \<Rightarrow> request \<Rightarrow> bool" where
  "requestBy u (RCreateSpace opts) \<longleftrightarrow> cso_ActorID opts = user_ID u \<and> cso_OwnerID opts = user_ID u"
| "requestBy u (RDeleteEmptySpace spaceID actorID) \<longleftrightarrow> actorID = user_ID u"
| "requestBy u (RCreateDataSource opts) \<longleftrightarrow> cds_ActorID opts = user_ID u"
| "requestBy u (REnableDataSource sourceID actorID) \<longleftrightarrow> actorID = user_ID u"
| "requestBy u (RConfirmDataSourceReview sourceID actorID) \<longleftrightarrow> actorID = user_ID u"
| "requestBy u (RSyncMySQL sourceID actorID preview) \<longleftrightarrow> actorID = user_ID u"
| "requestBy u (RUploadRevision opts) \<longleftrightarrow> uro_ActorID opts = user_ID u"
| "requestBy u (RCompleteReview revisionID actorID reviewType comment) \<longleftrightarrow> actorID = user_ID u"
| "requestBy u (RApprove approvalID actorID comment) \<longleftrightarrow> actorID = user_ID u"
| "requestBy u (RReject approvalID actorID comment) \<longleftrightarrow> actorID = user_ID u"
| "requestBy u (RActivatePublication publicationID actorID) \<longleftrightarrow> actorID = user_ID u"
| "requestBy u (RUnpublishPublication publicationID actorID reason) \<longleftrightarrow> actorID = user_ID u"
| "requestBy u (RExpireDueDataSources actorID) \<longleftrightarrow> actorID = user_ID u"
| "requestBy u (RRetryPublicationIndex publicationID actorID) \<longleftrightarrow> actorID = user_ID u"
| "requestBy u (RProcessIndexJob jobID actorID) \<longleftrightarrow> actorID = user_ID u"
| "requestBy u (RWorker events) \<longleftrightarrow> False"
| "requestBy u (RRetrieveForUser user spaceID question topK) \<longleftrightarrow> user = Some u"
| "requestBy u (RRetrieveForDify token knowledgeID question topK) \<longleftrightarrow> False"
| "requestBy u (RRecordFeedback actorID spaceID publicationID category rating comment) \<longleftrightarrow> actorID = user_ID u"
| "requestBy u (RResolveQualityTask actorID taskType entityID) \<longleftrightarrow> actorID = user_ID u"
| "requestBy u (RCreateDifyBinding opts) \<longleftrightarrow> cdb_ActorID opts = user_ID u"

text \<open>A run that changes the database as one request of the user does, after reads only, or not at all.\<close>

definition actsFor :: "User \<Rightarrow> 'a prog \<Rightarrow> bool" where
  "actsFor u m \<longleftrightarrow>
     (\<forall>w. db (after m w) = db w \<or>
          (\<exists>req w1. requestBy u req \<and> steady w w1 \<and> db (after m w) = db (perform req w1)))"

lemma actsFor_quiet: "quiet.within m \<Longrightarrow> actsFor u m"
  unfolding actsFor_def after_def quiet.within_def steady_def by blast

lemma actsFor_read:
  assumes "quiet.within m" "\<And>a. actsFor u (k a)"
  shows "actsFor u (andThen m k)"
  unfolding actsFor_def
proof
  fix w
  obtain r w1 where m: "m w = (r, w1)" by fastforce
  with assms(1) have st: "steady w w1" by (rule quiet.withinD)
  show "db (after (andThen m k) w) = db w \<or>
      (\<exists>req w2. requestBy u req \<and> steady w w2 \<and> db (after (andThen m k) w) = db (perform req w2))"
  proof (cases r)
    case (Inl e)
    with m st show ?thesis by (simp add: after_def andThen_def steady_def)
  next
    case (Inr a)
    with m have run: "after (andThen m k) w = after (k a) w1" by (simp add: after_def andThen_def)
    from assms(2) [of a] have "db (after (k a) w1) = db w1 \<or>
        (\<exists>req w2. requestBy u req \<and> steady w1 w2 \<and> db (after (k a) w1) = db (perform req w2))"
      unfolding actsFor_def by blast
    then show ?thesis
    proof
      assume "db (after (k a) w1) = db w1"
      with run st show ?thesis by (simp add: steady_def)
    next
      assume "\<exists>req w2. requestBy u req \<and> steady w1 w2 \<and> db (after (k a) w1) = db (perform req w2)"
      with run quiet.R_trans [OF st] show ?thesis by metis
    qed
  qed
qed

lemma actsFor_request:
  assumes "requestBy u req" "perform req = after m" "\<And>a. quiet.within (k a)"
  shows "actsFor u (andThen (attempt m) k)"
  unfolding actsFor_def
proof
  fix w
  obtain r w1 where m: "m w = (r, w1)" by fastforce
  then have "after (andThen (attempt m) k) w = after (k r) w1" by (simp add: after_def andThen_def attempt_def)
  moreover have "db (after (k r) w1) = db w1"
    using assms(3) [of r] by (simp add: quiet.within_def steady_def after_def)
  ultimately have "db (after (andThen (attempt m) k) w) = db (perform req w)"
    using m by (simp add: assms(2) after_def)
  then show "db (after (andThen (attempt m) k) w) = db w \<or>
      (\<exists>req w1. requestBy u req \<and> steady w w1 \<and> db (after (andThen (attempt m) k) w) = db (perform req w1))"
    using assms(1) quiet.R_refl by blast
qed

lemma actsFor_answerWith: "requestBy u req \<Longrightarrow> perform req = after m \<Longrightarrow> actsFor u (answerWith m f g)"
  unfolding answerWith_def by (rule actsFor_request, assumption+) (intro quiet_intros)

lemma actsFor_option: "actsFor u m \<Longrightarrow> (\<And>a. actsFor u (k a)) \<Longrightarrow> actsFor u (case x of None \<Rightarrow> m | Some a \<Rightarrow> k a)"
  by (cases x) simp_all

lemma actsFor_sum:
  "(\<And>e. actsFor u (m e)) \<Longrightarrow> (\<And>a. actsFor u (k a)) \<Longrightarrow> actsFor u (case x of Inl e \<Rightarrow> m e | Inr a \<Rightarrow> k a)"
  by (cases x) simp_all

lemma actsFor_if: "actsFor u m \<Longrightarrow> actsFor u n \<Longrightarrow> actsFor u (if c then m else n)"
  by simp

lemma actsFor_ret: "actsFor u (ret a)"
  by (rule actsFor_quiet) (intro quiet_intros)

lemma actsFor_pair: "(\<And>a b. actsFor u (k a b)) \<Longrightarrow> actsFor u (case x of (a, b) \<Rightarrow> k a b)"
  by (cases x) simp

lemma actsFor_withPathID: "(\<And>i. actsFor u (k i)) \<Longrightarrow> actsFor u (withPathID r k)"
  unfolding withPathID_def by (intro actsFor_option actsFor_ret)

lemmas acts_intros = actsFor_ret actsFor_if actsFor_option actsFor_sum actsFor_pair actsFor_withPathID

lemma quiet_showDashboard: "quiet.within (showDashboard notice doer)"
  unfolding showDashboard_def answerWith_def by (intro quiet_intros quiet_Dashboard)

lemma quiet_readArtifact: "quiet.within (readArtifact doer r repoID commitSHA repoPath)"
  unfolding readArtifact_def gitSourceOpen_def getRepositoryByID_def by (intro quiet_intros)

lemma actsFor_handlers:
  "actsFor doer (DashboardHandler doer r)" "actsFor doer (CreateSpaceHandler doer r)"
  "actsFor doer (DeleteEmptySpaceHandler doer r)" "actsFor doer (EnableDataSourceHandler doer r)"
  "actsFor doer (ConfirmDataSourceReviewHandler doer r)" "actsFor doer (SyncMySQLHandler doer r)"
  "actsFor doer (ExpireDueDataSourcesHandler doer r)" "actsFor doer (CompleteReviewHandler doer r)"
  "actsFor doer (ApproveHandler doer r)" "actsFor doer (RejectHandler doer r)" "actsFor doer (ProcessJobHandler doer r)"
  "actsFor doer (RetryPublicationIndexHandler doer r)" "actsFor doer (ActivatePublicationHandler doer r)"
  "actsFor doer (UnpublishPublicationHandler doer r)" "actsFor doer (CreateFeedbackHandler doer r)"
  "actsFor doer (ResolveQualityTaskHandler doer r)"
proof -
  note handlers = DashboardHandler_def CreateSpaceHandler_def DeleteEmptySpaceHandler_def EnableDataSourceHandler_def
    ConfirmDataSourceReviewHandler_def SyncMySQLHandler_def ExpireDueDataSourcesHandler_def CompleteReviewHandler_def
    ApproveHandler_def RejectHandler_def ProcessJobHandler_def RetryPublicationIndexHandler_def ActivatePublicationHandler_def
    UnpublishPublicationHandler_def CreateFeedbackHandler_def ResolveQualityTaskHandler_def Let_def
  show "actsFor doer (DashboardHandler doer r)"
    unfolding handlers by (intro actsFor_quiet quiet_showDashboard)
  show "actsFor doer (CreateSpaceHandler doer r)"
    unfolding handlers by (rule actsFor_answerWith [OF _ perform.simps(1)]) simp
  show "actsFor doer (DeleteEmptySpaceHandler doer r)"
    unfolding handlers by (rule actsFor_answerWith [OF _ perform.simps(2)]) simp
  show "actsFor doer (EnableDataSourceHandler doer r)"
    unfolding handlers by (intro acts_intros, rule actsFor_answerWith [OF _ perform.simps(4)]) simp
  show "actsFor doer (ConfirmDataSourceReviewHandler doer r)"
    unfolding handlers by (intro acts_intros, rule actsFor_answerWith [OF _ perform.simps(5)]) simp
  show "actsFor doer (SyncMySQLHandler doer r)"
    unfolding handlers by (intro acts_intros, rule actsFor_answerWith [OF _ perform.simps(6)]) simp
  show "actsFor doer (ExpireDueDataSourcesHandler doer r)"
    unfolding handlers by (rule actsFor_answerWith [OF _ perform.simps(13)]) simp
  show "actsFor doer (CompleteReviewHandler doer r)"
    unfolding handlers by (intro acts_intros, rule actsFor_answerWith [OF _ perform.simps(8)]) simp
  show "actsFor doer (ApproveHandler doer r)"
    unfolding handlers by (intro acts_intros, rule actsFor_answerWith [OF _ perform.simps(9)]) simp
  show "actsFor doer (RejectHandler doer r)"
    unfolding handlers by (intro acts_intros, rule actsFor_answerWith [OF _ perform.simps(10)]) simp
  show "actsFor doer (ProcessJobHandler doer r)"
    unfolding handlers by (intro acts_intros, rule actsFor_answerWith [OF _ perform.simps(15)]) simp
  show "actsFor doer (RetryPublicationIndexHandler doer r)"
    unfolding handlers by (intro acts_intros, rule actsFor_answerWith [OF _ perform.simps(14)]) simp
  show "actsFor doer (ActivatePublicationHandler doer r)"
    unfolding handlers by (intro acts_intros, rule actsFor_answerWith [OF _ perform.simps(11)]) simp
  show "actsFor doer (UnpublishPublicationHandler doer r)"
    unfolding handlers by (intro acts_intros, rule actsFor_answerWith [OF _ perform.simps(12)]) simp
  show "actsFor doer (CreateFeedbackHandler doer r)"
    unfolding handlers by (rule actsFor_answerWith [OF _ perform.simps(19)]) simp
  show "actsFor doer (ResolveQualityTaskHandler doer r)"
    unfolding handlers by (intro acts_intros, rule actsFor_answerWith [OF _ perform.simps(20)]) simp
qed

lemma actsFor_CreateDataSource: "actsFor doer (CreateDataSourceHandler doer r)"
proof -
  have "quiet.within (effectiveDateOf r)" "quiet.within (sourceCodeOf r)"
    unfolding effectiveDateOf_def sourceCodeOf_def Let_def by (intro quiet_intros)+
  then show ?thesis
    unfolding CreateDataSourceHandler_def
    by (intro acts_intros actsFor_read quiet_calls actsFor_answerWith [OF _ perform.simps(3)])
      (simp_all add: dataSourceForm_def Let_def)
qed

lemma actsFor_uploads:
  "actsFor doer (UploadRevisionHandler doer r)" "actsFor doer (ImportRepositoryArtifactHandler doer r)"
  unfolding UploadRevisionHandler_def ImportRepositoryArtifactHandler_def Let_def
  by (intro acts_intros actsFor_read quiet_readArtifact actsFor_answerWith [OF _ perform.simps(7)]; simp add: uploadForm_def)+

lemma actsFor_pages: "actsFor doer (CreateDifyBindingHandler doer r)" "actsFor doer (SearchHandler doer r)"
  unfolding CreateDifyBindingHandler_def SearchHandler_def Let_def
  by (intro acts_intros actsFor_request [OF _ perform.simps(21)] quiet_intros quiet_showDashboard;
      simp add: flashError_def split: sum.split prod.split)
    (intro acts_intros actsFor_request [OF _ perform.simps(17)] quiet_intros quiet_showDashboard;
      simp add: flashError_def split: sum.split prod.split)

lemma map_filter_first: "List.map_filter f xs = y # ys \<Longrightarrow> \<exists>x \<in> set xs. f x = Some y"
  by (induction xs) (auto simp: map_filter_simps split: option.splits)

lemma routed_handler:
  assumes "routed meth segments = Some (h, params)"
  shows "h \<in> (snd \<circ> snd) ` set knowledgeRoutes"
proof -
  from assms obtain found where "List.map_filter (\<lambda>(m, pattern, h). if m = meth then map_option (Pair h) (matchPath pattern segments)
      else None) knowledgeRoutes = (h, params) # found"
    unfolding routed_def by (simp split: list.splits)
  from map_filter_first [OF this] show ?thesis by (force split: if_splits)
qed

lemma actsFor_route: "h \<in> (snd \<circ> snd) ` set knowledgeRoutes \<Longrightarrow> actsFor doer (h doer r)"
  by (auto simp: knowledgeRoutes_def actsFor_handlers actsFor_CreateDataSource actsFor_uploads actsFor_pages)

lemma actsFor_serveConsole: "actsFor doer (serveConsole doer meth segments r)"
proof (cases "routed meth segments")
  case None
  then show ?thesis by (simp add: serveConsole_def actsFor_ret)
next
  case (Some found)
  then obtain h params where found: "routed meth segments = Some (h, params)" by (metis prod.exhaust)
  then show ?thesis
    by (simp add: serveConsole_def EnabledGuard_def)
      (intro actsFor_read quiet_calls acts_intros actsFor_route [OF routed_handler [OF found]])
qed

text \<open>The endpoint for Dify is the request of \<open>System\<close>, with what it read from the call.\<close>

lemma ExternalRetrieval_request:
  "db (after (ExternalRetrieval authorization stream) w) = db w \<or>
   (\<exists>token knowledgeID question topK.
      db (after (ExternalRetrieval authorization stream) w) = db (perform (RRetrieveForDify token knowledgeID question topK) w))"
proof (cases "\<exists>token request. wellFormedCall (env w) authorization stream token request")
  case True
  then obtain token request where call: "wellFormedCall (env w) authorization stream token request" by blast
  have "db (after (ExternalRetrieval authorization stream) w) =
      db (perform (RRetrieveForDify token (dq_KnowledgeID request) (dq_Query request) (dq_TopK request)) w)"
    by (simp add: after_def ExternalRetrieval_calls [OF call] andThen_def split: prod.split sum.split)
  then show ?thesis by blast
next
  case False
  then show ?thesis
    by (rule_tac ExternalRetrieval_malformed [of w authorization stream]) (simp_all add: after_def)
qed

end
