(* ===== verification/Offers.thy ===== *)
theory Offers
  imports Handlers Refusals
begin

text \<open>
  The buttons of the console. A row says which actions it offers (\<open>dp_CanActivate\<close>, \<open>da_CanApprove\<close>, ...);
  the operations decide for themselves. The lemmas show that the two agree in one direction: an action
  that is not offered changes nothing when it is requested all the same.
\<close>

section \<open>What the page offers\<close>

text \<open>The review rows and the approval row of the page, from the database.\<close>

definition reviewRows :: "User \<Rightarrow> database \<Rightarrow> Approval \<Rightarrow> dashboardReviewCheck list" where
  "reviewRows u d approval =
     map (reviewRow (user_IsAdmin u \<and> appr_RequestedBy approval \<noteq> user_ID u))
       (sort_key rc_ID (tblFind (\<lambda>c. rc_RevisionID c = appr_RevisionID approval) (reviewChecks d)))"

definition offersApproval :: "User \<Rightarrow> database \<Rightarrow> Approval \<Rightarrow> bool" where
  "offersApproval u d approval \<longleftrightarrow>
     appr_Status approval = ApprovalStatusPending \<and>
     (case tblGet rev_ID (appr_RevisionID approval) (revisions d) of None \<Rightarrow> False | Some revision \<Rightarrow>
      case tblGet doc_ID (rev_DocumentID revision) (documents d) of None \<Rightarrow> False | Some document \<Rightarrow>
      da_CanApprove (approvalRow u approval revision document (reviewRows u d approval)))"

definition offersSource :: "(dashboardDataSource \<Rightarrow> bool) \<Rightarrow> User \<Rightarrow> DataSource \<Rightarrow> bool" where
  "offersSource can u source \<longleftrightarrow>
     can (sourceRow u '''' '''' \<lparr>fr_DueUnix = 0, fr_Label = '''', fr_IsTask = False, fr_IsOverdue = False\<rparr> source)"

definition rowOffers :: "('r \<Rightarrow> bool) \<Rightarrow> 'r option \<Rightarrow> bool" where
  "rowOffers P found \<longleftrightarrow> (case found of None \<Rightarrow> False | Some r \<Rightarrow> P r)"

text \<open>Requests that no row is about count as offered.\<close>

fun offered :: "User \<Rightarrow> database \<Rightarrow> request \<Rightarrow> bool" where
  "offered u d (RActivatePublication i a) = rowOffers (dp_CanActivate \<circ> publicationRow u) (tblGet pub_ID i (publications d))"
| "offered u d (RUnpublishPublication i a reason) = rowOffers (dp_CanUnpublish \<circ> publicationRow u) (tblGet pub_ID i (publications d))"
| "offered u d (RRetryPublicationIndex i a) = rowOffers (dp_CanRetry \<circ> publicationRow u) (tblGet pub_ID i (publications d))"
| "offered u d (RProcessIndexJob i a) = rowOffers (dj_CanProcess \<circ> jobRow) (tblGet job_ID i (indexJobs d))"
| "offered u d (REnableDataSource i a) = rowOffers (offersSource dx_CanApprove u) (tblGet ds_ID i (dataSources d))"
| "offered u d (RSyncMySQL i a preview) = rowOffers (offersSource dx_CanSync u) (tblGet ds_ID i (dataSources d))"
| "offered u d (RApprove i a comment) = rowOffers (offersApproval u d) (tblGet appr_ID i (approvals d))"
| "offered u d _ = True"

section \<open>Requests without an offer\<close>

text \<open>A run that reads, and then has no effect, has no effect.\<close>

lemma idle_andThen:
  assumes "quiet.within m" "\<And>a w'. m w = (Inr a, w') \<Longrightarrow> db w' = db w \<Longrightarrow> db (snd (k a w')) = db w'"
  shows "db (snd (andThen m k w)) = db w"
proof (cases "m w")
  case (Pair r w')
  then have "db w' = db w" using quiet.withinD [OF assms(1)] by (simp add: steady_def)
  then show ?thesis using Pair assms(2) by (cases r) (simp_all add: andThen_def)
qed

lemma quiet_access: "quiet.within (adminOr e i)" "quiet.within m \<Longrightarrow> quiet.within (foundOr e m)"
  unfolding adminOr_def foundOr_def getUserByID_def by (intro quiet_intros | assumption)+

lemma process_not_offered:
  assumes "\<not> rowOffers (dj_CanProcess \<circ> jobRow) (tblGet job_ID i (indexJobs (db w)))"
  shows "db (snd (processJob p i w)) = db w"
proof (cases "tblGet job_ID i (indexJobs (db w))")
  case None
  then show ?thesis
    by (simp add: processJob_def claimJob_def mustGet_def getByID_def query_def dbCall_def exec_simps Let_def)
next
  case (Some job)
  with assms have "job_Status job \<noteq> IndexJobStatusQueued \<and> job_Status job \<noteq> IndexJobStatusRetry"
    by (simp add: rowOffers_def jobRow_def)
  then show ?thesis
    using processJob_finished [OF Some _ prod.collapse [symmetric]] processJob_refused [OF Some _ prod.collapse [symmetric]]
    by (cases "job_Status job") blast+
qed

lemma unoffered_process:
  assumes "\<not> offered u (db w) (RProcessIndexJob i a)"
  shows "db (perform (RProcessIndexJob i a) w) = db w"
proof -
  have system: "db (snd (ProcessIndexJobSystem i v)) = db v" if "db v = db w" for v
    unfolding ProcessIndexJobSystem_def ValidateKnowledgeSettings_def orRaise_def
    by (intro idle_andThen quiet_intros process_not_offered) (use assms that in simp)
  show ?thesis
    unfolding perform.simps after_def ProcessIndexJob_def getUserByID_def
    by (intro idle_andThen quiet_intros) (simp add: system raise_def)
qed

lemma unoffered_publication:
  assumes "tblGet user_ID (user_ID u) (users (db w)) = Some u"
  shows "\<not> offered u (db w) (RActivatePublication i (user_ID u)) \<Longrightarrow> db (perform (RActivatePublication i (user_ID u)) w) = db w"
    and "\<not> offered u (db w) (RUnpublishPublication i (user_ID u) reason) \<Longrightarrow>
      db (perform (RUnpublishPublication i (user_ID u) reason) w) = db w"
    and "\<not> offered u (db w) (RRetryPublicationIndex i (user_ID u)) \<Longrightarrow> db (perform (RRetryPublicationIndex i (user_ID u)) w) = db w"
proof -
  note rows = rowOffers_def publicationRow_def
  {
    assume no: "\<not> offered u (db w) (RActivatePublication i (user_ID u))"
    show "db (perform (RActivatePublication i (user_ID u)) w) = db w"
      unfolding perform.simps after_def
    proof (rule allOrNothing_idle [OF allOrNothing_decisions(3)])
      fix v w'
      assume "catalogActivate i (user_ID u) w = (Inr v, w')"
      then obtain opts w1 w2 w3 candidate document space where "tblGet pub_ID i (publications (db w)) = Some candidate" "user_IsAdmin u"
        "activatable opts candidate document space (db w)"
        using assms by (auto elim!: catalogActivate_run ActivatePublication_run activateCandidate_run simp: activatable_def)
      with no show "db w' = db w" by (simp add: rows activatable_def)
    qed
  }
  {
    assume no: "\<not> offered u (db w) (RUnpublishPublication i (user_ID u) reason)"
    show "db (perform (RUnpublishPublication i (user_ID u) reason) w) = db w"
      unfolding perform.simps after_def
    proof (rule allOrNothing_idle [OF allOrNothing_decisions(4)])
      fix v w'
      assume "catalogUnpublish i (user_ID u) reason w = (Inr v, w')"
      then obtain opts w1 where r: "UnpublishPublication opts w1 = (Inr v, w')" "db w1 = db w" "upo_PublicationID opts = i" "user_IsAdmin u"
        using assms by (auto elim!: catalogUnpublish_run)
      from r(1) obtain w2 w3 where c: "unpublishCurrent opts w2 = (Inr v, w3)" "db w2 = db w" "db w3 = db w'"
        by (rule UnpublishPublication_run) (simp add: r(2))
      from c(1) show "db w' = db w"
      proof (cases rule: unpublishCurrent_run)
        case (revoked publication document space revision w4)
        with no r c show ?thesis by (simp add: rows unpublishable_def)
      qed (use c in simp)
    qed
  }
  {
    assume no: "\<not> offered u (db w) (RRetryPublicationIndex i (user_ID u))"
    show "db (perform (RRetryPublicationIndex i (user_ID u)) w) = db w"
      unfolding perform.simps after_def
    proof (rule allOrNothing_idle [OF allOrNothing_index(1)])
      fix v w'
      assume "RetryPublicationIndex i (user_ID u) w = (Inr v, w')"
      with assms no show "db w' = db w" by (auto simp: rows elim!: RetryPublicationIndex_run)
    qed
  }
qed

lemma unoffered_source:
  assumes "tblGet user_ID (user_ID u) (users (db w)) = Some u"
  shows "\<not> offered u (db w) (REnableDataSource i (user_ID u)) \<Longrightarrow> db (perform (REnableDataSource i (user_ID u)) w) = db w"
    and "\<not> offered u (db w) (RSyncMySQL i (user_ID u) preview) \<Longrightarrow> db (perform (RSyncMySQL i (user_ID u) preview) w) = db w"
proof -
  note rows = rowOffers_def offersSource_def sourceRow_def
  show "db (perform (REnableDataSource i (user_ID u)) w) = db w" if "\<not> offered u (db w) (REnableDataSource i (user_ID u))"
    unfolding perform.simps after_def
    by (rule allOrNothing_idle [OF allOrNothing_sources(1)]) (use assms that in \<open>auto simp: rows elim!: EnableDataSource_run\<close>)
  show "db (perform (RSyncMySQL i (user_ID u) preview) w) = db w" if "\<not> offered u (db w) (RSyncMySQL i (user_ID u) preview)"
    unfolding perform.simps after_def SyncMySQL_def
    by (intro idle_andThen quiet_access quiet_calls) (use assms that in \<open>auto simp: rows run_simps raise_def\<close>)
qed

lemma unoffered_approval:
  assumes "tblGet user_ID (user_ID u) (users (db w)) = Some u" "\<not> offered u (db w) (RApprove i (user_ID u) comment)"
  shows "db (perform (RApprove i (user_ID u) comment) w) = db w"
  unfolding perform.simps after_def
proof (rule allOrNothing_idle [OF allOrNothing_decisions(1)])
  fix res w'
  assume run: "Approve i (user_ID u) comment w = (Inr res, w')"
  then obtain opts w1 approval where r: "ApproveRevision opts w1 = (Inr res, w')" "db w1 = db w" "aro_ApprovalID opts = i"
    "aro_DecidedBy opts = user_ID u"
    "user_IsAdmin u" "tblGet appr_ID i (approvals (db w)) = Some approval" "appr_RequestedBy approval \<noteq> user_ID u"
    "allReviewsPassed (appr_RevisionID approval) (db w)"
    using assms(1) by (auto elim!: Approve_run)
  from r(1) obtain w2 w3 where d: "decideApproval opts w2 = (Inr res, w3)" "db w2 = db w" "db w3 = db w'"
    using r(2) by (auto elim!: ApproveRevision_run)
  from d(1) show "db w' = db w"
  proof (cases rule: decideApproval_run)
    case (decided approval' revision document space w4)
    have "list_all (\<lambda>c. dk_Status c = ''passed'') (reviewRows u (db w) approval)"
      using allReviewsPassed_all [OF r(8)] by (auto simp: reviewRows_def reviewRow_def list_all_iff tblFind_set)
    moreover have "length (reviewRows u (db w) approval) = length RequiredReviewTypes"
      using r(8) by (simp add: reviewRows_def allReviewsPassed_def)
    ultimately have "offersApproval u (db w) approval"
      using decided r d(2) by (auto simp: approvable_def offersApproval_def approvalRow_def)
    with assms(2) r(6) show ?thesis by (simp add: rowOffers_def)
  qed (use d in simp)
qed

lemma unoffered_nothing:
  assumes "tblGet user_ID (user_ID u) (users (db w)) = Some u" "requestBy u req" "\<not> offered u (db w) req"
  shows "db (perform req w) = db w"
  using assms unoffered_process unoffered_publication unoffered_source unoffered_approval
  by (cases req) (simp_all del: perform.simps)

end
