(* ===== verification/Lifetime.thy ===== *)
theory Lifetime
  imports Scenario
begin

text \<open>
  The scenario evaluated, request by request. The state it ends in serves the document of the
  upload, and a search in it cites that document.
\<close>

section \<open>The database of the scenario\<close>

definition lifeDb :: "Space table \<Rightarrow> DataSource table \<Rightarrow> ReviewCheck table \<Rightarrow> Document table \<Rightarrow> Revision table \<Rightarrow>
    Approval table \<Rightarrow> Publication table \<Rightarrow> IndexBinding table \<Rightarrow> IndexJob table \<Rightarrow> Outbox table \<Rightarrow> Repository table \<Rightarrow>
    AuditEvent table \<Rightarrow> database" where
  "lifeDb sp ds rc doc rv appr pub ib job ob repo ae =
     emptyDatabase\<lparr>spaces := sp, dataSources := ds, reviewChecks := rc, documents := doc, revisions := rv, approvals := appr,
       publications := pub, indexBindings := ib, indexJobs := job, outboxes := ob, auditEvents := ae,
       users := \<lparr>rows = [lifeOwner, lifeReviewer], next_id = 3\<rparr>, repositories := repo\<rparr>"

named_theorems life_simps

lemma lifeDb_tables [life_simps]:
  "spaces (lifeDb sp ds rc doc rv appr pub ib job ob repo ae) = sp"
  "dataSources (lifeDb sp ds rc doc rv appr pub ib job ob repo ae) = ds"
  "reviewChecks (lifeDb sp ds rc doc rv appr pub ib job ob repo ae) = rc"
  "documents (lifeDb sp ds rc doc rv appr pub ib job ob repo ae) = doc"
  "revisions (lifeDb sp ds rc doc rv appr pub ib job ob repo ae) = rv"
  "approvals (lifeDb sp ds rc doc rv appr pub ib job ob repo ae) = appr"
  "publications (lifeDb sp ds rc doc rv appr pub ib job ob repo ae) = pub"
  "indexBindings (lifeDb sp ds rc doc rv appr pub ib job ob repo ae) = ib"
  "indexJobs (lifeDb sp ds rc doc rv appr pub ib job ob repo ae) = job"
  "outboxes (lifeDb sp ds rc doc rv appr pub ib job ob repo ae) = ob"
  "auditEvents (lifeDb sp ds rc doc rv appr pub ib job ob repo ae) = ae"
  "repositories (lifeDb sp ds rc doc rv appr pub ib job ob repo ae) = repo"
  "users (lifeDb sp ds rc doc rv appr pub ib job ob repo ae) = \<lparr>rows = [lifeOwner, lifeReviewer], next_id = 3\<rparr>"
  "tombstones (lifeDb sp ds rc doc rv appr pub ib job ob repo ae) = emptyTable"
  by (simp_all add: lifeDb_def emptyDatabase_def)

lemma lifeDb_updates [life_simps]:
  "lifeDb sp ds rc doc rv appr pub ib job ob repo ae\<lparr>spaces := t1\<rparr> = lifeDb t1 ds rc doc rv appr pub ib job ob repo ae"
  "lifeDb sp ds rc doc rv appr pub ib job ob repo ae\<lparr>dataSources := t2\<rparr> = lifeDb sp t2 rc doc rv appr pub ib job ob repo ae"
  "lifeDb sp ds rc doc rv appr pub ib job ob repo ae\<lparr>reviewChecks := t3\<rparr> = lifeDb sp ds t3 doc rv appr pub ib job ob repo ae"
  "lifeDb sp ds rc doc rv appr pub ib job ob repo ae\<lparr>documents := t4\<rparr> = lifeDb sp ds rc t4 rv appr pub ib job ob repo ae"
  "lifeDb sp ds rc doc rv appr pub ib job ob repo ae\<lparr>revisions := t5\<rparr> = lifeDb sp ds rc doc t5 appr pub ib job ob repo ae"
  "lifeDb sp ds rc doc rv appr pub ib job ob repo ae\<lparr>approvals := t6\<rparr> = lifeDb sp ds rc doc rv t6 pub ib job ob repo ae"
  "lifeDb sp ds rc doc rv appr pub ib job ob repo ae\<lparr>publications := t7\<rparr> = lifeDb sp ds rc doc rv appr t7 ib job ob repo ae"
  "lifeDb sp ds rc doc rv appr pub ib job ob repo ae\<lparr>indexBindings := t8\<rparr> = lifeDb sp ds rc doc rv appr pub t8 job ob repo ae"
  "lifeDb sp ds rc doc rv appr pub ib job ob repo ae\<lparr>indexJobs := t9\<rparr> = lifeDb sp ds rc doc rv appr pub ib t9 ob repo ae"
  "lifeDb sp ds rc doc rv appr pub ib job ob repo ae\<lparr>outboxes := t10\<rparr> = lifeDb sp ds rc doc rv appr pub ib job t10 repo ae"
  "lifeDb sp ds rc doc rv appr pub ib job ob repo ae\<lparr>repositories := t11\<rparr> = lifeDb sp ds rc doc rv appr pub ib job ob t11 ae"
  "lifeDb sp ds rc doc rv appr pub ib job ob repo ae\<lparr>auditEvents := t12\<rparr> = lifeDb sp ds rc doc rv appr pub ib job ob repo t12"
  by (simp_all add: lifeDb_def)

lemma lifeDb_inject [life_simps]:
  "lifeDb sp ds rc doc rv appr pub ib job ob repo ae = lifeDb sp' ds' rc' doc' rv' appr' pub' ib' job' ob' repo' ae' \<longleftrightarrow>
     sp = sp' \<and> ds = ds' \<and> rc = rc' \<and> doc = doc' \<and> rv = rv' \<and> appr = appr' \<and> pub = pub' \<and> ib = ib' \<and> job = job' \<and>
     ob = ob' \<and> repo = repo' \<and> ae = ae'"
  by (auto simp: lifeDb_def emptyDatabase_def)

text \<open>A world of the scenario; the audit log is left open.\<close>

definition standsAt :: "(AuditEvent table \<Rightarrow> database) \<Rightarrow> world \<Rightarrow> bool" where
  "standsAt D w \<longleftrightarrow> env w = stageEnv \<and> (\<exists>ae. db w = D ae)"

lemma stage_services [life_simps]:
  "createRepo stageEnv = createRepo sampleEnv" "changeRepoFiles stageEnv = (\<lambda>_ _ _ _ _ _. Inr (Some ''c0ffee''))"
  "detectContentType stageEnv = (\<lambda>_. ''text/plain; charset=utf-8'')" "lowerOther stageEnv = snd"
  by (simp_all add: stageEnv_def sampleEnv_def)

lemma start_stands: "standsAt (lifeDb emptyTable emptyTable emptyTable emptyTable emptyTable emptyTable emptyTable emptyTable
    emptyTable emptyTable emptyTable) lifeAccounts"
proof -
  have "emptyDatabase = emptyDatabase\<lparr>spaces := emptyTable, dataSources := emptyTable, reviewChecks := emptyTable,
    documents := emptyTable, revisions := emptyTable, approvals := emptyTable, publications := emptyTable,
    indexBindings := emptyTable, indexJobs := emptyTable, outboxes := emptyTable, auditEvents := emptyTable\<rparr>"
    by (simp add: emptyDatabase_def)
  then show ?thesis
    by (auto simp: standsAt_def lifeAccounts_def stage_simps lifeDb_def emptyDatabase_def)
qed

section \<open>The space\<close>

definition madeSpace :: "int \<Rightarrow> Space" where
  "madeSpace n =
     \<lparr>sp_ID = 1, sp_OwnerID = 1, sp_RepoID = 1, sp_Name = ''Policies'', sp_Slug = ''policies'', sp_Description = ''x'',
      sp_Status = SpaceStatusActive, sp_PublicationGeneration = n, sp_RevocationGeneration = 1, sp_CreatedBy = 1,
      sp_CreatedUnix = 1000, sp_UpdatedUnix = 1000\<rparr>"

definition madeRepo :: Repository where
  "madeRepo = \<lparr>repo_ID = 1, repo_OwnerID = 1, repo_Name = ''kb-policies'', repo_DefaultBranch = ''main''\<rparr>"

lemma life_users [life_simps]: "lifeOwner = \<lparr>user_ID = 1, user_Name = ''alice'', user_LowerName = ''alice'', user_IsAdmin = True\<rparr>"
  "lifeReviewer = \<lparr>user_ID = 2, user_Name = ''bob'', user_LowerName = ''bob'', user_IsAdmin = True\<rparr>"
  by (simp_all add: lifeOwner_def lifeReviewer_def)

lemma space_text [life_simps]: "trimSpace ''Policies'' = ''Policies''" "validDisplayText ''Policies'' False" "validDisplayText ''x'' True"
  "trimSpace ''x'' = ''x''"
  by (simp_all add: eval_simps)

lemma slug1: "lowerAll stageEnv ''Policies'' = ''policies''"
  by (simp add: eval_simps life_simps)

lemma slug2: "replaceRuns False ''policies'' = ''policies''"
  by (simp add: eval_simps life_simps)

lemma slug3: "trimChars ''policies'' ''-._'' = ''policies''"
  by (simp add: eval_simps life_simps)

lemma space_slug [life_simps]: "makeSlug stageEnv ''Policies'' = ''policies''"
  unfolding makeSlug_def Let_def space_text(1) slug1 slug2 slug3 by simp

lemma space_repo [life_simps]: "isUsableRepoName ''kb-policies'' = None"
  by (simp add: isUsableRepoName_def isUsableName_def repoNameChar_def eval_simps)

lemma space_created:
  assumes "standsAt (lifeDb emptyTable emptyTable emptyTable emptyTable emptyTable emptyTable emptyTable emptyTable
    emptyTable emptyTable emptyTable) v"
  shows "standsAt (lifeDb \<lparr>rows = [madeSpace 0], next_id = 2\<rparr> emptyTable emptyTable emptyTable emptyTable emptyTable emptyTable
    emptyTable emptyTable emptyTable \<lparr>rows = [madeRepo], next_id = 2\<rparr>) (perform (RCreateSpace lifeSpace) v)"
proof -
  obtain ae where [simp]: "env v = stageEnv" "db v = lifeDb emptyTable emptyTable emptyTable emptyTable emptyTable emptyTable
      emptyTable emptyTable emptyTable emptyTable emptyTable ae"
    using assms by (auto simp: standsAt_def)
  show ?thesis
    by (simp add: CreateSpace_def after_def lifeSpace_def exec_simps table_eval life_simps stage_simps Let_def standsAt_def
        newSpace_def madeSpace_def madeRepo_def sampleEnv_def sp_stamp_def currentUnix_def)
qed

section \<open>The data source\<close>

definition madeSource :: "DataSourceStatus \<Rightarrow> DataSource" where
  "madeSource status =
     \<lparr>ds_ID = 1, ds_SpaceID = 1, ds_SourceCode = ''S1'', ds_Name = ''Handbook'', ds_SourceType = DataSourceTypePolicy,
      ds_BusinessDomainCode = ''hr'', ds_ContentTypeCode = ''policy'', ds_SourceDepartment = ''hr'', ds_ContentOwnerID = 1,
      ds_MaintenanceOwnerID = 2, ds_EffectiveUnix = 1, ds_ExpiresUnix = 0, ds_ReviewFrequency = ReviewFrequencyMonthly,
      ds_SecurityLevel = SecurityLevelInternal, ds_ApprovalBasisRef = ''basis-1'',
      ds_ApplicableScopeJSON = cds_ApplicableScopeJSON lifeSource, ds_SourceAuthorizationRef = ''grant-id:1'',
      ds_SourceFormat = ''text'', ds_SearchabilityStatus = SearchabilityStatusSearchable, ds_Status = status,
      ds_ConnectorType = '''', ds_SecretRef = '''', ds_ReadScope = '''', ds_QueryTemplateRef = '''', ds_SchemaVersion = '''',
      ds_FieldMappingJSON = '''', ds_IncrementalCursorField = '''', ds_DataRetentionRule = '''',
      ds_MaskPolicyVersion = ''mask-policy-1'', ds_LastSyncUnix = 0, ds_LastSuccessCursor = '''', ds_CreatedBy = 1,
      ds_CreatedUnix = 1000, ds_UpdatedUnix = 1000\<rparr>"

lemma source_text [life_simps]: "trimSpace ''S1'' = ''S1''" "trimSpace ''Handbook'' = ''Handbook''" "trimSpace ''hr'' = ''hr''"
  "trimSpace ''policy'' = ''policy''" "trimSpace ''basis-1'' = ''basis-1''" "trimSpace ''grant-id:1'' = ''grant-id:1''"
  "trimSpace ''text'' = ''text''" "trimSpace ''mask-policy-1'' = ''mask-policy-1''" "trimSpace ''alice'' = ''alice''"
  "trimSpace ''bob'' = ''bob''" "trimSpace [] = []" "toLower ''alice'' = ''alice''" "toLower ''bob'' = ''bob''"
  by (simp_all add: eval_simps)

lemma source_display: "validDisplayText ''Handbook'' False" "validDisplayText ''hr'' False" "validDisplayText ''policy'' False"
  "validDisplayText ''text'' False"
  by (simp_all add: eval_simps)

lemma source_scope: "trimSpace (cds_ApplicableScopeJSON lifeSource) = cds_ApplicableScopeJSON lifeSource"
  "validScopeJSON (cds_ApplicableScopeJSON lifeSource)"
  by (simp_all add: lifeSource_def eval_simps)

lemma source_references: "dataSourceCodePattern ''S1''" "validSafeReference ''basis-1''" "sourceReference ''grant-id:1''"
  "validMaskPolicyRef ''mask-policy-1''"
  by (simp_all add: eval_simps)


lemma life_source [life_simps]: "cds_SpaceID lifeSource = 1" "cds_ActorID lifeSource = 1" "cds_SourceCode lifeSource = ''S1''"
  "cds_Name lifeSource = ''Handbook''" "cds_SourceType lifeSource = DataSourceTypePolicy" "cds_BusinessDomainCode lifeSource = ''hr''"
  "cds_ContentTypeCode lifeSource = ''policy''" "cds_SourceDepartment lifeSource = ''hr''"
  "cds_ContentOwnerUsername lifeSource = ''alice''" "cds_MaintenanceUsername lifeSource = ''bob''"
  "cds_EffectiveUnix lifeSource = 1" "cds_ExpiresUnix lifeSource = 0" "cds_ReviewFrequency lifeSource = ReviewFrequencyMonthly"
  "cds_SecurityLevel lifeSource = SecurityLevelInternal" "cds_ApprovalBasisRef lifeSource = ''basis-1''"
  "cds_SourceAuthorizationRef lifeSource = ''grant-id:1''" "cds_SourceFormat lifeSource = ''text''"
  "cds_SearchabilityStatus lifeSource = SearchabilityStatusSearchable" "cds_ConnectorType lifeSource = ''''"
  "cds_SecretRef lifeSource = ''''" "cds_ReadScope lifeSource = ''''" "cds_QueryTemplateRef lifeSource = ''''"
  "cds_SchemaVersion lifeSource = ''''" "cds_FieldMappingJSON lifeSource = ''''" "cds_IncrementalCursorField lifeSource = ''''"
  "cds_DataRetentionRule lifeSource = ''''" "cds_MaskPolicyVersion lifeSource = ''mask-policy-1''"
  by (simp_all add: lifeSource_def)

lemma source_valid: "validateDataSourceOptions lifeSource = None"
  by (simp add: validateDataSourceOptions_def life_simps source_scope source_display source_references validReviewFrequency_def
      validSecurityLevel_def validDataSourceType_def validSearchabilityStatus_def)

lemma no_ae_clash [life_simps]: "list_ex (ae_clash event) events = False"
  by (simp add: ae_clash_def list_ex_iff)

lemma source_created:
  assumes "standsAt (lifeDb \<lparr>rows = [madeSpace 0], next_id = 2\<rparr> emptyTable emptyTable emptyTable emptyTable emptyTable emptyTable
    emptyTable emptyTable emptyTable \<lparr>rows = [madeRepo], next_id = 2\<rparr>) v"
  shows "standsAt (lifeDb \<lparr>rows = [madeSpace 0], next_id = 2\<rparr> \<lparr>rows = [madeSource DataSourceStatusPendingReview], next_id = 2\<rparr>
    emptyTable emptyTable emptyTable emptyTable emptyTable emptyTable emptyTable emptyTable \<lparr>rows = [madeRepo], next_id = 2\<rparr>)
    (perform (RCreateDataSource lifeSource) v)"
proof -
  obtain ae where [simp]: "env v = stageEnv" "db v = lifeDb \<lparr>rows = [madeSpace 0], next_id = 2\<rparr> emptyTable emptyTable emptyTable
      emptyTable emptyTable emptyTable emptyTable emptyTable emptyTable \<lparr>rows = [madeRepo], next_id = 2\<rparr> ae"
    using assms by (auto simp: standsAt_def)
  show ?thesis
    by (simp add: CreateDataSource_def loadManagedSpace_def source_valid newDataSource_def madeSpace_def source_scope insertDataSourceAudit_def after_def exec_simps table_eval life_simps
        stage_simps Let_def madeSource_def ds_stamp_def currentUnix_def standsAt_def)
qed

lemma source_enabled:
  assumes "standsAt (lifeDb \<lparr>rows = [madeSpace 0], next_id = 2\<rparr> \<lparr>rows = [madeSource DataSourceStatusPendingReview], next_id = 2\<rparr>
    emptyTable emptyTable emptyTable emptyTable emptyTable emptyTable emptyTable emptyTable \<lparr>rows = [madeRepo], next_id = 2\<rparr>) v"
  shows "standsAt (lifeDb \<lparr>rows = [madeSpace 0], next_id = 2\<rparr> \<lparr>rows = [madeSource DataSourceStatusEnabled], next_id = 2\<rparr>
    emptyTable emptyTable emptyTable emptyTable emptyTable emptyTable emptyTable emptyTable \<lparr>rows = [madeRepo], next_id = 2\<rparr>)
    (perform (REnableDataSource 1 2) v)"
proof -
  obtain ae where [simp]: "env v = stageEnv" "db v = lifeDb \<lparr>rows = [madeSpace 0], next_id = 2\<rparr>
      \<lparr>rows = [madeSource DataSourceStatusPendingReview], next_id = 2\<rparr> emptyTable emptyTable emptyTable emptyTable emptyTable
      emptyTable emptyTable emptyTable \<lparr>rows = [madeRepo], next_id = 2\<rparr> ae"
    using assms by (auto simp: standsAt_def)
  show ?thesis
    by (simp add: EnableDataSource_def approveSource_def insertDataSourceAudit_def after_def exec_simps table_eval life_simps
        stage_simps Let_def madeSource_def ds_touch_def currentUnix_def standsAt_def)
qed


section \<open>The upload\<close>

definition lifeSHA :: string where
  "lifeSHA = hexEncode (sampleDigest ''data'')"

definition lifeManifest :: UploadManifest where
  "lifeManifest = \<lparr>um_Masked = True, um_FileName = ''guide.txt'', um_ContentSHA256 = lifeSHA, um_Size = 4,
     um_MIMEType = ''text/plain'', um_MaskPolicyVersion = ''mask-policy-1'', um_MaskManifestJSON = emptyMaskManifest,
     um_SourceAuthorization = ''grant-id:1''\<rparr>"

definition lifeChecked :: checkedUpload where
  "lifeChecked = \<lparr>cu_content = ''data'', cu_contentSHA = lifeSHA, cu_detectedMIME = ''text/plain'', cu_manifest = lifeManifest\<rparr>"

lemma life_MIME: "detectArtifactMIME stageEnv ''guide.txt'' (Some ''data'') 4 = Inr ''text/plain''"
  by (simp add: detectArtifactMIME_def life_simps eval_simps)

lemma life_manifest_json: "validateManifestJSON emptyMaskManifest = Inr ()"
  by (simp add: emptyMaskManifest_def eval_simps)

lemma life_sha_valid: "validSHA256 lifeSHA" "equalSHA256 lifeSHA lifeSHA"
  by (simp_all add: lifeSHA_def sampleDigest_def validSHA256_def equalSHA256_def hexDecode_hexEncode del: hexEncode.simps)

lemma life_limit: "wrap64 33554433 = 33554433"
  by (simp add: wrap64_id)

lemma life_type: "up_AllowedTypes defaultUploadPolicy ''.txt'' = Some ''text/plain''"
  by (simp add: defaultUploadPolicy_def)

lemma life_policy: "validMaskPolicyVersion ''mask-policy-1''" "validSourceAuthorization ''grant-id:1''" "isSafeBaseName ''guide.txt''"
  "toLower (fileExt ''guide.txt'') = ''.txt''" "normalizeMIME ''text/plain'' = ''text/plain''"
  by (simp_all add: eval_simps)

lemma life_read: "readUpload stageEnv lifeUpload (madeSource DataSourceStatusEnabled) = Inr lifeChecked"
  by (simp add: readUpload_def effectiveMaxBytes_def stage_simps life_MIME defaultedManifest_def completedManifest_def
      lifeUpload_def readLimited_def Let_def life_simps madeSource_def validateUploadManifest_def lifeChecked_def lifeManifest_def
      life_sha_valid life_policy life_manifest_json life_limit life_type lifeSHA_def [symmetric])


definition lifePath :: string where
  "lifePath = buildRevisionRepoPath stageEnv (1000 * second) lifeSHA ''guide.txt''"

definition madeDocument :: "GovernanceStatus \<Rightarrow> int \<Rightarrow> Document" where
  "madeDocument status current =
     \<lparr>doc_ID = 1, doc_SpaceID = 1, doc_DataSourceID = 1, doc_Title = ''Guide'', doc_RepoPath = lifePath,
      doc_MIMEType = ''text/plain'', doc_GovernanceStatus = status, doc_CurrentRevisionID = 1,
      doc_CurrentPublicationID = current, doc_CreatedBy = 1, doc_CreatedUnix = 1000, doc_UpdatedUnix = 1000\<rparr>"

definition madeRevision :: Revision where
  "madeRevision =
     \<lparr>rev_ID = 1, rev_DocumentID = 1, rev_RevisionNo = 1, rev_FileName = ''guide.txt'', rev_RepoPath = lifePath,
      rev_ContentSHA256 = lifeSHA, rev_Size = 4, rev_GitCommitSHA = ''c0ffee'', rev_MaskPolicyVersion = ''mask-policy-1'',
      rev_MaskManifestJSON = emptyMaskManifest, rev_SourceAuthorization = ''grant-id:1'', rev_BusinessDomainCode = ''hr'',
      rev_ContentTypeCode = ''policy'', rev_SecurityLevel = SecurityLevelInternal,
      rev_ApplicableScopeJSON = cds_ApplicableScopeJSON lifeSource, rev_VersionNo = ''V1'', rev_RevisionRelation = ''new'',
      rev_SourceDepartment = ''hr'', rev_ContentOwnerID = 1, rev_MaintenanceOwnerID = 2, rev_ApprovalBasisRef = ''basis-1'',
      rev_EffectiveUnix = 1, rev_ExpiresUnix = 0, rev_SearchabilityStatus = SearchabilityStatusSearchable, rev_CreatedBy = 1,
      rev_CreatedUnix = 1000\<rparr>"

definition madeApproval :: "ApprovalStatus \<Rightarrow> int \<Rightarrow> TimeStamp \<Rightarrow> Approval" where
  "madeApproval status decidedBy decidedUnix =
     \<lparr>appr_ID = 1, appr_RevisionID = 1, appr_Status = status, appr_RequestedBy = 1, appr_RequestedUnix = 1000,
      appr_DecidedBy = decidedBy, appr_DecidedUnix = decidedUnix, appr_Comment = ''''\<rparr>"

definition pendingCheck :: "int \<Rightarrow> string \<Rightarrow> ReviewCheck" where
  "pendingCheck i reviewType =
     \<lparr>rc_ID = i, rc_RevisionID = 1, rc_ReviewType = reviewType, rc_Status = ''pending'', rc_Comment = '''', rc_CheckedBy = 0,
      rc_CheckedUnix = 0, rc_CreatedUnix = 1000, rc_UpdatedUnix = 1000\<rparr>"

definition passedCheck :: "int \<Rightarrow> string \<Rightarrow> ReviewCheck" where
  "passedCheck i reviewType =
     (pendingCheck i reviewType)\<lparr>rc_Status := ''passed'', rc_CheckedBy := 2, rc_CheckedUnix := 1000\<rparr>"

definition lifeContext :: uploadContext where
  "lifeContext = \<lparr>uc_space = madeSpace 0, uc_source = madeSource DataSourceStatusEnabled, uc_actor = lifeOwner,
     uc_repo = madeRepo, uc_existing = None\<rparr>"

lemma life_upload [life_simps]: "uro_DocumentID lifeUpload = 0" "uro_SpaceID lifeUpload = 1" "uro_DataSourceID lifeUpload = 1"
  "uro_ActorID lifeUpload = 1" "uro_Title lifeUpload = ''Guide''" "uro_VersionNo lifeUpload = ''V1''"
  "uro_Relation lifeUpload = ''new''" "uro_FileName lifeUpload = ''guide.txt''" "uro_Content lifeUpload = Some (''data'', None)"
  by (simp_all add: lifeUpload_def)

lemma upload_text [life_simps]: "validDisplayText ''Guide'' False" "validDocumentVersion ''V1''" "validRevisionRelation ''new''"
  "trimSpace ''Guide'' = ''Guide''" "trimSpace ''V1'' = ''V1''" "trimSpace ''new'' = ''new''" "trimSpace ''c0ffee'' = ''c0ffee''"
  by (simp_all add: eval_simps)

lemma upload_checked:
  assumes [simp]: "env v = stageEnv" "db v = lifeDb \<lparr>rows = [madeSpace 0], next_id = 2\<rparr>
      \<lparr>rows = [madeSource DataSourceStatusEnabled], next_id = 2\<rparr> emptyTable emptyTable emptyTable emptyTable emptyTable
      emptyTable emptyTable emptyTable \<lparr>rows = [madeRepo], next_id = 2\<rparr> ae"
  shows "\<exists>w. checkUpload lifeUpload v = (Inr lifeContext, w) \<and> env w = stageEnv \<and> db w = db v"
  by (simp add: checkUpload_def checkSource_def checkDocument_def exec_simps table_eval life_simps stage_simps madeSpace_def
      madeSource_def madeRepo_def lifeContext_def)

lemma upload_committed:
  assumes [simp]: "env v = stageEnv"
  shows "\<exists>w. commitUpload lifeUpload lifeContext lifeChecked v = (Inr (lifePath, ''c0ffee''), w) \<and> env w = stageEnv \<and> db w = db v"
  by (simp add: commitUpload_def exec_simps life_simps stage_simps lifeChecked_def lifePath_def) 

lemma upload_recorded:
  assumes [simp]: "env v = stageEnv" "db v = lifeDb \<lparr>rows = [madeSpace 0], next_id = 2\<rparr>
      \<lparr>rows = [madeSource DataSourceStatusEnabled], next_id = 2\<rparr> emptyTable emptyTable emptyTable emptyTable emptyTable
      emptyTable emptyTable emptyTable \<lparr>rows = [madeRepo], next_id = 2\<rparr> ae"
  shows "\<exists>res w. recordUpload lifeUpload lifeContext lifeChecked lifePath ''c0ffee'' v = (Inr res, w) \<and> env w = stageEnv \<and>
     db w = lifeDb \<lparr>rows = [madeSpace 0], next_id = 2\<rparr> \<lparr>rows = [madeSource DataSourceStatusEnabled], next_id = 2\<rparr>
       \<lparr>rows = [pendingCheck 1 ''source'', pendingCheck 2 ''content'', pendingCheck 3 ''permission'', pendingCheck 4 ''sensitive'',
                pendingCheck 5 ''format'', pendingCheck 6 ''release''], next_id = 7\<rparr>
       \<lparr>rows = [madeDocument GovernanceStatusPending 0], next_id = 2\<rparr> \<lparr>rows = [madeRevision], next_id = 2\<rparr>
       \<lparr>rows = [madeApproval ApprovalStatusPending 0 0], next_id = 2\<rparr> emptyTable emptyTable emptyTable emptyTable
       \<lparr>rows = [madeRepo], next_id = 2\<rparr> ae"
  by (simp add: recordUpload_def pendingDocument_def nextRevisionNo_def insertReviewChecks_def RequiredReviewTypes_def
      exec_simps table_eval life_simps stage_simps Let_def lifeContext_def lifeChecked_def lifeManifest_def newDocument_def newRevision_def newApproval_def
      newReviewCheck_def madeSpace_def madeSource_def madeRevision_def madeDocument_def madeApproval_def pendingCheck_def currentUnix_def
      doc_stamp_def rev_stamp_def appr_stamp_def rc_stamp_def doc_touch_def rc_clash_def)


definition lifeChecks :: "nat \<Rightarrow> ReviewCheck list" where
  "lifeChecks n = map (\<lambda>(i, t). if i \<le> n then passedCheck (int i) t else pendingCheck (int i) t)
     [(1, ''source''), (2, ''content''), (3, ''permission''), (4, ''sensitive''), (5, ''format''), (6, ''release'')]"

text \<open>The scenario with the revision uploaded and the first reviews passed.\<close>

definition underReview :: "nat \<Rightarrow> AuditEvent table \<Rightarrow> database" where
  "underReview n = lifeDb \<lparr>rows = [madeSpace 0], next_id = 2\<rparr> \<lparr>rows = [madeSource DataSourceStatusEnabled], next_id = 2\<rparr>
     \<lparr>rows = lifeChecks n, next_id = 7\<rparr> \<lparr>rows = [madeDocument GovernanceStatusPending 0], next_id = 2\<rparr>
     \<lparr>rows = [madeRevision], next_id = 2\<rparr> \<lparr>rows = [madeApproval ApprovalStatusPending 0 0], next_id = 2\<rparr> emptyTable emptyTable
     emptyTable emptyTable \<lparr>rows = [madeRepo], next_id = 2\<rparr>"

lemma life_source_context: "uc_source lifeContext = madeSource DataSourceStatusEnabled"
  by (simp add: lifeContext_def)

lemma revision_uploaded:
  assumes "standsAt (lifeDb \<lparr>rows = [madeSpace 0], next_id = 2\<rparr> \<lparr>rows = [madeSource DataSourceStatusEnabled], next_id = 2\<rparr>
    emptyTable emptyTable emptyTable emptyTable emptyTable emptyTable emptyTable emptyTable \<lparr>rows = [madeRepo], next_id = 2\<rparr>) v"
  shows "standsAt (underReview 0) (perform (RUploadRevision lifeUpload) v)"
proof -
  obtain ae where v: "env v = stageEnv" "db v = lifeDb \<lparr>rows = [madeSpace 0], next_id = 2\<rparr>
      \<lparr>rows = [madeSource DataSourceStatusEnabled], next_id = 2\<rparr> emptyTable emptyTable emptyTable emptyTable emptyTable
      emptyTable emptyTable emptyTable \<lparr>rows = [madeRepo], next_id = 2\<rparr> ae"
    using assms by (auto simp: standsAt_def)
  obtain w1 where w1: "checkUpload lifeUpload v = (Inr lifeContext, w1)" "env w1 = stageEnv" "db w1 = db v"
    using upload_checked [OF v] by blast
  obtain w2 where w2: "commitUpload lifeUpload lifeContext lifeChecked w1 = (Inr (lifePath, ''c0ffee''), w2)"
    "env w2 = stageEnv" "db w2 = db v"
    using upload_committed [OF w1(2)] w1(3) by auto
  let ?w3 = "w2\<lparr>calls := Suc (calls w2), db := db v\<rparr>"
  have w3: "env ?w3 = stageEnv" "db ?w3 = db v" using w2 by simp_all
  from upload_recorded [OF w3(1) trans [OF w3(2) v(2)]] obtain res w4 where
    w4: "recordUpload lifeUpload lifeContext lifeChecked lifePath ''c0ffee'' ?w3 = (Inr res, w4)" "env w4 = stageEnv"
      "db w4 = underReview 0 ae"
    by (auto simp: underReview_def lifeChecks_def)
  show ?thesis
    by (simp add: UploadRevision_def after_def exec_simps w1 w2 w4 life_source_context life_read stage_simps standsAt_def)
      blast
qed


section \<open>The reviews and the approval\<close>

lemma review_completed:
  assumes "standsAt (underReview n) v" "n < 6" "t = RequiredReviewTypes ! n"
  shows "standsAt (underReview (Suc n)) (perform (RCompleteReview 1 2 t '''') v)"
proof -
  obtain ae where [simp]: "env v = stageEnv" "db v = underReview n ae"
    using assms(1) by (auto simp: standsAt_def)
  from assms(2) have "n = 0 \<or> n = 1 \<or> n = 2 \<or> n = 3 \<or> n = 4 \<or> n = 5" by linarith
  then show ?thesis unfolding assms(3)
    by (elim disjE; simp)
      (simp_all add: CompleteReview_def isRequiredReviewType_def RequiredReviewTypes_def auditReview_def after_def exec_simps
        table_eval life_simps stage_simps Let_def standsAt_def underReview_def lifeChecks_def pendingCheck_def passedCheck_def
        madeApproval_def madeRevision_def madeDocument_def rc_touch_def currentUnix_def validDisplayText_def)
qed

lemma reviews_completed:
  assumes "standsAt (underReview 0) v"
  shows "standsAt (underReview 6) (fold perform (map (\<lambda>t. RCompleteReview 1 2 t '''') RequiredReviewTypes) v)"
proof -
  have "standsAt (underReview n) (fold perform (map (\<lambda>t. RCompleteReview 1 2 t '''') (take n RequiredReviewTypes)) v)" if "n \<le> 6" for n
    using that
  proof (induction n)
    case (Suc n)
    then have "take (Suc n) RequiredReviewTypes = take n RequiredReviewTypes @ [RequiredReviewTypes ! n]"
      by (intro take_Suc_conv_app_nth) (simp add: RequiredReviewTypes_def)
    with Suc review_completed show ?case by simp
  qed (use assms in simp)
  from this [of 6] show ?thesis by (simp add: RequiredReviewTypes_def)
qed


section \<open>The approval\<close>

definition lifeKey :: "IndexJobType \<Rightarrow> string" where
  "lifeKey jobType = buildIndexIdempotencyKey
     \<lparr>ik_OwnerID = 1, ik_SpaceID = 1, ik_PublicationID = 1, ik_Generation = 1, ik_RevisionSHA256 = lifeSHA,
      ik_EngineProfileVersion = ''ragflow-v0.26.4-profile-1'', ik_JobType = jobType\<rparr>"

lemma lifeKey_inject [simp]: "lifeKey s = lifeKey t \<longleftrightarrow> s = t"
  by (simp add: lifeKey_def buildIndexIdempotencyKey_def)

definition madePublication :: "ValidityStatus \<Rightarrow> IndexStatus \<Rightarrow> bool \<Rightarrow> int \<Rightarrow> TimeStamp \<Rightarrow> Publication" where
  "madePublication validity index current policy effective =
     \<lparr>pub_ID = 1, pub_SpaceID = 1, pub_DocumentID = 1, pub_RevisionID = 1, pub_ApprovalID = 1, pub_Generation = 1,
      pub_GovernanceStatus = GovernanceStatusApproved, pub_ValidityStatus = validity, pub_IndexStatus = index,
      pub_ACLPolicyVersion = policy, pub_RevocationGeneration = 1, pub_IsCurrent = current, pub_EffectiveUnix = effective,
      pub_ExpiresUnix = 0, pub_CreatedUnix = 1000, pub_UpdatedUnix = 1000\<rparr>"

definition madeJob :: "int \<Rightarrow> IndexJobType \<Rightarrow> IndexJobStatus \<Rightarrow> int \<Rightarrow> IndexJob" where
  "madeJob i jobType status n =
     \<lparr>job_ID = i, job_PublicationID = 1, job_JobType = jobType, job_IdempotencyKey = lifeKey jobType, job_Status = status,
      job_RevisionSHA256 = lifeSHA, job_EngineProfileVersion = ''ragflow-v0.26.4-profile-1'', job_Attempt = n,
      job_MaxAttempts = 5, job_NextAttemptUnix = 0, job_LastError = '''', job_CreatedUnix = 1000, job_UpdatedUnix = 1000\<rparr>"

definition madeOutbox :: "int \<Rightarrow> IndexJobType \<Rightarrow> OutboxStatus \<Rightarrow> string \<Rightarrow> Outbox" where
  "madeOutbox i jobType status payload =
     \<lparr>ob_ID = i, ob_AggregateType = ''knowledge_publication'', ob_AggregateID = 1,
      ob_EventType = ''knowledge.index.'' @ indexJobTypeStr jobType @ ''.requested'', ob_IdempotencyKey = lifeKey jobType,
      ob_PayloadJSON = payload, ob_Status = status, ob_Attempt = 0, ob_NextAttemptUnix = 0, ob_CreatedUnix = 1000,
      ob_UpdatedUnix = 1000\<rparr>"

text \<open>The scenario after the approval: publications, bindings, jobs and outbox events vary.\<close>

definition approvedStage :: "int \<Rightarrow> Publication \<Rightarrow> IndexBinding table \<Rightarrow> IndexJob table \<Rightarrow> Outbox table \<Rightarrow> AuditEvent table \<Rightarrow> database" where
  "approvedStage current p ib job ob = lifeDb \<lparr>rows = [madeSpace 1], next_id = 2\<rparr> \<lparr>rows = [madeSource DataSourceStatusEnabled], next_id = 2\<rparr>
     \<lparr>rows = lifeChecks 6, next_id = 7\<rparr> \<lparr>rows = [madeDocument GovernanceStatusApproved current], next_id = 2\<rparr>
     \<lparr>rows = [madeRevision], next_id = 2\<rparr> \<lparr>rows = [madeApproval ApprovalStatusApproved 2 1000], next_id = 2\<rparr>
     \<lparr>rows = [p], next_id = 2\<rparr> ib job ob \<lparr>rows = [madeRepo], next_id = 2\<rparr>"

definition queuedStage :: "string \<Rightarrow> AuditEvent table \<Rightarrow> database" where
  "queuedStage payload = approvedStage 0 (madePublication ValidityStatusScheduled IndexStatusQueued False defaultACLPolicyVersion 0)
     emptyTable \<lparr>rows = [madeJob 1 IndexJobTypeUpsert IndexJobStatusQueued 0], next_id = 2\<rparr>
     \<lparr>rows = [madeOutbox 1 IndexJobTypeUpsert OutboxStatusPending payload], next_id = 2\<rparr>"

lemma approve_text [life_simps]: "validGovernanceText [] True" "validTraceID (''web-approve-'' @ itoa 1 @ ''-'' @ itoa (1000 * second))"
  by (simp_all add: validGovernanceText_def sensitiveMarkers_def maxGovernanceTextBytes_def validTraceID_token second_def eval_simps)

lemma approvalKey_life: "approvalKey opts madeRevision (madeSpace 0) 1 = lifeKey IndexJobTypeUpsert"
  if "aro_EngineProfileVersion opts = ''ragflow-v0.26.4-profile-1''"
  using that by (simp add: approvalKey_def lifeKey_def madeRevision_def madeSpace_def)

lemma reviews_passed:
  assumes [simp]: "env v = stageEnv" "db v = underReview 6 ae"
  shows "\<exists>w. requireAllReviewsPassed 1 v = (Inr (), w) \<and> env w = stageEnv \<and> db w = db v"
  by (simp add: requireAllReviewsPassed_def RequiredReviewTypes_def exec_simps table_eval life_simps stage_simps underReview_def
      lifeChecks_def passedCheck_def pendingCheck_def Let_def)

lemmas approved_defs = queuedStage_def approvedStage_def underReview_def madeApproval_def madeRevision_def madeDocument_def
  madeSpace_def madePublication_def madeJob_def madeOutbox_def

lemma approval_recorded:
  assumes [simp]: "env v = stageEnv" "db v = underReview 6 ae"
  shows "\<exists>res w payload ae'. ApproveRevision \<lparr>aro_ApprovalID = 1, aro_DecidedBy = 2, aro_Comment = [],
      aro_EngineProfileVersion = ''ragflow-v0.26.4-profile-1'', aro_ACLPolicyVersion = defaultACLPolicyVersion,
      aro_TraceID = ''web-approve-'' @ itoa 1 @ ''-'' @ itoa (1000 * second)\<rparr> v = (Inr res, w) \<and>
    env w = stageEnv \<and> db w = queuedStage payload ae'"
proof -
  have policy: "\<not> defaultACLPolicyVersion \<le> 0" by (simp add: defaultACLPolicyVersion_def)
  show ?thesis
    by (simp add: ApproveRevision_def decideApproval_def recordApproval_def newPublication_def newOutbox_def newIndexJob_def
      exec_simps table_eval life_simps stage_simps Let_def approved_defs policy currentUnix_def approvalKey_def lifeKey_def
      pub_stamp_def ob_stamp_def job_stamp_def sp_touch_def doc_touch_def del: append_Cons append_Nil append.append_Cons append.append_Nil)
qed

lemma revision_approved:
  assumes "standsAt (underReview 6) v"
  shows "\<exists>payload. standsAt (queuedStage payload) (perform (RApprove 1 2 '''') v)"
proof -
  obtain ae where v: "env v = stageEnv" "db v = underReview 6 ae"
    using assms by (auto simp: standsAt_def)
  let ?v1 = "v\<lparr>calls := Suc (Suc (calls v)), db := db v\<rparr>"
  obtain w1 where w1: "requireAllReviewsPassed 1 ?v1 = (Inr (), w1)" "env w1 = stageEnv" "db w1 = underReview 6 ae"
    using reviews_passed [of ?v1 ae] v by auto
  let ?w2 = "w1\<lparr>ticks := Suc (ticks w1)\<rparr>"
  obtain res w payload ae' where "ApproveRevision \<lparr>aro_ApprovalID = 1, aro_DecidedBy = 2, aro_Comment = [],
      aro_EngineProfileVersion = ''ragflow-v0.26.4-profile-1'', aro_ACLPolicyVersion = defaultACLPolicyVersion,
      aro_TraceID = ''web-approve-'' @ itoa 1 @ ''-'' @ itoa (1000 * second)\<rparr> ?w2 = (Inr res, w)"
    "env w = stageEnv" "db w = queuedStage payload ae'"
    using approval_recorded [of ?w2 ae] w1 by auto
  then show ?thesis
    using w1(1,2) v
    by (auto simp: Approve_def after_def exec_simps table_eval life_simps stage_simps underReview_def madeApproval_def standsAt_def)
qed


section \<open>The worker\<close>

definition madeBinding :: "IndexStatus \<Rightarrow> TimeStamp \<Rightarrow> IndexBinding" where
  "madeBinding status success =
     \<lparr>ib_ID = 1, ib_SpaceID = 1, ib_DocumentID = 1, ib_RevisionID = 1, ib_PublicationID = 1, ib_Engine = ''ragflow'',
      ib_EngineProfileVersion = ''ragflow-v0.26.4-profile-1'', ib_DatasetID = ''ds1'', ib_EngineDocumentID = ''doc-1'',
      ib_ContentSHA256 = lifeSHA, ib_Status = status, ib_LastSuccessUnix = success\<rparr>"

text \<open>After the first round the engine parses the document, after the second it is done.\<close>

definition parsingStage :: "string \<Rightarrow> string \<Rightarrow> AuditEvent table \<Rightarrow> database" where
  "parsingStage payload poll = approvedStage 0
     (madePublication ValidityStatusScheduled IndexStatusIndexing False defaultACLPolicyVersion 0)
     \<lparr>rows = [madeBinding IndexStatusIndexing 0], next_id = 2\<rparr>
     \<lparr>rows = [madeJob 1 IndexJobTypeUpsert IndexJobStatusSucceeded 1, madeJob 2 IndexJobTypePoll IndexJobStatusQueued 0], next_id = 3\<rparr>
     \<lparr>rows = [madeOutbox 1 IndexJobTypeUpsert OutboxStatusDispatched payload,
              madeOutbox 2 IndexJobTypePoll OutboxStatusPending poll], next_id = 3\<rparr>"

definition evaluatedStage :: "string \<Rightarrow> string \<Rightarrow> AuditEvent table \<Rightarrow> database" where
  "evaluatedStage payload poll = approvedStage 0
     (madePublication ValidityStatusScheduled IndexStatusEvaluation False defaultACLPolicyVersion 0)
     \<lparr>rows = [madeBinding IndexStatusEvaluation 0], next_id = 2\<rparr>
     \<lparr>rows = [madeJob 1 IndexJobTypeUpsert IndexJobStatusSucceeded 1, madeJob 2 IndexJobTypePoll IndexJobStatusSucceeded 1], next_id = 3\<rparr>
     \<lparr>rows = [madeOutbox 1 IndexJobTypeUpsert OutboxStatusDispatched payload,
              madeOutbox 2 IndexJobTypePoll OutboxStatusPending poll], next_id = 3\<rparr>"

definition lifeProcessor :: Processor where
  "lifeProcessor = \<lparr>prc_engineName = ''ragflow'', prc_datasetID = ''ds1''\<rparr>"

lemma life_processor: "newProcessor ''ragflow'' ''ds1'' = Inr lifeProcessor"
  by (simp add: newProcessor_def lifeProcessor_def eval_simps)

lemma life_processed: "env v = stageEnv \<Longrightarrow> ProcessIndexJobSystem i v = processJob lifeProcessor i v"
  by (simp add: ProcessIndexJobSystem_def ValidateKnowledgeSettings_def orRaise_def exec_simps stage_simps life_processor)

text \<open>The rows that a job is processed with.\<close>

definition lifeGraph :: "IndexJob \<Rightarrow> IndexStatus \<Rightarrow> graph" where
  "lifeGraph job index = \<lparr>g_job = job, g_space = madeSpace 1, g_document = madeDocument GovernanceStatusApproved 0,
     g_revision = madeRevision,
     g_publication = madePublication ValidityStatusScheduled index False defaultACLPolicyVersion 0\<rparr>"

lemma graph_loaded:
  assumes [simp]: "env v = stageEnv" "db v = approvedStage 0 (madePublication ValidityStatusScheduled index False defaultACLPolicyVersion 0) ib jobs ob ae"
    "job_PublicationID job = 1"
  shows "\<exists>w. loadGraph job v = (Inr (lifeGraph job index), w) \<and> env w = stageEnv \<and> db w = db v \<and> sent w = sent v"
  by (simp add: loadGraph_def exec_simps table_eval life_simps stage_simps approved_defs lifeGraph_def)

lemma life_sha_start: "take 12 lifeSHA = ''646174613030''"
proof -
  have "replicate 28 (CHR ''0'') = CHR ''0'' # CHR ''0'' # replicate 26 (CHR ''0'')"
    by (simp add: eval_nat_numeral)
  then show ?thesis by (simp add: lifeSHA_def sampleDigest_def eval_simps)
qed

lemma guide_slug: "makeSlug stageEnv ''guide'' = ''guide''"
proof -
  have "trimSpace ''guide'' = ''guide''" "replaceRuns False ''guide'' = ''guide''" "trimChars ''guide'' ''-._'' = ''guide''"
    "lowerAll stageEnv ''guide'' = ''guide''"
    by (simp_all add: eval_simps life_simps)
  then show ?thesis by (simp add: makeSlug_def Let_def)
qed

lemma guide_name: "trimSuffix ''guide.txt'' (fileExt ''guide.txt'') = ''guide''" "toLower (fileExt ''guide.txt'') = ''.txt''"
  by (simp_all add: eval_simps)

lemma life_folder: "itoa (1000 * second) = ''1000000000000''"
  by (simp add: second_def eval_simps)

lemma life_path_value: "lifePath = ''documents/1000000000000-646174613030/guide.txt''"
  unfolding lifePath_def buildRevisionRepoPath_def life_sha_start guide_name guide_slug life_folder Let_def
  by (simp add: path_eval hasPrefix_def)

lemma life_path: "trimSpace lifePath \<noteq> []"
  unfolding life_path_value by (simp add: eval_simps)

lemma life_commit: "trimSpace ''c0ffee'' \<noteq> []"
  by (simp add: eval_simps)

lemma revision_read:
  assumes [simp]: "env v = stageEnv" "db v = approvedStage 0 p ib jobs ob ae"
  shows "\<exists>w. readRevision (lifeGraph job index) v = (Inr ''data'', w) \<and> env w = stageEnv \<and> db w = db v"
  by (simp add: readRevision_def gitSourceOpen_def readLimited_def exec_simps table_eval life_simps stage_simps approvedStage_def
      lifeGraph_def madeSpace_def madeRevision_def madeRepo_def life_path life_commit lifeSHA_def [symmetric])

lemma poll_key: "pollKey (lifeGraph job index) (madeJob 1 IndexJobTypeUpsert status n) = lifeKey IndexJobTypePoll"
  by (simp add: pollKey_def lifeGraph_def lifeKey_def madeSpace_def madePublication_def madeRevision_def madeJob_def)

lemma valid_upsert: "validForUpsert (lifeGraph (madeJob 1 IndexJobTypeUpsert status n) index)"
  by (simp add: validForUpsert_def lifeGraph_def madeSpace_def madePublication_def madeRevision_def madeJob_def)

text \<open>A claimed job is running and counts one more attempt.\<close>

lemma upsert_claimed:
  assumes [simp]: "env v = stageEnv" "db v = queuedStage payload ae"
  shows "\<exists>w. claimJob 1 v = (Inr (Some (madeJob 1 IndexJobTypeUpsert IndexJobStatusRunning 1)), w) \<and> env w = stageEnv \<and>
    db w = approvedStage 0 (madePublication ValidityStatusScheduled IndexStatusQueued False defaultACLPolicyVersion 0)
     emptyTable \<lparr>rows = [madeJob 1 IndexJobTypeUpsert IndexJobStatusRunning 1], next_id = 2\<rparr>
     \<lparr>rows = [madeOutbox 1 IndexJobTypeUpsert OutboxStatusPending payload], next_id = 2\<rparr> ae"
  by (simp add: claimJob_def claimable_def exec_simps table_eval life_simps stage_simps queuedStage_def approvedStage_def
      madeJob_def job_touch_def Let_def currentUnix_def)

lemma made_columns:
  "job_IdempotencyKey (madeJob i t s n) = lifeKey t" "job_ID (madeJob i t s n) = i" "job_Status (madeJob i t s n) = s"
  "job_EngineProfileVersion (madeJob i t s n) = ''ragflow-v0.26.4-profile-1''" "job_MaxAttempts (madeJob i t s n) = 5"
  "job_PublicationID (madeJob i t s n) = 1" "job_JobType (madeJob i t s n) = t" "ib_ID (madeBinding st u) = 1"
  "ib_EngineDocumentID (madeBinding st u) = ''doc-1''" "ib_PublicationID (madeBinding st u) = 1"
  "ib_Engine (madeBinding st u) = ''ragflow''" "ib_DatasetID (madeBinding st u) = ''ds1''"
  "pub_ID (madePublication va ix cu po ef) = 1" "ob_IdempotencyKey (madeOutbox i t os pl) = lifeKey t"
  by (simp_all add: madeJob_def madeBinding_def madePublication_def madeOutbox_def)

lemma made_updates:
  "job_touch 1000 (madeJob i t s n\<lparr>job_Status := s', job_LastError := []\<rparr>) = madeJob i t s' n"
  "madeBinding st u\<lparr>ib_Status := st'\<rparr> = madeBinding st' u"
  "pub_touch 1000 (madePublication va ix cu po ef\<lparr>pub_IndexStatus := ix'\<rparr>) = madePublication va ix' cu po ef"
  "ob_touch 1000 (madeOutbox i t os pl\<lparr>ob_Status := os'\<rparr>) = madeOutbox i t os' pl"
  by (simp_all add: madeJob_def job_touch_def madeBinding_def madePublication_def pub_touch_def madeOutbox_def ob_touch_def)

lemma made_rows:
  "job_stamp 1000 (newIndexJob 1 t (lifeKey t) lifeSHA ''ragflow-v0.26.4-profile-1'' 5)\<lparr>job_ID := i\<rparr> = madeJob i t IndexJobStatusQueued 0"
  "ob_stamp 1000 (newOutbox 1 ''knowledge.index.poll.requested'' (lifeKey IndexJobTypePoll) pl)\<lparr>ob_ID := i\<rparr> =
     madeOutbox i IndexJobTypePoll OutboxStatusPending pl"
  by (simp_all add: madeJob_def job_stamp_def newIndexJob_def madeOutbox_def ob_stamp_def newOutbox_def)

lemma graph_columns: "pub_ID (g_publication (lifeGraph job index)) = 1"
  "rev_ContentSHA256 (g_revision (lifeGraph job index)) = lifeSHA" "rev_FileName (g_revision (lifeGraph job index)) = ''guide.txt''"
  "rev_Size (g_revision (lifeGraph job index)) = 4" "pub_RevocationGeneration (g_publication (lifeGraph job index)) = 1"
  "sp_RevocationGeneration (g_space (lifeGraph job index)) = 1"
  by (simp_all add: lifeGraph_def madePublication_def madeRevision_def madeSpace_def)

lemma trimSpace_visible:
  assumes "c \<noteq> CHR '' ''" "33 \<le> (of_char c :: nat)" "(of_char c :: nat) < 127"
  shows "trimSpace (c # cs) \<noteq> []"
proof -
  have first: "runes (c # cs) = (of_char c, [c]) # runes cs" "\<not> isSpace (of_char c)"
    using assms by (simp_all add: eval_simps)
  obtain ys where "dropWhile (isSpace \<circ> fst) (rev (runes cs) @ [(of_char c, [c])]) = ys @ [(of_char c, [c])]"
    using first(2) by (induction "rev (runes cs)" arbitrary: cs) (auto simp: dropWhile_append3)
  then show ?thesis using first by (simp add: trimSpace_def trimRight_def del: runes.simps)
qed

lemma lifeKey_visible: "trimSpace (lifeKey t) \<noteq> []"
proof -
  have "itoa 1 = ''1''" by (simp add: eval_simps)
  then show ?thesis by (simp add: lifeKey_def buildIndexIdempotencyKey_def trimSpace_visible)
qed

lemma some_poll: "\<exists>poll. madeOutbox i t os pl = madeOutbox i t os poll"
  by blast

lemma new_keys: "ob_IdempotencyKey (ob_stamp u (newOutbox i e k pl)) = k" "job_IdempotencyKey (job_stamp u (newIndexJob i t k sh pr m)) = k"
  by (simp_all add: ob_stamp_def newOutbox_def job_stamp_def newIndexJob_def)

lemma indexing_started:
  assumes [simp]: "env v = stageEnv" "db v = approvedStage 0 (madePublication ValidityStatusScheduled IndexStatusQueued False defaultACLPolicyVersion 0)
     \<lparr>rows = [madeBinding IndexStatusIndexing 0], next_id = 2\<rparr> \<lparr>rows = [madeJob 1 IndexJobTypeUpsert IndexJobStatusRunning 1], next_id = 2\<rparr>
     \<lparr>rows = [madeOutbox 1 IndexJobTypeUpsert OutboxStatusPending payload], next_id = 2\<rparr> ae"
  shows "\<exists>w poll. startIndexing (lifeGraph job IndexStatusQueued) (madeJob 1 IndexJobTypeUpsert IndexJobStatusRunning 1)
      (madeBinding IndexStatusIndexing 0) v = (Inr (), w) \<and> env w = stageEnv \<and> db w = parsingStage payload poll ae"
  by (simp add: startIndexing_def recordIndexing_def updateBindingStatus_def updatePublicationIndexStatus_def markJobSucceeded_def
      updateJob_def markOutboxDispatched_def enqueuePollJob_def exec_simps table_eval life_simps stage_simps approvedStage_def
      parsingStage_def poll_key graph_columns made_columns made_updates made_rows new_keys lifeKey_visible some_poll job_clash_def ob_clash_def currentUnix_def Let_def)

lemma revision_indexed:
  assumes "env v = stageEnv" "db v = approvedStage 0 (madePublication ValidityStatusScheduled IndexStatusQueued False defaultACLPolicyVersion 0)
     emptyTable \<lparr>rows = [madeJob 1 IndexJobTypeUpsert IndexJobStatusRunning 1], next_id = 2\<rparr>
     \<lparr>rows = [madeOutbox 1 IndexJobTypeUpsert OutboxStatusPending payload], next_id = 2\<rparr> ae"
  shows "\<exists>w poll. uploadRevision lifeProcessor (lifeGraph job IndexStatusQueued) (madeJob 1 IndexJobTypeUpsert IndexJobStatusRunning 1) v =
      (Inr (), w) \<and> env w = stageEnv \<and> db w = parsingStage payload poll ae"
proof -
  have new: "newBinding lifeProcessor (lifeGraph job IndexStatusQueued) (madeJob 1 IndexJobTypeUpsert IndexJobStatusRunning 1) ''doc-1''
      \<lparr>ib_ID := 1\<rparr> = madeBinding IndexStatusIndexing 0"
    by (simp add: newBinding_def lifeProcessor_def lifeGraph_def madeBinding_def madeSpace_def madeDocument_def madeRevision_def
        madePublication_def madeJob_def)
  obtain w1 where w1: "readRevision (lifeGraph job IndexStatusQueued) v = (Inr ''data'', w1)" "env w1 = stageEnv" "db w1 = db v"
    using revision_read [OF assms] by blast
  obtain w2 where w2: "engineUpload \<lparr>ur_FileName = ''guide.txt'', ur_Content = ''data'', ur_Size = 4\<rparr> w1 = (Inr (Some ''doc-1''), w2)"
      "env w2 = stageEnv" "db w2 = db v"
    using w1 by (simp add: exec_simps stage_simps Let_def)
  define w3 where "w3 = w2\<lparr>calls := Suc (calls w2), db := (db v)\<lparr>indexBindings := \<lparr>rows = [madeBinding IndexStatusIndexing 0], next_id = 2\<rparr>\<rparr>\<rparr>"
  have inserted: "insertRow indexBindings indexBindings_update (\<lambda>i r. r\<lparr>ib_ID := i\<rparr>) ib_stamp ib_clash
       (newBinding lifeProcessor (lifeGraph job IndexStatusQueued) (madeJob 1 IndexJobTypeUpsert IndexJobStatusRunning 1) ''doc-1'') w2 =
      (Inr (madeBinding IndexStatusIndexing 0), w3)"
    using w2(2,3) assms by (simp add: w3_def exec_simps table_eval stage_simps life_simps approvedStage_def ib_stamp_def new Let_def)
  have w3: "env w3 = stageEnv" "db w3 = approvedStage 0 (madePublication ValidityStatusScheduled IndexStatusQueued False defaultACLPolicyVersion 0)
     \<lparr>rows = [madeBinding IndexStatusIndexing 0], next_id = 2\<rparr> \<lparr>rows = [madeJob 1 IndexJobTypeUpsert IndexJobStatusRunning 1], next_id = 2\<rparr>
     \<lparr>rows = [madeOutbox 1 IndexJobTypeUpsert OutboxStatusPending payload], next_id = 2\<rparr> ae"
    using w2 assms by (simp_all add: w3_def approvedStage_def life_simps)
  have "uploadRevision lifeProcessor (lifeGraph job IndexStatusQueued) (madeJob 1 IndexJobTypeUpsert IndexJobStatusRunning 1) v =
      startIndexing (lifeGraph job IndexStatusQueued) (madeJob 1 IndexJobTypeUpsert IndexJobStatusRunning 1) (madeBinding IndexStatusIndexing 0) w3"
    using w1 w2 inserted by (simp add: uploadRevision_def graph_columns andThen_def attempt_def stage_simps)
  with indexing_started [OF w3] show ?thesis by simp
qed

lemma upsert_processed:
  assumes v: "env v = stageEnv" "db v = queuedStage payload ae"
  shows "\<exists>w poll. processJob lifeProcessor 1 v = (Inr (), w) \<and> env w = stageEnv \<and> db w = parsingStage payload poll ae"
proof -
  let ?job = "madeJob 1 IndexJobTypeUpsert IndexJobStatusRunning 1"
  obtain w1 where w1: "claimJob 1 v = (Inr (Some ?job), w1)" "env w1 = stageEnv"
    "db w1 = approvedStage 0 (madePublication ValidityStatusScheduled IndexStatusQueued False defaultACLPolicyVersion 0)
     emptyTable \<lparr>rows = [?job], next_id = 2\<rparr> \<lparr>rows = [madeOutbox 1 IndexJobTypeUpsert OutboxStatusPending payload], next_id = 2\<rparr> ae"
    using upsert_claimed [OF v] by blast
  obtain w2 where w2: "loadGraph ?job w1 = (Inr (lifeGraph ?job IndexStatusQueued), w2)" "env w2 = stageEnv" "db w2 = db w1"
    using graph_loaded [OF w1(2,3), of ?job] by (auto simp: made_columns)
  define w3 where "w3 = w2\<lparr>calls := Suc (calls w2), db := db w1\<rparr>"
  have w3: "loadBinding lifeProcessor 1 w2 = (Inr None, w3)" "env w3 = stageEnv" "db w3 = db w1"
    using w1 w2 by (simp_all add: w3_def loadBinding_def exec_simps table_eval stage_simps life_simps approvedStage_def)
  have "processJob lifeProcessor 1 v = uploadRevision lifeProcessor (lifeGraph ?job IndexStatusQueued) ?job w3"
    using w1(1) w2(1) w3(1) by (simp add: processJob_def processUpsert_def andThen_def attempt_def made_columns valid_upsert graph_columns)
  with revision_indexed [OF w3(2) trans [OF w3(3) w1(3)]] show ?thesis by simp
qed

lemma poll_processed:
  assumes v [simp]: "env v = stageEnv" "db v = parsingStage payload poll ae"
  shows "\<exists>w. processJob lifeProcessor 2 v = (Inr (), w) \<and> env w = stageEnv \<and> db w = evaluatedStage payload poll ae"
proof -
  let ?job = "madeJob 2 IndexJobTypePoll IndexJobStatusRunning 1"
  obtain w1 where w1: "claimJob 2 v = (Inr (Some ?job), w1)" "env w1 = stageEnv"
    "db w1 = approvedStage 0 (madePublication ValidityStatusScheduled IndexStatusIndexing False defaultACLPolicyVersion 0)
     \<lparr>rows = [madeBinding IndexStatusIndexing 0], next_id = 2\<rparr>
     \<lparr>rows = [madeJob 1 IndexJobTypeUpsert IndexJobStatusSucceeded 1, ?job], next_id = 3\<rparr>
     \<lparr>rows = [madeOutbox 1 IndexJobTypeUpsert OutboxStatusDispatched payload,
              madeOutbox 2 IndexJobTypePoll OutboxStatusPending poll], next_id = 3\<rparr> ae"
    by (simp add: claimJob_def claimable_def exec_simps table_eval life_simps stage_simps parsingStage_def approvedStage_def
        madeJob_def job_touch_def Let_def currentUnix_def)
  obtain w2 where w2: "loadGraph ?job w1 = (Inr (lifeGraph ?job IndexStatusIndexing), w2)" "env w2 = stageEnv" "db w2 = db w1"
    using graph_loaded [OF w1(2,3), of ?job] by (auto simp: made_columns)
  define w3 where "w3 = w2\<lparr>calls := Suc (calls w2), db := db w1\<rparr>"
  have w3: "loadBinding lifeProcessor 1 w2 = (Inr (Some (madeBinding IndexStatusIndexing 0)), w3)" "env w3 = stageEnv" "db w3 = db w1"
    using w1 w2 by (simp_all add: w3_def loadBinding_def exec_simps table_eval stage_simps life_simps approvedStage_def made_columns lifeProcessor_def)
  show ?thesis
    using w1(1) w2(1) w3 w1(3)
    by (simp add: processJob_def processPoll_def recordEvaluation_def updateBindingStatus_def updatePublicationIndexStatus_def
      markJobSucceeded_def updateJob_def exec_simps table_eval life_simps stage_simps approvedStage_def evaluatedStage_def
      graph_columns made_columns made_updates currentUnix_def Let_def)
qed


section \<open>Rounds\<close>

lemma life_reconciled:
  assumes [simp]: "env v = stageEnv" "db v = approvedStage 0 (madePublication ValidityStatusScheduled index False policy 0) ib job ob ae"
  shows "ReconcileSearchableBindingsSystem v = (Inr 0, v\<lparr>calls := Suc (calls v), db := db v\<rparr>)"
  by (simp add: ReconcileSearchableBindingsSystem_def ValidateKnowledgeSettings_def orRaise_def findFirstByID_def exec_simps
     table_eval stage_simps approvedStage_def life_simps madePublication_def)

lemma life_waiting:
  assumes [simp]: "env v = stageEnv" "db v = approvedStage 0 p ib job ob ae"
  shows "findFirstByID indexJobs job_ID waiting n v = (Inr (take n (sort_key job_ID (tblFind waiting job))), v\<lparr>calls := Suc (calls v), db := db v\<rparr>)"
  by (simp add: findFirstByID_def exec_simps table_eval stage_simps approvedStage_def life_simps)

lemma life_round:
  assumes v: "env v = stageEnv" "db v = approvedStage 0 (madePublication ValidityStatusScheduled index False policy 0) ib job ob ae"
    and one: "tblFind waiting job = [j]"
    and processed: "\<And>u. env u = stageEnv \<Longrightarrow> db u = db v \<Longrightarrow> \<exists>w. processJob lifeProcessor (job_ID j) u = (Inr (), w) \<and> Q w"
  shows "\<exists>w. processIndexJobs v = (Inr (), w) \<and> Q w"
proof -
  let ?v1 = "v\<lparr>calls := Suc (calls v), db := db v\<rparr>"
  let ?v2 = "?v1\<lparr>calls := Suc (calls ?v1), db := db ?v1\<rparr>"
  have found: "findFirstByID indexJobs job_ID waiting indexWorkerBatchSize ?v1 = (Inr [j], ?v2)"
    using life_waiting [of ?v1, OF _ trans [OF _ v(2)], of indexWorkerBatchSize] v(1)
    unfolding one by (simp add: indexWorkerBatchSize_def)
  obtain w where w: "processJob lifeProcessor (job_ID j) ?v2 = (Inr (), w)" "Q w"
    using processed [of ?v2] v by auto
  then have "processIndexJobs v = (Inr (), w)"
    using life_reconciled [OF v] found v
    by (simp add: processIndexJobs_def andThen_def attempt_def ctxDone_def ret_def stage_simps life_processed)
  with w show ?thesis by blast
qed

lemma worker_done:
  assumes "standsAt (queuedStage payload) v"
  shows "\<exists>poll. standsAt (evaluatedStage payload poll) (perform (RWorker [Tick]) v)"
proof -
  obtain ae where v: "env v = stageEnv" "db v = queuedStage payload ae"
    using assms by (auto simp: standsAt_def)
  have "\<exists>w. processIndexJobs v = (Inr (), w) \<and> (\<exists>poll. env w = stageEnv \<and> db w = parsingStage payload poll ae)"
    by (rule life_round [where j = "madeJob 1 IndexJobTypeUpsert IndexJobStatusQueued 0", OF v(1) v(2) [unfolded queuedStage_def]])
      (use upsert_processed [of _ payload ae] v in \<open>auto simp: made_columns tblFind_def waiting_def queuedStage_def\<close>)
  then obtain w poll where w: "processIndexJobs v = (Inr (), w)" "env w = stageEnv" "db w = parsingStage payload poll ae" by blast
  have "\<exists>w'. processIndexJobs w = (Inr (), w') \<and> (env w' = stageEnv \<and> db w' = evaluatedStage payload poll ae)"
    by (rule life_round [where j = "madeJob 2 IndexJobTypePoll IndexJobStatusQueued 0", OF w(2) w(3) [unfolded parsingStage_def]])
      (use poll_processed [of _ payload poll ae] w in \<open>auto simp: made_columns tblFind_def waiting_def\<close>)
  with w(1) show ?thesis
    by (auto simp: runIndexWorker_def after_def andThen_def ret_def standsAt_def) blast
qed

section \<open>The activation\<close>

text \<open>The document is served.\<close>

definition servedStage :: "string \<Rightarrow> string \<Rightarrow> AuditEvent table \<Rightarrow> database" where
  "servedStage payload poll = approvedStage 1
     (madePublication ValidityStatusCurrent IndexStatusSearchable True defaultACLPolicyVersion 1000)
     \<lparr>rows = [madeBinding IndexStatusSearchable 1000], next_id = 2\<rparr>
     \<lparr>rows = [madeJob 1 IndexJobTypeUpsert IndexJobStatusSucceeded 1, madeJob 2 IndexJobTypePoll IndexJobStatusSucceeded 1], next_id = 3\<rparr>
     \<lparr>rows = [madeOutbox 1 IndexJobTypeUpsert OutboxStatusDispatched payload,
              madeOutbox 2 IndexJobTypePoll OutboxStatusPending poll], next_id = 3\<rparr>"

lemma document_served:
  assumes "standsAt (evaluatedStage payload poll) v"
  shows "standsAt (servedStage payload poll) (perform (RActivatePublication 1 2) v)"
proof -
  obtain ae where [simp]: "env v = stageEnv" "db v = evaluatedStage payload poll ae"
    using assms by (auto simp: standsAt_def)
  show ?thesis
    by (simp add: catalogActivate_def sourceExpired_def exec_simps getByID_def stage_simps life_simps Let_def table_eval timeStampNow_def
      currentUnix_def ActivatePublication_def activateCandidate_def switchPointer_def supersedeCurrent_def activateBinding_def
      loadPublicationParents_def appendPublicationAudit_def ineligibleSource_def after_def standsAt_def evaluatedStage_def servedStage_def
      approvedStage_def madePublication_def madeDocument_def madeSpace_def madeSource_def madeRevision_def madeBinding_def pub_touch_def doc_touch_def)
qed


text \<open>The scenario, request by request.\<close>

lemma life_served: "\<exists>payload poll. standsAt (servedStage payload poll) life"
proof -
  obtain v where v: "standsAt (underReview 6) v"
    "v = fold perform ([RCreateSpace lifeSpace, RCreateDataSource lifeSource, REnableDataSource 1 2, RUploadRevision lifeUpload] @
       map (\<lambda>t. RCompleteReview 1 2 t []) RequiredReviewTypes) lifeAccounts"
    using reviews_completed [OF revision_uploaded [OF source_enabled [OF source_created [OF space_created [OF start_stands]]]]] by simp
  then have life: "life = perform (RActivatePublication 1 2) (perform (RWorker [Tick]) (perform (RApprove 1 2 []) v))"
    by (simp add: life_def lifeRequests_def)
  from v(1) show ?thesis unfolding life
    by (blast dest: revision_approved worker_done intro: document_served)
qed

lemma life_publication: "env life = stageEnv" "tblGet pub_ID 1 (publications (db life)) =
    Some (madePublication ValidityStatusCurrent IndexStatusSearchable True defaultACLPolicyVersion 1000)"
  "tblGet doc_ID 1 (documents (db life)) = Some (madeDocument GovernanceStatusApproved 1)"
  "indexBindings (db life) = \<lparr>rows = [madeBinding IndexStatusSearchable 1000], next_id = 2\<rparr>"
  using life_served
  by (auto simp: standsAt_def servedStage_def approvedStage_def life_simps table_eval made_columns madeDocument_def)

section \<open>The search\<close>

definition lifeCandidate :: retrievablePublication where
  "lifeCandidate = \<lparr>rp_publication = madePublication ValidityStatusCurrent IndexStatusSearchable True defaultACLPolicyVersion 1000,
     rp_document = madeDocument GovernanceStatusApproved 1, rp_revision = madeRevision,
     rp_binding = madeBinding IndexStatusSearchable 1000, rp_source = madeSource DataSourceStatusEnabled, rp_space = madeSpace 1\<rparr>"

lemmas served_defs = servedStage_def approvedStage_def madePublication_def madeDocument_def madeSpace_def madeSource_def
  madeRevision_def madeBinding_def

lemma lifeCandidate_loaded:
  assumes [simp]: "env v = stageEnv" "db v = servedStage payload poll ae"
  shows "\<exists>w'. loadRetrievablePublications (madeSpace 1) SecurityLevelRestricted v = (Inr [lifeCandidate], w') \<and>
    env w' = stageEnv \<and> db w' = db v"
  by (simp add: loadRetrievablePublications_def exec_simps stage_simps life_simps Let_def table_eval collectCandidate_def loadCandidate_def
      findLimited_def maxPublicationsPerRequest_def currentUnix_def orSkip_def isPublished_def securityAllowed_iff
      eligibleSource_def searchableBinding_def lifeCandidate_def served_defs)

lemma lifeCandidate_searched:
  assumes [simp]: "env v = stageEnv" "db v = servedStage payload poll ae"
  shows "\<exists>w'. searchCandidates 3 ''what'' \<lparr>ss_citations = [], ss_attempts = 0, ss_failures = 0\<rparr> [lifeCandidate] v =
    (Inr \<lparr>ss_citations = [citation lifeCandidate stageChunk], ss_attempts = 1, ss_failures = 0\<rparr>, w')"
  by (simp add: exec_simps stage_simps life_simps Let_def table_eval lifeCandidate_def candidateStillPublished_def currentUnix_def
      orSkip_def isPublished_def ineligibleSource_def sourceExpired_def stageChunk_def served_defs)

lemma life_search_runs:
  assumes v: "env v = stageEnv" "db v = servedStage payload poll ae"
  shows "\<exists>w'. retrieveSpace 1 SecurityLevelRestricted ''what'' 3 a b v = (Inr [citation lifeCandidate stageChunk], w')"
proof -
  define v1 where "v1 = v\<lparr>calls := Suc (calls v), db := db v\<rparr>"
  have v1: "env v1 = stageEnv" "db v1 = servedStage payload poll ae" by (simp_all add: v1_def v)
  obtain w1 where w1: "loadRetrievablePublications (madeSpace 1) SecurityLevelRestricted v1 = (Inr [lifeCandidate], w1)"
    "env w1 = stageEnv" "db w1 = servedStage payload poll ae" using lifeCandidate_loaded [OF v1] v1 by auto
  obtain w2 where w2: "searchCandidates 3 ''what'' \<lparr>ss_citations = [], ss_attempts = 0, ss_failures = 0\<rparr> [lifeCandidate] w1 =
      (Inr \<lparr>ss_citations = [citation lifeCandidate stageChunk], ss_attempts = 1, ss_failures = 0\<rparr>, w2)"
    using lifeCandidate_searched [OF w1(2,3)] by blast
  obtain w3 where w3: "finishRetrieval a b 1 ''what'' \<lparr>ss_citations = [citation lifeCandidate stageChunk], ss_attempts = 1, ss_failures = 0\<rparr> w2 =
      (Inr [citation lifeCandidate stageChunk], w3)" using finishRetrieval_cites by blast
  have space: "getByID sp_ID spaces 1 v = (Inr (Some (madeSpace 1)), v1)"
    by (simp add: v v1_def getByID_def exec_simps table_eval stage_simps life_simps servedStage_def approvedStage_def madeSpace_def)
  have "retrieveSpace 1 SecurityLevelRestricted ''what'' 3 a b v = (Inr [citation lifeCandidate stageChunk], w3)"
    using w1(1) w2 w3 space
    by (simp add: retrieveSpace_def ValidateKnowledgeSettings_def orRaise_def exec_simps v v1(1) stage_simps Let_def madeSpace_def
        del: searchCandidates.simps)
  then show ?thesis by blast
qed

lemma life_search: "\<exists>w'. RetrieveForUser (Some lifeOwner) 1 ''what'' 3 life = (Inr [citation lifeCandidate stageChunk], w')"
proof -
  obtain payload poll ae where life: "env life = stageEnv" "db life = servedStage payload poll ae"
    using life_served by (auto simp: standsAt_def)
  let ?v = "life\<lparr>calls := Suc (calls life), db := db life\<rparr>"
  have "canReadSpace lifeOwner 1 life = (Inr True, ?v)"
    by (simp add: canReadSpace_def exec_simps life table_eval stage_simps life_simps servedStage_def approvedStage_def madeSpace_def)
  moreover obtain w' where "retrieveSpace 1 SecurityLevelRestricted ''what'' 3 1 0 ?v = (Inr [citation lifeCandidate stageChunk], w')"
    using life_search_runs [of ?v payload poll ae] life by auto
  ultimately show ?thesis by (simp add: RetrieveForUser_def andThen_def life_simps)
qed

end
