(* ===== verification/Properties_Console.thy ===== *)
theory Properties_Console
  imports Offers Lifetime
begin

text \<open>
  The properties of the HTTP surface: the endpoint for Dify and the console of the administrators.
\<close>

section \<open>The endpoint for Dify\<close>

lemma authorized_calls: "authorized (w\<lparr>calls := n\<rparr>) space m cit \<longleftrightarrow> authorized w space m cit"
  by (simp add: authorized_def reading_def)

text \<open>
  C6: The endpoint answers with records only the bearer of the credential of an enabled connection
  for the knowledge base named in the request, and every record is a citation that connection may
  see: of its own active space, at most its security level, and live when cited.
\<close>

theorem endpoint_answers_credential:
  assumes "ExternalRetrieval authorization stream w = (Inr (status, RecordsAnswer records), w')"
  shows "status = 200 \<and> (\<exists>token request binding space.
    wellFormedCall (env w) authorization stream token request \<and>
    binding \<in> set (rows (difyBindings (db w))) \<and> dify_Enabled binding \<and>
    dify_DifyKnowledgeID binding = dq_KnowledgeID request \<and>
    dify_TokenSHA256 binding = hexEncode (sha256 (env w) token) \<and>
    tblGet sp_ID (dify_SpaceID binding) (spaces (db w)) = Some space \<and> sp_Status space = SpaceStatusActive \<and>
    int (length records) \<le> clampTopK (setting (env w)) (dq_TopK request) \<and>
    list_all (\<lambda>record. \<exists>cit. authorized w space (dify_MaxSecurityLevel binding) cit \<and> record = difyRecord binding cit) records)"
  using assms
proof (rule ExternalRetrieval_answer)
  fix token request binding citations w1
  assume call: "wellFormedCall (env w) authorization stream token request" "status = 200"
    and found: "LookupDifyBinding token (dq_KnowledgeID request) w = (Inr binding, w1)"
    and cited: "RetrieveForDify (Some binding) (dq_Query request) (dq_TopK request) w1 = (Inr citations, w')"
    and records: "records = map (difyRecord binding) citations"
  from found have w1: "w1 = w\<lparr>calls := Suc (calls w)\<rparr>" by (simp add: LookupDifyBinding_run)
  from cited obtain space where "tblGet sp_ID (dify_SpaceID binding) (spaces (db w1)) = Some space"
    "sp_Status space = SpaceStatusActive" "int (length citations) \<le> clampTopK (setting (env w1)) (dq_TopK request)"
    "\<forall>cit \<in> set citations. authorized w1 space (dify_MaxSecurityLevel binding) cit"
    by (rule RetrieveForDify_run)
  with call found show ?thesis
    unfolding records
    by (intro conjI exI [of _ token] exI [of _ request] exI [of _ binding] exI [of _ space])
      (auto simp: w1 LookupDifyBinding_run list_all_iff authorized_calls dest!: tblFirstD)
qed


text \<open>The request of the examples, and the connection whose token it presents.\<close>

definition difyToken :: string where
  "difyToken = ''dify_kb_0123456789abcdef''"

definition difyHeader :: string where
  "difyHeader = ''bearer  '' @ difyToken"

definition difyBody :: string where
  "difyBody = ''{'' @ jsonQuote ''knowledge_id'' @ '':'' @ jsonQuote ''k1'' @ '','' @ jsonQuote ''query'' @ '':'' @ jsonQuote ''what'' @
     '','' @ jsonQuote ''retrieval_setting'' @ '':{'' @ jsonQuote ''top_k'' @ '':3}}''"

definition difyConnection :: DifyBinding where
  "difyConnection = stageDify\<lparr>dify_TokenSHA256 := hexEncode (sampleDigest difyToken)\<rparr>"

definition connectedWorld :: world where
  "connectedWorld = stageWorld (liveDatabase\<lparr>difyBindings := \<lparr>rows = [difyConnection], next_id = 2\<rparr>\<rparr>)"

lemma difyToken_presented: "bearerToken difyHeader = Some difyToken"
  by (simp add: difyHeader_def bearerToken_def stringFields_def difyToken_def eval_simps)

lemma difyBody_decoded: "decodeRequest parse (difyBody, None) =
   Some \<lparr>dq_KnowledgeID = ''k1'', dq_Query = ''what'', dq_TopK = 3, dq_ScoreThreshold = 0, dq_MetadataCondition = None\<rparr>"
  by (simp add: decodeRequest_def difyBody_def maxRequestBytes_def decodeStruct_def decodeRequestField_def decodeSettingField_def
      emptyDifyRequest_def decodeText_def decodeInt_def eval_simps)

lemma connected_parts: "env connectedWorld = stageEnv" "db connectedWorld = liveDatabase\<lparr>difyBindings := \<lparr>rows = [difyConnection], next_id = 2\<rparr>\<rparr>"
  by (simp_all add: connectedWorld_def stage_simps)

lemma connected_call: "wellFormedCall stageEnv difyHeader (difyBody, None) difyToken
   \<lparr>dq_KnowledgeID = ''k1'', dq_Query = ''what'', dq_TopK = 3, dq_ScoreThreshold = 0, dq_MetadataCondition = None\<rparr>"
  unfolding wellFormedCall_def difyToken_presented difyBody_decoded by (simp add: stage_simps)

lemma connected_lookup:
  "LookupDifyBinding difyToken ''k1'' connectedWorld = (Inr difyConnection, connectedWorld\<lparr>calls := Suc (calls connectedWorld)\<rparr>)"
proof -
  have "validBindingIdentifier ''k1''" by (simp add: validBindingIdentifier_def validBindingText_def eval_simps)
  then show ?thesis
    by (simp add: LookupDifyBinding_run connected_parts stage_simps table_eval difyConnection_def stageDify_def difyToken_def)
qed

lemma connected_answer:
  "\<exists>w'. ExternalRetrieval difyHeader (difyBody, None) connectedWorld =
     (Inr (200, RecordsAnswer [difyRecord difyConnection (citation stageCandidate stageChunk)]), w')"
proof -
  let ?v = "connectedWorld\<lparr>calls := Suc (calls connectedWorld)\<rparr>"
  obtain w' where "retrieveSpace 1 SecurityLevelRestricted ''what'' 3 0 1 ?v = (Inr [citation stageCandidate stageChunk], w')"
    using stageRetrieve_runs [of ?v] connected_parts by fastforce
  then have "RetrieveForDify (Some difyConnection) ''what'' 3 ?v = (Inr [citation stageCandidate stageChunk], w')"
    by (simp add: RetrieveForDify_def difyConnection_def stageDify_def)
  then show ?thesis
    using ExternalRetrieval_calls [OF connected_call [folded connected_parts(1)]] connected_lookup by simp
qed

theorem endpoint_answers_credential_witness:
  "\<exists>records w'. ExternalRetrieval difyHeader (difyBody, None) connectedWorld =
     (Inr (200, RecordsAnswer records), w') \<and> records \<noteq> [] \<and>
     (\<exists>binding \<in> set (rows (difyBindings (db connectedWorld))). dify_Enabled binding \<and>
        dify_TokenSHA256 binding = hexEncode (sampleDigest difyToken))"
proof -
  obtain w' where run: "ExternalRetrieval difyHeader (difyBody, None) connectedWorld =
      (Inr (200, RecordsAnswer [difyRecord difyConnection (citation stageCandidate stageChunk)]), w')"
    using connected_answer by blast
  from endpoint_answers_credential [OF this] run show ?thesis
    by (auto simp: wellFormedCall_def difyToken_presented connected_parts stage_simps)
qed

text \<open>
  C10: Without the credential of an enabled connection a caller learns nothing about the database and
  changes nothing in it: whatever two databases hold and whichever of their calls fail, the same
  request gets the same refusal, as long as no enabled connection has the digest of its token.
\<close>

theorem endpoint_reveals_nothing:
  assumes "setting (env v) = setting (env w)" "parseFloat (env v) = parseFloat (env w)"
    and "\<And>token u. u \<in> {v, w} \<Longrightarrow> bearerToken authorization = Some token \<Longrightarrow>
      list_all (\<lambda>b. dify_Enabled b \<longrightarrow> dify_TokenSHA256 b \<noteq> hexEncode (sha256 (env u) token)) (rows (difyBindings (db u)))"
  shows "\<exists>status code message v' w'.
    ExternalRetrieval authorization stream v = (Inr (status, ErrorAnswer code message), v') \<and>
    ExternalRetrieval authorization stream w = (Inr (status, ErrorAnswer code message), w') \<and>
    db v' = db v \<and> db w' = db w"
proof -
  have refused: "\<exists>w'. ExternalRetrieval authorization stream u = (Inr (401, ErrorAnswer 1002 (utf8 [25480, 26435, 22833, 36133])), w') \<and>
      db w' = db u" if u: "u \<in> {v, w}" "wellFormedCall (env u) authorization stream token request" for u token request
  proof -
    have "bearerToken authorization = Some token" using u(2) by (simp add: wellFormedCall_def)
    then obtain e u' where l: "LookupDifyBinding token (dq_KnowledgeID request) u = (Inl e, u')"
      using assms(3) [OF u(1)] LookupDifyBinding_unknown [of u token] unfolding list_all_iff by metis
    with LookupDifyBinding_db [OF l] show ?thesis by (simp add: ExternalRetrieval_calls [OF u(2)])
  qed
  show ?thesis
  proof (cases "\<exists>token request. wellFormedCall (env w) authorization stream token request")
    case True
    then obtain token request where "wellFormedCall (env w) authorization stream token request" by blast
    moreover then have "wellFormedCall (env v) authorization stream token request"
      using assms(1,2) by (simp add: wellFormedCall_def)
    ultimately show ?thesis using refused [of v] refused [of w] by blast
  next
    case False
    then show ?thesis
      using assms(1,2) by (auto simp: ExternalRetrieval_def wellFormedCall_def askEnv_def exec_simps split: option.splits)
  qed
qed

lemma wrong_token: "bearerToken ''Bearer wrong'' = Some ''wrong''" "hexEncode (sampleDigest ''wrong'') \<noteq> hexEncode (sampleDigest difyToken)"
  by (simp_all add: bearerToken_def stringFields_def difyToken_def sampleDigest_def eval_simps del: hexEncode.simps)

theorem endpoint_reveals_nothing_witness:
  "\<exists>status code message v' w'.
    ExternalRetrieval ''Bearer wrong'' (difyBody, None) connectedWorld = (Inr (status, ErrorAnswer code message), v') \<and>
    ExternalRetrieval ''Bearer wrong'' (difyBody, None) (stageWorld liveDatabase) = (Inr (status, ErrorAnswer code message), w') \<and>
    db v' = db connectedWorld"
proof -
  have "list_all (\<lambda>b. dify_Enabled b \<longrightarrow> dify_TokenSHA256 b \<noteq> hexEncode (sha256 (env u) token)) (rows (difyBindings (db u)))"
    if "u \<in> {connectedWorld, stageWorld liveDatabase}" "bearerToken ''Bearer wrong'' = Some token" for token u
    using that wrong_token by (auto simp: connected_parts stage_simps difyConnection_def table_eval)
  then have "\<exists>status code message v' w'.
    ExternalRetrieval ''Bearer wrong'' (difyBody, None) connectedWorld = (Inr (status, ErrorAnswer code message), v') \<and>
    ExternalRetrieval ''Bearer wrong'' (difyBody, None) (stageWorld liveDatabase) = (Inr (status, ErrorAnswer code message), w') \<and>
    db v' = db connectedWorld \<and> db w' = db (stageWorld liveDatabase)"
    by (intro endpoint_reveals_nothing) (simp_all add: connected_parts stage_simps)
  then show ?thesis by blast
qed

section \<open>The console\<close>

text \<open>
  C7: The HTTP surface adds no way to change the database. A request to the console changes it as one
  operation of the system does, requested by the signed-in user in their own name and after reads
  only, or not at all; a call of the endpoint for Dify as one retrieval with the token it presents.
\<close>

theorem http_requests_are_operations:
  "(db (after (serveConsole doer meth segments r) w) = db w \<or>
    (\<exists>req w1. requestBy doer req \<and> steady w w1 \<and> db (after (serveConsole doer meth segments r) w) = db (perform req w1))) \<and>
   (db (after (ExternalRetrieval authorization stream) w) = db w \<or>
    (\<exists>token knowledgeID question topK.
      db (after (ExternalRetrieval authorization stream) w) = db (perform (RRetrieveForDify token knowledgeID question topK) w)))"
  using actsFor_serveConsole [of doer meth segments r] ExternalRetrieval_request [of authorization stream w]
  unfolding actsFor_def by blast



section \<open>Files of repositories\<close>

definition importPath :: "webRequest \<Rightarrow> string" where
  "importPath r = pathClean (trimSpace (wr_FormValue r ''repository_path''))"

definition importCommit :: "webRequest \<Rightarrow> string" where
  "importCommit r = trimSpace (wr_FormValue r ''repository_commit'')"

lemma readArtifact_run:
  assumes "readArtifact doer r repoID commitSHA repoPath w = (Inr (Inr content), w')"
  shows "steady w w' \<and> (\<exists>repo. tblGet repo_ID repoID (repositories (db w)) = Some repo \<and> codeReadable (env w) doer repo = Inr True \<and>
    \<not> hasPrefix (repo_Name repo) ''kb-'' \<and> gitOpen (env w) repo commitSHA repoPath = Inr (content, None) \<and>
    int (length content) \<le> ks_MaxFileSize (setting (env w)))"
proof -
  have "stream = (content, None) \<and> int (length content) \<le> limit"
    if "readLimited (limit + 1) stream = Inr content" "\<not> limit < int (length content)" for limit stream
    using that by (cases stream) (auto simp: readLimited_def split: if_splits option.splits)
  then show ?thesis
    using assms quiet.withinD [OF quiet_readArtifact assms]
    unfolding readArtifact_def gitSourceOpen_def getRepositoryByID_def
    by (auto simp: run_simps split: if_splits sum.splits)
qed

text \<open>
  C11: A file of a repository enters the catalog only with the rights of the importing user: unless the
  database stays as it is, the repository exists, the user may read its code, it is not the managed
  repository of a space, the user declared the file masked, and what is uploaded in the user's name is
  exactly the file at the chosen commit and path, within the size limit.
\<close>

theorem import_needs_access:
  "db (after (ImportRepositoryArtifactHandler doer r) w) = db w \<or>
    (\<exists>repo content w1. tblGet repo_ID (FormInt64 r ''repository_id'') (repositories (db w)) = Some repo \<and>
       codeReadable (env w) doer repo = Inr True \<and> \<not> hasPrefix (repo_Name repo) ''kb-'' \<and> FormBool r ''repository_masked'' \<and>
       gitOpen (env w) repo (importCommit r) (importPath r) = Inr (content, None) \<and>
       int (length content) \<le> ks_MaxFileSize (setting (env w)) \<and> steady w w1 \<and> db (after (ImportRepositoryArtifactHandler doer r) w) =
         db (perform (RUploadRevision (uploadForm doer r (fileBase (importPath r)) (content, None) maskedManifest)) w1))"
proof -
  let ?read = "readArtifact doer r (FormInt64 r ''repository_id'') (importCommit r) (importPath r)"
  let ?handler = "ImportRepositoryArtifactHandler doer r"
  consider (refused) answer where "?handler = ret answer" | (reads) k where "FormBool r ''repository_masked''"
      "?handler = andThen ?read (\<lambda>artifact. case artifact of Inl refusal \<Rightarrow> ret refusal | Inr content \<Rightarrow>
        answerWith (UploadRevision (uploadForm doer r (fileBase (importPath r)) (content, None) maskedManifest))
          (flashError (fst k) ''/knowledge#knowledge-upload'') (snd k))"
    unfolding importPath_def importCommit_def ImportRepositoryArtifactHandler_def Let_def by (fastforce split: if_splits)
  then show ?thesis
  proof cases
    case reads
    obtain artifact w1 where read: "?read w = (artifact, w1)" by fastforce
    then have same: "db w1 = db w" using quiet.withinD [OF quiet_readArtifact] by (fastforce simp: steady_def)
    show ?thesis
    proof (cases "\<exists>content. artifact = Inr (Inr content)")
      case True
      then obtain content where artifact: "artifact = Inr (Inr content)" by blast
      have "db (after ?handler w) =
          db (perform (RUploadRevision (uploadForm doer r (fileBase (importPath r)) (content, None) maskedManifest)) w1)"
        unfolding reads(2) answerWith_def
        by (simp add: after_def andThen_def attempt_def ret_def read artifact split: prod.split)
      with readArtifact_run [OF read [unfolded artifact]] reads(1) show ?thesis by blast
    next
      case False
      with read same show ?thesis unfolding reads(2)
        by (auto simp: after_def andThen_def ret_def split: sum.split)
    qed
  qed (simp add: after_def ret_def)
qed

section \<open>Reminders\<close>





section \<open>The way to an answer\<close>


end
