(* ===== verification/Spec2Isabelle.thy ===== *)
theory Spec2Isabelle
  imports Properties_Approval Properties_System Properties_Publishing Properties_Index Properties_Retrieval Properties_Intake
    Properties_Console
begin

text \<open>
  Verification of the knowledge-governance subsystem of CheersAI FileBay.

  \<^bold>\<open>The program.\<close> FileBay is a fork of Gitea. What it adds is a subsystem that publishes masked
  documents to an external retrieval engine (RAGFlow) under governance: a knowledge space owns a
  private Git repository; a data source is registered and enabled by a second administrator; an
  upload is checked, committed to Git and recorded as a revision with a pending approval and six
  pending reviews; an approval creates a scheduled publication, an outbox event and an index job; the
  worker uploads the approved bytes to the engine and follows its parsing; an administrator activates
  the publication, which moves the document's pointer to it; revocation or the expiry of its source
  withdraws it and leaves a tombstone; and retrieval turns passages of the engine into citations only
  for publications that are live at that moment. The components share one database, which they
  change in transactions, and call each other directly; the engine, Git and Gitea's permission check
  are called through interfaces.

  \<^bold>\<open>The model.\<close> An operation is a function of type \<open>'a prog\<close>, from a \<open>world\<close> to a value or an error and
  the next world, built from \<open>andThen\<close>, \<open>ret\<close>, \<open>raise\<close>, \<open>attempt\<close> and the database calls in the order
  of the code. A world has the database, one table per entity, and the environment: which database
  call fails, the clock and the local time zone, SHA-256, the settings, Git, Gitea's services, MySQL and the engine. Every
  theorem is for every environment, so for every pattern of failures and every behaviour of the
  engine, whose answers may depend on all earlier calls. Go's integers are \<open>int\<close> with \<open>wrap64\<close> where
  the code multiplies or adds values it does not bound, and 64-bit words in the archive check. Strings
  are lists of bytes.

  \<^bold>\<open>Foundations.\<close>
    \<^item> \<open>Prelude\<close>: the program type, its combinators, the collections \<open>run_simps\<close> (inversion of
      successful runs) and \<open>exec_simps\<close>, \<open>eval_simps\<close>, \<open>table_eval\<close> (evaluation), and the locale \<open>frame\<close>:
      a reflexive and transitive relation that single calls keep is kept by every composed operation.
    \<^item> \<open>Tables\<close>: tables with an identity column and unique indexes; the locale \<open>keyed_table\<close>.
    \<^item> \<open>Go_Strings\<close>, \<open>Go_Json\<close>, \<open>Go_Path\<close>: the operations of Go's library the code uses on
      strings, JSON and paths, with the round trips of the decimal and hexadecimal encoders.
    \<^item> \<open>Calendar\<close>: the dates of Go's \<^verbatim>\<open>time\<close> package that the code uses (civil dates, \<open>AddDate\<close>, the layout
      \<^verbatim>\<open>2006-01-02\<close>), with the round trips between days, dates and texts.
    \<^item> \<open>World\<close>: the state, the database calls and \<open>withTx\<close> (\<^verbatim>\<open>models/db/context.go\<close>); the locales
      \<open>db_frame\<close> (a relation on databases) and \<open>sent_frame\<close> (what is sent to the engine).
    \<^item> \<open>Access\<close>, \<open>Gitea\<close>: lookups that refuse, the administrator check, users and repositories.

  \<^bold>\<open>Components\<close>, each in a theory that names its file:
    \<^item> \<open>Models\<close> (\<^verbatim>\<open>models/knowledge/models.go\<close>): enumerations, the 17 entities as records with their unique
      indexes and managed columns, each an interpretation of \<open>keyed_table\<close>; \<open>linorder\<close> for security levels.
    \<^item> \<open>Lifecycle\<close> (\<^verbatim>\<open>state.go\<close>, \<^verbatim>\<open>validation.go\<close>, the operation key): transitions, \<open>isPublished\<close>, texts.
    \<^item> \<open>Approval\<close> (\<^verbatim>\<open>approval.go\<close>), \<open>Publishing\<close> (\<^verbatim>\<open>publication.go\<close>).
    \<^item> \<open>Settings\<close> (\<^verbatim>\<open>modules/setting/knowledge.go\<close>): loading and validation.
    \<^item> \<open>Catalog_Text\<close>, \<open>Spaces\<close>, \<open>Uploads\<close>, \<open>Reviews\<close>, \<open>Operations\<close>, \<open>Expiry\<close>
      (\<^verbatim>\<open>services/knowledge/catalog/catalog.go\<close>), \<open>DataSources\<close> (\<^verbatim>\<open>data_source.go\<close>).
    \<^item> \<open>Ingest\<close> (\<^verbatim>\<open>services/knowledge/ingest\<close>): upload manifest and Office archive inspection.
    \<^item> \<open>Indexer\<close> (\<^verbatim>\<open>services/knowledge/indexer\<close>), \<open>Ragflow\<close> (\<^verbatim>\<open>ragflow/client.go\<close>), \<open>Worker\<close> (\<^verbatim>\<open>worker.go\<close>).
    \<^item> \<open>Retrieval\<close> (\<^verbatim>\<open>retrieval/service.go\<close>, \<^verbatim>\<open>quality.go\<close>), \<open>Connector\<close> (\<^verbatim>\<open>connector/mysql.go\<close>).
    \<^item> \<open>External\<close> (\<^verbatim>\<open>routers/web/knowledge/external.go\<close>): the endpoint for Dify, from header and body to the answer.
    \<^item> \<open>Reminders\<close>, \<open>Console\<close>, \<open>Handlers\<close> (\<^verbatim>\<open>routers/web/knowledge/dashboard.go\<close>, the routes in \<^verbatim>\<open>routers/web/web.go\<close>):
      the task lists, the page with its rows and the actions they offer, and the handlers of its forms.

  \<^bold>\<open>The system.\<close> \<open>System\<close> has every operation as a request and the step relation on worlds: a request,
  a change of accounts or repositories by Gitea, or a change of the environment; a world is
  \<open>reachable\<close> from the empty database. \<open>Governance\<close> states the invariant \<open>governance\<close> and the relation
  \<open>governed\<close> of a run (the invariant is kept and history is respected), interprets \<open>db_frame\<close> with it,
  and shows it for the writes; each component then shows it for its operations. \<open>Frames\<close> has
  the locale \<open>publication_frame\<close> of relations that all requests but approval, activation, revocation,
  review and upload keep; \<open>Reviewed\<close> and \<open>Ledger\<close> interpret it.
  \<open>Ledger\<close> is the abstract specification: which publication of a document is served and which
  are spent, with two moves, and the proof that every request is a sequence of moves. \<open>Refusals\<close>
  collects the requests that are all or nothing. \<open>Handlers\<close> shows that a handler of the console acts as one
  request of its user (\<open>actsFor\<close>), and \<open>Offers\<close> that a request the page does not offer has no effect.

  \<^bold>\<open>What the lemmas show.\<close> The \<open>_run\<close> lemmas invert a successful run into its guards and its
  effect on the database, on every branch; the \<open>_accepts\<close> lemmas say what a validator that accepts
  guarantees; the \<open>governed_\<close>, \<open>quiet_\<close>, \<open>logged_\<close> and \<open>worker_\<close> lemmas place an operation in a frame.
  The properties rest on these: \<open>Properties_System\<close> (invariants, history, refinement, the worker),
  \<open>Properties_Approval\<close>, \<open>Properties_Publishing\<close> (activation, revocation, expiry, four eyes, errors),
  \<open>Properties_Index\<close> (jobs, reconciliation), \<open>Properties_Retrieval\<close> (citations, bounds, credentials,
  quality tasks), \<open>Properties_Intake\<close> (uploads, archives, connector, spaces, client) and
  \<open>Properties_Console\<close> (the endpoint, the console, reminders, the way from an upload to an answer).
  \<open>Sample\<close>, \<open>Stages\<close> and \<open>Scenario\<close> hold the concrete worlds at which the examples evaluate them;
  \<open>Lifetime\<close> evaluates the scenario request by request.

  \<^bold>\<open>Bounds and termination.\<close> All definitions are total and no fuel is used. The loops of the code
  run over lists (rows found, chunks, archive entries) and are \<open>foldM\<close> or structural recursion; the
  worker's endless loop is a recursion over the list of what its \<open>select\<close> receives, ticks and a
  shutdown, so a theorem about it holds for every finite prefix of its life. The decoders of
  UTF-8, JSON and hexadecimal recurse on the input with a measure; the depth of JSON is limited to the
  10000 levels of \<^verbatim>\<open>encoding/json\<close>. JSON numbers are decoded where
  the code reads integers; the reading of floating-point scores is an argument.

  \<^bold>\<open>Assumptions.\<close> SHA-256, Git, \<open>url.Parse\<close>, \<open>archive/zip\<close>, \<open>encoding/xml\<close>,
  \<open>http.DetectContentType\<close>, the HTTP transport, MySQL and Gitea's repository service are functions of
  the environment without assumptions. The database is assumed to check the unique indexes
  declared in the models and to restore the state before a transaction that fails.

  \<^bold>\<open>Not modelled.\<close> A request is one step: two requests are not interleaved within a transaction,
  although database failures may hit any call. Log lines, the ticker, the process manager, the
  multipart boundary and storage details of XORM are left out, and so are the templates, the storage of
  flash messages and signing in: a handler gets the signed-in user and gives its message and target.
  Gitea's search for visible repositories and the trees of their branches are arguments. The table
  migrations (snapshots handed to XORM), the proof of concept under \<^verbatim>\<open>contrib\<close> (not part of the server)
  and the rest of Gitea, which is upstream code the subsystem does not call, are not modelled.
\<close>

end
